(* ===== verification/Prelude.thy ===== *)
theory Prelude
  imports Complex_Main "HOL-Library.Word"
begin

text \<open>
  What every component of the development shares: Go errors and \<open>errors.Is\<close>, the string and
  formatting functions of the Go standard library the source uses, UUIDs, and lists of rows as
  database tables.  The collections \<open>go_simps\<close> (evaluation of the Go helpers) and
  \<open>row_simps\<close> (updates and lookups on a list of rows) carry most component proofs.
\<close>

named_theorems go_simps "evaluation of the Go helper functions"
named_theorems row_simps "lookups after updates on a list of rows"

section \<open>Go errors\<close>

text \<open>
  The sentinel errors of the source (package-level \<open>errors.New\<close> values compared with
  \<open>errors.Is\<close>) together with the sentinels of the libraries that the source tests for.
\<close>

datatype sentinel =
    ErrNotFound                \<comment> \<open>store.ErrNotFound\<close>
  | ErrNoRows                  \<comment> \<open>pgx.ErrNoRows\<close>
  | ErrInvalidTransition       \<comment> \<open>workflow.ErrInvalidTransition\<close>
  | ErrSessionNotFound         \<comment> \<open>workflow.ErrSessionNotFound\<close>
  | ErrNilObservation | ErrEmptyID | ErrEmptySessionID | ErrEmptySource
  | ErrUnspecifiedType | ErrUnspecifiedSeverity | ErrConfidenceOutOfRange
  | ErrUnsupportedSchemaVersion
  | ErrEmptyBrokers | ErrEmptyBroker | ErrInvalidRequiredAcks | ErrEmptyTopic
  | ErrNilHandler | ErrEmptyGroupID | ErrInvalidStartOffset | ErrTopicNotFound
  | ErrSubscriptionRemoved
  | CtxCanceled                \<comment> \<open>context.Canceled\<close>
  | CtxDeadlineExceeded        \<comment> \<open>context.DeadlineExceeded\<close>
  | EOF                        \<comment> \<open>io.EOF\<close>
  | RequestTimedOut            \<comment> \<open>kafka.RequestTimedOut\<close>

fun sentinel_text :: "sentinel \<Rightarrow> string" where
  "sentinel_text ErrNotFound = ''store: entity not found''"
| "sentinel_text ErrNoRows = ''no rows in result set''"
| "sentinel_text ErrInvalidTransition = ''workflow: invalid state transition''"
| "sentinel_text ErrSessionNotFound = ''workflow: session not found''"
| "sentinel_text ErrNilObservation = ''observation: nil observation''"
| "sentinel_text ErrEmptyID = ''observation: id is required''"
| "sentinel_text ErrEmptySessionID = ''observation: session_id is required''"
| "sentinel_text ErrEmptySource = ''observation: source is required''"
| "sentinel_text ErrUnspecifiedType = ''observation: type must be specified''"
| "sentinel_text ErrUnspecifiedSeverity = ''observation: severity must be specified''"
| "sentinel_text ErrConfidenceOutOfRange = ''observation: confidence must be in [0.0, 1.0]''"
| "sentinel_text ErrUnsupportedSchemaVersion =
     ''observation: schema_version out of supported range''"
| "sentinel_text ErrEmptyBrokers = ''bus: at least one broker is required''"
| "sentinel_text ErrEmptyBroker = ''bus: broker address must not be empty''"
| "sentinel_text ErrInvalidRequiredAcks = ''bus: required_acks must be one of none/one/all''"
| "sentinel_text ErrEmptyTopic = ''bus: topic must not be empty''"
| "sentinel_text ErrNilHandler = ''bus: handler must not be nil''"
| "sentinel_text ErrEmptyGroupID = ''bus: consumer group id must not be empty''"
| "sentinel_text ErrInvalidStartOffset =
     ''bus: start offset must be 0, FirstOffset, or LastOffset''"
| "sentinel_text ErrTopicNotFound = ''bus: topic not found''"
| "sentinel_text ErrSubscriptionRemoved = ''bus: subscription removed''"
| "sentinel_text CtxCanceled = ''context canceled''"
| "sentinel_text CtxDeadlineExceeded = ''context deadline exceeded''"
| "sentinel_text EOF = ''EOF''"
| "sentinel_text RequestTimedOut =
     ''[7] Request Timed Out: the request exceeded the user-specified time limit in the request''"

text \<open>
  An error is a sentinel, a plain message (\<open>errors.New\<close> or \<open>fmt.Errorf\<close> without
  \<open>%w\<close>, and every error of a driver or of the network), the wrapping
  \<open>fmt.Errorf("pre%wpost", e)\<close>, or \<open>errors.Join\<close> of several errors.
\<close>

datatype gerror =
    Sentinel sentinel
  | ErrorString string
  | Wrapped string gerror string
  | Joined "gerror list"

fun join_lines :: "string list \<Rightarrow> string" where
  "join_lines [] = []"
| "join_lines [x] = x"
| "join_lines (x # xs) = x @ [CHR 0x0A] @ join_lines xs"

fun error_text :: "gerror \<Rightarrow> string" where
  "error_text (Sentinel s) = sentinel_text s"
| "error_text (ErrorString m) = m"
| "error_text (Wrapped pre e post) = pre @ error_text e @ post"
| "error_text (Joined es) = join_lines (map error_text es)"

fun errors_is :: "gerror \<Rightarrow> sentinel \<Rightarrow> bool" where
  "errors_is (Sentinel s) t = (s = t)"
| "errors_is (ErrorString m) t = False"
| "errors_is (Wrapped pre e post) t = errors_is e t"
| "errors_is (Joined es) t = (\<exists>e \<in> set es. errors_is e t)"

text \<open>\<open>errors.Join\<close> of an error list: \<open>nil\<close> when there is none.\<close>

definition errors_Join :: "gerror list \<Rightarrow> gerror option" where
  "errors_Join es = (if es = [] then None else Some (Joined es))"

definition wrap :: "string \<Rightarrow> gerror \<Rightarrow> gerror" where
  "wrap pre e = Wrapped pre e []"

lemma errors_is_wrap [simp, go_simps]: "errors_is (wrap pre e) t = errors_is e t"
  by (simp add: wrap_def)

lemma wrap_neq_Sentinel [simp]: "wrap pre e \<noteq> Sentinel s" "Sentinel s \<noteq> wrap pre e"
  by (simp_all add: wrap_def)

text \<open>A Go call that returns \<open>(value, error)\<close> is \<open>gerror + 'a\<close>; one that returns only
  an error is \<open>gerror option\<close>, \<open>None\<close> being \<open>nil\<close>.\<close>

type_synonym 'a result = "gerror + 'a"

fun is_ok :: "'a result \<Rightarrow> bool" where
  "is_ok (Inl e) = False"
| "is_ok (Inr a) = True"

section \<open>Strings\<close>

text \<open>Go strings are byte sequences; \<open>char\<close> is a byte.  Case mapping and space trimming are
  those of the ASCII range.\<close>

definition lower_char :: "char \<Rightarrow> char" where
  "lower_char c = (let n = of_char c :: nat in if 65 \<le> n \<and> n \<le> 90 then char_of (n + 32) else c)"

definition upper_char :: "char \<Rightarrow> char" where
  "upper_char c = (let n = of_char c :: nat in if 97 \<le> n \<and> n \<le> 122 then char_of (n - 32) else c)"

definition is_space :: "char \<Rightarrow> bool" where
  "is_space c = (let n = of_char c :: nat in n = 32 \<or> 9 \<le> n \<and> n \<le> 13)"

definition to_lower :: "string \<Rightarrow> string" where
  "to_lower s = map lower_char s"

definition to_upper :: "string \<Rightarrow> string" where
  "to_upper s = map upper_char s"

definition trim_space :: "string \<Rightarrow> string" where
  "trim_space s = rev (dropWhile is_space (rev (dropWhile is_space s)))"

definition has_prefix :: "string \<Rightarrow> string \<Rightarrow> bool" where
  "has_prefix s p = (take (length p) s = p)"

definition trim_prefix :: "string \<Rightarrow> string \<Rightarrow> string" where
  "trim_prefix s p = (if has_prefix s p then drop (length p) s else s)"

lemma has_prefix_append [simp]: "has_prefix (p @ s) p"
  by (simp add: has_prefix_def)

lemma has_prefixE:
  assumes "has_prefix s p"
  obtains t where "s = p @ t"
  using assms append_take_drop_id unfolding has_prefix_def by metis

lemma trim_prefix_append [simp]: "trim_prefix (p @ s) p = s"
  by (simp add: trim_prefix_def)

text \<open>\<open>%d\<close> of an integer, and \<open>strings.Contains\<close>.\<close>

fun show_nat :: "nat \<Rightarrow> string" where
  "show_nat n = (if n < 10 then [char_of (48 + n)] else show_nat (n div 10) @ [char_of (48 + n mod 10)])"

declare show_nat.simps [simp del]

definition show_int :: "int \<Rightarrow> string" where
  "show_int i = (if i < 0 then CHR ''-'' # show_nat (nat (- i)) else show_nat (nat i))"

fun contains :: "string \<Rightarrow> string \<Rightarrow> bool" where
  "contains [] p = (p = [])"
| "contains (c # s) p = (has_prefix (c # s) p \<or> contains s p)"

text \<open>\<open>strings.SplitN(s, sep, 2)\<close> at the first separator byte, for an \<open>s\<close> that holds one.\<close>

definition split2 :: "char \<Rightarrow> string \<Rightarrow> string \<times> string" where
  "split2 sep s = (takeWhile (\<lambda>c. c \<noteq> sep) s, drop 1 (dropWhile (\<lambda>c. c \<noteq> sep) s))"

lemma show_nat_nonempty [simp]: "show_nat n \<noteq> []"
  by (subst show_nat.simps) simp

text \<open>\<open>%q\<close> of a string of printable characters without quotes and backslashes.\<close>

definition quoted :: "string \<Rightarrow> string" where
  "quoted s = [CHR 0x22] @ s @ [CHR 0x22]"

text \<open>The UTF-8 bytes of the arrow and of the em dash that appear in the source's messages.\<close>

definition utf8_arrow :: string where
  "utf8_arrow = [CHR 0xE2, CHR 0x86, CHR 0x92]"

definition utf8_dash :: string where
  "utf8_dash = [CHR 0xE2, CHR 0x80, CHR 0x94]"

section \<open>UUIDs, time, integers\<close>

text \<open>
  \<open>uuid.UUID\<close> is a 16-byte array.  \<open>uuid.Parse\<close> and \<open>UUID.String\<close> belong to
  \<open>github.com/google/uuid\<close>: definitions that use them take a \<open>uuid_lib\<close>.
  A \<open>time.Time\<close> is the number of nanoseconds since Go's zero time, so \<open>IsZero\<close> is
  equality with 0; a \<open>time.Duration\<close> is a number of nanoseconds.
\<close>

type_synonym uuid = "128 word"
type_synonym time = int
type_synonym duration = int

definition uuid_Nil :: uuid where
  "uuid_Nil = 0"

record uuid_lib =
  uuid_Parse :: "string \<Rightarrow> uuid result"
  uuid_String :: "uuid \<Rightarrow> string"

abbreviation Millisecond :: duration where "Millisecond \<equiv> 1000000"
abbreviation Second :: duration where "Second \<equiv> 1000000000"
abbreviation Minute :: duration where "Minute \<equiv> 60000000000"
abbreviation Hour :: duration where "Hour \<equiv> 3600000000000"

text \<open>1970 in nanoseconds since the zero time.\<close>

definition unix_epoch :: time where
  "unix_epoch = 62135596800 * Second"

text \<open>The conversion \<open>int32(x)\<close> of a Go \<open>int\<close> keeps the low 32 bits.\<close>

definition int32_of :: "int \<Rightarrow> int" where
  "int32_of x = signed_take_bit 31 x"

lemma int32_of_id: "- (2 ^ 31) \<le> x \<Longrightarrow> x < 2 ^ 31 \<Longrightarrow> int32_of x = x"
  unfolding int32_of_def by (rule signed_take_bit_int_eq_self) auto

section \<open>Tables\<close>

text \<open>
  A table is the list of its rows.  \<open>UPDATE ... SET ... WHERE P\<close> rewrites the rows that
  satisfy \<open>P\<close>; a query by primary key finds the row with that key.
\<close>

definition tbl_update :: "('r \<Rightarrow> bool) \<Rightarrow> ('r \<Rightarrow> 'r) \<Rightarrow> 'r list \<Rightarrow> 'r list" where
  "tbl_update P f t = map (\<lambda>r. if P r then f r else r) t"

definition tbl_find :: "('r \<Rightarrow> bool) \<Rightarrow> 'r list \<Rightarrow> 'r option" where
  "tbl_find P t = List.find P t"

lemma tbl_find_Nil [simp]: "tbl_find P [] = None"
  by (simp add: tbl_find_def)

lemma tbl_find_Cons [simp]: "tbl_find P (r # t) = (if P r then Some r else tbl_find P t)"
  by (simp add: tbl_find_def)

lemma tbl_find_append [simp]:
  "tbl_find P (t @ u) = (case tbl_find P t of None \<Rightarrow> tbl_find P u | Some r \<Rightarrow> Some r)"
  by (induction t) auto

lemma tbl_update_Nil [simp]: "tbl_update P f [] = []"
  by (simp add: tbl_update_def)

lemma tbl_update_Cons [simp]:
  "tbl_update P f (r # t) = (if P r then f r else r) # tbl_update P f t"
  by (simp add: tbl_update_def)

lemma length_tbl_update [simp]: "length (tbl_update P f t) = length t"
  by (simp add: tbl_update_def)

lemma tbl_find_Some: "tbl_find P t = Some r \<Longrightarrow> r \<in> set t \<and> P r"
  by (induction t) (auto split: if_splits)

lemma tbl_find_None_iff: "tbl_find P t = None \<longleftrightarrow> (\<forall>r \<in> set t. \<not> P r)"
  by (induction t) auto

lemma in_tbl_update: "r \<in> set (tbl_update P f t) \<longleftrightarrow>
    (\<exists>q \<in> set t. r = (if P q then f q else q))"
  by (auto simp: tbl_update_def)

text \<open>
  The laws of a table with a primary key under an update of other columns, once for all tables:
  \<open>key\<close> reads the primary key and \<open>put\<close> writes columns that are not part of it.
\<close>

locale keyed_rows =
  fixes key :: "'r \<Rightarrow> 'k"
    and put :: "'u \<Rightarrow> 'r \<Rightarrow> 'r"
  assumes key_put: "key (put u r) = key r"
begin

lemma find_put:
  "tbl_find (\<lambda>r. key r = i) (tbl_update (\<lambda>r. key r = j) (put u) t) =
     (if i = j then map_option (put u) (tbl_find (\<lambda>r. key r = i) t)
      else tbl_find (\<lambda>r. key r = i) t)"
  by (induction t) (auto simp: key_put)

lemma keys_put: "map key (tbl_update P (put u) t) = map key t"
  by (induction t) (auto simp: key_put)

lemma distinct_put: "distinct (map key t) \<Longrightarrow> distinct (map key (tbl_update P (put u) t))"
  by (simp add: keys_put)

lemma find_present:
  "tbl_find (\<lambda>r. key r = i) (tbl_update P (put u) t) = None \<longleftrightarrow> tbl_find (\<lambda>r. key r = i) t = None"
  by (induction t) (auto simp: key_put)

end

lemma tbl_find_unique:
  assumes "distinct (map key t)" and "r \<in> set t"
  shows "tbl_find (\<lambda>q. key q = key r) t = Some r"
  using assms by (induction t) auto

lemma tbl_update_noop: "\<forall>r \<in> set t. \<not> P r \<Longrightarrow> tbl_update P f t = t"
  by (induction t) auto

end
