(* ===== verification/Store.thy ===== *)
theory Store imports Prelude begin

text \<open>
  The PostgreSQL layer of \<open>internal/store\<close>: the rows of the tables of
  \<open>migrations/001_initial_schema.sql\<close> and \<open>002_session_events.sql\<close>, the database as a record
  of tables, and one operation per DAO method of \<open>session.go\<close>, \<open>fix_action.go\<close> and
  \<open>session_event.go\<close>.  SQL statements of the source are translated to operations on lists
  of rows, with the primary key, unique and foreign key constraints of the DDL.

  The driver is an environment: every statement first consumes one outcome of \<open>w_faults\<close>
  (an exhausted list means that the remaining statements succeed), so a theorem about all
  states covers every pattern of driver failures.  A failed statement changes nothing, but a
  statement whose answer is lost with the connection has taken effect although the caller sees an
  error.

  The columns have the widths of the DDL: \<open>varchar n\<close> is the assignment of a string to a
  \<open>VARCHAR(n)\<close> column, and a row that does not fit is refused.
\<close>

section \<open>Rows\<close>

abbreviation StatusCreated where "StatusCreated \<equiv> ''CREATED''"
abbreviation StatusCollecting where "StatusCollecting \<equiv> ''COLLECTING''"
abbreviation StatusAnalyzing where "StatusAnalyzing \<equiv> ''ANALYZING''"
abbreviation StatusRCADone where "StatusRCADone \<equiv> ''RCA_DONE''"
abbreviation StatusFixProposed where "StatusFixProposed \<equiv> ''FIX_PROPOSED''"
abbreviation StatusAwaitingApproval where "StatusAwaitingApproval \<equiv> ''AWAITING_APPROVAL''"
abbreviation StatusFixSuggested where "StatusFixSuggested \<equiv> ''FIX_SUGGESTED''"
abbreviation StatusFixExecuting where "StatusFixExecuting \<equiv> ''FIX_EXECUTING''"
abbreviation StatusVerifying where "StatusVerifying \<equiv> ''VERIFYING''"
abbreviation StatusResolved where "StatusResolved \<equiv> ''RESOLVED''"
abbreviation StatusRolledBack where "StatusRolledBack \<equiv> ''ROLLED_BACK''"
abbreviation StatusRejected where "StatusRejected \<equiv> ''REJECTED''"
abbreviation StatusIgnored where "StatusIgnored \<equiv> ''IGNORED''"
abbreviation StatusFailed where "StatusFailed \<equiv> ''FAILED''"

abbreviation TriggerManual where "TriggerManual \<equiv> ''manual''"
abbreviation TriggerAlert where "TriggerAlert \<equiv> ''alert''"

abbreviation RiskLow where "RiskLow \<equiv> ''LOW''"
abbreviation RiskMedium where "RiskMedium \<equiv> ''MEDIUM''"
abbreviation RiskHigh where "RiskHigh \<equiv> ''HIGH''"

abbreviation ApprovalStatusNone where "ApprovalStatusNone \<equiv> ''NONE''"
abbreviation ApprovalStatusPending where "ApprovalStatusPending \<equiv> ''PENDING''"
abbreviation ApprovalStatusApproved where "ApprovalStatusApproved \<equiv> ''APPROVED''"
abbreviation ApprovalStatusRejected where "ApprovalStatusRejected \<equiv> ''REJECTED''"
abbreviation ApprovalStatusExpired where "ApprovalStatusExpired \<equiv> ''EXPIRED''"

abbreviation ExecStatusNotStarted where "ExecStatusNotStarted \<equiv> ''NOT_STARTED''"
abbreviation ExecStatusRunning where "ExecStatusRunning \<equiv> ''RUNNING''"
abbreviation ExecStatusSucceeded where "ExecStatusSucceeded \<equiv> ''SUCCEEDED''"
abbreviation ExecStatusFailed where "ExecStatusFailed \<equiv> ''FAILED''"
abbreviation ExecStatusRolledBack where "ExecStatusRolledBack \<equiv> ''ROLLED_BACK''"

record DiagnosticSession =
  s_ID :: uuid
  s_Status :: string
  s_TargetService :: string
  s_TriggerType :: string
  s_RetryCount :: int
  s_ReportURL :: "string option"
  s_CreatedAt :: time
  s_UpdatedAt :: time

record FixAction =
  fa_ID :: uuid
  fa_SessionID :: uuid
  fa_Seq :: int
  fa_ActionType :: string
  fa_Target :: string
  fa_Risk :: string
  fa_RollbackPlan :: string
  fa_RequiresApproval :: bool
  fa_ApprovalStatus :: string
  fa_ExecutionStatus :: string
  fa_TicketID :: "string option"
  fa_CreatedAt :: time
  fa_UpdatedAt :: time

record Approval =
  ap_ID :: uuid
  ap_SessionID :: uuid
  ap_FixActionID :: uuid
  ap_Status :: string
  ap_RequestToken :: string
  ap_RequestedAt :: time
  ap_DecidedAt :: "time option"
  ap_DecidedBy :: "string option"

record SessionEvent =
  ev_ID :: uuid
  ev_SessionID :: uuid
  ev_EventType :: string
  ev_Source :: string
  ev_Message :: string
  ev_Metadata :: string
  ev_Timestamp :: time

text \<open>\<open>fix_steps\<close> is a JSONB column, kept as its text; \<open>success_rate\<close> is a \<open>REAL\<close>.\<close>

record FixKnowledge =
  kb_ID :: uuid
  kb_RootCausePattern :: string
  kb_FixSteps :: string
  kb_Risk :: string
  kb_RollbackPlan :: string
  kb_TimesUsed :: int
  kb_SuccessRate :: rat

section \<open>The database and its driver\<close>

text \<open>
  One outcome per driver call: \<open>Fault m n\<close> fails it with message \<open>m\<close>; for a stream of
  rows, \<open>n\<close> rows are delivered before the failure.  After \<open>Lost m\<close> the caller sees the same
  error, but the server had already executed the statement (or committed the transaction) when the
  connection broke.  \<open>w_locked\<close> are the session rows that
  other transactions hold locked, \<open>w_now\<close> is the clock and \<open>w_fresh\<close> the random source of
  \<open>uuid.New\<close>.
\<close>

datatype fault = NoFault | Fault string nat | Lost string

record db =
  w_sessions :: "DiagnosticSession list"
  w_fix_actions :: "FixAction list"
  w_approvals :: "Approval list"
  w_events :: "SessionEvent list"
  w_kb :: "FixKnowledge list"
  w_locked :: "uuid list"
  w_faults :: "fault list"
  w_now :: time
  w_fresh :: "nat \<Rightarrow> uuid"
  w_ctr :: nat

fun fault_error :: "fault list \<Rightarrow> gerror option" where
  "fault_error (Fault m n # fs) = Some (ErrorString m)"
| "fault_error (Lost m # fs) = Some (ErrorString m)"
| "fault_error fs = None"

fun fault_rows :: "fault list \<Rightarrow> nat" where
  "fault_rows (Fault m n # fs) = n"
| "fault_rows fs = 0"

fun is_lost :: "fault \<Rightarrow> bool" where
  "is_lost (Lost m) = True"
| "is_lost f = False"

definition answer_lost :: "'a db_scheme \<Rightarrow> bool" where
  "answer_lost w = (case w_faults w of [] \<Rightarrow> False | f # fs \<Rightarrow> is_lost f)"

text \<open>No answer of the list is lost: an error then means that the statement had no effect.\<close>

definition no_lost :: "'a db_scheme \<Rightarrow> bool" where
  "no_lost w = (\<forall>f \<in> set (w_faults w). \<not> is_lost f)"

definition next_fault :: "'a db_scheme \<Rightarrow> gerror option" where
  "next_fault w = fault_error (w_faults w)"

definition pop_fault :: "'a db_scheme \<Rightarrow> 'a db_scheme" where
  "pop_fault w = w\<lparr>w_faults := tl (w_faults w)\<rparr>"

text \<open>\<open>Exec\<close> of a statement whose effect and constraint check are \<open>f\<close>; \<open>Query\<close> of one
  row (\<open>ErrNoRows\<close> when there is none); a stream of rows with the value of
  \<open>rows.Err()\<close>; and a bare round trip (\<open>Begin\<close>, \<open>Commit\<close>).\<close>

definition db_exec ::
  "('a db_scheme \<Rightarrow> gerror + 'a db_scheme) \<Rightarrow> 'a db_scheme \<Rightarrow> gerror option \<times> 'a db_scheme" where
  "db_exec f w = (case next_fault w of
       Some e \<Rightarrow> (Some e, if answer_lost w
                         then (case f (pop_fault w) of Inl e' \<Rightarrow> pop_fault w | Inr w' \<Rightarrow> w')
                         else pop_fault w)
     | None \<Rightarrow> (case f (pop_fault w) of Inl e \<Rightarrow> (Some e, pop_fault w) | Inr w' \<Rightarrow> (None, w')))"

definition db_query_row ::
  "('a db_scheme \<Rightarrow> 'r option) \<Rightarrow> 'a db_scheme \<Rightarrow> 'r result \<times> 'a db_scheme" where
  "db_query_row q w = (case next_fault w of
       Some e \<Rightarrow> (Inl e, pop_fault w)
     | None \<Rightarrow> (case q w of None \<Rightarrow> Inl (Sentinel ErrNoRows) | Some r \<Rightarrow> Inr r, pop_fault w))"

definition db_query ::
  "('a db_scheme \<Rightarrow> 'r list) \<Rightarrow> 'a db_scheme \<Rightarrow> ('r list \<times> gerror option) result \<times> 'a db_scheme" where
  "db_query q w = (case next_fault w of
       Some e \<Rightarrow> (Inl e, pop_fault w)
     | None \<Rightarrow> (let w1 = pop_fault w in
         (Inr (case next_fault w1 of
             Some e \<Rightarrow> (take (fault_rows (w_faults w1)) (q w), Some e)
           | None \<Rightarrow> (q w, None)), pop_fault w1)))"

definition db_round_trip :: "'a db_scheme \<Rightarrow> gerror option \<times> 'a db_scheme" where
  "db_round_trip w = (next_fault w, pop_fault w)"

definition uuid_New :: "'a db_scheme \<Rightarrow> uuid \<times> 'a db_scheme" where
  "uuid_New w = (w_fresh w (w_ctr w), w\<lparr>w_ctr := Suc (w_ctr w)\<rparr>)"

definition sleep :: "duration \<Rightarrow> 'a db_scheme \<Rightarrow> 'a db_scheme" where
  "sleep d w = w\<lparr>w_now := w_now w + d\<rparr>"

text \<open>What a caller needs to know of the driver: the two outcomes of each call.\<close>

lemma pop_fault_simps [simp, row_simps]:
  "w_sessions (pop_fault w) = w_sessions w" "w_fix_actions (pop_fault w) = w_fix_actions w"
  "w_approvals (pop_fault w) = w_approvals w" "w_events (pop_fault w) = w_events w"
  "w_kb (pop_fault w) = w_kb w" "w_locked (pop_fault w) = w_locked w"
  "w_now (pop_fault w) = w_now w" "w_fresh (pop_fault w) = w_fresh w" "w_ctr (pop_fault w) = w_ctr w"
  "w_faults (pop_fault w) = tl (w_faults w)" "db.more (pop_fault w) = db.more w"
  by (simp_all add: pop_fault_def)

lemma next_fault_Nil [simp]: "w_faults w = [] \<Longrightarrow> next_fault w = None"
  by (simp add: next_fault_def)

lemma db_exec_cases:
  assumes "db_exec f w = (r, w')"
  obtains (err) e where "r = Some e" "w' = pop_fault w"
  | (ok) "r = None" "f (pop_fault w) = Inr w'"
  | (lost) m where "r = Some (ErrorString m)" "answer_lost w" "f (pop_fault w) = Inr w'"
proof (cases "next_fault w")
  case None
  with assms err ok show thesis by (cases "f (pop_fault w)") (auto simp: db_exec_def)
next
  case (Some e)
  show thesis
  proof (cases "answer_lost w")
    case True
    then obtain m where "e = ErrorString m"
      using Some by (cases "w_faults w" rule: fault_error.cases) (auto simp: next_fault_def answer_lost_def)
    show thesis
    proof (cases "f (pop_fault w)")
      case (Inl e')
      with True Some assms err [of e] show thesis by (simp add: db_exec_def)
    next
      case (Inr u)
      with True Some assms lost [of m] \<open>e = ErrorString m\<close> show thesis by (simp add: db_exec_def)
    qed
  next
    case False
    with assms Some err [of e] show thesis by (simp add: db_exec_def)
  qed
qed

lemma answer_lost_fault: "answer_lost w \<Longrightarrow> \<exists>m. next_fault w = Some (ErrorString m)"
  by (cases "w_faults w" rule: fault_error.cases) (auto simp: next_fault_def answer_lost_def)

lemma no_lost_pop [simp]: "no_lost w \<Longrightarrow> no_lost (pop_fault w)"
  by (cases "w_faults w") (auto simp: no_lost_def)

lemma no_lost_tables [simp]:
  "no_lost (w\<lparr>w_sessions := a\<rparr>) = no_lost w" "no_lost (w\<lparr>w_fix_actions := b\<rparr>) = no_lost w"
  "no_lost (w\<lparr>w_approvals := c\<rparr>) = no_lost w" "no_lost (w\<lparr>w_events := d\<rparr>) = no_lost w"
  "no_lost (w\<lparr>w_ctr := n\<rparr>) = no_lost w" "no_lost (w\<lparr>w_now := t\<rparr>) = no_lost w"
  by (simp_all add: no_lost_def)

lemma no_lost_answer [simp]: "no_lost w \<Longrightarrow> \<not> answer_lost w"
  by (cases "w_faults w") (auto simp: no_lost_def answer_lost_def)

lemma no_lost_Nil [simp]: "w_faults w = [] \<Longrightarrow> no_lost w"
  by (simp add: no_lost_def)

lemma db_query_row_cases:
  assumes "db_query_row q w = (r, w')"
  obtains (err) e where "r = Inl e" "w' = pop_fault w"
  | (ok) x where "r = Inr x" "q w = Some x" "w' = pop_fault w"
proof (cases "next_fault w")
  case None
  with assms err ok show thesis by (cases "q w") (auto simp: db_query_row_def)
next
  case (Some e)
  with assms err show thesis by (auto simp: db_query_row_def)
qed

lemma db_query_cases:
  assumes "db_query q w = (r, w')"
  obtains (err) e where "r = Inl e" "w' = pop_fault w"
  | (ok) n rerr where "r = Inr (take n (q w), rerr)" "w' = pop_fault (pop_fault w)"
      "rerr = None \<longrightarrow> length (q w) \<le> n"
proof (cases "next_fault w")
  case None
  note w = this
  show thesis
  proof (cases "next_fault (pop_fault w)")
    case None
    with w assms ok [of "length (q w)" None] show thesis
      by (simp add: db_query_def Let_def)
  next
    case (Some e)
    with w assms ok show thesis
      by (auto simp: db_query_def Let_def)
  qed
next
  case (Some e)
  with assms err show thesis by (auto simp: db_query_def)
qed

lemma db_no_fault:
  "w_faults w = [] \<Longrightarrow> db_query q w = (Inr (q w, None), pop_fault (pop_fault w))"
  "w_faults w = [] \<Longrightarrow> db_exec f w =
     (case f (pop_fault w) of Inl e \<Rightarrow> (Some e, pop_fault w) | Inr w' \<Rightarrow> (None, w'))"
  "w_faults w = [] \<Longrightarrow> db_query_row p w =
     (case p w of None \<Rightarrow> Inl (Sentinel ErrNoRows) | Some r \<Rightarrow> Inr r, pop_fault w)"
  "w_faults w = [] \<Longrightarrow> db_round_trip w = (None, pop_fault w)"
  by (simp_all add: db_query_def db_exec_def db_query_row_def db_round_trip_def next_fault_def Let_def)

lemma pop_fault_id: "w_faults w = [] \<Longrightarrow> pop_fault w = w"
  by (simp add: pop_fault_def)

section \<open>Column widths\<close>

text \<open>
  The assignment of a string to a \<open>VARCHAR(n)\<close> column.  The width counts characters, so the
  continuation bytes of UTF-8 (0x80 to 0xBF) are free; characters beyond the width are dropped when
  they are all spaces and make the statement fail otherwise; a zero byte is refused in every text.
\<close>

definition continuation :: "char \<Rightarrow> bool" where
  "continuation c = ((of_char c :: nat) div 64 = 2)"

primrec varchar :: "nat \<Rightarrow> string \<Rightarrow> string option" where
  "varchar n [] = Some []"
| "varchar n (c # s) =
     (if c = CHR 0x00 then None
      else if continuation c then map_option ((#) c) (varchar n s)
      else if n = 0 then (if \<forall>d \<in> set (c # s). d = CHR '' '' then Some [] else None)
      else map_option ((#) c) (varchar (n - 1) s))"

definition text_column :: "string \<Rightarrow> string option" where
  "text_column s = (if CHR 0x00 \<in> set s then None else Some s)"

definition opt_column :: "(string \<Rightarrow> string option) \<Rightarrow> string option \<Rightarrow> string option option" where
  "opt_column f x = (case x of None \<Rightarrow> Some None | Some s \<Rightarrow> map_option Some (f s))"

definition too_long :: gerror where
  "too_long = ErrorString ''value too long for type character varying''"

text \<open>A statement \<open>ins\<close> of the value that the columns make of \<open>r\<close>.\<close>

definition fitted :: "('r \<Rightarrow> 's option) \<Rightarrow> ('s \<Rightarrow> 'w \<Rightarrow> gerror + 'w) \<Rightarrow> 'r \<Rightarrow> 'w \<Rightarrow> gerror + 'w" where
  "fitted fit ins r w = (case fit r of None \<Rightarrow> Inl too_long | Some r' \<Rightarrow> ins r' w)"

lemma varchar_short: "length s \<le> n \<Longrightarrow> CHR 0x00 \<notin> set s \<Longrightarrow> varchar n s = Some s"
  by (induction s arbitrary: n) auto

lemma varchar_padded: "varchar n s = Some t \<Longrightarrow> \<exists>k. s = t @ replicate k (CHR '' '')"
proof (induction s arbitrary: n t)
  case (Cons c s)
  have spaces: "\<forall>d \<in> set (c # s). d = CHR '' '' \<Longrightarrow> c # s = replicate (Suc (length s)) (CHR '' '')"
    by (rule replicate_eqI) auto
  show ?case
  proof (cases "continuation c \<or> n \<noteq> 0")
    case True
    with Cons show ?thesis by (auto split: if_splits)
  next
    case False
    with Cons.prems spaces show ?thesis
      by (metis append_Nil option.distinct(1) option.inject varchar.simps(2))
  qed
qed auto

declare varchar.simps(2) [simp del]

lemma fitted_ok:
  "fitted fit ins r w = Inr w' \<Longrightarrow> \<exists>r'. fit r = Some r' \<and> ins r' w = Inr w'"
  by (auto simp: fitted_def split: option.splits)

lemma fitted_Some [simp]: "fit r = Some r' \<Longrightarrow> fitted fit ins r w = ins r' w"
  by (simp add: fitted_def)

lemma fitted_None [simp]: "fit r = None \<Longrightarrow> fitted fit ins r w = Inl too_long"
  by (simp add: fitted_def)

section \<open>Diagnostic sessions (session.go)\<close>

text \<open>The row lookups by primary key, and the \<open>SET\<close> clauses of the \<open>UPDATE\<close> statements.\<close>

definition find_session :: "uuid \<Rightarrow> 'a db_scheme \<Rightarrow> DiagnosticSession option" where
  "find_session i w = tbl_find (\<lambda>r. s_ID r = i) (w_sessions w)"

definition status_of :: "'a db_scheme \<Rightarrow> uuid \<Rightarrow> string option" where
  "status_of w i = map_option s_Status (find_session i w)"

fun put_status :: "string \<times> time \<Rightarrow> DiagnosticSession \<Rightarrow> DiagnosticSession" where
  "put_status (st, t) r = r\<lparr>s_Status := st, s_UpdatedAt := t\<rparr>"

fun put_report_url :: "string \<times> time \<Rightarrow> DiagnosticSession \<Rightarrow> DiagnosticSession" where
  "put_report_url (url, t) r = r\<lparr>s_ReportURL := Some url, s_UpdatedAt := t\<rparr>"

definition put_retry :: "time \<Rightarrow> DiagnosticSession \<Rightarrow> DiagnosticSession" where
  "put_retry t r = r\<lparr>s_RetryCount := s_RetryCount r + 1, s_UpdatedAt := t\<rparr>"

definition set_session :: "uuid \<Rightarrow> (DiagnosticSession \<Rightarrow> DiagnosticSession) \<Rightarrow> 'a db_scheme \<Rightarrow> 'a db_scheme" where
  "set_session i f w = w\<lparr>w_sessions := tbl_update (\<lambda>r. s_ID r = i) f (w_sessions w)\<rparr>"

interpretation status_rows: keyed_rows s_ID put_status
  by unfold_locales auto

interpretation report_rows: keyed_rows s_ID put_report_url
  by unfold_locales auto

interpretation retry_rows: keyed_rows s_ID put_retry
  by unfold_locales (simp add: put_retry_def)

definition insert_session :: "DiagnosticSession \<Rightarrow> 'a db_scheme \<Rightarrow> gerror + 'a db_scheme" where
  "insert_session s w =
     (if find_session (s_ID s) w \<noteq> None
      then Inl (ErrorString ''duplicate key value violates unique constraint'')
      else Inr (w\<lparr>w_sessions := w_sessions w @ [s]\<rparr>))"

definition fit_session :: "DiagnosticSession \<Rightarrow> DiagnosticSession option" where
  "fit_session s =
     (case (varchar 32 (s_Status s), varchar 128 (s_TargetService s), varchar 16 (s_TriggerType s),
            opt_column text_column (s_ReportURL s)) of
        (Some st, Some ts, Some tr, Some url) \<Rightarrow>
          Some (s\<lparr>s_Status := st, s_TargetService := ts, s_TriggerType := tr, s_ReportURL := url\<rparr>)
      | _ \<Rightarrow> None)"

definition SessionDAO_Create ::
  "string \<Rightarrow> string \<Rightarrow> 'a db_scheme \<Rightarrow> DiagnosticSession result \<times> 'a db_scheme" where
  "SessionDAO_Create targetService triggerType w0 =
    (let trigger = (if triggerType = [] then TriggerManual else triggerType);
         (i, w1) = uuid_New w0;
         s = \<lparr>s_ID = i, s_Status = StatusCreated, s_TargetService = targetService,
              s_TriggerType = trigger, s_RetryCount = 0, s_ReportURL = None,
              s_CreatedAt = w_now w1, s_UpdatedAt = w_now w1\<rparr>;
         (err, w2) = db_exec (fitted fit_session insert_session s) w1
     in case err of
          Some e \<Rightarrow> (Inl (wrap ''session create: '' e), w2)
        | None \<Rightarrow> (Inr s, w2))"

definition SessionDAO_GetByID ::
  "uuid \<Rightarrow> 'a db_scheme \<Rightarrow> DiagnosticSession result \<times> 'a db_scheme" where
  "SessionDAO_GetByID i w0 =
    (case db_query_row (find_session i) w0 of
       (Inr s, w1) \<Rightarrow> (Inr s, w1)
     | (Inl e, w1) \<Rightarrow>
         if errors_is e ErrNoRows then (Inl (Sentinel ErrNotFound), w1)
         else (Inl (wrap ''scan session: '' e), w1))"

definition SessionDAO_UpdateStatus ::
  "uuid \<Rightarrow> string \<Rightarrow> 'a db_scheme \<Rightarrow> gerror option \<times> 'a db_scheme" where
  "SessionDAO_UpdateStatus i status w0 =
    (case db_exec (fitted (varchar 32) (\<lambda>st w. Inr (set_session i (put_status (st, w_now w)) w)) status) w0 of
       (Some e, w1) \<Rightarrow> (Some (wrap ''session update status: '' e), w1)
     | (None, w1) \<Rightarrow> (if find_session i w0 = None then Some (Sentinel ErrNotFound) else None, w1))"

definition SessionDAO_SetReportURL ::
  "uuid \<Rightarrow> string \<Rightarrow> 'a db_scheme \<Rightarrow> gerror option \<times> 'a db_scheme" where
  "SessionDAO_SetReportURL i url w0 =
    (case db_exec (fitted text_column (\<lambda>u w. Inr (set_session i (put_report_url (u, w_now w)) w)) url) w0 of
       (Some e, w1) \<Rightarrow> (Some (wrap ''session set report url: '' e), w1)
     | (None, w1) \<Rightarrow> (None, w1))"

text \<open>\<open>retry_count\<close> is an \<open>INT\<close> column: the addition fails above \<open>2\<^sup>3\<^sup>1 - 1\<close>.
  \<open>RETURNING\<close> yields no row when no session has the key.\<close>

definition increment_retry :: "uuid \<Rightarrow> 'a db_scheme \<Rightarrow> gerror + 'a db_scheme" where
  "increment_retry i w = (case find_session i w of
       None \<Rightarrow> Inl (Sentinel ErrNoRows)
     | Some s \<Rightarrow> if s_RetryCount s \<ge> 2147483647 then Inl (ErrorString ''integer out of range'')
                 else Inr (set_session i (put_retry (w_now w)) w))"

definition SessionDAO_IncrementRetry ::
  "uuid \<Rightarrow> 'a db_scheme \<Rightarrow> int result \<times> 'a db_scheme" where
  "SessionDAO_IncrementRetry i w0 =
    (case db_exec (increment_retry i) w0 of
       (Some e, w1) \<Rightarrow> (Inl (wrap ''session increment retry: '' e), w1)
     | (None, w1) \<Rightarrow> (case find_session i w1 of
           None \<Rightarrow> (Inl (wrap ''session increment retry: '' (Sentinel ErrNoRows)), w1)
         | Some s \<Rightarrow> (Inr (s_RetryCount s), w1)))"

text \<open>\<open>ILIKE\<close>: a pattern with the wildcards \<open>%\<close> and \<open>_\<close> and the escape character
  \<open>\\<close>, compared without regard to case.\<close>

fun like :: "string \<Rightarrow> string \<Rightarrow> bool" where
  "like [] s = (s = [])"
| "like (p # ps) [] = (p = CHR ''%'' \<and> like ps [])"
| "like (p # ps) (c # s) =
     (if p = CHR ''%'' then like ps (c # s) \<or> like (p # ps) s
      else if p = CHR ''_'' then like ps s
      else if p = CHR 0x5C then (case ps of [] \<Rightarrow> False | q # qs \<Rightarrow> q = c \<and> like qs s)
      else p = c \<and> like ps s)"

definition ilike :: "string \<Rightarrow> string \<Rightarrow> bool" where
  "ilike s pat = like (to_lower pat) (to_lower s)"

record ListFilter =
  lf_Status :: string
  lf_TargetService :: string
  lf_From :: time
  lf_To :: time
  lf_Keyword :: string
  lf_Page :: int
  lf_PageSize :: int

text \<open>The \<open>WHERE\<close> clause built from the filter; \<open>id_text\<close> is PostgreSQL's \<open>id::text\<close>.\<close>

definition list_where :: "(uuid \<Rightarrow> string) \<Rightarrow> ListFilter \<Rightarrow> DiagnosticSession \<Rightarrow> bool" where
  "list_where id_text f s \<longleftrightarrow>
     (lf_Status f \<noteq> [] \<longrightarrow> s_Status s = lf_Status f) \<and>
     (lf_TargetService f \<noteq> [] \<longrightarrow> s_TargetService s = lf_TargetService f) \<and>
     (lf_From f \<noteq> 0 \<longrightarrow> s_CreatedAt s \<ge> lf_From f) \<and>
     (lf_To f \<noteq> 0 \<longrightarrow> s_CreatedAt s \<le> lf_To f) \<and>
     (lf_Keyword f \<noteq> [] \<longrightarrow>
        (let pat = ''%'' @ lf_Keyword f @ ''%'' in
         ilike (s_TargetService s) pat \<or> ilike (id_text (s_ID s)) pat))"

definition list_page :: "ListFilter \<Rightarrow> int" where
  "list_page f = (if lf_Page f < 1 then 1 else lf_Page f)"

definition list_page_size :: "ListFilter \<Rightarrow> int" where
  "list_page_size f = (if lf_PageSize f < 1 then 20 else lf_PageSize f)"

definition list_rows :: "(uuid \<Rightarrow> string) \<Rightarrow> ListFilter \<Rightarrow> 'a db_scheme \<Rightarrow> DiagnosticSession list" where
  "list_rows id_text f w = sort_key (\<lambda>s. - s_CreatedAt s) (filter (list_where id_text f) (w_sessions w))"

definition SessionDAO_List ::
  "(uuid \<Rightarrow> string) \<Rightarrow> ListFilter \<Rightarrow> 'a db_scheme \<Rightarrow> (DiagnosticSession list \<times> nat) result \<times> 'a db_scheme" where
  "SessionDAO_List id_text f w0 =
    (let offset = (list_page f - 1) * list_page_size f in
     case db_query_row (\<lambda>w. Some (length (filter (list_where id_text f) (w_sessions w)))) w0 of
       (Inl e, w1) \<Rightarrow> (Inl (wrap ''session count: '' e), w1)
     | (Inr cnt, w1) \<Rightarrow>
        (case db_query (\<lambda>w. take (nat (list_page_size f)) (drop (nat offset) (list_rows id_text f w))) w1 of
           (Inl e, w2) \<Rightarrow> (Inl (wrap ''session list: '' e), w2)
         | (Inr (rows, Some e), w2) \<Rightarrow> (Inl (wrap ''session list rows: '' e), w2)
         | (Inr (rows, None), w2) \<Rightarrow> (Inr (rows, cnt), w2)))"

section \<open>Fix actions (fix_action.go)\<close>

definition find_fix :: "uuid \<Rightarrow> 'a db_scheme \<Rightarrow> FixAction option" where
  "find_fix i w = tbl_find (\<lambda>r. fa_ID r = i) (w_fix_actions w)"

fun put_fix_approval :: "string \<times> time \<Rightarrow> FixAction \<Rightarrow> FixAction" where
  "put_fix_approval (st, t) r = r\<lparr>fa_ApprovalStatus := st, fa_UpdatedAt := t\<rparr>"

fun put_fix_execution :: "string \<times> time \<Rightarrow> FixAction \<Rightarrow> FixAction" where
  "put_fix_execution (st, t) r = r\<lparr>fa_ExecutionStatus := st, fa_UpdatedAt := t\<rparr>"

fun put_fix_ticket :: "string \<times> time \<Rightarrow> FixAction \<Rightarrow> FixAction" where
  "put_fix_ticket (tk, t) r = r\<lparr>fa_TicketID := Some tk, fa_UpdatedAt := t\<rparr>"

interpretation fix_approval_rows: keyed_rows fa_ID put_fix_approval
  by unfold_locales auto

interpretation fix_execution_rows: keyed_rows fa_ID put_fix_execution
  by unfold_locales auto

interpretation fix_ticket_rows: keyed_rows fa_ID put_fix_ticket
  by unfold_locales auto

definition set_fix :: "uuid \<Rightarrow> (FixAction \<Rightarrow> FixAction) \<Rightarrow> 'a db_scheme \<Rightarrow> 'a db_scheme" where
  "set_fix i f w = w\<lparr>w_fix_actions := tbl_update (\<lambda>r. fa_ID r = i) f (w_fix_actions w)\<rparr>"

text \<open>\<open>INSERT INTO fix_actions\<close> under its primary key, its foreign key to the session and
  \<open>UNIQUE (session_id, seq)\<close>.\<close>

definition insert_fix :: "FixAction \<Rightarrow> 'a db_scheme \<Rightarrow> gerror + 'a db_scheme" where
  "insert_fix fa w =
     (if find_fix (fa_ID fa) w \<noteq> None \<or>
         (\<exists>r \<in> set (w_fix_actions w). fa_SessionID r = fa_SessionID fa \<and> fa_Seq r = fa_Seq fa)
      then Inl (ErrorString ''duplicate key value violates unique constraint'')
      else if find_session (fa_SessionID fa) w = None
      then Inl (ErrorString ''insert violates foreign key constraint'')
      else Inr (w\<lparr>w_fix_actions := w_fix_actions w @ [fa]\<rparr>))"

text \<open>\<open>Create\<close> fills the identifier and the timestamps of the caller's struct; the filled
  struct is returned beside the error.\<close>

definition fit_fix :: "FixAction \<Rightarrow> FixAction option" where
  "fit_fix fa =
     (case (varchar 64 (fa_ActionType fa), varchar 128 (fa_Target fa), varchar 8 (fa_Risk fa),
            text_column (fa_RollbackPlan fa), varchar 16 (fa_ApprovalStatus fa),
            varchar 16 (fa_ExecutionStatus fa), opt_column (varchar 64) (fa_TicketID fa)) of
        (Some act, Some tgt, Some risk, Some plan, Some appr, Some exec, Some tk) \<Rightarrow>
          Some (fa\<lparr>fa_ActionType := act, fa_Target := tgt, fa_Risk := risk, fa_RollbackPlan := plan,
                   fa_ApprovalStatus := appr, fa_ExecutionStatus := exec, fa_TicketID := tk\<rparr>)
      | _ \<Rightarrow> None)"

definition FixActionDAO_Create ::
  "FixAction \<Rightarrow> 'a db_scheme \<Rightarrow> gerror option \<times> FixAction \<times> 'a db_scheme" where
  "FixActionDAO_Create fa0 w0 =
    (let (fa1, w1) = (if fa_ID fa0 = uuid_Nil
                      then (case uuid_New w0 of (i, w) \<Rightarrow> (fa0\<lparr>fa_ID := i\<rparr>, w))
                      else (fa0, w0));
         now = w_now w1;
         fa2 = (if fa_CreatedAt fa1 = 0 then fa1\<lparr>fa_CreatedAt := now\<rparr> else fa1);
         fa3 = (if fa_UpdatedAt fa2 = 0 then fa2\<lparr>fa_UpdatedAt := now\<rparr> else fa2)
     in case db_exec (fitted fit_fix insert_fix fa3) w1 of
          (Some e, w2) \<Rightarrow> (Some (wrap ''fix_action create: '' e), fa3, w2)
        | (None, w2) \<Rightarrow> (None, fa3, w2))"

text \<open>The columns keep the keys of a row; the statuses of the source fit theirs.\<close>

lemma fit_session_keys:
  "fit_session s = Some s' \<Longrightarrow> s_ID s' = s_ID s \<and> s_RetryCount s' = s_RetryCount s \<and>
     s_CreatedAt s' = s_CreatedAt s \<and> s_UpdatedAt s' = s_UpdatedAt s"
  by (auto simp: fit_session_def split: option.splits)

lemma fit_fix_keys:
  "fit_fix fa = Some fa' \<Longrightarrow> fa_ID fa' = fa_ID fa \<and> fa_SessionID fa' = fa_SessionID fa \<and>
     fa_Seq fa' = fa_Seq fa \<and> fa_RequiresApproval fa' = fa_RequiresApproval fa \<and>
     fa_CreatedAt fa' = fa_CreatedAt fa \<and> fa_UpdatedAt fa' = fa_UpdatedAt fa"
  by (auto simp: fit_fix_def split: option.splits)

lemma fit_fix_columns:
  assumes "fit_fix fa = Some fa'"
  shows "varchar 64 (fa_ActionType fa) = Some (fa_ActionType fa')" "varchar 128 (fa_Target fa) = Some (fa_Target fa')"
    "varchar 8 (fa_Risk fa) = Some (fa_Risk fa')" "fa_RollbackPlan fa' = fa_RollbackPlan fa"
    "varchar 16 (fa_ApprovalStatus fa) = Some (fa_ApprovalStatus fa')"
    "varchar 16 (fa_ExecutionStatus fa) = Some (fa_ExecutionStatus fa')"
    "opt_column (varchar 64) (fa_TicketID fa) = Some (fa_TicketID fa')"
  using assms by (auto simp: fit_fix_def text_column_def split: option.splits if_splits)

lemma varchar_statuses [simp]:
  "varchar 16 ApprovalStatusNone = Some ApprovalStatusNone" "varchar 16 ApprovalStatusPending = Some ApprovalStatusPending"
  "varchar 16 ApprovalStatusApproved = Some ApprovalStatusApproved"
  "varchar 16 ApprovalStatusRejected = Some ApprovalStatusRejected"
  "varchar 16 ApprovalStatusExpired = Some ApprovalStatusExpired"
  "varchar 16 ExecStatusNotStarted = Some ExecStatusNotStarted" "varchar 16 ExecStatusRunning = Some ExecStatusRunning"
  "varchar 16 ExecStatusSucceeded = Some ExecStatusSucceeded" "varchar 16 ExecStatusFailed = Some ExecStatusFailed"
  "varchar 16 ExecStatusRolledBack = Some ExecStatusRolledBack"
  "varchar 8 RiskLow = Some RiskLow" "varchar 8 RiskMedium = Some RiskMedium" "varchar 8 RiskHigh = Some RiskHigh"
  "varchar 32 StatusCreated = Some StatusCreated" "varchar 16 TriggerManual = Some TriggerManual"
  "varchar 16 TriggerAlert = Some TriggerAlert"
  by (simp_all add: varchar_short)

definition FixActionDAO_GetByID ::
  "uuid \<Rightarrow> 'a db_scheme \<Rightarrow> FixAction result \<times> 'a db_scheme" where
  "FixActionDAO_GetByID i w0 =
    (case db_query_row (find_fix i) w0 of
       (Inr fa, w1) \<Rightarrow> (Inr fa, w1)
     | (Inl e, w1) \<Rightarrow>
         if errors_is e ErrNoRows then (Inl (Sentinel ErrNotFound), w1)
         else (Inl (wrap ''scan fix_action: '' e), w1))"

definition fixes_of :: "uuid \<Rightarrow> 'a db_scheme \<Rightarrow> FixAction list" where
  "fixes_of sid w = sort_key fa_Seq (filter (\<lambda>r. fa_SessionID r = sid) (w_fix_actions w))"

definition FixActionDAO_GetBySessionID ::
  "uuid \<Rightarrow> 'a db_scheme \<Rightarrow> FixAction list result \<times> 'a db_scheme" where
  "FixActionDAO_GetBySessionID sid w0 =
    (case db_query (fixes_of sid) w0 of
       (Inl e, w1) \<Rightarrow> (Inl (wrap ''fix_action list: '' e), w1)
     | (Inr (rows, Some e), w1) \<Rightarrow> (Inl (wrap ''fix_action list rows: '' e), w1)
     | (Inr (rows, None), w1) \<Rightarrow> (Inr rows, w1))"

definition FixActionDAO_UpdateApprovalStatus ::
  "uuid \<Rightarrow> string \<Rightarrow> 'a db_scheme \<Rightarrow> gerror option \<times> 'a db_scheme" where
  "FixActionDAO_UpdateApprovalStatus i status w0 =
    (case db_exec (fitted (varchar 16) (\<lambda>st w. Inr (set_fix i (put_fix_approval (st, w_now w)) w)) status) w0 of
       (Some e, w1) \<Rightarrow> (Some (wrap ''fix_action update approval: '' e), w1)
     | (None, w1) \<Rightarrow> (None, w1))"

definition FixActionDAO_UpdateExecutionStatus ::
  "uuid \<Rightarrow> string \<Rightarrow> 'a db_scheme \<Rightarrow> gerror option \<times> 'a db_scheme" where
  "FixActionDAO_UpdateExecutionStatus i status w0 =
    (case db_exec (fitted (varchar 16) (\<lambda>st w. Inr (set_fix i (put_fix_execution (st, w_now w)) w)) status) w0 of
       (Some e, w1) \<Rightarrow> (Some (wrap ''fix_action update execution: '' e), w1)
     | (None, w1) \<Rightarrow> (None, w1))"

definition FixActionDAO_SetTicketID ::
  "uuid \<Rightarrow> string \<Rightarrow> 'a db_scheme \<Rightarrow> gerror option \<times> 'a db_scheme" where
  "FixActionDAO_SetTicketID i ticketID w0 =
    (case db_exec (fitted (varchar 64) (\<lambda>tk w. Inr (set_fix i (put_fix_ticket (tk, w_now w)) w)) ticketID) w0 of
       (Some e, w1) \<Rightarrow> (Some (wrap ''fix_action set ticket: '' e), w1)
     | (None, w1) \<Rightarrow> (None, w1))"

text \<open>\<open>INSERT ... ON CONFLICT (id) DO UPDATE\<close>: the excluded row's columns replace those of the
  existing row, but for the session, the sequence number and the creation time.\<close>

definition upsert_columns :: "FixAction \<Rightarrow> FixAction \<Rightarrow> FixAction" where
  "upsert_columns fa r = fa\<lparr>fa_ID := fa_ID r, fa_SessionID := fa_SessionID r, fa_Seq := fa_Seq r,
                          fa_CreatedAt := fa_CreatedAt r\<rparr>"

interpretation upsert_rows: keyed_rows fa_ID upsert_columns
  by unfold_locales (simp add: upsert_columns_def)

definition FixActionDAO_Upsert ::
  "FixAction \<Rightarrow> 'a db_scheme \<Rightarrow> uuid result \<times> FixAction \<times> 'a db_scheme" where
  "FixActionDAO_Upsert fa0 w0 =
    (let (fa, w1) = (if fa_ID fa0 = uuid_Nil
                     then (case uuid_New w0 of (i, w) \<Rightarrow> (fa0\<lparr>fa_ID := i\<rparr>, w))
                     else (fa0, w0))
     in case db_exec (fitted fit_fix (\<lambda>row w.
                 if find_fix (fa_ID row) w = None then insert_fix row w
                 else Inr (set_fix (fa_ID row) (upsert_columns row) w)) fa) w1 of
          (Some e, w2) \<Rightarrow> (Inl (wrap ''fix_action upsert: '' e), fa, w2)
        | (None, w2) \<Rightarrow> (Inr (fa_ID fa), fa, w2))"

end
