(* ===== verification/Store_Approval.thy ===== *)
theory Store_Approval imports Store Json begin

text \<open>
  The remaining DAOs on the tables of the workflow: \<open>ApprovalDAO\<close> and the knowledge base search
  of \<open>internal/store/fix_action.go\<close>, and the timeline of \<open>session_event.go\<close>.
\<close>

section \<open>Approvals\<close>

definition find_approval :: "uuid \<Rightarrow> 'a db_scheme \<Rightarrow> Approval option" where
  "find_approval i w = tbl_find (\<lambda>r. ap_ID r = i) (w_approvals w)"

fun put_decision :: "string \<times> string \<times> time \<Rightarrow> Approval \<Rightarrow> Approval" where
  "put_decision (st, who, t) r = r\<lparr>ap_Status := st, ap_DecidedAt := Some t, ap_DecidedBy := Some who\<rparr>"

interpretation approval_rows: keyed_rows ap_ID put_decision
  by unfold_locales auto

definition set_approval :: "uuid \<Rightarrow> (Approval \<Rightarrow> Approval) \<Rightarrow> 'a db_scheme \<Rightarrow> 'a db_scheme" where
  "set_approval i f w = w\<lparr>w_approvals := tbl_update (\<lambda>r. ap_ID r = i) f (w_approvals w)\<rparr>"

text \<open>The constraints of \<open>approvals\<close>: primary key, unique token, and the foreign keys to the
  session and the fix action.\<close>

definition insert_approval :: "Approval \<Rightarrow> 'a db_scheme \<Rightarrow> gerror + 'a db_scheme" where
  "insert_approval a w =
     (if find_approval (ap_ID a) w \<noteq> None \<or>
         (\<exists>r \<in> set (w_approvals w). ap_RequestToken r = ap_RequestToken a)
      then Inl (ErrorString ''duplicate key value violates unique constraint'')
      else if find_session (ap_SessionID a) w = None \<or> find_fix (ap_FixActionID a) w = None
      then Inl (ErrorString ''insert violates foreign key constraint'')
      else Inr (w\<lparr>w_approvals := w_approvals w @ [a]\<rparr>))"

text \<open>The statement does not write \<open>decided_at\<close> and \<open>decided_by\<close>: they are null.\<close>

definition fit_approval :: "Approval \<Rightarrow> Approval option" where
  "fit_approval a =
     (case (varchar 16 (ap_Status a), varchar 128 (ap_RequestToken a), opt_column (varchar 64) (ap_DecidedBy a)) of
        (Some st, Some tk, Some who) \<Rightarrow>
          Some (a\<lparr>ap_Status := st, ap_RequestToken := tk, ap_DecidedBy := who\<rparr>)
      | _ \<Rightarrow> None)"

lemma fit_approval_keys:
  "fit_approval a = Some a' \<Longrightarrow> ap_ID a' = ap_ID a \<and> ap_SessionID a' = ap_SessionID a \<and>
     ap_FixActionID a' = ap_FixActionID a \<and> ap_RequestedAt a' = ap_RequestedAt a \<and> ap_DecidedAt a' = ap_DecidedAt a \<and>
     varchar 16 (ap_Status a) = Some (ap_Status a') \<and> varchar 128 (ap_RequestToken a) = Some (ap_RequestToken a') \<and>
     opt_column (varchar 64) (ap_DecidedBy a) = Some (ap_DecidedBy a')"
  by (auto simp: fit_approval_def split: option.splits)

definition ApprovalDAO_Create ::
  "Approval \<Rightarrow> 'a db_scheme \<Rightarrow> gerror option \<times> Approval \<times> 'a db_scheme" where
  "ApprovalDAO_Create a0 w0 =
    (let (a1, w1) = (if ap_ID a0 = uuid_Nil
                     then (case uuid_New w0 of (i, w) \<Rightarrow> (a0\<lparr>ap_ID := i\<rparr>, w))
                     else (a0, w0));
         a2 = (if ap_RequestedAt a1 = 0 then a1\<lparr>ap_RequestedAt := w_now w1\<rparr> else a1)
     in case db_exec (fitted fit_approval insert_approval (a2\<lparr>ap_DecidedAt := None, ap_DecidedBy := None\<rparr>)) w1 of
          (Some e, w2) \<Rightarrow> (Some (wrap ''approval create: '' e), a2, w2)
        | (None, w2) \<Rightarrow> (None, a2, w2))"

definition scan_approval :: "Approval result \<times> 'a db_scheme \<Rightarrow> Approval result \<times> 'a db_scheme" where
  "scan_approval r = (case r of
       (Inr a, w) \<Rightarrow> (Inr a, w)
     | (Inl e, w) \<Rightarrow> if errors_is e ErrNoRows then (Inl (Sentinel ErrNotFound), w)
                    else (Inl (wrap ''scan approval: '' e), w))"

definition ApprovalDAO_GetByID ::
  "uuid \<Rightarrow> 'a db_scheme \<Rightarrow> Approval result \<times> 'a db_scheme" where
  "ApprovalDAO_GetByID i w0 = scan_approval (db_query_row (find_approval i) w0)"

definition ApprovalDAO_GetByToken ::
  "string \<Rightarrow> 'a db_scheme \<Rightarrow> Approval result \<times> 'a db_scheme" where
  "ApprovalDAO_GetByToken token w0 =
    (if token = [] then (Inl (Sentinel ErrNotFound), w0)
     else scan_approval
       (db_query_row (\<lambda>w. tbl_find (\<lambda>r. ap_RequestToken r = token) (w_approvals w)) w0))"

definition fit_decision :: "string \<times> string \<Rightarrow> (string \<times> string) option" where
  "fit_decision d = (case (varchar 16 (fst d), varchar 64 (snd d)) of
       (Some st, Some who) \<Rightarrow> Some (st, who)
     | _ \<Rightarrow> None)"

definition ApprovalDAO_UpdateDecision ::
  "uuid \<Rightarrow> string \<Rightarrow> string \<Rightarrow> 'a db_scheme \<Rightarrow> gerror option \<times> 'a db_scheme" where
  "ApprovalDAO_UpdateDecision i status decidedBy w0 =
    (case db_exec (fitted fit_decision (\<lambda>(st, who) w. Inr (set_approval i (put_decision (st, who, w_now w)) w))
             (status, decidedBy)) w0 of
       (Some e, w1) \<Rightarrow> (Some (wrap ''approval update decision: '' e), w1)
     | (None, w1) \<Rightarrow> (None, w1))"

text \<open>The method ignores \<open>rows.Err()\<close>: a broken stream yields the rows read so far.\<close>

definition pending_approvals :: "uuid \<Rightarrow> 'a db_scheme \<Rightarrow> Approval list" where
  "pending_approvals sid w = sort_key ap_RequestedAt
     (filter (\<lambda>r. ap_SessionID r = sid \<and> ap_Status r = ApprovalStatusPending) (w_approvals w))"

definition ApprovalDAO_GetPendingBySessionID ::
  "uuid \<Rightarrow> 'a db_scheme \<Rightarrow> Approval list result \<times> 'a db_scheme" where
  "ApprovalDAO_GetPendingBySessionID sid w0 =
    (case db_query (pending_approvals sid) w0 of
       (Inl e, w1) \<Rightarrow> (Inl (wrap ''approval list pending: '' e), w1)
     | (Inr (rows, rerr), w1) \<Rightarrow> (Inr rows, w1))"

section \<open>Knowledge base\<close>

text \<open>\<open>ORDER BY success_rate DESC, times_used DESC\<close>; \<open>rows.Err()\<close> is ignored here too.\<close>

definition matching_knowledge :: "string \<Rightarrow> 'a db_scheme \<Rightarrow> FixKnowledge list" where
  "matching_knowledge pattern w =
     sort_key (\<lambda>e. - kb_SuccessRate e) (sort_key (\<lambda>e. - kb_TimesUsed e)
       (filter (\<lambda>e. ilike (kb_RootCausePattern e) (''%'' @ pattern @ ''%'')) (w_kb w)))"

definition KnowledgeBaseDAO_SearchByRootCause ::
  "string \<Rightarrow> 'a db_scheme \<Rightarrow> FixKnowledge list result \<times> 'a db_scheme" where
  "KnowledgeBaseDAO_SearchByRootCause pattern w0 =
    (case db_query (matching_knowledge pattern) w0 of
       (Inl e, w1) \<Rightarrow> (Inl (wrap ''knowledge_base search: '' e), w1)
     | (Inr (rows, rerr), w1) \<Rightarrow> (Inr rows, w1))"

text \<open>\<open>UPDATE\<close> of the statistics; \<open>real4\<close> rounds to the \<open>REAL\<close> column, and \<open>times_used\<close> is an \<open>INT\<close>
  column.  A missing entry is not an error.\<close>

definition put_usage :: "(rat \<Rightarrow> rat) \<Rightarrow> bool \<Rightarrow> FixKnowledge \<Rightarrow> FixKnowledge" where
  "put_usage real4 success e = e\<lparr>kb_TimesUsed := kb_TimesUsed e + 1,
     kb_SuccessRate := real4 ((kb_SuccessRate e * of_int (kb_TimesUsed e) + (if success then 1 else 0)) /
       of_int (kb_TimesUsed e + 1))\<rparr>"

definition KnowledgeBaseDAO_IncrementUsage ::
  "(rat \<Rightarrow> rat) \<Rightarrow> uuid \<Rightarrow> bool \<Rightarrow> 'a db_scheme \<Rightarrow> gerror option \<times> 'a db_scheme" where
  "KnowledgeBaseDAO_IncrementUsage real4 i success w0 =
    (case db_exec (\<lambda>w. if \<exists>e \<in> set (w_kb w). kb_ID e = i \<and> kb_TimesUsed e \<ge> 2147483647
                       then Inl (ErrorString ''integer out of range'')
                       else Inr (w\<lparr>w_kb := tbl_update (\<lambda>e. kb_ID e = i) (put_usage real4 success) (w_kb w)\<rparr>)) w0 of
       (Some e, w1) \<Rightarrow> (Some (wrap (if success then ''knowledge_base increment success: ''
                                    else ''knowledge_base increment failure: '') e), w1)
     | (None, w1) \<Rightarrow> (None, w1))"

section \<open>Session events\<close>

definition insert_event :: "SessionEvent \<Rightarrow> 'a db_scheme \<Rightarrow> gerror + 'a db_scheme" where
  "insert_event ev w =
     (if \<exists>r \<in> set (w_events w). ev_ID r = ev_ID ev
      then Inl (ErrorString ''duplicate key value violates unique constraint'')
      else if find_session (ev_SessionID ev) w = None
      then Inl (ErrorString ''insert violates foreign key constraint'')
      else Inr (w\<lparr>w_events := w_events w @ [ev]\<rparr>))"

definition fit_event :: "SessionEvent \<Rightarrow> SessionEvent option" where
  "fit_event ev =
     (case (varchar 64 (ev_EventType ev), varchar 64 (ev_Source ev), text_column (ev_Message ev)) of
        (Some ty, Some src, Some m) \<Rightarrow> Some (ev\<lparr>ev_EventType := ty, ev_Source := src, ev_Message := m\<rparr>)
      | _ \<Rightarrow> None)"

definition SessionEventDAO_Create ::
  "SessionEvent \<Rightarrow> 'a db_scheme \<Rightarrow> gerror option \<times> SessionEvent \<times> 'a db_scheme" where
  "SessionEventDAO_Create ev0 w0 =
    (let (ev1, w1) = (if ev_ID ev0 = uuid_Nil
                      then (case uuid_New w0 of (i, w) \<Rightarrow> (ev0\<lparr>ev_ID := i\<rparr>, w))
                      else (ev0, w0));
         ev2 = (if ev_Timestamp ev1 = 0 then ev1\<lparr>ev_Timestamp := w_now w1\<rparr> else ev1)
     in case db_exec (fitted fit_event insert_event ev2) w1 of
          (Some e, w2) \<Rightarrow> (Some (wrap ''session_event create: '' e), ev2, w2)
        | (None, w2) \<Rightarrow> (None, ev2, w2))"

definition events_of :: "uuid \<Rightarrow> 'a db_scheme \<Rightarrow> SessionEvent list" where
  "events_of sid w = sort_key ev_Timestamp (filter (\<lambda>r. ev_SessionID r = sid) (w_events w))"

text \<open>The Go method returns the rows read so far together with \<open>rows.Err()\<close>.\<close>

definition SessionEventDAO_GetBySessionID ::
  "uuid \<Rightarrow> 'a db_scheme \<Rightarrow> (SessionEvent list \<times> gerror option) \<times> 'a db_scheme" where
  "SessionEventDAO_GetBySessionID sid w0 =
    (case db_query (events_of sid) w0 of
       (Inl e, w1) \<Rightarrow> (([], Some (wrap ''session_event list: '' e)), w1)
     | (Inr (rows, rerr), w1) \<Rightarrow> ((rows, rerr), w1))"

definition state_change_event :: "uuid \<Rightarrow> string \<Rightarrow> string \<Rightarrow> string \<Rightarrow> SessionEvent" where
  "state_change_event sid fromStatus toStatus source =
     \<lparr>ev_ID = uuid_Nil, ev_SessionID = sid, ev_EventType = ''state_changed'', ev_Source = source,
      ev_Message = ''State transition: '' @ fromStatus @ '' '' @ utf8_arrow @ '' '' @ toStatus,
      ev_Metadata = json_object [(''from'', fromStatus), (''to'', toStatus)],
      ev_Timestamp = 0\<rparr>"

definition SessionEventDAO_LogStateTransition ::
  "uuid \<Rightarrow> string \<Rightarrow> string \<Rightarrow> string \<Rightarrow> 'a db_scheme \<Rightarrow> gerror option \<times> 'a db_scheme" where
  "SessionEventDAO_LogStateTransition sid fromStatus toStatus source w0 =
    (case SessionEventDAO_Create (state_change_event sid fromStatus toStatus source) w0 of
       (err, ev, w1) \<Rightarrow> (err, w1))"

section \<open>Operations that only read\<close>

text \<open>Nothing but the driver's list of outcomes changes.\<close>

definition reads_only :: "'a db_scheme \<Rightarrow> 'a db_scheme \<Rightarrow> bool" where
  "reads_only w w' \<longleftrightarrow> w'\<lparr>w_faults := []\<rparr> = w\<lparr>w_faults := []\<rparr>"

lemma reads_only_refl [simp]: "reads_only w w"
  by (simp add: reads_only_def)

lemma reads_only_trans: "reads_only u v \<Longrightarrow> reads_only v w \<Longrightarrow> reads_only u w"
  by (simp add: reads_only_def)

lemma reads_only_pop [simp]: "reads_only w (pop_fault w') = reads_only w w'"
  by (simp add: reads_only_def pop_fault_def)

lemma reads_only_query:
  "reads_only w (snd (db_query q w))" "reads_only w (snd (db_query_row p w))"
  by (auto simp: db_query_def db_query_row_def Let_def split: option.split)

lemma reads_only_fields:
  assumes "reads_only w w'"
  shows "w_sessions w' = w_sessions w" "w_fix_actions w' = w_fix_actions w" "w_approvals w' = w_approvals w"
    "w_events w' = w_events w" "w_kb w' = w_kb w" "w_locked w' = w_locked w" "w_now w' = w_now w"
    "w_fresh w' = w_fresh w" "w_ctr w' = w_ctr w" "db.more w' = db.more w"
  using assms by (cases w, cases w', simp add: reads_only_def)+

text \<open>The reads of the DAOs.\<close>

lemma reads_only_GetByID:
  "SessionDAO_GetByID i w = (r, w') \<Longrightarrow> reads_only w w'"
  "FixActionDAO_GetByID i w = (r1, w') \<Longrightarrow> reads_only w w'"
  "ApprovalDAO_GetByID i w = (r2, w') \<Longrightarrow> reads_only w w'"
  by (auto simp: SessionDAO_GetByID_def FixActionDAO_GetByID_def ApprovalDAO_GetByID_def scan_approval_def
      split: prod.splits sum.splits if_splits elim!: db_query_row_cases)

lemma reads_only_lists:
  "FixActionDAO_GetBySessionID i w = (r, w') \<Longrightarrow> reads_only w w'"
  "SessionEventDAO_GetBySessionID i w = (r1, w') \<Longrightarrow> reads_only w w'"
  "ApprovalDAO_GetPendingBySessionID i w = (r2, w') \<Longrightarrow> reads_only w w'"
  "KnowledgeBaseDAO_SearchByRootCause pat w = (r3, w') \<Longrightarrow> reads_only w w'"
  "SessionDAO_List id_text f w = (r4, w') \<Longrightarrow> reads_only w w'"
  by (auto simp: FixActionDAO_GetBySessionID_def SessionEventDAO_GetBySessionID_def
      ApprovalDAO_GetPendingBySessionID_def KnowledgeBaseDAO_SearchByRootCause_def SessionDAO_List_def Let_def
      split: prod.splits sum.splits option.splits elim!: db_query_row_cases db_query_cases)

text \<open>What a read by primary key answers when the driver does, and what a success means in any case.\<close>

lemma GetByID_no_fault:
  "w_faults w = [] \<Longrightarrow> SessionDAO_GetByID i w =
     (case find_session i w of None \<Rightarrow> Inl (Sentinel ErrNotFound) | Some s \<Rightarrow> Inr s, w)"
  "w_faults w = [] \<Longrightarrow> FixActionDAO_GetByID i w =
     (case find_fix i w of None \<Rightarrow> Inl (Sentinel ErrNotFound) | Some s \<Rightarrow> Inr s, w)"
  "w_faults w = [] \<Longrightarrow> ApprovalDAO_GetByID i w =
     (case find_approval i w of None \<Rightarrow> Inl (Sentinel ErrNotFound) | Some s \<Rightarrow> Inr s, w)"
  "w_faults w = [] \<Longrightarrow> FixActionDAO_GetBySessionID i w = (Inr (fixes_of i w), w)"
  by (simp_all add: SessionDAO_GetByID_def FixActionDAO_GetByID_def ApprovalDAO_GetByID_def scan_approval_def
      FixActionDAO_GetBySessionID_def db_no_fault pop_fault_id split: option.split)

lemma GetByID_ok:
  "SessionDAO_GetByID i w = (Inr s, w') \<Longrightarrow> find_session i w = Some s"
  "FixActionDAO_GetByID i w = (Inr fa, w') \<Longrightarrow> find_fix i w = Some fa"
  "ApprovalDAO_GetByID i w = (Inr a, w') \<Longrightarrow> find_approval i w = Some a"
  by (auto simp: SessionDAO_GetByID_def FixActionDAO_GetByID_def ApprovalDAO_GetByID_def scan_approval_def
      split: prod.splits sum.splits if_splits elim!: db_query_row_cases)

lemma GetBySessionID_ok:
  "FixActionDAO_GetBySessionID i w = (Inr fas, w') \<Longrightarrow> fas = fixes_of i w"
  by (auto simp: FixActionDAO_GetBySessionID_def split: prod.splits sum.splits option.splits
      elim!: db_query_cases)

end
