(* ===== verification/Workflow.thy ===== *)
theory Workflow imports Store_Approval begin

text \<open>
  The session state machine of \<open>internal/workflow/engine.go\<close>: the transition table, the locked
  transaction of one transition with its retry loop, and the three sweeps.  The interface
  \<open>transition_engine\<close> is what the event loop and the HTTP handlers rely on.
\<close>

section \<open>Events and the transition table\<close>

abbreviation EventStartCollect where "EventStartCollect \<equiv> ''START_COLLECT''"
abbreviation EventCollectComplete where "EventCollectComplete \<equiv> ''COLLECT_COMPLETE''"
abbreviation EventAnalysisComplete where "EventAnalysisComplete \<equiv> ''ANALYSIS_COMPLETE''"
abbreviation EventRCAGenerated where "EventRCAGenerated \<equiv> ''RCA_GENERATED''"
abbreviation EventFixGenerated where "EventFixGenerated \<equiv> ''FIX_GENERATED''"
abbreviation EventApprove where "EventApprove \<equiv> ''APPROVE''"
abbreviation EventReject where "EventReject \<equiv> ''REJECT''"
abbreviation EventExecute where "EventExecute \<equiv> ''EXECUTE''"
abbreviation EventExecuteComplete where "EventExecuteComplete \<equiv> ''EXECUTE_COMPLETE''"
abbreviation EventVerifySuccess where "EventVerifySuccess \<equiv> ''VERIFY_SUCCESS''"
abbreviation EventVerifyFailure where "EventVerifyFailure \<equiv> ''VERIFY_FAILURE''"
abbreviation EventIgnore where "EventIgnore \<equiv> ''IGNORE''"
abbreviation EventFail where "EventFail \<equiv> ''FAIL''"
abbreviation EventRetry where "EventRetry \<equiv> ''RETRY''"

text \<open>The Go map of maps, as an association list of association lists.\<close>

definition ValidTransitions :: "(string \<times> (string \<times> string) list) list" where
  "ValidTransitions =
    [(StatusCreated,
       [(EventStartCollect, StatusCollecting), (EventIgnore, StatusIgnored), (EventFail, StatusFailed)]),
     (StatusCollecting,
       [(EventCollectComplete, StatusAnalyzing), (EventIgnore, StatusIgnored), (EventFail, StatusFailed)]),
     (StatusAnalyzing,
       [(EventAnalysisComplete, StatusRCADone), (EventIgnore, StatusIgnored), (EventFail, StatusFailed)]),
     (StatusRCADone,
       [(EventRCAGenerated, StatusFixProposed), (EventIgnore, StatusIgnored), (EventFail, StatusFailed)]),
     (StatusFixProposed,
       [(EventApprove, StatusFixExecuting), (EventFixGenerated, StatusFixSuggested),
        (EventIgnore, StatusIgnored), (EventFail, StatusFailed)]),
     (StatusAwaitingApproval,
       [(EventApprove, StatusFixExecuting), (EventReject, StatusRejected),
        (EventIgnore, StatusIgnored), (EventFail, StatusFailed)]),
     (StatusFixSuggested,
       [(EventExecute, StatusFixExecuting), (EventIgnore, StatusIgnored), (EventFail, StatusFailed)]),
     (StatusFixExecuting,
       [(EventExecuteComplete, StatusVerifying), (EventIgnore, StatusIgnored), (EventFail, StatusFailed)]),
     (StatusVerifying,
       [(EventVerifySuccess, StatusResolved), (EventVerifyFailure, StatusRolledBack),
        (EventIgnore, StatusIgnored), (EventFail, StatusFailed)]),
     (StatusResolved, []),
     (StatusRejected, []),
     (StatusRolledBack, []),
     (StatusIgnored, []),
     (StatusFailed, [])]"

definition IsTerminal :: "string \<Rightarrow> bool" where
  "IsTerminal status = (case map_of ValidTransitions status of
       None \<Rightarrow> False
     | Some m \<Rightarrow> length m = 0)"

section \<open>One transition\<close>

text \<open>The \<open>COUNT(*)\<close> of the HIGH-risk actions of a session that have not started.\<close>

definition high_risk_count :: "uuid \<Rightarrow> 'a db_scheme \<Rightarrow> nat" where
  "high_risk_count sid w = length (filter (\<lambda>r. fa_SessionID r = sid \<and> fa_Risk r = RiskHigh \<and>
      fa_ExecutionStatus r = ExecStatusNotStarted) (w_fix_actions w))"

definition determineFixProposedNextStatus ::
  "uuid \<Rightarrow> 'a db_scheme \<Rightarrow> string result \<times> 'a db_scheme" where
  "determineFixProposedNextStatus sid w0 =
    (case db_query_row (\<lambda>w. Some (high_risk_count sid w)) w0 of
       (Inl e, w1) \<Rightarrow> (Inl (wrap ''workflow: check high risk: '' e), w1)
     | (Inr count, w1) \<Rightarrow>
         (Inr (if count > 0 then StatusAwaitingApproval else StatusFixSuggested), w1))"

definition HasHighRiskFixAction :: "uuid \<Rightarrow> 'a db_scheme \<Rightarrow> bool result \<times> 'a db_scheme" where
  "HasHighRiskFixAction sid w0 =
    (case db_query_row (\<lambda>w. Some (high_risk_count sid w)) w0 of
       (Inl e, w1) \<Rightarrow> (Inl (wrap ''workflow: check high risk: '' e), w1)
     | (Inr count, w1) \<Rightarrow> (Inr (count > 0), w1))"

text \<open>\<open>SELECT status ... FOR UPDATE SKIP LOCKED\<close>: a row that another transaction has locked is
  skipped, as if it did not exist.\<close>

definition lock_session :: "uuid \<Rightarrow> 'a db_scheme \<Rightarrow> string result \<times> 'a db_scheme" where
  "lock_session sid w0 =
     db_query_row (\<lambda>w. if sid \<in> set (w_locked w) then None else status_of w sid) w0"

text \<open>\<open>UPDATE ... ; COMMIT\<close> inside the transaction.  When the update or the commit fails the
  transaction's only write is undone, even if just the answer of the update was lost; when the answer
  of the commit is lost the write stays although the caller sees an error.  The statuses written are
  those of the table, which fit the column (\<open>transition_statuses_fit\<close>).\<close>

definition update_and_commit :: "uuid \<Rightarrow> string \<Rightarrow> 'a db_scheme \<Rightarrow> gerror option \<times> 'a db_scheme" where
  "update_and_commit sid nextStatus w0 =
    (case db_exec (\<lambda>w. Inr (set_session sid (put_status (nextStatus, w_now w)) w)) w0 of
       (Some e, w1) \<Rightarrow> (Some (wrap ''workflow: update status: '' e), w1\<lparr>w_sessions := w_sessions w0\<rparr>)
     | (None, w1) \<Rightarrow>
        (case db_round_trip w1 of
           (Some e, w2) \<Rightarrow> (Some (wrap ''workflow: commit: '' e),
                           if answer_lost w1 then w2 else w2\<lparr>w_sessions := w_sessions w0\<rparr>)
         | (None, w2) \<Rightarrow> (None, w2)))"

definition commit_transition ::
  "uuid \<Rightarrow> string \<Rightarrow> string \<Rightarrow> 'a db_scheme \<Rightarrow> string result \<times> 'a db_scheme" where
  "commit_transition sid status nextStatus w0 =
    (case update_and_commit sid nextStatus w0 of
       (Some e, w1) \<Rightarrow> (Inl e, w1)
     | (None, w1) \<Rightarrow>
        (Inr nextStatus, snd (SessionEventDAO_LogStateTransition sid status nextStatus ''workflow'' w1)))"

definition tryTransition :: "uuid \<Rightarrow> string \<Rightarrow> 'a db_scheme \<Rightarrow> string result \<times> 'a db_scheme" where
  "tryTransition sid event w0 =
    (case db_round_trip w0 of
       (Some e, w1) \<Rightarrow> (Inl (wrap ''workflow: begin tx: '' e), w1)
     | (None, w1) \<Rightarrow>
     (case lock_session sid w1 of
       (Inl e, w2) \<Rightarrow>
         (if errors_is e ErrNoRows then (Inl (Sentinel ErrSessionNotFound), w2)
          else (Inl (wrap ''workflow: lock session: '' e), w2))
     | (Inr status, w2) \<Rightarrow>
     (case map_of ValidTransitions status of
       None \<Rightarrow> (Inl (ErrorString (''workflow: unknown current status '' @ quoted status)), w2)
     | Some eventMap \<Rightarrow>
     (case map_of eventMap event of
       None \<Rightarrow> (Inl (Wrapped [] (Sentinel ErrInvalidTransition) ('': '' @ status @ '' + '' @ event)), w2)
     | Some nextStatus \<Rightarrow>
     (if status = StatusFixProposed \<and> event = EventFixGenerated
      then (case determineFixProposedNextStatus sid w2 of
              (Inl e, w3) \<Rightarrow> (Inl e, w3)
            | (Inr next, w3) \<Rightarrow> commit_transition sid status next w3)
      else commit_transition sid status nextStatus w2)))))"

fun transition_attempts :: "nat \<Rightarrow> uuid \<Rightarrow> string \<Rightarrow> 'a db_scheme \<Rightarrow> string result \<times> 'a db_scheme" where
  "transition_attempts 0 sid event w =
     (Inl (ErrorString ''workflow: transition failed after 3 attempts''), w)"
| "transition_attempts (Suc n) sid event w =
     (case tryTransition sid event w of
        (Inr newStatus, w1) \<Rightarrow> (Inr newStatus, w1)
      | (Inl e, w1) \<Rightarrow>
          (if errors_is e ErrInvalidTransition \<or> errors_is e ErrSessionNotFound then (Inl e, w1)
           else transition_attempts n sid event (sleep (50 * Millisecond) w1)))"

definition Transition :: "uuid \<Rightarrow> string \<Rightarrow> 'a db_scheme \<Rightarrow> string result \<times> 'a db_scheme" where
  "Transition sid event w = transition_attempts 3 sid event w"

definition GetStatus :: "uuid \<Rightarrow> 'a db_scheme \<Rightarrow> string result \<times> 'a db_scheme" where
  "GetStatus sid w0 = (case SessionDAO_GetByID sid w0 of
       (Inl e, w1) \<Rightarrow> (Inl e, w1)
     | (Inr s, w1) \<Rightarrow> (Inr (s_Status s), w1))"

section \<open>Sweeps\<close>

text \<open>The loops over \<open>rows.Next()\<close>: each row's transition result is only logged, and
  \<open>rows.Err()\<close> is not consulted.\<close>

definition fire :: "string \<Rightarrow> uuid \<Rightarrow> 'a db_scheme \<Rightarrow> 'a db_scheme" where
  "fire event sid w = snd (Transition sid event w)"

definition stuck_sessions :: "'a db_scheme \<Rightarrow> uuid list" where
  "stuck_sessions w = map s_ID (filter (\<lambda>s. s_Status s = StatusCollecting \<and>
      s_UpdatedAt s < w_now w + (- 30 * Minute) \<and> s_ID s \<notin> set (w_locked w)) (w_sessions w))"

definition Sweep :: "'a db_scheme \<Rightarrow> gerror option \<times> 'a db_scheme" where
  "Sweep w0 = (case db_query stuck_sessions w0 of
       (Inl e, w1) \<Rightarrow> (Some (wrap ''workflow: sweep query: '' e), w1)
     | (Inr (ids, rerr), w1) \<Rightarrow> (None, fold (fire EventFail) ids w1))"

definition sessions_in :: "string \<Rightarrow> 'a db_scheme \<Rightarrow> uuid list" where
  "sessions_in st w = map s_ID (filter (\<lambda>s. s_Status s = st) (w_sessions w))"

definition SweepFixProposed :: "'a db_scheme \<Rightarrow> gerror option \<times> 'a db_scheme" where
  "SweepFixProposed w0 = (case db_query (sessions_in StatusFixProposed) w0 of
       (Inl e, w1) \<Rightarrow> (Some (wrap ''workflow: sweep fix_proposed query: '' e), w1)
     | (Inr (ids, rerr), w1) \<Rightarrow> (None, fold (fire EventFixGenerated) ids w1))"

text \<open>The event chosen for a session under verification, from its fix actions.\<close>

definition verify_event :: "FixAction list \<Rightarrow> string" where
  "verify_event fixes =
    (let allSucceeded = (length fixes > 0 \<and>
           (\<forall>fa \<in> set fixes. fa_ExecutionStatus fa = ExecStatusSucceeded));
         anyFailed = (\<exists>fa \<in> set fixes. fa_ExecutionStatus fa = ExecStatusFailed)
     in if anyFailed then EventVerifyFailure
        else if \<not> allSucceeded \<and> length fixes = 0 then EventVerifyFailure
        else EventVerifySuccess)"

definition verify_session :: "uuid \<Rightarrow> 'a db_scheme \<Rightarrow> 'a db_scheme" where
  "verify_session sid w0 =
    (case FixActionDAO_GetBySessionID sid w0 of
       (Inl e, w1) \<Rightarrow> fire (verify_event []) sid w1
     | (Inr fixes, w1) \<Rightarrow> fire (verify_event fixes) sid w1)"

definition SweepVerifying :: "'a db_scheme \<Rightarrow> gerror option \<times> 'a db_scheme" where
  "SweepVerifying w0 = (case db_query (sessions_in StatusVerifying) w0 of
       (Inl e, w1) \<Rightarrow> (Some (wrap ''workflow: sweep verifying query: '' e), w1)
     | (Inr (ids, rerr), w1) \<Rightarrow> (None, fold verify_session ids w1))"


section \<open>What one transition does to the database\<close>

text \<open>The engine writes sessions and the event log only; every other table, the locks and the
  caller's own state are left alone.\<close>

definition engine_frame :: "'a db_scheme \<Rightarrow> 'a db_scheme \<Rightarrow> bool" where
  "engine_frame w w' \<longleftrightarrow> w_fix_actions w' = w_fix_actions w \<and> w_approvals w' = w_approvals w \<and>
     w_kb w' = w_kb w \<and> w_locked w' = w_locked w \<and> w_fresh w' = w_fresh w \<and> db.more w' = db.more w"

lemma engine_frame_refl [simp]: "engine_frame w w"
  by (simp add: engine_frame_def)

lemma engine_frame_trans: "engine_frame u v \<Longrightarrow> engine_frame v w \<Longrightarrow> engine_frame u w"
  by (simp add: engine_frame_def)

lemma engine_frame_pop [simp]:
  "engine_frame w (pop_fault w') = engine_frame w w'" "engine_frame (pop_fault w) w' = engine_frame w w'"
  by (simp_all add: engine_frame_def)

lemma engine_frame_sleep [simp]: "engine_frame w (sleep d w)"
  by (simp add: engine_frame_def sleep_def)

lemma sessions_sleep [simp]: "w_sessions (sleep d w) = w_sessions w" "w_faults (sleep d w) = w_faults w"
  "w_events (sleep d w) = w_events w"
  by (simp_all add: sleep_def)

lemma log_transition_frame:
  assumes "SessionEventDAO_LogStateTransition sid a b src w = (r, w')"
  shows "w_sessions w' = w_sessions w \<and> engine_frame w w'"
proof -
  let ?ev = "state_change_event sid a b src"
  obtain ev1 w1 where 1: "(if ev_ID ?ev = uuid_Nil then (case uuid_New w of (i, w) \<Rightarrow> (?ev\<lparr>ev_ID := i\<rparr>, w))
      else (?ev, w)) = (ev1, w1)" by force
  have w1: "w_sessions w1 = w_sessions w" "engine_frame w w1"
    using 1 by (auto simp: uuid_New_def engine_frame_def state_change_event_def)
  obtain err w2 where 2: "db_exec (fitted fit_event insert_event
      (if ev_Timestamp ev1 = 0 then ev1\<lparr>ev_Timestamp := w_now w1\<rparr> else ev1)) w1 = (err, w2)"
    by force
  then have w2: "w_sessions w2 = w_sessions w1 \<and> engine_frame w1 w2"
    by (cases rule: db_exec_cases)
       (auto simp: insert_event_def engine_frame_def split: if_splits dest!: fitted_ok)
  have "w' = w2"
    using assms 1 2 unfolding SessionEventDAO_LogStateTransition_def SessionEventDAO_Create_def Let_def
    by (auto split: option.splits)
  with w1 w2 show ?thesis by (auto intro: engine_frame_trans)
qed

lemma update_and_commit_cases:
  assumes "update_and_commit sid n w = (r, w')"
  obtains (err) e where "r = Some e" "w_sessions w' = w_sessions w" "engine_frame w w'"
      "w_events w' = w_events w"
  | (ok) "r = None"
      "w_sessions w' = tbl_update (\<lambda>s. s_ID s = sid) (put_status (n, w_now w)) (w_sessions w)"
      "engine_frame w w'"
  | (lost) m where "r = Some (wrap ''workflow: commit: '' (ErrorString m))" "\<not> no_lost w"
      "w_sessions w' = tbl_update (\<lambda>s. s_ID s = sid) (put_status (n, w_now w)) (w_sessions w)"
      "engine_frame w w'" "w_events w' = w_events w"
proof -
  obtain r1 w1 where 1: "db_exec (\<lambda>w. Inr (set_session sid (put_status (n, w_now w)) w)) w = (r1, w1)"
    by force
  from 1 show thesis
  proof (cases rule: db_exec_cases)
    case (err e)
    with assms 1 that(1) show thesis
      by (auto simp: update_and_commit_def engine_frame_def)
  next
    case (lost m)
    with assms 1 that(1) show thesis
      by (auto simp: update_and_commit_def engine_frame_def set_session_def)
  next
    case ok
    have w1: "w_sessions w1 = tbl_update (\<lambda>s. s_ID s = sid) (put_status (n, w_now w)) (w_sessions w)"
      "engine_frame w w1" "w_events w1 = w_events w" "no_lost w \<Longrightarrow> no_lost w1"
      using ok(2) by (auto simp: set_session_def engine_frame_def)
    show thesis
    proof (cases "answer_lost w1")
      case True
      then obtain m where m: "next_fault w1 = Some (ErrorString m)" using answer_lost_fault by blast
      have "\<not> no_lost w" using True w1(4) no_lost_answer by blast
      moreover have "r = Some (wrap ''workflow: commit: '' (ErrorString m))" "w' = pop_fault w1"
        using assms 1 ok(1) True m by (simp_all add: update_and_commit_def db_round_trip_def)
      ultimately show thesis using w1(1,2,3) that(3) [of m] by simp
    next
      case False
      show thesis
        using assms 1 ok False w1(1,2) that(1,2)
        by (auto simp: update_and_commit_def db_round_trip_def set_session_def engine_frame_def
                 split: option.splits)
    qed
  qed
qed

lemma commit_transition_cases:
  assumes "commit_transition sid s n w = (r, w')"
  obtains (err) e where "r = Inl e" "w_sessions w' = w_sessions w" "engine_frame w w'"
      "w_events w' = w_events w"
  | (ok) "r = Inr n"
      "w_sessions w' = tbl_update (\<lambda>s. s_ID s = sid) (put_status (n, w_now w)) (w_sessions w)"
      "engine_frame w w'"
  | (lost) m where "r = Inl (wrap ''workflow: commit: '' (ErrorString m))" "\<not> no_lost w"
      "w_sessions w' = tbl_update (\<lambda>s. s_ID s = sid) (put_status (n, w_now w)) (w_sessions w)"
      "engine_frame w w'" "w_events w' = w_events w"
proof -
  obtain r1 w1 where 1: "update_and_commit sid n w = (r1, w1)" by force
  from 1 show thesis
  proof (cases rule: update_and_commit_cases)
    case (err e)
    with assms 1 that(1) show thesis by (auto simp: commit_transition_def)
  next
    case (lost m)
    with assms 1 that(3) show thesis by (auto simp: commit_transition_def)
  next
    case ok
    obtain r2 w2 where 2: "SessionEventDAO_LogStateTransition sid s n ''workflow'' w1 = (r2, w2)"
      by force
    have "r = Inr n" "w' = w2" using assms 1 2 ok by (simp_all add: commit_transition_def)
    with ok log_transition_frame [OF 2] that(2) show thesis
      by (auto intro: engine_frame_trans)
  qed
qed

text \<open>The next status, given whether a HIGH-risk action is pending.\<close>

definition next_status :: "bool \<Rightarrow> string \<Rightarrow> string \<Rightarrow> string option" where
  "next_status high s e = (case map_of ValidTransitions s of
       None \<Rightarrow> None
     | Some m \<Rightarrow> (case map_of m e of
         None \<Rightarrow> None
       | Some n \<Rightarrow> Some (if s = StatusFixProposed \<and> e = EventFixGenerated
                        then (if high then StatusAwaitingApproval else StatusFixSuggested) else n)))"

definition status_step :: "string \<Rightarrow> string \<Rightarrow> bool" where
  "status_step s s' \<longleftrightarrow> (case map_of ValidTransitions s of
       None \<Rightarrow> False
     | Some m \<Rightarrow> s' \<in> set (map snd m) \<or> s = StatusFixProposed \<and> s' = StatusAwaitingApproval)"

lemma next_status_step:
  assumes "next_status high s e = Some s'"
  shows "status_step s s'"
proof -
  from assms obtain m n where m: "map_of ValidTransitions s = Some m" "map_of m e = Some n"
    and s': "s' = (if s = StatusFixProposed \<and> e = EventFixGenerated
      then (if high then StatusAwaitingApproval else StatusFixSuggested) else n)"
    by (auto simp: next_status_def split: option.splits)
  from m(2) have "n \<in> set (map snd m)" by (force dest: map_of_SomeD)
  moreover have "m = the (map_of ValidTransitions s)" using m(1) by simp
  then have "s = StatusFixProposed \<Longrightarrow> StatusFixSuggested \<in> set (map snd m)"
    by (simp add: ValidTransitions_def)
  ultimately show ?thesis using m(1) s' by (simp add: status_step_def)
qed

lemma tryTransition_cases:
  assumes "tryTransition sid ev w = (r, w')"
  obtains (err) e where "r = Inl e" "w_sessions w' = w_sessions w" "engine_frame w w'"
      "w_events w' = w_events w"
  | (ok) s n where "r = Inr n" "sid \<notin> set (w_locked w)" "status_of w sid = Some s"
      "next_status (high_risk_count sid w > 0) s ev = Some n"
      "w_sessions w' = tbl_update (\<lambda>s. s_ID s = sid) (put_status (n, w_now w)) (w_sessions w)"
      "engine_frame w w'"
  | (lost) s n m where "r = Inl (wrap ''workflow: commit: '' (ErrorString m))" "\<not> no_lost w"
      "sid \<notin> set (w_locked w)" "status_of w sid = Some s"
      "next_status (high_risk_count sid w > 0) s ev = Some n"
      "w_sessions w' = tbl_update (\<lambda>s. s_ID s = sid) (put_status (n, w_now w)) (w_sessions w)"
      "engine_frame w w'" "w_events w' = w_events w"
proof -
  have lostp: "\<And>w. \<not> no_lost (pop_fault w) \<Longrightarrow> \<not> no_lost w" using no_lost_pop by blast
  have pops: "\<And>w. status_of (pop_fault w) = status_of w" "\<And>w. high_risk_count sid (pop_fault w) = high_risk_count sid w"
    by (auto simp: status_of_def find_session_def high_risk_count_def fun_eq_iff)
  consider (begin_err) e where "next_fault w = Some e" | (begin_ok) "next_fault w = None" by force
  then show thesis
  proof cases
    case begin_err
    then have "r = Inl (wrap ''workflow: begin tx: '' e)" "w' = pop_fault w"
      using assms by (simp_all add: tryTransition_def db_round_trip_def)
    with that(1) show thesis by simp
  next
    case begin_ok
    obtain r2 w2 where 2: "lock_session sid (pop_fault w) = (r2, w2)" by force
    from 2 [unfolded lock_session_def] show thesis
    proof (cases rule: db_query_row_cases)
      case (err e)
      with assms begin_ok 2 that(1) show thesis
        by (auto simp: tryTransition_def db_round_trip_def split: if_splits)
    next
      case (ok s)
      then have s: "sid \<notin> set (w_locked w)" "status_of w sid = Some s" "w2 = pop_fault (pop_fault w)"
        by (auto simp: pops split: if_splits)
      show thesis
      proof (cases "next_status (high_risk_count sid w > 0) s ev")
        case None
        with assms begin_ok 2 ok s that(1) show thesis
          by (auto simp: tryTransition_def db_round_trip_def next_status_def split: option.splits)
      next
        case (Some n)
        then obtain m k where m: "map_of ValidTransitions s = Some m" "map_of m ev = Some k"
          and n: "n = (if s = StatusFixProposed \<and> ev = EventFixGenerated
             then (if high_risk_count sid w > 0 then StatusAwaitingApproval else StatusFixSuggested) else k)"
          by (auto simp: next_status_def split: option.splits)
        show thesis
        proof (cases "s = StatusFixProposed \<and> ev = EventFixGenerated")
          case True
          obtain r3 w3 where 3: "determineFixProposedNextStatus sid w2 = (r3, w3)" by force
          have w3: "w3 = pop_fault w2"
            using 3 by (auto simp: determineFixProposedNextStatus_def db_query_row_def split: option.splits)
          show thesis
          proof (cases r3)
            case (Inl e)
            with assms begin_ok 2 3 ok s m True w3 that(1) show thesis
              by (auto simp: tryTransition_def db_round_trip_def engine_frame_def)
          next
            case (Inr k')
            then have k': "k' = n"
              using 3 n True s(3) by (auto simp: determineFixProposedNextStatus_def db_query_row_def pops split: option.splits)
            have 4: "commit_transition sid s n w3 = (r, w')"
              using assms begin_ok 2 3 ok s m True Inr k' by (simp add: tryTransition_def db_round_trip_def)
            from 4 show thesis
              by (cases rule: commit_transition_cases)
                 (use that s Some w3 in \<open>auto simp: engine_frame_def dest!: lostp\<close>)
          qed
        next
          case False
          have 4: "commit_transition sid s n w2 = (r, w')"
            using assms begin_ok 2 ok s m n False by (auto simp: tryTransition_def db_round_trip_def)
          from 4 show thesis
            by (cases rule: commit_transition_cases)
               (use that s Some in \<open>auto simp: engine_frame_def dest!: lostp\<close>)
        qed
      qed
    qed
  qed
qed

text \<open>A commit whose answer was lost has already moved the session: the event is not allowed again in
  the status that it leads to, so a further attempt changes nothing.\<close>

lemma event_not_repeated:
  assumes "next_status high s ev = Some n"
  shows "next_status high' n ev = None"
proof -
  have table: "\<forall>(s, m) \<in> set ValidTransitions. \<forall>(e, n) \<in> set m.
      \<forall>k \<in> set (if s = StatusFixProposed \<and> e = EventFixGenerated then [StatusAwaitingApproval, StatusFixSuggested] else [n]).
        case map_of ValidTransitions k of None \<Rightarrow> True | Some m' \<Rightarrow> map_of m' e = None"
    by code_simp
  obtain m k where m: "map_of ValidTransitions s = Some m" "map_of m ev = Some k"
    and n: "n = (if s = StatusFixProposed \<and> ev = EventFixGenerated
             then (if high then StatusAwaitingApproval else StatusFixSuggested) else k)"
    using assms by (auto simp: next_status_def split: option.splits)
  have "(s, m) \<in> set ValidTransitions" "(ev, k) \<in> set m" using m by (simp_all add: map_of_SomeD)
  with table have "\<forall>k' \<in> set (if s = StatusFixProposed \<and> ev = EventFixGenerated
      then [StatusAwaitingApproval, StatusFixSuggested] else [k]).
        case map_of ValidTransitions k' of None \<Rightarrow> True | Some m' \<Rightarrow> map_of m' ev = None" by fast
  with n have "case map_of ValidTransitions n of None \<Rightarrow> True | Some m' \<Rightarrow> map_of m' ev = None"
    by (simp split: if_splits)
  then show ?thesis by (auto simp: next_status_def split: option.splits)
qed

lemma transition_statuses_fit:
  assumes "next_status high s ev = Some n"
  shows "varchar 32 n = Some n"
proof -
  have table: "\<forall>(s, m) \<in> set ValidTransitions. \<forall>(e, n) \<in> set m. varchar 32 n = Some n" by code_simp
  obtain m k where m: "map_of ValidTransitions s = Some m" "map_of m ev = Some k"
    and n: "n \<in> {StatusAwaitingApproval, StatusFixSuggested, k}"
    using assms by (auto simp: next_status_def split: option.splits if_splits)
  have "(s, m) \<in> set ValidTransitions" "(ev, k) \<in> set m" using m by (simp_all add: map_of_SomeD)
  with table have "varchar 32 k = Some k" by fast
  moreover have "varchar 32 StatusAwaitingApproval = Some StatusAwaitingApproval"
    "varchar 32 StatusFixSuggested = Some StatusFixSuggested" by (simp_all add: varchar_short)
  ultimately show ?thesis using n by auto
qed

text \<open>Only the pause between two attempts moves the clock.\<close>

lemma log_transition_clock:
  "SessionEventDAO_LogStateTransition sid a b src w = (r, w') \<Longrightarrow> w_now w' = w_now w"
  by (auto simp: SessionEventDAO_LogStateTransition_def SessionEventDAO_Create_def uuid_New_def db_exec_def
        insert_event_def Let_def split: prod.splits option.splits if_splits sum.splits dest!: fitted_ok)

lemma update_and_commit_clock: "update_and_commit sid n w = (r, w') \<Longrightarrow> w_now w' = w_now w"
  by (auto simp: update_and_commit_def db_exec_def db_round_trip_def set_session_def split: option.splits)

lemma commit_transition_clock: "commit_transition sid s n w = (r, w') \<Longrightarrow> w_now w' = w_now w"
  by (auto simp: commit_transition_def split: prod.splits option.splits
        dest!: update_and_commit_clock intro: log_transition_clock [OF surjective_pairing])
     (metis log_transition_clock surjective_pairing)+

lemma tryTransition_clock: "tryTransition sid ev w = (r, w') \<Longrightarrow> w_now w' = w_now w"
  by (auto simp: tryTransition_def lock_session_def determineFixProposedNextStatus_def db_round_trip_def
        db_query_row_def dest!: commit_transition_clock
        split: prod.splits option.splits if_splits sum.splits)

lemma log_transition_no_lost:
  "SessionEventDAO_LogStateTransition sid a b src w = (r, w') \<Longrightarrow> no_lost w \<Longrightarrow> no_lost w'"
  by (auto simp: SessionEventDAO_LogStateTransition_def SessionEventDAO_Create_def uuid_New_def db_exec_def
        insert_event_def Let_def
        split: prod.splits option.splits if_splits sum.splits dest!: fitted_ok)

lemma update_and_commit_no_lost: "update_and_commit sid n w = (r, w') \<Longrightarrow> no_lost w \<Longrightarrow> no_lost w'"
  by (auto simp: update_and_commit_def db_exec_def db_round_trip_def set_session_def
        split: option.splits if_splits)

lemma commit_transition_no_lost: "commit_transition sid s n w = (r, w') \<Longrightarrow> no_lost w \<Longrightarrow> no_lost w'"
  by (auto simp: commit_transition_def split: prod.splits option.splits
        dest: update_and_commit_no_lost intro: log_transition_no_lost [OF surjective_pairing])

lemma tryTransition_no_lost: "tryTransition sid ev w = (r, w') \<Longrightarrow> no_lost w \<Longrightarrow> no_lost w'"
  by (auto simp: tryTransition_def lock_session_def determineFixProposedNextStatus_def db_round_trip_def
        db_query_row_def intro: commit_transition_no_lost no_lost_pop
        split: prod.splits option.splits if_splits sum.splits)

text \<open>The retry loop: a failed call leaves the sessions and the log alone, unless the answer of a commit
  was lost; a successful one makes one step of the table, at a time not before the call.\<close>

lemma transition_attempts_cases:
  assumes "transition_attempts k sid ev w = (r, w')"
  obtains (err) e where "r = Inl e" "w_sessions w' = w_sessions w" "engine_frame w w'"
      "w_events w' = w_events w"
  | (ok) s n t where "r = Inr n" "sid \<notin> set (w_locked w)" "status_of w sid = Some s"
      "next_status (high_risk_count sid w > 0) s ev = Some n" "w_now w \<le> t"
      "w_sessions w' = tbl_update (\<lambda>s. s_ID s = sid) (put_status (n, t)) (w_sessions w)"
      "engine_frame w w'"
  | (lost) e s n t where "r = Inl e" "\<not> no_lost w" "sid \<notin> set (w_locked w)" "status_of w sid = Some s"
      "next_status (high_risk_count sid w > 0) s ev = Some n" "w_now w \<le> t"
      "w_sessions w' = tbl_update (\<lambda>s. s_ID s = sid) (put_status (n, t)) (w_sessions w)"
      "engine_frame w w'" "w_events w' = w_events w"
  using assms
proof (induction k arbitrary: w thesis)
  case 0
  then show ?case by auto
next
  case (Suc k)
  obtain r1 w1 where 1: "tryTransition sid ev w = (r1, w1)" by force
  have clock: "w_now w1 = w_now w" using 1 by (rule tryTransition_clock)
  let ?w = "sleep (50 * Millisecond) w1"
  have lost1: "no_lost w \<Longrightarrow> no_lost ?w" using tryTransition_no_lost [OF 1] by (simp add: no_lost_def)
  from 1 show ?case
  proof (cases rule: tryTransition_cases)
    case (ok s n)
    moreover have "r = Inr n" "w' = w1" using Suc.prems(4) 1 ok(1) by simp_all
    ultimately show ?thesis using Suc.prems(2) [of n s "w_now w"] by blast
  next
    case (err e)
    note e = this
    show ?thesis
    proof (cases "errors_is e ErrInvalidTransition \<or> errors_is e ErrSessionNotFound")
      case True
      then show ?thesis using Suc.prems 1 e by auto
    next
      case False
      have rec: "transition_attempts k sid ev ?w = (r, w')"
        using Suc.prems(4) 1 e False by simp
      have st: "status_of ?w sid = status_of w sid" "high_risk_count sid ?w = high_risk_count sid w"
        "w_locked ?w = w_locked w" "w_now w \<le> w_now ?w"
        using e clock by (auto simp: status_of_def find_session_def high_risk_count_def engine_frame_def sleep_def)
      from Suc.IH [OF _ _ _ rec] Suc.prems(1,2,3) e st lost1 show ?thesis
        by (smt (verit) engine_frame_trans engine_frame_sleep sessions_sleep)
    qed
  next
    case (lost s n m)
    have rec: "transition_attempts k sid ev ?w = (r, w')"
      using Suc.prems(4) 1 lost(1) by simp
    have "\<exists>x. find_session sid w = Some x" using lost(4) by (auto simp: status_of_def)
    then have st: "status_of ?w sid = Some n"
      using lost(6) by (auto simp: status_of_def find_session_def sleep_def status_rows.find_put)
    have frame: "engine_frame w ?w" "w_events ?w = w_events w"
      using lost(7,8) engine_frame_trans engine_frame_sleep by (blast, simp)
    have rejected: "\<And>h. next_status h n ev \<noteq> Some n'" for n' using event_not_repeated [OF lost(5)] by simp
    have "\<exists>e. r = Inl e \<and> w_sessions w' = w_sessions ?w \<and> engine_frame ?w w' \<and> w_events w' = w_events ?w"
      by (rule Suc.IH [OF _ _ _ rec]) (use st rejected in auto)
    then obtain e where e: "r = Inl e" "w_sessions w' = w_sessions w1" "engine_frame w w'" "w_events w' = w_events w"
      using frame engine_frame_trans by (metis sessions_sleep(1))
    show ?thesis
      by (rule Suc.prems(3) [OF e(1) lost(2-5) order_refl trans [OF e(2) lost(6)] e(3,4)])
  qed
qed

end
