(* ===== verification/Workflow_Laws.thy ===== *)
theory Workflow_Laws imports Workflow begin

text \<open>
  The contract of the workflow engine as an interface: what a caller of \<open>Transition\<close> may rely
  on, the consequences for any sequence of calls, and the interpretation on the engine of
  \<open>Workflow\<close>.  The second half evaluates a transition and the three sweeps on a database that
  answers every statement.
\<close>

section \<open>The interface of a transition engine\<close>

text \<open>\<open>run_calls\<close> makes the calls of a list in order and collects their results;
  \<open>successes\<close> counts the calls on one key that returned no error.\<close>

fun run_calls :: "('k \<Rightarrow> 'e \<Rightarrow> 'w \<Rightarrow> 'r \<times> 'w) \<Rightarrow> ('k \<times> 'e) list \<Rightarrow> 'w \<Rightarrow> ('k \<times> 'r) list \<times> 'w" where
  "run_calls call [] w = ([], w)"
| "run_calls call ((k, e) # cs) w =
     (let (r, w1) = call k e w; (rs, w2) = run_calls call cs w1 in ((k, r) # rs, w2))"

definition successes :: "'k \<Rightarrow> ('k \<times> 'a result) list \<Rightarrow> nat" where
  "successes k rs = length (filter (\<lambda>(j, r). j = k \<and> is_ok r) rs)"

lemma successes_simps [simp]:
  "successes k [] = 0"
  "successes k ((j, r) # rs) = (if j = k \<and> is_ok r then Suc (successes k rs) else successes k rs)"
  by (simp_all add: successes_def)

text \<open>A call that returns an error has usually done nothing; when the answer of its commit was lost it
  has made its step all the same.\<close>

text \<open>The number of calls that changed the status of one key.\<close>

fun status_changes :: "('w \<Rightarrow> 'k \<Rightarrow> 's option) \<Rightarrow> ('k \<Rightarrow> 'e \<Rightarrow> 'w \<Rightarrow> 'r \<times> 'w) \<Rightarrow> 'k \<Rightarrow> ('k \<times> 'e) list \<Rightarrow> 'w \<Rightarrow> nat" where
  "status_changes status call j [] w = 0"
| "status_changes status call j ((k, e) # cs) w =
     (let w1 = snd (call k e w) in
      (if status w1 j \<noteq> status w j then 1 else 0) + status_changes status call j cs w1)"

locale transition_engine =
  fixes status :: "'w \<Rightarrow> 'k \<Rightarrow> 's option"
    and step :: "'s \<Rightarrow> 's \<Rightarrow> bool"
    and rank :: "'s \<Rightarrow> nat"
    and call :: "'k \<Rightarrow> 'e \<Rightarrow> 'w \<Rightarrow> 's result \<times> 'w"
  assumes call_err: "call k e w = (Inl x, w') \<Longrightarrow> status w' = status w \<or>
      (\<exists>s n. status w k = Some s \<and> step s n \<and> status w' = (status w)(k \<mapsto> n))"
    and call_ok: "call k e w = (Inr n, w') \<Longrightarrow>
      \<exists>s. status w k = Some s \<and> step s n \<and> status w' = (status w)(k \<mapsto> n)"
    and step_rank: "step s n \<Longrightarrow> rank n < rank s"
begin

lemma call_effect:
  assumes "call k e w = (r, w')"
  obtains (same) "status w' = status w" "\<not> is_ok r"
  | (moved) s n where "status w k = Some s" "step s n" "status w' = (status w)(k \<mapsto> n)"
proof (cases r)
  case (Inl x)
  with assms have "call k e w = (Inl x, w')" by simp
  then consider "status w' = status w" | s n where "status w k = Some s" "step s n" "status w' = (status w)(k \<mapsto> n)"
    using call_err by blast
  then show thesis using Inl by cases (simp_all add: same moved)
next
  case (Inr n)
  with assms have "call k e w = (Inr n, w')" by simp
  then obtain s where "status w k = Some s" "step s n" "status w' = (status w)(k \<mapsto> n)"
    using call_ok by blast
  then show thesis by (rule moved)
qed

lemma call_evolves:
  assumes "status w j = Some s" and "call k e w = (r, w')"
  obtains s' where "status w' j = Some s'" "step\<^sup>*\<^sup>* s s'"
  using assms(2)
proof (cases rule: call_effect)
  case same
  with assms that show thesis by auto
next
  case (moved s0 n)
  with assms that show thesis by (cases "j = k") auto
qed

lemma call_unknown: "status w j = None \<Longrightarrow> call k e w = (r, w') \<Longrightarrow> status w' j = None"
  by (erule call_effect) auto

lemma run_evolves:
  assumes "status w j = Some s"
  shows "\<exists>s'. status (snd (run_calls call cs w)) j = Some s' \<and> step\<^sup>*\<^sup>* s s' \<and>
    successes j (fst (run_calls call cs w)) + rank s' \<le> rank s"
  using assms
proof (induction cs arbitrary: w s)
  case Nil
  then show ?case by auto
next
  case (Cons c cs)
  obtain k e where c: "c = (k, e)" by force
  obtain r w1 where t: "call k e w = (r, w1)" by force
  have "\<exists>s1. status w1 j = Some s1 \<and> step\<^sup>*\<^sup>* s s1 \<and>
      (if k = j \<and> is_ok r then 1 else 0) + rank s1 \<le> rank s"
    using t
  proof (cases rule: call_effect)
    case same
    with Cons.prems show ?thesis by auto
  next
    case (moved s0 n)
    show ?thesis
    proof (cases "j = k")
      case True
      with moved Cons.prems have "step s n" "status w1 j = Some n" by simp_all
      with step_rank [of s n] show ?thesis by auto
    next
      case False
      with moved Cons.prems show ?thesis by auto
    qed
  qed
  then obtain s1 where s1: "status w1 j = Some s1" "step\<^sup>*\<^sup>* s s1"
    "(if k = j \<and> is_ok r then 1 else 0) + rank s1 \<le> rank s" by blast
  from Cons.IH [OF s1(1)] s1(2,3) t c show ?case
    by (auto simp: Let_def split: prod.splits if_splits)
qed

lemma run_bounded:
  "status w j = Some s \<Longrightarrow> successes j (fst (run_calls call cs w)) \<le> rank s"
  using run_evolves [of w j s cs] by auto

lemma changes_bounded:
  "status w j = Some s \<Longrightarrow> status_changes status call j cs w \<le> rank s"
proof (induction cs arbitrary: w s)
  case (Cons c cs)
  obtain k e where c: "c = (k, e)" by force
  obtain r w1 where t: "call k e w = (r, w1)" by force
  from t have "\<exists>s1. status w1 j = Some s1 \<and> (if status w1 j \<noteq> status w j then 1 else 0) + rank s1 \<le> rank s"
  proof (cases rule: call_effect)
    case (moved s0 n)
    then show ?thesis using Cons.prems step_rank [of s0 n] by (cases "j = k") auto
  qed (use Cons.prems in auto)
  then obtain s1 where s1: "status w1 j = Some s1" "(if status w1 j \<noteq> status w j then 1 else 0) + rank s1 \<le> rank s"
    by blast
  from Cons.IH [OF s1(1)] s1(2) show ?case by (simp add: c t split: if_splits)
qed simp

lemma rank_zero_stuck: "rank s = 0 \<Longrightarrow> \<not> step s n"
  using step_rank [of s n] by auto

lemma steps_from_rank_zero: "step\<^sup>*\<^sup>* s s' \<Longrightarrow> rank s = 0 \<Longrightarrow> s' = s"
  by (induction rule: converse_rtranclp_induct) (auto dest: rank_zero_stuck)

lemma frozen:
  assumes "status w j = Some s" and "rank s = 0"
  shows "status (snd (run_calls call cs w)) j = Some s \<and> successes j (fst (run_calls call cs w)) = 0"
  using run_evolves [OF assms(1), of cs] assms(2) steps_from_rank_zero by auto

end

section \<open>The interpretation on the engine\<close>

text \<open>The rank of a status is the length of the longest path of the table from it.\<close>

definition status_rank :: "string \<Rightarrow> nat" where
  "status_rank s = (case map_of
     [(StatusCreated, 8), (StatusCollecting, 7), (StatusAnalyzing, 6), (StatusRCADone, 5),
      (StatusFixProposed, 4), (StatusAwaitingApproval, 3), (StatusFixSuggested, 3),
      (StatusFixExecuting, 2), (StatusVerifying, 1)] s of Some n \<Rightarrow> n | None \<Rightarrow> 0)"

lemma table_ranks:
  "list_all (\<lambda>(s, m). list_all (\<lambda>(e, n). status_rank n < status_rank s) m) ValidTransitions"
  by code_simp

lemma status_step_rank:
  assumes "status_step s n"
  shows "status_rank n < status_rank s"
proof -
  from assms obtain m where m: "map_of ValidTransitions s = Some m"
    and n: "n \<in> set (map snd m) \<or> s = StatusFixProposed \<and> n = StatusAwaitingApproval"
    by (auto simp: status_step_def split: option.splits)
  have "n \<in> set (map snd m) \<Longrightarrow> status_rank n < status_rank s"
    using table_ranks map_of_SomeD [OF m] by (fastforce simp: list_all_iff)
  moreover have "status_rank StatusAwaitingApproval < status_rank StatusFixProposed" by code_simp
  ultimately show ?thesis using n by auto
qed

lemma status_of_update:
  "w_sessions w' = tbl_update (\<lambda>s. s_ID s = i) (put_status (n, t)) (w_sessions w) \<Longrightarrow>
   status_of w i = Some s \<Longrightarrow> status_of w' = (status_of w)(i \<mapsto> n)"
  by (rule ext) (auto simp: status_of_def find_session_def status_rows.find_put)

lemma status_of_same: "w_sessions w' = w_sessions w \<Longrightarrow> status_of w' = status_of w"
  by (rule ext) (simp add: status_of_def find_session_def)

lemma Transition_cases:
  assumes "Transition sid ev w = (r, w')"
  obtains (err) e where "r = Inl e" "w_sessions w' = w_sessions w" "engine_frame w w'"
      "w_events w' = w_events w"
  | (ok) s n t where "r = Inr n" "sid \<notin> set (w_locked w)" "status_of w sid = Some s"
      "next_status (high_risk_count sid w > 0) s ev = Some n" "w_now w \<le> t"
      "w_sessions w' = tbl_update (\<lambda>s. s_ID s = sid) (put_status (n, t)) (w_sessions w)"
      "engine_frame w w'"
  | (lost) e s n t where "r = Inl e" "\<not> no_lost w" "sid \<notin> set (w_locked w)" "status_of w sid = Some s"
      "next_status (high_risk_count sid w > 0) s ev = Some n" "w_now w \<le> t"
      "w_sessions w' = tbl_update (\<lambda>s. s_ID s = sid) (put_status (n, t)) (w_sessions w)"
      "engine_frame w w'" "w_events w' = w_events w"
  using assms unfolding Transition_def by (rule transition_attempts_cases) (use that in blast)+

text \<open>A status that a call returns, or that the session has afterwards and did not have before, is the
  next one of the table.\<close>

lemma Transition_moves:
  assumes "Transition sid ev w = (r, w')" and "r = Inr n \<or> status_of w' sid = Some n \<and> status_of w sid \<noteq> Some n"
  obtains s where "status_of w sid = Some s" "next_status (high_risk_count sid w > 0) s ev = Some n"
  using assms(1)
proof (cases rule: Transition_cases)
  case (err e)
  with assms(2) that show thesis by (auto dest: status_of_same)
next
  case (ok s m t)
  with assms(2) status_of_update [OF ok(6,3)] that show thesis by auto
next
  case (lost e s m t)
  with assms(2) status_of_update [OF lost(7,4)] that show thesis by auto
qed

interpretation engine: transition_engine status_of status_step status_rank Transition
proof unfold_locales
  fix k e w x w'
  assume "Transition k e w = (Inl x, w' :: 'a db_scheme)"
  then show "status_of w' = status_of w \<or>
      (\<exists>s n. status_of w k = Some s \<and> status_step s n \<and> status_of w' = (status_of w)(k \<mapsto> n))"
    by (cases rule: Transition_cases) (auto dest: next_status_step status_of_same intro: status_of_update)
next
  fix k e w n w'
  assume "Transition k e w = (Inr n, w' :: 'a db_scheme)"
  then show "\<exists>s. status_of w k = Some s \<and> status_step s n \<and> status_of w' = (status_of w)(k \<mapsto> n)"
    by (cases rule: Transition_cases) (auto dest: next_status_step intro: status_of_update)
qed (rule status_step_rank)

text \<open>One attempt, the transaction itself, keeps the same contract.\<close>

interpretation attempt: transition_engine status_of status_step status_rank tryTransition
proof unfold_locales
  fix k e w x w'
  assume "tryTransition k e w = (Inl x, w' :: 'a db_scheme)"
  then show "status_of w' = status_of w \<or>
      (\<exists>s n. status_of w k = Some s \<and> status_step s n \<and> status_of w' = (status_of w)(k \<mapsto> n))"
    by (cases rule: tryTransition_cases) (auto dest: next_status_step status_of_same intro: status_of_update)
next
  fix k e w n w'
  assume "tryTransition k e w = (Inr n, w' :: 'a db_scheme)"
  then show "\<exists>s. status_of w k = Some s \<and> status_step s n \<and> status_of w' = (status_of w)(k \<mapsto> n)"
    by (cases rule: tryTransition_cases) (auto dest: next_status_step intro: status_of_update)
qed (rule status_step_rank)

lemma table_terminals:
  "list_all (\<lambda>(s, m). length m = 0 \<longrightarrow> status_rank s = 0) ValidTransitions"
  by code_simp

lemma IsTerminal_rank: "IsTerminal s \<Longrightarrow> status_rank s = 0"
  using table_terminals
  by (force simp: IsTerminal_def list_all_iff split: option.splits dest: map_of_SomeD)

section \<open>A transition on a database that answers\<close>

text \<open>\<open>moved sid s n w\<close>: the database after the update of the status and the log entry.\<close>

definition moved :: "uuid \<Rightarrow> string \<Rightarrow> string \<Rightarrow> 'a db_scheme \<Rightarrow> 'a db_scheme" where
  "moved sid s n w = snd (SessionEventDAO_LogStateTransition sid s n ''workflow''
      (set_session sid (put_status (n, w_now w)) w))"

lemma set_session_faults [simp]: "w_faults (set_session i f w) = w_faults w"
  by (simp add: set_session_def)

lemma moved_simps:
  shows "w_sessions (moved sid s n w) = tbl_update (\<lambda>s. s_ID s = sid) (put_status (n, w_now w)) (w_sessions w)"
    and "engine_frame w (moved sid s n w)"
    and "w_now (moved sid s n w) = w_now w"
proof -
  obtain r w' where 1: "SessionEventDAO_LogStateTransition sid s n ''workflow''
      (set_session sid (put_status (n, w_now w)) w) = (r, w')" by force
  then have m: "moved sid s n w = w'" by (simp add: moved_def)
  from log_transition_frame [OF 1]
  show "w_sessions (moved sid s n w) = tbl_update (\<lambda>s. s_ID s = sid) (put_status (n, w_now w)) (w_sessions w)"
    and "engine_frame w (moved sid s n w)"
    by (auto simp: m set_session_def engine_frame_def)
  from log_transition_clock [OF 1] show "w_now (moved sid s n w) = w_now w"
    by (simp add: m set_session_def)
qed

lemma log_transition_faults:
  "w_faults w = [] \<Longrightarrow> w_faults (snd (SessionEventDAO_LogStateTransition sid a b src w)) = []"
  by (auto simp: SessionEventDAO_LogStateTransition_def SessionEventDAO_Create_def uuid_New_def db_exec_def
        insert_event_def fitted_def Let_def next_fault_def split: prod.splits option.splits if_splits sum.splits)

lemma moved_faults [simp]: "w_faults w = [] \<Longrightarrow> w_faults (moved sid s n w) = []"
  by (simp add: moved_def log_transition_faults)

lemma commit_transition_no_fault:
  "w_faults w = [] \<Longrightarrow> commit_transition sid s n w = (Inr n, moved sid s n w)"
  by (simp add: commit_transition_def update_and_commit_def db_no_fault pop_fault_id moved_def)

definition try_result :: "uuid \<Rightarrow> string \<Rightarrow> 'a db_scheme \<Rightarrow> string result \<times> 'a db_scheme" where
  "try_result sid ev w =
    (case (if sid \<in> set (w_locked w) then None else status_of w sid) of
       None \<Rightarrow> (Inl (Sentinel ErrSessionNotFound), w)
     | Some s \<Rightarrow> (case next_status (high_risk_count sid w > 0) s ev of
         Some n \<Rightarrow> (Inr n, moved sid s n w)
       | None \<Rightarrow> (Inl (if map_of ValidTransitions s = None
             then ErrorString (''workflow: unknown current status '' @ quoted s)
             else Wrapped [] (Sentinel ErrInvalidTransition) ('': '' @ s @ '' + '' @ ev)), w)))"

lemma tryTransition_no_fault:
  assumes "w_faults w = []"
  shows "tryTransition sid ev w = try_result sid ev w"
  using assms
  by (simp add: tryTransition_def try_result_def lock_session_def determineFixProposedNextStatus_def
      db_no_fault pop_fault_id commit_transition_no_fault next_status_def
      split: option.split)

lemma sleep_simps [simp]:
  "w_faults (sleep d w) = w_faults w" "status_of (sleep d w) = status_of w"
  "high_risk_count sid (sleep d w) = high_risk_count sid w" "w_locked (sleep d w) = w_locked w"
  "sleep d (sleep d' w) = sleep (d' + d) w"
  by (simp_all add: sleep_def status_of_def find_session_def high_risk_count_def fun_eq_iff add.assoc)

lemma try_result_sleep:
  assumes "try_result sid ev w = (Inl e, w')"
  shows "try_result sid ev (sleep d w) = (Inl e, sleep d w)"
  using assms by (auto simp: try_result_def split: option.splits if_splits)

definition transition_result :: "uuid \<Rightarrow> string \<Rightarrow> 'a db_scheme \<Rightarrow> string result \<times> 'a db_scheme" where
  "transition_result sid ev w =
    (case (if sid \<in> set (w_locked w) then None else status_of w sid) of
       None \<Rightarrow> (Inl (Sentinel ErrSessionNotFound), w)
     | Some s \<Rightarrow> (case next_status (high_risk_count sid w > 0) s ev of
         Some n \<Rightarrow> (Inr n, moved sid s n w)
       | None \<Rightarrow> (if map_of ValidTransitions s = None
             then (Inl (ErrorString ''workflow: transition failed after 3 attempts''),
                   sleep (150 * Millisecond) w)
             else (Inl (Wrapped [] (Sentinel ErrInvalidTransition) ('': '' @ s @ '' + '' @ ev)), w))))"

lemma Transition_no_fault:
  assumes "w_faults w = []"
  shows "Transition sid ev w = transition_result sid ev w"
proof -
  have "tryTransition sid ev (sleep d w) = try_result sid ev (sleep d w)" for d
    by (rule tryTransition_no_fault) (simp add: assms)
  then show ?thesis
    using tryTransition_no_fault [OF assms, of sid ev]
    by (auto simp: Transition_def transition_result_def numeral_3_eq_3 try_result_def split: option.splits if_splits)
qed

text \<open>The status of every session after a transition, and after a loop of transitions: each
  session of the loop makes the step its own status and actions ask for, no other one moves.\<close>

definition fired :: "string \<Rightarrow> 'a db_scheme \<Rightarrow> uuid \<Rightarrow> string option" where
  "fired ev w i = (if i \<in> set (w_locked w) then status_of w i else
     (case status_of w i of None \<Rightarrow> None
      | Some s \<Rightarrow> (case next_status (high_risk_count i w > 0) s ev of None \<Rightarrow> Some s | Some n \<Rightarrow> Some n)))"

lemma fire_no_fault:
  assumes "w_faults w = []"
  shows "w_faults (fire ev i w) = []" and "engine_frame w (fire ev i w)"
    and "status_of (fire ev i w) = (status_of w)(i := fired ev w i)"
  using assms status_of_update [OF moved_simps(1)]
  by (auto simp: fire_def Transition_no_fault transition_result_def fired_def moved_simps
      split: option.splits if_splits)

lemma engine_frame_status:
  "engine_frame w w' \<Longrightarrow> high_risk_count i w' = high_risk_count i w"
  "engine_frame w w' \<Longrightarrow> w_locked w' = w_locked w"
  "engine_frame w w' \<Longrightarrow> fixes_of i w' = fixes_of i w"
  by (simp_all add: engine_frame_def high_risk_count_def fixes_of_def)

lemma fired_cong:
  "engine_frame w w' \<Longrightarrow> status_of w' i = status_of w i \<Longrightarrow> fired ev w' i = fired ev w i"
  by (auto simp: fired_def engine_frame_status(1,2) [of w w'] split: option.split)

lemma fold_fire:
  assumes "w_faults w = []" and "distinct ids"
  shows "w_faults (fold (\<lambda>i. fire (ev i) i) ids w) = [] \<and>
    engine_frame w (fold (\<lambda>i. fire (ev i) i) ids w) \<and>
    status_of (fold (\<lambda>i. fire (ev i) i) ids w) j =
      (if j \<in> set ids then fired (ev j) w j else status_of w j)"
  using assms
proof (induction ids arbitrary: w)
  case (Cons i ids)
  note f = fire_no_fault [OF Cons.prems(1), of "ev i" i]
  have d: "distinct ids" "i \<notin> set ids" using Cons.prems(2) by simp_all
  have "j \<noteq> i \<Longrightarrow> fired (ev j) (fire (ev i) i w) j = fired (ev j) w j"
    by (rule fired_cong) (simp_all add: f)
  with Cons.IH [OF f(1) d(1)] f d show ?case
    by (auto intro: engine_frame_trans)
qed simp

text \<open>Selecting rows by a predicate and reading their keys, with the key unique.\<close>

lemma selected_key:
  assumes "distinct (map key t)"
  shows "j \<in> set (map key (filter P t)) \<longleftrightarrow>
    (case tbl_find (\<lambda>r. key r = j) t of None \<Rightarrow> False | Some r \<Rightarrow> P r)"
  using assms
proof (induction t)
  case (Cons r t)
  show ?case
  proof (cases "key r = j")
    case True
    with Cons.prems have "j \<notin> set (map key (filter P t))" by auto
    with True show ?thesis by simp
  next
    case False
    with Cons show ?thesis by auto
  qed
qed simp

lemma selected_distinct: "distinct (map key t) \<Longrightarrow> distinct (map key (filter P t))"
  by (simp add: distinct_map_filter)

lemma sweep_loop:
  assumes "w_faults w = []" and "distinct (map s_ID (w_sessions w))"
  shows "status_of (fold (\<lambda>i. fire (ev i) i) (map s_ID (filter P (w_sessions w))) w) j =
    (case find_session j w of None \<Rightarrow> None
     | Some s \<Rightarrow> if P s then fired (ev j) w j else Some (s_Status s))"
  using fold_fire [OF assms(1) selected_distinct [OF assms(2)], of ev P j]
    selected_key [OF assms(2), of j P]
  by (auto simp: find_session_def status_of_def split: option.splits)

lemma verify_session_no_fault:
  "w_faults w = [] \<Longrightarrow> verify_session i w = fire (verify_event (fixes_of i w)) i w"
  by (simp add: verify_session_def FixActionDAO_GetBySessionID_def db_no_fault pop_fault_id)

lemma fold_verify_session:
  assumes "w_faults w = []" and "engine_frame w0 w"
  shows "fold verify_session ids w = fold (\<lambda>i. fire (verify_event (fixes_of i w0)) i) ids w"
  using assms
proof (induction ids arbitrary: w)
  case (Cons i ids)
  have "verify_session i w = fire (verify_event (fixes_of i w0)) i w"
    using verify_session_no_fault [OF Cons.prems(1)] engine_frame_status(3) [OF Cons.prems(2)] by metis
  moreover note f = fire_no_fault [OF Cons.prems(1), of "verify_event (fixes_of i w0)" i]
  ultimately show ?case
    using Cons.IH [OF f(1)] Cons.prems(2) engine_frame_trans f(2) by auto
qed simp

lemma next_status_fail:
  "next_status h StatusCollecting EventFail = Some StatusFailed"
  "next_status h StatusFixProposed EventFixGenerated =
     Some (if h then StatusAwaitingApproval else StatusFixSuggested)"
  "next_status h StatusVerifying EventVerifySuccess = Some StatusResolved"
  "next_status h StatusVerifying EventVerifyFailure = Some StatusRolledBack"
  by (simp_all add: next_status_def ValidTransitions_def)

end
