(* ===== verification/Approval_Client.thy ===== *)
theory Approval_Client imports Prelude begin

text \<open>
  \<open>internal/approval\<close>: the in-memory token manager and the two approval clients built on it.
  The interface \<open>ApprovalClient\<close> of \<open>interfaces.go\<close> is the locale \<open>approval_client\<close>; both
  clients are interpretations of it.  The random source, the clock and the HTTP client of the
  webhook back-end are arguments.
\<close>

section \<open>Requests, results and tokens\<close>

record ApprovalRequest =
  rq_SessionID :: uuid
  rq_FixActionID :: uuid
  rq_Summary :: string
  rq_Risk :: string
  rq_Target :: string
  rq_RequestedBy :: string

record ApprovalResult =
  rs_Decision :: string
  rs_DecidedBy :: string
  rs_DecidedAt :: time
  rs_Reason :: string

record tokenEntry =
  te_req :: ApprovalRequest
  te_result :: "ApprovalResult option"
  te_created :: time
  te_expires :: time

type_synonym TokenManager = "string \<Rightarrow> tokenEntry option"

definition defaultTTL :: duration where
  "defaultTTL = 24 * Hour"

definition NewTokenManager :: TokenManager where
  "NewTokenManager = (\<lambda>t. None)"

text \<open>\<open>hex.EncodeToString\<close>.\<close>

definition hex_digit_of :: "nat \<Rightarrow> char" where
  "hex_digit_of n = (if n < 10 then char_of (48 + n) else char_of (87 + n))"

definition hex_byte :: "8 word \<Rightarrow> string" where
  "hex_byte b = [hex_digit_of (unat b div 16), hex_digit_of (unat b mod 16)]"

definition hex_EncodeToString :: "8 word list \<Rightarrow> string" where
  "hex_EncodeToString bs = concat (map hex_byte bs)"

text \<open>\<open>raw\<close> is what \<open>rand.Read\<close> returned.\<close>

definition Issue :: "8 word list result \<Rightarrow> time \<Rightarrow> ApprovalRequest \<Rightarrow> TokenManager \<Rightarrow> string result \<times> TokenManager" where
  "Issue raw now req tm = (case raw of
       Inl e \<Rightarrow> (Inl (wrap ''approval: token entropy: '' e), tm)
     | Inr bs \<Rightarrow> (let token = hex_EncodeToString bs in
         (Inr token, tm(token \<mapsto> \<lparr>te_req = req, te_result = None, te_created = now,
                                  te_expires = now + defaultTTL\<rparr>))))"

definition Get :: "time \<Rightarrow> string \<Rightarrow> TokenManager \<Rightarrow> (ApprovalRequest \<times> ApprovalResult option) option" where
  "Get now token tm = (case tm token of
       None \<Rightarrow> None
     | Some entry \<Rightarrow> if now > te_expires entry then None else Some (te_req entry, te_result entry))"

definition Resolve :: "string \<Rightarrow> ApprovalResult \<Rightarrow> TokenManager \<Rightarrow> bool \<times> TokenManager" where
  "Resolve token result tm = (case tm token of
       None \<Rightarrow> (False, tm)
     | Some entry \<Rightarrow> (True, tm(token \<mapsto> entry\<lparr>te_result := Some result\<rparr>)))"

text \<open>\<open>InMemoryStore\<close> only wraps a manager.\<close>

definition NewInMemoryStore :: TokenManager where
  "NewInMemoryStore = NewTokenManager"

definition InMemoryStore_Issue :: "8 word list result \<Rightarrow> time \<Rightarrow> ApprovalRequest \<Rightarrow> TokenManager \<Rightarrow> string result \<times> TokenManager" where
  "InMemoryStore_Issue raw now req s = Issue raw now req s"

definition InMemoryStore_Get :: "time \<Rightarrow> string \<Rightarrow> TokenManager \<Rightarrow> (ApprovalRequest \<times> ApprovalResult option) option" where
  "InMemoryStore_Get now token s = Get now token s"

definition InMemoryStore_Resolve :: "string \<Rightarrow> ApprovalResult \<Rightarrow> TokenManager \<Rightarrow> bool \<times> TokenManager" where
  "InMemoryStore_Resolve token result s = Resolve token result s"

lemma InMemoryStore_resolved:
  assumes "InMemoryStore_Issue raw now req s = (Inr token, s1)" and "InMemoryStore_Resolve token res s1 = (ok, s2)"
  shows "ok \<and> InMemoryStore_Get later token s2 = (if later > now + defaultTTL then None else Some (req, Some res))"
  using assms by (auto simp: InMemoryStore_Issue_def InMemoryStore_Resolve_def InMemoryStore_Get_def Issue_def Resolve_def
      Get_def Let_def split: sum.splits)

section \<open>The NOOP client\<close>

definition NOOPClient_RequestApproval ::
  "8 word list result \<Rightarrow> time \<Rightarrow> ApprovalRequest \<Rightarrow> TokenManager \<Rightarrow> string result \<times> TokenManager" where
  "NOOPClient_RequestApproval raw now req c = (case Issue raw now req c of
       (Inl e, c1) \<Rightarrow> (Inl e, c1)
     | (Inr token, c1) \<Rightarrow> (Inr token, snd (Resolve token
          \<lparr>rs_Decision = ''APPROVED'', rs_DecidedBy = ''system'', rs_DecidedAt = now,
           rs_Reason = ''auto-approved (NOOP mode)''\<rparr> c1)))"

definition NOOPClient_GetApproval ::
  "time \<Rightarrow> string \<Rightarrow> TokenManager \<Rightarrow> (ApprovalRequest \<times> ApprovalResult option) result \<times> TokenManager" where
  "NOOPClient_GetApproval now token c = (case Get now token c of
       None \<Rightarrow> (Inl (ErrorString ''approval: token not found or expired''), c)
     | Some (req, res) \<Rightarrow> (Inr (req, res), c))"

definition cancelled :: "time \<Rightarrow> ApprovalResult" where
  "cancelled now = \<lparr>rs_Decision = ''REJECTED'', rs_DecidedBy = ''system'', rs_DecidedAt = now,
                    rs_Reason = ''cancelled''\<rparr>"

definition NOOPClient_CancelApproval :: "time \<Rightarrow> string \<Rightarrow> TokenManager \<Rightarrow> TokenManager" where
  "NOOPClient_CancelApproval now token c = snd (Resolve token (cancelled now) c)"

section \<open>The webhook client\<close>

record WebhookResponse =
  wr_Decision :: string
  wr_DecidedBy :: string
  wr_Reason :: string

text \<open>The HTTP client: \<open>Post\<close> of a body (absent for the cancellation) and \<open>Get\<close>, which may
  answer nothing.\<close>

record webhookHTTPClient =
  http_Post :: "string \<Rightarrow> (string \<times> string) list option \<Rightarrow> gerror option"
  http_Get :: "string \<Rightarrow> WebhookResponse option result"

definition defaultHTTPClient :: webhookHTTPClient where
  "defaultHTTPClient = \<lparr>http_Post = (\<lambda>url body. None), http_Get = (\<lambda>url. Inr None)\<rparr>"

record WebhookClient =
  wc_tokens :: TokenManager
  wc_callback :: string

definition NewWebhookClient :: "string \<Rightarrow> WebhookClient" where
  "NewWebhookClient callback = \<lparr>wc_tokens = NewTokenManager, wc_callback = callback\<rparr>"

text \<open>\<open>str\<close> is \<open>UUID.String\<close> and \<open>rfc3339\<close> the time format of the library.\<close>

definition webhook_payload ::
  "(uuid \<Rightarrow> string) \<Rightarrow> (time \<Rightarrow> string) \<Rightarrow> string \<Rightarrow> string \<Rightarrow> time \<Rightarrow> ApprovalRequest \<Rightarrow> (string \<times> string) list" where
  "webhook_payload str rfc3339 callback token now req =
    [(''token'', token),
     (''session_id'', str (rq_SessionID req)),
     (''fix_action_id'', str (rq_FixActionID req)),
     (''summary'', rq_Summary req),
     (''risk'', rq_Risk req),
     (''target'', rq_Target req),
     (''requested_by'', rq_RequestedBy req),
     (''approve_url'', callback @ ''/approve?token='' @ token),
     (''reject_url'', callback @ ''/reject?token='' @ token),
     (''expires_at'', rfc3339 (now + defaultTTL))]"

definition WebhookClient_RequestApproval ::
  "webhookHTTPClient \<Rightarrow> (uuid \<Rightarrow> string) \<Rightarrow> (time \<Rightarrow> string) \<Rightarrow> 8 word list result \<Rightarrow> time \<Rightarrow>
   ApprovalRequest \<Rightarrow> WebhookClient \<Rightarrow> string result \<times> WebhookClient" where
  "WebhookClient_RequestApproval client str rfc3339 raw now req c =
    (case Issue raw now req (wc_tokens c) of
       (Inl e, tm) \<Rightarrow> (Inl e, c\<lparr>wc_tokens := tm\<rparr>)
     | (Inr token, tm) \<Rightarrow>
        (case http_Post client (wc_callback c)
            (Some (webhook_payload str rfc3339 (wc_callback c) token now req)) of
           Some e \<Rightarrow> (Inl (wrap ''approval webhook: '' e), c\<lparr>wc_tokens := tm\<rparr>)
         | None \<Rightarrow> (Inr token, c\<lparr>wc_tokens := tm\<rparr>)))"

definition WebhookClient_GetApproval ::
  "webhookHTTPClient \<Rightarrow> time \<Rightarrow> string \<Rightarrow> WebhookClient \<Rightarrow>
   (ApprovalRequest \<times> ApprovalResult option) result \<times> WebhookClient" where
  "WebhookClient_GetApproval client now token c =
    (case Get now token (wc_tokens c) of
       None \<Rightarrow> (Inl (ErrorString ''approval: token not found or expired''), c)
     | Some (req, _) \<Rightarrow>
        (case http_Get client (wc_callback c @ ''/status?token='' @ token) of
           Inl e \<Rightarrow> (Inr (req, None), c)
         | Inr None \<Rightarrow> (Inr (req, None), c)
         | Inr (Some resp) \<Rightarrow>
             (let tm = snd (Resolve token \<lparr>rs_Decision = wr_Decision resp, rs_DecidedBy = wr_DecidedBy resp,
                         rs_DecidedAt = now, rs_Reason = wr_Reason resp\<rparr> (wc_tokens c));
                  res = (case Get now token tm of None \<Rightarrow> None | Some (_, r) \<Rightarrow> r)
              in (Inr (req, res), c\<lparr>wc_tokens := tm\<rparr>))))"

definition WebhookClient_CancelApproval :: "time \<Rightarrow> string \<Rightarrow> WebhookClient \<Rightarrow> WebhookClient" where
  "WebhookClient_CancelApproval now token c =
     c\<lparr>wc_tokens := snd (Resolve token (cancelled now) (wc_tokens c))\<rparr>"

section \<open>The interface\<close>

text \<open>
  The contract of an \<open>ApprovalClient\<close>: \<open>held\<close> reads the requests it holds with their expiry.
  A successful request adds one entry that lives for \<open>ttl\<close>; a query and a cancellation keep
  the requests; a query answers the request of a live token and fails for any other.
  \<open>follow_up\<close> is any number of queries and cancellations, on any tokens at any times.
\<close>

fun follow_up :: "(time \<Rightarrow> string \<Rightarrow> 'c \<Rightarrow> 'r \<times> 'c) \<Rightarrow> (time \<Rightarrow> string \<Rightarrow> 'c \<Rightarrow> 'c) \<Rightarrow>
    (bool \<times> time \<times> string) list \<Rightarrow> 'c \<Rightarrow> 'c" where
  "follow_up query cancel [] c = c"
| "follow_up query cancel ((q, now, tok) # ops) c =
     follow_up query cancel ops (if q then snd (query now tok c) else cancel now tok c)"

locale approval_client =
  fixes held :: "'c \<Rightarrow> string \<Rightarrow> (ApprovalRequest \<times> time) option"
    and request :: "8 word list result \<Rightarrow> time \<Rightarrow> ApprovalRequest \<Rightarrow> 'c \<Rightarrow> string result \<times> 'c"
    and query :: "time \<Rightarrow> string \<Rightarrow> 'c \<Rightarrow> (ApprovalRequest \<times> ApprovalResult option) result \<times> 'c"
    and cancel :: "time \<Rightarrow> string \<Rightarrow> 'c \<Rightarrow> 'c"
    and ttl :: duration
  assumes request_held: "request raw now req c = (Inr tok, c') \<Longrightarrow> held c' = (held c)(tok \<mapsto> (req, now + ttl))"
    and query_held: "held (snd (query now tok c)) = held c"
    and cancel_held: "held (cancel now tok c) = held c"
    and query_live: "held c tok = Some (req, t) \<Longrightarrow> now \<le> t \<Longrightarrow> \<exists>res. fst (query now tok c) = Inr (req, res)"
    and query_dead: "held c tok = None \<or> (\<exists>req t. held c tok = Some (req, t) \<and> t < now) \<Longrightarrow>
      \<exists>e. fst (query now tok c) = Inl e"
begin

lemma held_follow_up: "held (follow_up query cancel ops c) = held c"
  by (induction ops arbitrary: c) (auto simp: query_held cancel_held)

lemma request_answered:
  assumes "request raw now req c = (Inr tok, c')"
  shows "if now' \<le> now + ttl then \<exists>res. fst (query now' tok (follow_up query cancel ops c')) = Inr (req, res)
         else \<exists>e. fst (query now' tok (follow_up query cancel ops c')) = Inl e"
proof -
  have "held (follow_up query cancel ops c') tok = Some (req, now + ttl)"
    using request_held [OF assms] by (simp add: held_follow_up)
  then show ?thesis using query_live query_dead by fastforce
qed

end

definition held_tokens :: "TokenManager \<Rightarrow> string \<Rightarrow> (ApprovalRequest \<times> time) option" where
  "held_tokens tm tok = map_option (\<lambda>e. (te_req e, te_expires e)) (tm tok)"

lemma held_Resolve [simp]: "held_tokens (snd (Resolve tok res tm)) = held_tokens tm"
  by (rule ext) (auto simp: held_tokens_def Resolve_def split: option.splits)

lemma held_Issue:
  "Issue raw now req tm = (Inr tok, tm') \<Longrightarrow> held_tokens tm' = (held_tokens tm)(tok \<mapsto> (req, now + defaultTTL))"
  by (rule ext) (auto simp: held_tokens_def Issue_def Let_def split: sum.splits)

lemma Get_live: "held_tokens tm tok = Some (req, t) \<Longrightarrow> now \<le> t \<Longrightarrow> \<exists>res. Get now tok tm = Some (req, res)"
  by (auto simp: Get_def held_tokens_def)

lemma Get_dead: "held_tokens tm tok = None \<or> (\<exists>req t. held_tokens tm tok = Some (req, t) \<and> t < now) \<Longrightarrow>
    Get now tok tm = None"
  by (auto simp: Get_def held_tokens_def)

interpretation noop_client: approval_client held_tokens NOOPClient_RequestApproval NOOPClient_GetApproval
  NOOPClient_CancelApproval defaultTTL
proof unfold_locales
  fix raw now req c tok c'
  assume "NOOPClient_RequestApproval raw now req c = (Inr tok, c')"
  then show "held_tokens c' = (held_tokens c)(tok \<mapsto> (req, now + defaultTTL))"
    by (auto simp: NOOPClient_RequestApproval_def dest: held_Issue split: prod.splits sum.splits)
next
  fix c tok req t now
  assume "held_tokens c tok = Some (req, t)" "now \<le> t"
  from Get_live [OF this] show "\<exists>res. fst (NOOPClient_GetApproval now tok c) = Inr (req, res)"
    by (auto simp: NOOPClient_GetApproval_def)
next
  fix c tok now
  assume "held_tokens c tok = None \<or> (\<exists>req t. held_tokens c tok = Some (req, t) \<and> t < now)"
  from Get_dead [OF this] show "\<exists>e. fst (NOOPClient_GetApproval now tok c) = Inl e"
    by (simp add: NOOPClient_GetApproval_def)
qed (auto simp: NOOPClient_GetApproval_def NOOPClient_CancelApproval_def split: option.splits)

interpretation webhook_client: approval_client "\<lambda>c. held_tokens (wc_tokens c)"
  "WebhookClient_RequestApproval client str rfc3339" "WebhookClient_GetApproval client"
  WebhookClient_CancelApproval defaultTTL
  for client str rfc3339
proof unfold_locales
  fix raw now req and c c' :: WebhookClient and tok
  assume "WebhookClient_RequestApproval client str rfc3339 raw now req c = (Inr tok, c')"
  then show "held_tokens (wc_tokens c') = (held_tokens (wc_tokens c))(tok \<mapsto> (req, now + defaultTTL))"
    by (auto simp: WebhookClient_RequestApproval_def dest: held_Issue split: prod.splits sum.splits option.splits)
next
  fix c :: WebhookClient and tok req t now
  assume "held_tokens (wc_tokens c) tok = Some (req, t)" "now \<le> t"
  from Get_live [OF this] show "\<exists>res. fst (WebhookClient_GetApproval client now tok c) = Inr (req, res)"
    by (auto simp: WebhookClient_GetApproval_def Let_def split: option.splits sum.splits)
next
  fix c :: WebhookClient and tok now
  assume "held_tokens (wc_tokens c) tok = None \<or> (\<exists>req t. held_tokens (wc_tokens c) tok = Some (req, t) \<and> t < now)"
  from Get_dead [OF this] show "\<exists>e. fst (WebhookClient_GetApproval client now tok c) = Inl e"
    by (simp add: WebhookClient_GetApproval_def)
qed (auto simp: WebhookClient_GetApproval_def WebhookClient_CancelApproval_def Let_def
      split: option.splits sum.splits prod.splits)

section \<open>Properties\<close>

lemma hex_digit_of_inj: "m < 16 \<Longrightarrow> n < 16 \<Longrightarrow> hex_digit_of m = hex_digit_of n \<longleftrightarrow> m = n"
  unfolding hex_digit_of_def by (auto simp: char_of_eq_iff take_bit_eq_mod)

lemma hex_byte_inj: "hex_byte a = hex_byte b \<longleftrightarrow> a = b"
proof
  assume *: "hex_byte a = hex_byte b"
  have "unat a < 256" "unat b < 256" using unsigned_less [of a] unsigned_less [of b] by simp_all
  then have "unat a div 16 < 16" "unat b div 16 < 16" by auto
  with * have "unat a div 16 = unat b div 16" "unat a mod 16 = unat b mod 16"
    by (simp_all add: hex_byte_def hex_digit_of_inj)
  then have "unat a = unat b" by (metis div_mult_mod_eq)
  then show "a = b" by (simp add: word_unat_eq_iff)
qed simp

lemma hex_length: "length (hex_EncodeToString bs) = 2 * length bs"
  by (induction bs) (simp_all add: hex_EncodeToString_def hex_byte_def)

lemma hex_inj: "hex_EncodeToString as = hex_EncodeToString bs \<Longrightarrow> as = bs"
proof (induction as arbitrary: bs)
  case Nil
  then have "length (hex_EncodeToString bs) = 0" by (simp add: hex_EncodeToString_def)
  then show ?case by (simp add: hex_length)
next
  case (Cons a as)
  then obtain b bs' where b: "bs = b # bs'"
    using hex_length [of bs] hex_length [of "a # as"] by (cases bs) auto
  with Cons.prems have "hex_byte a = hex_byte b" "hex_EncodeToString as = hex_EncodeToString bs'"
    by (auto simp: hex_EncodeToString_def hex_byte_def)
  with Cons.IH b show ?case by (simp add: hex_byte_inj)
qed

text \<open>C38 (request_lives_24h): a token that the webhook client returned identifies its request for
  exactly 24 hours: whatever queries and cancellations are made in between, \<open>GetApproval\<close> answers
  with the request it was issued for until then and reports an error afterwards.\<close>

theorem request_lives_24h:
  assumes "WebhookClient_RequestApproval client str rfc3339 raw now req c = (Inr tok, c')"
  shows "if now' \<le> now + 24 * Hour
    then \<exists>res. fst (WebhookClient_GetApproval client now' tok
          (follow_up (WebhookClient_GetApproval client) WebhookClient_CancelApproval ops c')) = Inr (req, res)
    else \<exists>e. fst (WebhookClient_GetApproval client now' tok
          (follow_up (WebhookClient_GetApproval client) WebhookClient_CancelApproval ops c')) = Inl e"
  using webhook_client.request_answered [OF assms, of now' ops] by (simp add: defaultTTL_def)

definition sample_request :: ApprovalRequest where
  "sample_request = \<lparr>rq_SessionID = 1, rq_FixActionID = 2, rq_Summary = ''restart'', rq_Risk = ''HIGH'',
     rq_Target = ''cart'', rq_RequestedBy = []\<rparr>"

theorem request_lives_24h_witness:
  "\<exists>tok c' res. WebhookClient_RequestApproval defaultHTTPClient (\<lambda>i. []) (\<lambda>t. []) (Inr [1, 2, 255]) 10
      sample_request (NewWebhookClient ''http://cb'') = (Inr tok, c') \<and>
    fst (WebhookClient_GetApproval defaultHTTPClient Hour tok c') = Inr (sample_request, res)"
proof -
  let ?r = "WebhookClient_RequestApproval defaultHTTPClient (\<lambda>i. []) (\<lambda>t. []) (Inr [1, 2, 255]) 10
      sample_request (NewWebhookClient ''http://cb'')"
  have "fst ?r = Inr ''0102ff''" by code_simp
  then have 1: "?r = (Inr ''0102ff'', snd ?r)" by (metis prod.collapse)
  from request_lives_24h [OF 1, of Hour "[]"]
  have "\<exists>res. fst (WebhookClient_GetApproval defaultHTTPClient Hour ''0102ff'' (snd ?r)) =
      Inr (sample_request, res)" by simp
  with 1 show ?thesis by metis
qed

text \<open>The NOOP client approves every request at once: as soon as
  \<open>RequestApproval\<close> has returned a token, \<open>GetApproval\<close> reports the decision APPROVED by
  \<open>system\<close>, and tokens issued from different random bytes differ.\<close>

theorem noop_auto_approves:
  assumes "NOOPClient_RequestApproval (Inr bs) now req c = (r, c')"
  shows "\<exists>tok. r = Inr tok \<and> length tok = 2 * length bs \<and>
    (now' \<le> now + 24 * Hour \<longrightarrow>
      NOOPClient_GetApproval now' tok c' = (Inr (req, Some \<lparr>rs_Decision = ''APPROVED'',
        rs_DecidedBy = ''system'', rs_DecidedAt = now, rs_Reason = ''auto-approved (NOOP mode)''\<rparr>), c')) \<and>
    (\<forall>bs' now2 req2 c2 tok2 c3. NOOPClient_RequestApproval (Inr bs') now2 req2 c2 = (Inr tok2, c3) \<and>
      bs' \<noteq> bs \<longrightarrow> tok2 \<noteq> tok)"
  using assms hex_inj
  by (auto simp: NOOPClient_RequestApproval_def Issue_def Let_def Resolve_def NOOPClient_GetApproval_def
      Get_def defaultTTL_def hex_length)

theorem noop_auto_approves_witness:
  "\<exists>tok c'. NOOPClient_RequestApproval (Inr [1, 2]) 5 sample_request NewTokenManager = (Inr tok, c') \<and>
     length tok = 4"
proof -
  let ?r = "NOOPClient_RequestApproval (Inr [1, 2]) 5 sample_request NewTokenManager"
  have "?r = (fst ?r, snd ?r)" by simp
  from noop_auto_approves [OF this, of 5] obtain tok where "fst ?r = Inr tok" "length tok = 4" by auto
  then show ?thesis by (metis prod.collapse)
qed

end
