(* ===== verification/Float64.thy ===== *)
theory Float64 imports Prelude begin

text \<open>
  Go's \<open>float64\<close>: not a number, the infinities, and the finite values as rationals.  Comparisons are
  those of IEEE 754: every comparison with NaN is false.
\<close>

datatype float64 = NaN | PosInf | NegInf | Fin rat

fun f_lt :: "float64 \<Rightarrow> float64 \<Rightarrow> bool" where
  "f_lt NaN y = False"
| "f_lt x NaN = False"
| "f_lt PosInf y = False"
| "f_lt x NegInf = False"
| "f_lt NegInf y = True"
| "f_lt x PosInf = True"
| "f_lt (Fin a) (Fin b) = (a < b)"

definition f_gt :: "float64 \<Rightarrow> float64 \<Rightarrow> bool" where
  "f_gt x y = f_lt y x"

fun f_isNaN :: "float64 \<Rightarrow> bool" where
  "f_isNaN NaN = True"
| "f_isNaN x = False"

definition in_unit :: "float64 \<Rightarrow> bool" where
  "in_unit x = (case x of Fin q \<Rightarrow> 0 \<le> q \<and> q \<le> 1 | _ \<Rightarrow> False)"

lemma not_in_unit: "(f_lt x (Fin 0) \<or> f_gt x (Fin 1) \<or> f_isNaN x) \<longleftrightarrow> \<not> in_unit x"
  by (cases x) (auto simp: f_gt_def in_unit_def)

end
