(* ===== verification/Json_Value.thy ===== *)
theory Json_Value imports Json Float64 begin

text \<open>
  What the source uses of \<open>encoding/json\<close> on the reading side.  The text of a document is read into a value
  by \<open>jl_Parse\<close> (a parameter, like the conversion between decimal literals and \<open>float64\<close>); decoding that
  value into a struct is defined here: the choice of the field for a key (exact, then by case folding), the
  effect of \<open>null\<close>, and the type errors.  The source never looks at a value whose decoding failed, so a
  decoder returns the new value or an error.  Values are written back as text by \<open>json_text\<close>.
\<close>

section \<open>Values and the conversions of numbers\<close>

datatype json =
    JNull
  | JBool bool
  | JNumber string
  | JString string
  | JArray "json list"
  | JObject "(string \<times> json) list"

text \<open>\<open>jl_ParseFloat\<close> is \<open>strconv.ParseFloat\<close> (no value when the literal is out of range),
  \<open>jl_FormatFloat\<close> the literal that \<open>json.Marshal\<close> writes, and \<open>jl_Round\<close> the rounding of an exact
  result to the nearest \<open>float64\<close>.\<close>

record json_lib =
  jl_Parse :: "string \<Rightarrow> json result"
  jl_ParseFloat :: "string \<Rightarrow> float64 option"
  jl_FormatFloat :: "float64 \<Rightarrow> string"
  jl_Round :: "rat \<Rightarrow> float64"

section \<open>Writing\<close>

fun commas :: "string list \<Rightarrow> string" where
  "commas [] = []"
| "commas [x] = x"
| "commas (x # xs) = x @ '','' @ commas xs"

fun json_text :: "json \<Rightarrow> string" where
  "json_text JNull = ''null''"
| "json_text (JBool b) = (if b then ''true'' else ''false'')"
| "json_text (JNumber s) = s"
| "json_text (JString s) = json_quote s"
| "json_text (JArray js) = ''['' @ commas (map json_text js) @ '']''"
| "json_text (JObject kvs) = ''{'' @ commas (map (\<lambda>(k, v). json_quote k @ '':'' @ json_text v) kvs) @ ''}''"

section \<open>Decoding\<close>

text \<open>The name a key is compared by after an exact match has failed: ASCII letters in upper case, the two
  non-ASCII letters that fold to an ASCII one (the long s and the Kelvin sign) replaced by it.\<close>

fun fold_name :: "string \<Rightarrow> string" where
  "fold_name [] = []"
| "fold_name (c # s) =
    (if c = CHR 0xC5 \<and> take 1 s = [CHR 0xBF] then CHR ''S'' # fold_name (drop 1 s)
     else if c = CHR 0xE2 \<and> take 2 s = [CHR 0x84, CHR 0xAA] then CHR ''K'' # fold_name (drop 2 s)
     else upper_char c # fold_name s)"

type_synonym 'r decoder = "json \<Rightarrow> 'r \<Rightarrow> 'r result"

fun json_kind :: "json \<Rightarrow> string" where
  "json_kind JNull = ''null''"
| "json_kind (JBool b) = ''bool''"
| "json_kind (JNumber s) = ''number''"
| "json_kind (JString s) = ''string''"
| "json_kind (JArray js) = ''array''"
| "json_kind (JObject kvs) = ''object''"

definition type_error :: "json \<Rightarrow> string \<Rightarrow> gerror" where
  "type_error j ty = ErrorString (''json: cannot unmarshal '' @ json_kind j @ '' into Go value of type '' @ ty)"

fun dec_string :: "string decoder" where
  "dec_string JNull old = Inr old"
| "dec_string (JString s) old = Inr s"
| "dec_string j old = Inl (type_error j ''string'')"

fun dec_float :: "json_lib \<Rightarrow> float64 decoder" where
  "dec_float lib JNull old = Inr old"
| "dec_float lib (JNumber s) old = (case jl_ParseFloat lib s of
     Some x \<Rightarrow> Inr x | None \<Rightarrow> Inl (type_error (JNumber s) ''float64''))"
| "dec_float lib j old = Inl (type_error j ''float64'')"

definition is_digit :: "char \<Rightarrow> bool" where
  "is_digit c = (let n = of_char c :: nat in 48 \<le> n \<and> n \<le> 57)"

definition digits_value :: "string \<Rightarrow> int" where
  "digits_value s = fold (\<lambda>c v. 10 * v + (of_char c - 48)) s 0"

text \<open>\<open>strconv.ParseInt(s, 10, 64)\<close>.\<close>

definition parse_int :: "string \<Rightarrow> int option" where
  "parse_int s = (let neg = has_prefix s ''-''; ds = (if neg then drop 1 s else s);
       v = (if neg then - digits_value ds else digits_value ds)
     in if ds \<noteq> [] \<and> list_all is_digit ds \<and> - (2 ^ 63) \<le> v \<and> v < 2 ^ 63 then Some v else None)"

fun dec_int :: "int decoder" where
  "dec_int JNull old = Inr old"
| "dec_int (JNumber s) old = (case parse_int s of
     Some x \<Rightarrow> Inr x | None \<Rightarrow> Inl (type_error (JNumber s) ''int''))"
| "dec_int j old = Inl (type_error j ''int'')"

text \<open>A decoder for one field of a struct, from its selector and its update.\<close>

definition field :: "'a decoder \<Rightarrow> ('r \<Rightarrow> 'a) \<Rightarrow> ('a \<Rightarrow> 'r \<Rightarrow> 'r) \<Rightarrow> 'r decoder" where
  "field d sel upd j r = (case d j (sel r) of Inl e \<Rightarrow> Inl e | Inr x \<Rightarrow> Inr (upd x r))"

definition find_field :: "(string \<times> 'r decoder) list \<Rightarrow> string \<Rightarrow> 'r decoder option" where
  "find_field fs k = (case map_of fs k of Some d \<Rightarrow> Some d
     | None \<Rightarrow> map_option snd (List.find (\<lambda>(n, d). fold_name n = fold_name k) fs))"

fun dec_members :: "(string \<times> 'r decoder) list \<Rightarrow> (string \<times> json) list \<Rightarrow> 'r \<Rightarrow> 'r result" where
  "dec_members fs [] r = Inr r"
| "dec_members fs ((k, v) # kvs) r = (case find_field fs k of
     None \<Rightarrow> dec_members fs kvs r
   | Some d \<Rightarrow> (case d v r of Inl e \<Rightarrow> Inl e | Inr r1 \<Rightarrow> dec_members fs kvs r1))"

fun dec_struct :: "string \<Rightarrow> (string \<times> 'r decoder) list \<Rightarrow> 'r decoder" where
  "dec_struct ty fs JNull r = Inr r"
| "dec_struct ty fs (JObject kvs) r = dec_members fs kvs r"
| "dec_struct ty fs j r = Inl (type_error j ty)"

fun dec_elements :: "'r decoder \<Rightarrow> 'r \<Rightarrow> json list \<Rightarrow> 'r list result" where
  "dec_elements d z [] = Inr []"
| "dec_elements d z (j # js) = (case d j z of Inl e \<Rightarrow> Inl e
   | Inr x \<Rightarrow> (case dec_elements d z js of Inl e \<Rightarrow> Inl e | Inr xs \<Rightarrow> Inr (x # xs)))"

fun dec_slice :: "string \<Rightarrow> 'r decoder \<Rightarrow> 'r \<Rightarrow> 'r list decoder" where
  "dec_slice ty d z JNull old = Inr []"
| "dec_slice ty d z (JArray js) old = dec_elements d z js"
| "dec_slice ty d z j old = Inl (type_error j ty)"

text \<open>\<open>*T\<close>: \<open>null\<close> is \<open>nil\<close>, anything else is decoded into the value pointed to.\<close>

definition dec_pointer :: "'r decoder \<Rightarrow> 'r \<Rightarrow> 'r option decoder" where
  "dec_pointer d z j old = (if j = JNull then Inr None
     else (case d j (case old of None \<Rightarrow> z | Some x \<Rightarrow> x) of Inl e \<Rightarrow> Inl e | Inr x \<Rightarrow> Inr (Some x)))"

text \<open>\<open>map[string]interface{}\<close>: the members with their last value; a number anywhere in the document
  that no \<open>float64\<close> can hold is an error.\<close>

fun numbers_ok :: "json_lib \<Rightarrow> json \<Rightarrow> bool" where
  "numbers_ok lib (JNumber s) = (jl_ParseFloat lib s \<noteq> None)"
| "numbers_ok lib (JArray js) = list_all (numbers_ok lib) js"
| "numbers_ok lib (JObject kvs) = list_all (\<lambda>(k, v). numbers_ok lib v) kvs"
| "numbers_ok lib j = True"

fun dec_map :: "json_lib \<Rightarrow> json \<Rightarrow> (string \<rightharpoonup> json) result" where
  "dec_map lib JNull = Inr (\<lambda>k. None)"
| "dec_map lib (JObject kvs) = (if numbers_ok lib (JObject kvs) then Inr (map_of (rev kvs))
     else Inl (ErrorString ''json: cannot unmarshal number into Go value of type float64''))"
| "dec_map lib j = Inl (type_error j ''map[string]interface {}'')"

text \<open>\<open>json.Unmarshal(data, &r)\<close>.\<close>

definition Unmarshal :: "json_lib \<Rightarrow> 'r decoder \<Rightarrow> string \<Rightarrow> 'r \<Rightarrow> 'r result" where
  "Unmarshal lib d data r = (case jl_Parse lib data of Inl e \<Rightarrow> Inl e | Inr j \<Rightarrow> d j r)"

section \<open>Decoding what has been encoded\<close>

named_theorems json_simps "decoding a value that the encoder of the same struct has built"

declare find_field_def [json_simps] field_def [json_simps] Unmarshal_def [json_simps]

lemma dec_members_append:
  "dec_members fs (xs @ ys) r = (case dec_members fs xs r of Inl e \<Rightarrow> Inl e | Inr r1 \<Rightarrow> dec_members fs ys r1)"
  by (induction xs arbitrary: r) (auto split: option.split sum.split)

text \<open>Members whose key is the name of no field, exactly or folded, are skipped.\<close>

lemma dec_members_ignored:
  assumes "\<forall>(k, v) \<in> set kvs. \<forall>(n, d) \<in> set fs. fold_name n \<noteq> fold_name k"
  shows "dec_members fs kvs r = Inr r"
proof -
  have "find_field fs k = None" if "(k, v) \<in> set kvs" for k v
  proof -
    have *: "\<forall>(n, d) \<in> set fs. fold_name n \<noteq> fold_name k" using assms that by fastforce
    then have "map_of fs k = None" by (auto simp: map_of_eq_None_iff)
    with * show ?thesis by (auto simp: find_field_def find_None_iff split: option.split)
  qed
  then show ?thesis by (induction kvs arbitrary: r) fastforce+
qed

lemma dec_elements_map:
  assumes "\<forall>x \<in> set xs. d (f x) z = Inr (g x)"
  shows "dec_elements d z (map f xs) = Inr (map g xs)"
  using assms by (induction xs) auto

lemma dec_elements_length: "dec_elements d z js = Inr xs \<Longrightarrow> length xs = length js"
  by (induction js arbitrary: xs) (auto split: sum.splits)

lemma dec_elements_nth:
  assumes "dec_elements d z js = Inr xs" and "i < length js"
  shows "d (js ! i) z = Inr (xs ! i)"
  using assms by (induction js arbitrary: xs i) (auto split: sum.splits simp: nth_Cons')


text \<open>What every field decoder keeps, the decoder of the struct keeps.\<close>

lemma find_field_mem:
  assumes "find_field fs k = Some d"
  shows "\<exists>n. (n, d) \<in> set fs"
proof (cases "map_of fs k")
  case None
  with assms obtain n where "List.find (\<lambda>(n, d). fold_name n = fold_name k) fs = Some (n, d)"
    by (auto simp: find_field_def)
  then show ?thesis by (auto simp: find_Some_iff) (metis nth_mem)
next
  case (Some d1)
  with assms show ?thesis by (auto simp: find_field_def dest: map_of_SomeD)
qed

lemma dec_struct_inv:
  assumes "dec_struct ty fs j r = Inr r1" and "P r"
    and "\<And>n d v q q1. (n, d) \<in> set fs \<Longrightarrow> d v q = Inr q1 \<Longrightarrow> P q \<Longrightarrow> P q1"
  shows "P r1"
proof -
  have "dec_members fs kvs q = Inr q1 \<Longrightarrow> P q \<Longrightarrow> P q1" for kvs q q1
  proof (induction kvs arbitrary: q)
    case (Cons kv kvs)
    obtain k v where kv: "kv = (k, v)" by force
    from Cons show ?case using assms(3) find_field_mem [of fs k]
      by (auto simp: kv split: option.splits sum.splits)
  qed simp
  with assms(1,2) show ?thesis by (cases j) auto
qed

end
