(* ===== verification/Notify.thy ===== *)
theory Notify imports Store_Approval Approval_Client Json_Value begin

text \<open>
  \<open>internal/notify\<close> and \<open>internal/store/webhook.go\<close>: incident tickets, the two DAOs on the webhook
  tables, and the delivery of an event to a webhook channel with its retries.  The webhook tables are
  read with the columns they really have: a statement that names another column fails.
\<close>

section \<open>Incidents (notify.go)\<close>

record Incident =
  in_SessionID :: uuid
  in_Summary :: string
  in_Description :: string
  in_Severity :: string
  in_Status :: string
  in_ReportURL :: string

text \<open>\<open>str\<close> is \<open>UUID.String\<close>, 36 characters in the library, so the slice \<open>[:8]\<close> is its prefix.\<close>

definition NOOPIncidentNotifier_CreateIncident :: "(uuid \<Rightarrow> string) \<Rightarrow> Incident \<Rightarrow> string result" where
  "NOOPIncidentNotifier_CreateIncident str i = Inr (''NOOP-'' @ take 8 (str (in_SessionID i)))"

definition severityToJiraPriority :: "string \<Rightarrow> string" where
  "severityToJiraPriority severity =
     (if severity = ''CRITICAL'' then ''Highest''
      else if severity = ''HIGH'' then ''High''
      else if severity = ''MEDIUM'' then ''Medium''
      else ''Low'')"

text \<open>The payload for Jira: a Go map with the description in the Atlassian document format.\<close>

definition adf_paragraph :: "string \<Rightarrow> json" where
  "adf_paragraph txt = JObject [(''type'', JString ''paragraph''),
     (''content'', JArray [JObject [(''type'', JString ''text''), (''text'', JString txt)]])]"

definition buildADFDescription :: "(uuid \<Rightarrow> string) \<Rightarrow> Incident \<Rightarrow> json" where
  "buildADFDescription str i = JObject [(''type'', JString ''doc''), (''version'', JNumber ''1''),
     (''content'', JArray [adf_paragraph (in_Description i),
        adf_paragraph (''Session: '' @ str (in_SessionID i) @ '' | Report: '' @ in_ReportURL i)])]"

definition jira_payload :: "(uuid \<Rightarrow> string) \<Rightarrow> string \<Rightarrow> Incident \<Rightarrow> json" where
  "jira_payload str projectKey i = JObject [(''fields'', JObject
     [(''project'', JObject [(''key'', JString projectKey)]),
      (''summary'', JString (in_Summary i)),
      (''description'', buildADFDescription str i),
      (''issuetype'', JObject [(''name'', JString ''Incident'')]),
      (''priority'', JObject [(''name'', JString (severityToJiraPriority (in_Severity i)))]),
      (''labels'', JArray [JString ''microservice-diagnosis'', JString ''auto-created''])])]"

text \<open>The payload is built and dropped; only the ticket key is returned.\<close>

definition go_rem :: "int \<Rightarrow> int \<Rightarrow> int" where
  "go_rem a b = (if a < 0 then - ((- a) mod b) else a mod b)"

definition JiraIncidentNotifier_CreateIncident :: "string \<Rightarrow> time \<Rightarrow> Incident \<Rightarrow> string result" where
  "JiraIncidentNotifier_CreateIncident projectKey now i =
     Inr (projectKey @ ''-'' @ show_int (go_rem ((now - unix_epoch) div Second) 10000))"

definition severityToPDSeverity :: "string \<Rightarrow> string" where
  "severityToPDSeverity severity =
     (if severity = ''CRITICAL'' \<or> severity = ''HIGH'' then ''critical''
      else if severity = ''MEDIUM'' then ''error''
      else ''warning'')"

definition pagerduty_payload :: "(uuid \<Rightarrow> string) \<Rightarrow> string \<Rightarrow> Incident \<Rightarrow> json" where
  "pagerduty_payload str routingKey i = JObject [(''routing_key'', JString routingKey),
     (''event_action'', JString ''trigger''), (''dedup_key'', JString (str (in_SessionID i))),
     (''payload'', JObject [(''summary'', JString (in_Summary i)), (''source'', JString ''microservice-diagnosis''),
        (''severity'', JString (severityToPDSeverity (in_Severity i))),
        (''custom_details'', JObject [(''session_id'', JString (str (in_SessionID i))),
           (''report_url'', JString (in_ReportURL i))])])]"

text \<open>Incidents of one session share their PagerDuty key and nothing else identifies them there.\<close>

lemma pagerduty_dedup:
  assumes "inj str"
  shows "(\<exists>fs gs. pagerduty_payload str k i = JObject fs \<and> pagerduty_payload str k j = JObject gs \<and>
      map_of fs ''dedup_key'' = map_of gs ''dedup_key'') \<longleftrightarrow> in_SessionID i = in_SessionID j"
  using assms by (auto simp: pagerduty_payload_def dest: injD)

definition PagerDutyIncidentNotifier_CreateIncident :: "(uuid \<Rightarrow> string) \<Rightarrow> Incident \<Rightarrow> string result" where
  "PagerDutyIncidentNotifier_CreateIncident str i = Inr (''PD-'' @ take 8 (str (in_SessionID i)))"

text \<open>
  The interface \<open>IncidentNotifier\<close>: a call gives a ticket that starts with the notifier's tag, and fails for no
  incident.  Two of the three notifiers name the ticket after the session: however often they are asked
  for an incident of one session, there is one ticket.
\<close>

locale incident_notifier =
  fixes create :: "time \<Rightarrow> Incident \<Rightarrow> string result" and tag :: string
  assumes create_ticket: "\<exists>key. create now i = Inr (tag @ ''-'' @ key)"
begin

lemma never_fails: "create now i \<noteq> Inl e"
  using create_ticket [of now i] by auto

lemma ticket_nonempty: "create now i = Inr t \<Longrightarrow> t \<noteq> []"
  using create_ticket [of now i] by auto

end

locale session_notifier = incident_notifier +
  assumes create_session: "in_SessionID i = in_SessionID j \<Longrightarrow> create now i = create now' j"
begin

lemma one_ticket:
  assumes "\<forall>(now, i) \<in> set calls. in_SessionID i = sid"
  shows "\<exists>t. (\<lambda>(now, i). create now i) ` set calls \<subseteq> {Inr t}"
proof (cases calls)
  case (Cons c cs)
  obtain now i where c: "c = (now, i)" by force
  with Cons assms obtain t where t: "create now i = Inr t" and i: "in_SessionID i = sid"
    using create_ticket [of now i] by auto
  have "create now' j = Inr t" if "(now', j) \<in> set calls" for now' j
    using create_session [of j i now' now] assms that i t by auto
  then show ?thesis by (intro exI [of _ t]) auto
qed simp

end

interpretation noop_notifier: session_notifier "\<lambda>now. NOOPIncidentNotifier_CreateIncident str" "''NOOP''" for str
  by unfold_locales (auto simp: NOOPIncidentNotifier_CreateIncident_def)

interpretation pagerduty_notifier: session_notifier "\<lambda>now. PagerDutyIncidentNotifier_CreateIncident str" "''PD''" for str
  by unfold_locales (auto simp: PagerDutyIncidentNotifier_CreateIncident_def)

interpretation jira_notifier: incident_notifier "JiraIncidentNotifier_CreateIncident projectKey" projectKey for projectKey
  by unfold_locales (auto simp: JiraIncidentNotifier_CreateIncident_def)

text \<open>The Jira notifier is not one of them.  Its key is the clock, so the incidents of any two sessions share a
  ticket when they come in the same second, and again after 10000 seconds.\<close>

lemma jira_shared_ticket:
  assumes "0 \<le> (now - unix_epoch) div Second" and "0 \<le> k"
    and "(now' - unix_epoch) div Second = (now - unix_epoch) div Second + 10000 * k"
  shows "JiraIncidentNotifier_CreateIncident project now' j = JiraIncidentNotifier_CreateIncident project now i"
  using assms by (simp add: JiraIncidentNotifier_CreateIncident_def go_rem_def)

section \<open>The webhook tables\<close>

text \<open>Nullable columns are options.  The two lists of columns are the schema.\<close>

record webhook_row =
  wh_ID :: uuid
  wh_Name :: "string option"
  wh_Channel :: "string option"
  wh_URL :: string
  wh_Secret :: "string option"
  wh_Enabled :: "bool option"
  wh_CreatedAt :: time

record delivery_row =
  dv_ID :: uuid
  dv_SessionID :: "uuid option"
  dv_Channel :: "string option"
  dv_Status :: "string option"
  dv_Attempt :: int
  dv_ResponseCode :: int
  dv_LastError :: "string option"
  dv_DeliveredAt :: "time option"
  dv_CreatedAt :: time

record hook_db = db +
  w_hooks :: "webhook_row list"
  w_deliveries :: "delivery_row list"
  w_hook_columns :: "string list"
  w_delivery_columns :: "string list"

text \<open>The columns that \<open>001_initial_schema.sql\<close> creates.\<close>

definition migrated_hook_columns :: "string list" where
  "migrated_hook_columns = [''id'', ''name'', ''channel'', ''url'', ''secret'', ''enabled'']"

definition migrated_delivery_columns :: "string list" where
  "migrated_delivery_columns = [''id'', ''session_id'', ''channel'', ''status'', ''attempt'', ''last_error'',
     ''delivered_at'', ''created_at'']"

definition missing_column :: "'a db_scheme \<Rightarrow> gerror \<times> 'a db_scheme" where
  "missing_column w = (case next_fault w of
       Some e \<Rightarrow> (e, pop_fault w)
     | None \<Rightarrow> (ErrorString ''column does not exist'', pop_fault w))"

definition query_columns ::
  "string list \<Rightarrow> string list \<Rightarrow> ('a db_scheme \<Rightarrow> 'r list) \<Rightarrow> 'a db_scheme \<Rightarrow>
   ('r list \<times> gerror option) result \<times> 'a db_scheme" where
  "query_columns wanted schema q w =
     (if set wanted \<subseteq> set schema then db_query q w
      else (case missing_column w of (e, w1) \<Rightarrow> (Inl e, w1)))"

definition exec_columns ::
  "string list \<Rightarrow> string list \<Rightarrow> ('a db_scheme \<Rightarrow> gerror + 'a db_scheme) \<Rightarrow> 'a db_scheme \<Rightarrow>
   gerror option \<times> 'a db_scheme" where
  "exec_columns wanted schema f w =
     (if set wanted \<subseteq> set schema then db_exec f w
      else (case missing_column w of (e, w1) \<Rightarrow> (Some e, w1)))"

text \<open>Scanning a row into Go strings fails on a null.\<close>

record WebhookConfig =
  whc_ID :: uuid
  whc_Name :: string
  whc_Channel :: string
  whc_URL :: string
  whc_Secret :: string
  whc_Enabled :: bool

fun scan_webhook :: "webhook_row \<Rightarrow> WebhookConfig option" where
  "scan_webhook r = (case (wh_Name r, wh_Channel r, wh_Secret r, wh_Enabled r) of
       (Some n, Some c, Some s, Some b) \<Rightarrow>
         Some \<lparr>whc_ID = wh_ID r, whc_Name = n, whc_Channel = c, whc_URL = wh_URL r, whc_Secret = s, whc_Enabled = b\<rparr>
     | _ \<Rightarrow> None)"

definition null_scan :: gerror where
  "null_scan = ErrorString ''cannot scan NULL into *string''"

fun scan_all :: "webhook_row list \<Rightarrow> WebhookConfig list result" where
  "scan_all [] = Inr []"
| "scan_all (r # rs) = (case scan_webhook r of
       None \<Rightarrow> Inl (wrap ''scan webhook config: '' null_scan)
     | Some c \<Rightarrow> (case scan_all rs of Inl e \<Rightarrow> Inl e | Inr cs \<Rightarrow> Inr (c # cs)))"

section \<open>The DAO of the store package (webhook.go)\<close>

definition insert_hook :: "webhook_row \<Rightarrow> 'a hook_db_scheme \<Rightarrow> gerror + 'a hook_db_scheme" where
  "insert_hook r w =
     (if wh_ID r \<in> wh_ID ` set (w_hooks w)
      then Inl (ErrorString ''duplicate key value violates unique constraint'')
      else Inr (w\<lparr>w_hooks := w_hooks w @ [r]\<rparr>))"

definition fit_hook :: "webhook_row \<Rightarrow> webhook_row option" where
  "fit_hook r =
     (case (opt_column (varchar 64) (wh_Name r), opt_column (varchar 16) (wh_Channel r), text_column (wh_URL r),
            opt_column text_column (wh_Secret r)) of
        (Some n, Some c, Some u, Some s) \<Rightarrow> Some (r\<lparr>wh_Name := n, wh_Channel := c, wh_URL := u, wh_Secret := s\<rparr>)
      | _ \<Rightarrow> None)"

definition StoreWebhookDAO_CreateConfig ::
  "WebhookConfig \<Rightarrow> 'a hook_db_scheme \<Rightarrow> gerror option \<times> WebhookConfig \<times> 'a hook_db_scheme" where
  "StoreWebhookDAO_CreateConfig wc0 w0 =
    (let (wc, w1) = (if whc_ID wc0 = uuid_Nil then (case uuid_New w0 of (i, w) \<Rightarrow> (wc0\<lparr>whc_ID := i\<rparr>, w))
                     else (wc0, w0))
     in case db_exec (fitted fit_hook insert_hook \<lparr>wh_ID = whc_ID wc, wh_Name = Some (whc_Name wc),
            wh_Channel = Some (whc_Channel wc), wh_URL = whc_URL wc, wh_Secret = Some (whc_Secret wc),
            wh_Enabled = Some (whc_Enabled wc), wh_CreatedAt = 0\<rparr>) w1 of
          (Some e, w2) \<Rightarrow> (Some (wrap ''webhook config create: '' e), wc, w2)
        | (None, w2) \<Rightarrow> (None, wc, w2))"

definition enabled_hooks :: "string \<Rightarrow> 'a hook_db_scheme \<Rightarrow> webhook_row list" where
  "enabled_hooks channel w = filter (\<lambda>r. wh_Enabled r = Some True \<and>
      (channel = [] \<or> wh_Channel r = Some channel)) (w_hooks w)"

definition StoreWebhookDAO_GetEnabledConfigs ::
  "string \<Rightarrow> 'a hook_db_scheme \<Rightarrow> WebhookConfig list result \<times> 'a hook_db_scheme" where
  "StoreWebhookDAO_GetEnabledConfigs channel w0 =
    (case db_query (enabled_hooks channel) w0 of
       (Inl e, w1) \<Rightarrow> (Inl (wrap ''webhook config list: '' e), w1)
     | (Inr (rows, rerr), w1) \<Rightarrow>
        (case scan_all rows of
           Inl e \<Rightarrow> (Inl e, w1)
         | Inr cs \<Rightarrow> (case rerr of
               Some e \<Rightarrow> (Inl (wrap ''webhook config list rows: '' e), w1)
             | None \<Rightarrow> (Inr cs, w1))))"

abbreviation DeliveryStatusPending where "DeliveryStatusPending \<equiv> ''PENDING''"
abbreviation DeliveryStatusSuccess where "DeliveryStatusSuccess \<equiv> ''SUCCESS''"
abbreviation DeliveryStatusFailed where "DeliveryStatusFailed \<equiv> ''FAILED''"

record WebhookDelivery =
  wd_ID :: uuid
  wd_SessionID :: "uuid option"
  wd_Channel :: string
  wd_Status :: string
  wd_Attempt :: int
  wd_LastError :: "string option"
  wd_DeliveredAt :: "time option"
  wd_CreatedAt :: time

definition insert_delivery :: "delivery_row \<Rightarrow> 'a hook_db_scheme \<Rightarrow> gerror + 'a hook_db_scheme" where
  "insert_delivery r w =
     (if dv_ID r \<in> dv_ID ` set (w_deliveries w)
      then Inl (ErrorString ''duplicate key value violates unique constraint'')
      else if \<exists>sid. dv_SessionID r = Some sid \<and> find_session sid w = None
      then Inl (ErrorString ''insert violates foreign key constraint'')
      else Inr (w\<lparr>w_deliveries := w_deliveries w @ [r]\<rparr>))"

definition fit_delivery :: "delivery_row \<Rightarrow> delivery_row option" where
  "fit_delivery r =
     (case (opt_column (varchar 16) (dv_Channel r), opt_column (varchar 16) (dv_Status r),
            opt_column text_column (dv_LastError r)) of
        (Some c, Some st, Some e) \<Rightarrow> Some (r\<lparr>dv_Channel := c, dv_Status := st, dv_LastError := e\<rparr>)
      | _ \<Rightarrow> None)"

definition StoreWebhookDAO_CreateDelivery ::
  "WebhookDelivery \<Rightarrow> 'a hook_db_scheme \<Rightarrow> gerror option \<times> WebhookDelivery \<times> 'a hook_db_scheme" where
  "StoreWebhookDAO_CreateDelivery d0 w0 =
    (let (d1, w1) = (if wd_ID d0 = uuid_Nil then (case uuid_New w0 of (i, w) \<Rightarrow> (d0\<lparr>wd_ID := i\<rparr>, w))
                     else (d0, w0));
         d2 = (if wd_CreatedAt d1 = 0 then d1\<lparr>wd_CreatedAt := w_now w1\<rparr> else d1);
         d = (if wd_Status d2 = [] then d2\<lparr>wd_Status := DeliveryStatusPending\<rparr> else d2)
     in case db_exec (fitted fit_delivery insert_delivery \<lparr>dv_ID = wd_ID d, dv_SessionID = wd_SessionID d,
            dv_Channel = Some (wd_Channel d), dv_Status = Some (wd_Status d), dv_Attempt = wd_Attempt d,
            dv_ResponseCode = 0, dv_LastError = wd_LastError d, dv_DeliveredAt = wd_DeliveredAt d,
            dv_CreatedAt = wd_CreatedAt d\<rparr>) w1 of
          (Some e, w2) \<Rightarrow> (Some (wrap ''webhook delivery create: '' e), d, w2)
        | (None, w2) \<Rightarrow> (None, d, w2))"

definition set_delivery :: "uuid \<Rightarrow> (delivery_row \<Rightarrow> delivery_row) \<Rightarrow> 'a hook_db_scheme \<Rightarrow> 'a hook_db_scheme" where
  "set_delivery i f w = w\<lparr>w_deliveries := tbl_update (\<lambda>r. dv_ID r = i) f (w_deliveries w)\<rparr>"

fun put_delivered :: "time \<Rightarrow> delivery_row \<Rightarrow> delivery_row" where
  "put_delivered t r = r\<lparr>dv_Status := Some DeliveryStatusSuccess, dv_DeliveredAt := Some t\<rparr>"

fun put_delivery_failed :: "string \<Rightarrow> delivery_row \<Rightarrow> delivery_row" where
  "put_delivery_failed m r = r\<lparr>dv_Status := Some DeliveryStatusFailed, dv_Attempt := dv_Attempt r + 1,
                              dv_LastError := Some m\<rparr>"

interpretation delivered_rows: keyed_rows dv_ID put_delivered
  by unfold_locales auto

interpretation delivery_failed_rows: keyed_rows dv_ID put_delivery_failed
  by unfold_locales auto

definition StoreWebhookDAO_UpdateDeliverySuccess ::
  "uuid \<Rightarrow> 'a hook_db_scheme \<Rightarrow> gerror option \<times> 'a hook_db_scheme" where
  "StoreWebhookDAO_UpdateDeliverySuccess i w0 =
    (case db_exec (\<lambda>w. Inr (set_delivery i (put_delivered (w_now w)) w)) w0 of
       (Some e, w1) \<Rightarrow> (Some (wrap ''webhook delivery success: '' e), w1)
     | (None, w1) \<Rightarrow> (None, w1))"

definition StoreWebhookDAO_UpdateDeliveryFailure ::
  "uuid \<Rightarrow> string \<Rightarrow> 'a hook_db_scheme \<Rightarrow> gerror option \<times> 'a hook_db_scheme" where
  "StoreWebhookDAO_UpdateDeliveryFailure i errMsg w0 =
    (case db_exec (fitted text_column (\<lambda>m w. Inr (set_delivery i (put_delivery_failed m) w)) errMsg) w0 of
       (Some e, w1) \<Rightarrow> (Some (wrap ''webhook delivery failure: '' e), w1)
     | (None, w1) \<Rightarrow> (None, w1))"

definition scan_delivery :: "delivery_row \<Rightarrow> WebhookDelivery option" where
  "scan_delivery r = (case (dv_Channel r, dv_Status r) of
       (Some c, Some s) \<Rightarrow> Some \<lparr>wd_ID = dv_ID r, wd_SessionID = dv_SessionID r, wd_Channel = c, wd_Status = s,
          wd_Attempt = dv_Attempt r, wd_LastError = dv_LastError r, wd_DeliveredAt = dv_DeliveredAt r,
          wd_CreatedAt = dv_CreatedAt r\<rparr>
     | _ \<Rightarrow> None)"

definition StoreWebhookDAO_GetDeliveryByID ::
  "uuid \<Rightarrow> 'a hook_db_scheme \<Rightarrow> WebhookDelivery result \<times> 'a hook_db_scheme" where
  "StoreWebhookDAO_GetDeliveryByID i w0 =
    (case db_query_row (\<lambda>w. tbl_find (\<lambda>r. dv_ID r = i) (w_deliveries w)) w0 of
       (Inl e, w1) \<Rightarrow> (if errors_is e ErrNoRows then (Inl (Sentinel ErrNotFound), w1)
                       else (Inl (wrap ''scan webhook delivery: '' e), w1))
     | (Inr r, w1) \<Rightarrow> (case scan_delivery r of
           None \<Rightarrow> (Inl (wrap ''scan webhook delivery: '' null_scan), w1)
         | Some d \<Rightarrow> (Inr d, w1)))"

end
