(* ===== verification/Webhook.thy ===== *)
theory Webhook imports Notify begin

text \<open>
  \<open>internal/notify/webhook.go\<close>: the DAO of the notifier and the delivery of an event to one channel,
  with three attempts and a quadratic pause.  The HTTP outcomes, the check of a URL by
  \<open>http.NewRequest\<close>, HMAC-SHA256 and the text forms of identifiers and times are arguments.
\<close>

section \<open>Events and the DAO of the notifier\<close>

record DiagnosticEvent =
  de_EventType :: string
  de_SessionID :: uuid
  de_Status :: string
  de_Summary :: string
  de_Message :: string
  de_Service :: string
  de_ReportURL :: string
  de_Timestamp :: time
  de_Labels :: "(string \<times> string) list"

definition WebhookDAO_ListEnabled ::
  "'a hook_db_scheme \<Rightarrow> WebhookConfig list result \<times> 'a hook_db_scheme" where
  "WebhookDAO_ListEnabled w0 =
    (case query_columns [''id'', ''name'', ''channel'', ''url'', ''secret'', ''enabled'', ''created_at'']
        (w_hook_columns w0) (enabled_hooks []) w0 of
       (Inl e, w1) \<Rightarrow> (Inl (wrap ''webhook list: '' e), w1)
     | (Inr (rows, rerr), w1) \<Rightarrow> (scan_all rows, w1))"

record WebhookDeliveryLog =
  dl_ID :: uuid
  dl_SessionID :: uuid
  dl_Channel :: string
  dl_Status :: string
  dl_Attempt :: int
  dl_ResponseCode :: int
  dl_LastError :: string
  dl_DeliveredAt :: "time option"
  dl_CreatedAt :: time

definition delivery_log_row :: "WebhookDeliveryLog \<Rightarrow> delivery_row" where
  "delivery_log_row entry = \<lparr>dv_ID = dl_ID entry, dv_SessionID = Some (dl_SessionID entry),
     dv_Channel = Some (dl_Channel entry), dv_Status = Some (dl_Status entry), dv_Attempt = dl_Attempt entry,
     dv_ResponseCode = dl_ResponseCode entry, dv_LastError = Some (dl_LastError entry),
     dv_DeliveredAt = dl_DeliveredAt entry, dv_CreatedAt = dl_CreatedAt entry\<rparr>"

definition WebhookDAO_LogDelivery ::
  "WebhookDeliveryLog \<Rightarrow> 'a hook_db_scheme \<Rightarrow> gerror option \<times> 'a hook_db_scheme" where
  "WebhookDAO_LogDelivery log0 w0 =
    (let (log1, w1) = (if dl_ID log0 = uuid_Nil then (case uuid_New w0 of (i, w) \<Rightarrow> (log0\<lparr>dl_ID := i\<rparr>, w))
                       else (log0, w0));
         log = (if dl_CreatedAt log1 = 0 then log1\<lparr>dl_CreatedAt := w_now w1\<rparr> else log1)
     in case exec_columns [''id'', ''session_id'', ''channel'', ''status'', ''attempt'', ''response_code'',
            ''last_error'', ''delivered_at'', ''created_at''] (w_delivery_columns w1)
          (fitted fit_delivery insert_delivery (delivery_log_row log)) w1 of
          (Some e, w2) \<Rightarrow> (Some (wrap ''webhook log insert: '' e), w2)
        | (None, w2) \<Rightarrow> (None, w2))"

fun put_delivery_ok :: "time \<Rightarrow> delivery_row \<Rightarrow> delivery_row" where
  "put_delivery_ok t r = r\<lparr>dv_Status := Some ''SUCCESS'', dv_DeliveredAt := Some t, dv_ResponseCode := 200\<rparr>"

definition WebhookDAO_UpdateDeliverySuccess ::
  "uuid \<Rightarrow> 'a hook_db_scheme \<Rightarrow> gerror option \<times> 'a hook_db_scheme" where
  "WebhookDAO_UpdateDeliverySuccess i w0 =
    (case exec_columns [''id'', ''status'', ''delivered_at'', ''response_code''] (w_delivery_columns w0)
        (\<lambda>w. Inr (set_delivery i (put_delivery_ok (w_now w)) w)) w0 of
       (Some e, w1) \<Rightarrow> (Some (wrap ''webhook update success: '' e), w1)
     | (None, w1) \<Rightarrow> (None, w1))"

section \<open>Delivery\<close>

datatype http_outcome = TransportError string | Response int string

record http_request =
  hr_URL :: string
  hr_Headers :: "(string \<times> string) list"
  hr_Body :: string

text \<open>The libraries a delivery uses.\<close>

record webhook_lib =
  wl_NewRequest :: "string \<Rightarrow> gerror option"
  wl_hmac_sha256 :: "string \<Rightarrow> string \<Rightarrow> 8 word list"
  wl_uuid_String :: "uuid \<Rightarrow> string"
  wl_time_JSON :: "time \<Rightarrow> string"

text \<open>\<open>json.Marshal\<close> of the event: fields in declaration order, the empty optional ones omitted.\<close>

fun json_raw_fields :: "(string \<times> string) list \<Rightarrow> string" where
  "json_raw_fields [] = []"
| "json_raw_fields [(k, v)] = json_quote k @ '':'' @ v"
| "json_raw_fields ((k, v) # kvs) = json_quote k @ '':'' @ v @ '','' @ json_raw_fields kvs"

definition marshal_event :: "webhook_lib \<Rightarrow> DiagnosticEvent \<Rightarrow> string" where
  "marshal_event lib e =
    (let opt = (\<lambda>k v. if v = [] then [] else [(k, json_quote v)]) in
     ''{'' @ json_raw_fields
       ([(''event_type'', json_quote (de_EventType e)),
         (''session_id'', json_quote (wl_uuid_String lib (de_SessionID e))),
         (''status'', json_quote (de_Status e)),
         (''summary'', json_quote (de_Summary e))] @
        opt ''message'' (de_Message e) @ opt ''target_service'' (de_Service e) @
        opt ''report_url'' (de_ReportURL e) @
        [(''timestamp'', json_quote (wl_time_JSON lib (de_Timestamp e)))] @
        (if de_Labels e = [] then [] else [(''labels'', json_object (de_Labels e))])) @ ''}'')"

definition sign :: "webhook_lib \<Rightarrow> string \<Rightarrow> string \<Rightarrow> string" where
  "sign lib payload secret = ''sha256='' @ hex_EncodeToString (wl_hmac_sha256 lib secret payload)"

definition delivery_request :: "webhook_lib \<Rightarrow> WebhookConfig \<Rightarrow> string \<Rightarrow> http_request" where
  "delivery_request lib cfg body = \<lparr>hr_URL = whc_URL cfg,
     hr_Headers = [(''Content-Type'', ''application/json'')] @
       (if whc_Secret cfg \<noteq> [] then [(''X-Webhook-Signature'', sign lib body (whc_Secret cfg))] else []),
     hr_Body = body\<rparr>"

text \<open>The log entry of an attempt, \<open>None\<close> being a success.\<close>

definition attempt_log :: "WebhookConfig \<Rightarrow> DiagnosticEvent \<Rightarrow> nat \<Rightarrow> WebhookDeliveryLog" where
  "attempt_log cfg e attempt = \<lparr>dl_ID = uuid_Nil, dl_SessionID = de_SessionID e, dl_Channel = whc_Channel cfg,
     dl_Status = [], dl_Attempt = int attempt, dl_ResponseCode = 0, dl_LastError = [],
     dl_DeliveredAt = None, dl_CreatedAt = 0\<rparr>"

fun delivered :: "http_outcome \<Rightarrow> bool" where
  "delivered (Response code body) = (200 \<le> code \<and> code < 300)"
| "delivered (TransportError m) = False"

fun failure_log :: "http_outcome \<Rightarrow> WebhookDeliveryLog \<Rightarrow> WebhookDeliveryLog" where
  "failure_log (TransportError m) l = l\<lparr>dl_LastError := m, dl_Status := ''FAIL''\<rparr>"
| "failure_log (Response code body) l =
     l\<lparr>dl_ResponseCode := code, dl_LastError := (if body = [] then dl_LastError l else body), dl_Status := ''FAIL''\<rparr>"

fun response_code :: "http_outcome \<Rightarrow> int" where
  "response_code (Response code body) = code"
| "response_code (TransportError m) = 0"

text \<open>The loop over the attempts that are left, with the outcomes of the requests to come (a request
  beyond the list fails).  It returns the requests sent.  A request that cannot be built is skipped
  without a log entry and without a pause.\<close>

definition maxAttempts :: nat where
  "maxAttempts = 3"

fun next_outcome :: "http_outcome list \<Rightarrow> http_outcome" where
  "next_outcome [] = TransportError ''no route to host''"
| "next_outcome (o' # os) = o'"

fun deliver_attempts ::
  "webhook_lib \<Rightarrow> WebhookConfig \<Rightarrow> DiagnosticEvent \<Rightarrow> string \<Rightarrow> nat list \<Rightarrow> http_outcome list \<Rightarrow>
   'a hook_db_scheme \<Rightarrow> http_request list \<times> 'a hook_db_scheme" where
  "deliver_attempts lib cfg e body [] os w = ([], w)"
| "deliver_attempts lib cfg e body (attempt # rest) os w =
    (case wl_NewRequest lib (whc_URL cfg) of
       Some err \<Rightarrow> deliver_attempts lib cfg e body rest os w
     | None \<Rightarrow>
        (let req = delivery_request lib cfg body; outcome = next_outcome os in
         if delivered outcome
         then ([req], snd (WebhookDAO_LogDelivery ((attempt_log cfg e attempt)
                \<lparr>dl_Status := ''SUCCESS'', dl_ResponseCode := response_code outcome,
                 dl_DeliveredAt := Some (w_now w)\<rparr>) w))
         else (let w1 = snd (WebhookDAO_LogDelivery (failure_log outcome (attempt_log cfg e attempt)) w);
                   w2 = (if attempt < maxAttempts then sleep (int (attempt * attempt) * Second) w1 else w1);
                   (reqs, w3) = deliver_attempts lib cfg e body rest (tl os) w2
               in (req # reqs, w3))))"

definition deliver ::
  "webhook_lib \<Rightarrow> WebhookConfig \<Rightarrow> DiagnosticEvent \<Rightarrow> http_outcome list \<Rightarrow>
   'a hook_db_scheme \<Rightarrow> http_request list \<times> 'a hook_db_scheme" where
  "deliver lib cfg e os w = deliver_attempts lib cfg e (marshal_event lib e) [1 ..< Suc maxAttempts] os w"

text \<open>\<open>Notify\<close> starts one delivery per enabled channel and does not wait for it: the second
  component is the list of deliveries started.\<close>

definition WebhookNotifier_Notify ::
  "DiagnosticEvent \<Rightarrow> 'a hook_db_scheme \<Rightarrow>
   gerror option \<times> (WebhookConfig \<times> DiagnosticEvent) list \<times> 'a hook_db_scheme" where
  "WebhookNotifier_Notify e w0 = (case WebhookDAO_ListEnabled w0 of
       (Inl err, w1) \<Rightarrow> (Some (wrap ''notify: list configs: '' err), [], w1)
     | (Inr configs, w1) \<Rightarrow> (None, map (\<lambda>cfg. (cfg, e)) configs, w1))"

section \<open>Properties\<close>

text \<open>A statement whose effect does not touch the clock does not move it.\<close>

lemma db_exec_now:
  assumes "\<And>w w'. f w = Inr w' \<Longrightarrow> w_now w' = w_now w"
  shows "w_now (snd (db_exec f w)) = w_now w"
  using assms [of "pop_fault w"] by (auto simp: db_exec_def split: option.split sum.split)

lemma exec_columns_now:
  assumes "\<And>w w'. f w = Inr w' \<Longrightarrow> w_now w' = w_now w"
  shows "w_now (snd (exec_columns a b f w)) = w_now w"
  using db_exec_now [of f w] assms
  by (auto simp: exec_columns_def missing_column_def split: option.split)

lemma insert_delivery_now: "insert_delivery r w = Inr w' \<Longrightarrow> w_now w' = w_now w"
  by (auto simp: insert_delivery_def split: if_splits)

lemma log_delivery_now: "w_now (snd (WebhookDAO_LogDelivery l w)) = w_now w"
proof -
  obtain l1 w1 where 1: "(if dl_ID l = uuid_Nil then (case uuid_New w of (i, w) \<Rightarrow> (l\<lparr>dl_ID := i\<rparr>, w))
      else (l, w)) = (l1, w1)" by force
  then have w1: "w_now w1 = w_now w" by (auto simp: uuid_New_def split: if_splits)
  let ?log = "if dl_CreatedAt l1 = 0 then l1\<lparr>dl_CreatedAt := w_now w1\<rparr> else l1"
  let ?x = "exec_columns [''id'', ''session_id'', ''channel'', ''status'', ''attempt'', ''response_code'',
            ''last_error'', ''delivered_at'', ''created_at''] (w_delivery_columns w1)
          (fitted fit_delivery insert_delivery (delivery_log_row ?log)) w1"
  obtain err w2 where 2: "?x = (err, w2)" by (cases ?x)
  have "w_now (snd ?x) = w_now w1" by (rule exec_columns_now) (auto dest!: fitted_ok insert_delivery_now)
  then have "w_now w2 = w_now w1" unfolding 2 snd_conv .
  moreover have "snd (WebhookDAO_LogDelivery l w) = w2"
    unfolding WebhookDAO_LogDelivery_def 1 Let_def prod.case 2 by (simp split: option.split)
  ultimately show ?thesis using w1 by simp
qed

lemma upt_attempts: "[1 ..< Suc maxAttempts] = [1, 2, 3]"
  by (simp add: maxAttempts_def upt_rec numeral_eq_Suc)

text \<open>C37 (deliver_spec): a delivery to a channel with a well-formed URL makes at least one and at most
  three requests, all equal: the same body, signed with the channel's secret.  It stops at the first
  answer in the 200 range and pauses one second after the first failure and four after the second;
  with a URL that no request can be built from it sends nothing.\<close>

theorem deliver_spec:
  "fst (deliver lib cfg e os w) =
     (if wl_NewRequest lib (whc_URL cfg) \<noteq> None then []
      else replicate (if delivered (next_outcome os) then 1
                      else if delivered (next_outcome (tl os)) then 2 else 3)
             (delivery_request lib cfg (marshal_event lib e))) \<and>
   w_now (snd (deliver lib cfg e os w)) = w_now w +
     (if wl_NewRequest lib (whc_URL cfg) \<noteq> None then 0 else if delivered (next_outcome os) then 0
      else if delivered (next_outcome (tl os)) then Second else 5 * Second)"
proof -
  have now: "w_now (sleep d w) = w_now w + d" for d and w :: "'a hook_db_scheme"
    by (simp add: sleep_def)
  show ?thesis
    unfolding deliver_def upt_attempts
    by (cases "wl_NewRequest lib (whc_URL cfg)")
       (simp_all add: Let_def maxAttempts_def log_delivery_now now numeral_eq_Suc split: prod.split)
qed

text \<open>\<open>ListEnabled\<close> reads \<open>webhook_configs.created_at\<close>, a column that the
  migrations do not create.  On the migrated schema \<open>Notify\<close> therefore reports an error and starts no
  delivery, whatever channels are configured.\<close>

theorem notify_needs_created_at:
  assumes "w_hook_columns w = migrated_hook_columns"
  shows "\<exists>err w'. WebhookNotifier_Notify e w = (Some err, [], w') \<and> w_hooks w' = w_hooks w \<and>
    w_deliveries w' = w_deliveries w"
proof -
  have "query_columns [''id'', ''name'', ''channel'', ''url'', ''secret'', ''enabled'', ''created_at'']
      migrated_hook_columns q w = (Inl (fst (missing_column w)), pop_fault w)"
    for q :: "'a hook_db_scheme \<Rightarrow> webhook_row list"
    by (auto simp: query_columns_def migrated_hook_columns_def missing_column_def split: option.split)
  then show ?thesis
    by (simp add: WebhookNotifier_Notify_def WebhookDAO_ListEnabled_def assms pop_fault_def)
qed

definition sample_hook_db :: "webhook_row list \<Rightarrow> hook_db" where
  "sample_hook_db hooks = \<lparr>w_sessions = [], w_fix_actions = [], w_approvals = [], w_events = [], w_kb = [],
     w_locked = [], w_faults = [], w_now = Hour, w_fresh = (\<lambda>n. of_nat (1000 + n)), w_ctr = 0,
     w_hooks = hooks, w_deliveries = [], w_hook_columns = migrated_hook_columns,
     w_delivery_columns = migrated_delivery_columns\<rparr>"

theorem notify_needs_created_at_witness:
  "fst (snd (WebhookNotifier_Notify \<lparr>de_EventType = ''fix_executed'', de_SessionID = 1, de_Status = ''VERIFYING'',
      de_Summary = [], de_Message = [], de_Service = ''cart'', de_ReportURL = [], de_Timestamp = 7, de_Labels = []\<rparr>
     (sample_hook_db [\<lparr>wh_ID = 9, wh_Name = Some ''ops'', wh_Channel = Some ''slack'', wh_URL = ''http://h'',
        wh_Secret = Some [], wh_Enabled = Some True, wh_CreatedAt = 0\<rparr>]))) = []"
  (is "fst (snd (WebhookNotifier_Notify ?e ?w)) = []")
proof -
  have "w_hook_columns ?w = migrated_hook_columns" by (simp add: sample_hook_db_def)
  from notify_needs_created_at [OF this, of ?e] show ?thesis by auto
qed

end
