(* ===== verification/Executor.thy ===== *)
theory Executor imports Prelude begin

text \<open>
  \<open>internal/executor\<close>: the two back-ends that carry out a fix action.  The Kubernetes client is an
  argument: a record \<open>k8s_api\<close> of the calls the executor makes, on a cluster state of any type.
  The interface \<open>Executor\<close> is the locale \<open>executor\<close>.
\<close>

section \<open>Actions and results\<close>

record ExecAction =
  xa_ID :: uuid
  xa_SessionID :: uuid
  xa_ActionType :: string
  xa_Target :: string
  xa_Risk :: string
  xa_RollbackPlan :: string

record ExecutionResult =
  xr_ID :: uuid
  xr_Status :: string
  xr_Message :: string
  xr_TicketID :: string
  xr_StartedAt :: time
  xr_EndedAt :: time
  xr_Rollback :: string

text \<open>\<open>t0\<close> and \<open>t1\<close> are the two readings of the clock.\<close>

definition NOOPExecutor_Execute :: "ExecAction \<Rightarrow> time \<Rightarrow> time \<Rightarrow> 'k \<Rightarrow> ExecutionResult result \<times> 'k" where
  "NOOPExecutor_Execute action t0 t1 k =
    (Inr \<lparr>xr_ID = xa_ID action, xr_Status = ''SUCCEEDED'',
       xr_Message = ''[NOOP] Would execute '' @ xa_ActionType action @ '' on '' @ xa_Target action,
       xr_TicketID = [], xr_StartedAt = t0, xr_EndedAt = t1, xr_Rollback = []\<rparr>, k)"

definition NOOPExecutor_Rollback :: "ExecAction \<Rightarrow> 'k \<Rightarrow> gerror option \<times> 'k" where
  "NOOPExecutor_Rollback action k = (None, k)"

section \<open>The Kubernetes executor\<close>

record Pod =
  pod_Namespace :: string
  pod_Name :: string

text \<open>\<open>Spec.Replicas\<close> is an \<open>int32\<close>.\<close>

record Scale =
  sc_Namespace :: string
  sc_Name :: string
  sc_Replicas :: "32 word"

record 'k k8s_api =
  Pods_Get :: "string \<Rightarrow> string \<Rightarrow> 'k \<Rightarrow> Pod result \<times> 'k"
  Pods_List :: "string \<Rightarrow> 'k \<Rightarrow> Pod list result \<times> 'k"
  Pods_Delete :: "string \<Rightarrow> string \<Rightarrow> 'k \<Rightarrow> gerror option \<times> 'k"
  Deployments_GetScale :: "string \<Rightarrow> string \<Rightarrow> 'k \<Rightarrow> Scale result \<times> 'k"
  Deployments_UpdateScale :: "string \<Rightarrow> string \<Rightarrow> Scale \<Rightarrow> 'k \<Rightarrow> gerror option \<times> 'k"

text \<open>\<open>build\<close> is \<open>clientcmd.BuildConfigFromFlags\<close> and \<open>create\<close> is \<open>kubernetes.NewForConfig\<close>.\<close>

definition NewK8sExecutor :: "(string \<Rightarrow> 'cfg result) \<Rightarrow> ('cfg \<Rightarrow> 'k k8s_api result) \<Rightarrow> string \<Rightarrow> 'k k8s_api result" where
  "NewK8sExecutor build create kubeconfig = (case build kubeconfig of
       Inl e \<Rightarrow> Inl (wrap ''k8s executor: build config: '' e)
     | Inr config \<Rightarrow> (case create config of
           Inl e \<Rightarrow> Inl (wrap ''k8s executor: create client: '' e)
         | Inr client \<Rightarrow> Inr client))"

text \<open>\<open>namespace/name\<close>, or just a name in the namespace \<open>default\<close>.\<close>

definition parse_target :: "string \<Rightarrow> string \<times> string" where
  "parse_target target =
     (if contains target ''/'' then split2 (CHR ''/'') target else (''default'', target))"

definition lookupPodsBySelector :: "'k k8s_api \<Rightarrow> string \<Rightarrow> 'k \<Rightarrow> Pod list result \<times> 'k" where
  "lookupPodsBySelector api selector k = (case Pods_List api selector k of
       (Inl e, k1) \<Rightarrow> (Inl (wrap (''list pods with selector '' @ quoted selector @ '': '') e), k1)
     | (Inr items, k1) \<Rightarrow> (Inr items, k1))"

definition lookupPods :: "'k k8s_api \<Rightarrow> string \<Rightarrow> 'k \<Rightarrow> Pod list result \<times> 'k" where
  "lookupPods api target k =
    (if contains target ''='' then lookupPodsBySelector api target k
     else (let (ns, name) = parse_target target in
       (case Pods_Get api ns name k of
          (Inl e, k1) \<Rightarrow> (Inl (wrap (''get pod '' @ ns @ ''/'' @ name @ '': '') e), k1)
        | (Inr pod, k1) \<Rightarrow> (Inr [pod], k1))))"

definition getScale :: "'k k8s_api \<Rightarrow> string \<Rightarrow> 'k \<Rightarrow> Scale result \<times> 'k" where
  "getScale api target k = (let (ns, name) = parse_target target in Deployments_GetScale api ns name k)"

text \<open>The loop deletes the pods one by one; a failure is logged only.\<close>

fun delete_pods :: "'k k8s_api \<Rightarrow> Pod list \<Rightarrow> 'k \<Rightarrow> 'k" where
  "delete_pods api [] k = k"
| "delete_pods api (p # ps) k = delete_pods api ps (snd (Pods_Delete api (pod_Namespace p) (pod_Name p) k))"

definition restartPod :: "'k k8s_api \<Rightarrow> ExecAction \<Rightarrow> 'k \<Rightarrow> (string \<times> string) \<times> 'k" where
  "restartPod api action k = (case lookupPods api (xa_Target action) k of
       (Inl e, k1) \<Rightarrow> ((''FAILED'', ''lookup pods: '' @ error_text e), k1)
     | (Inr pods, k1) \<Rightarrow>
         ((''SUCCEEDED'', ''restarted '' @ show_nat (length pods) @ '' pod(s)''), delete_pods api pods k1))"

text \<open>The tail shared by \<open>scaleUp\<close> and \<open>scaleDown\<close>: the update of the scale and the message.  The
  resource name of the update is \<open>namespace/name\<close>.\<close>

definition update_scale :: "'k k8s_api \<Rightarrow> string \<Rightarrow> string \<Rightarrow> Scale \<Rightarrow> 'k \<Rightarrow> (string \<times> string) \<times> 'k" where
  "update_scale api failed scaled scale k =
    (case Deployments_UpdateScale api (sc_Namespace scale) (sc_Namespace scale @ ''/'' @ sc_Name scale) scale k of
       (Some e, k1) \<Rightarrow> ((''FAILED'', failed @ '': '' @ error_text e), k1)
     | (None, k1) \<Rightarrow> ((''SUCCEEDED'', scaled @ '' deployment '' @ sc_Namespace scale @ ''/'' @ sc_Name scale
           @ '' to '' @ show_int (sint (sc_Replicas scale)) @ '' replicas''), k1))"

definition scaleUp :: "'k k8s_api \<Rightarrow> ExecAction \<Rightarrow> 'k \<Rightarrow> (string \<times> string) \<times> 'k" where
  "scaleUp api action k = (case getScale api (xa_Target action) k of
       (Inl e, k1) \<Rightarrow> ((''FAILED'', ''get scale: '' @ error_text e), k1)
     | (Inr scale, k1) \<Rightarrow>
         update_scale api ''scale up'' ''scaled up'' (scale\<lparr>sc_Replicas := sc_Replicas scale + 1\<rparr>) k1)"

definition scaleDown :: "'k k8s_api \<Rightarrow> ExecAction \<Rightarrow> 'k \<Rightarrow> (string \<times> string) \<times> 'k" where
  "scaleDown api action k = (case getScale api (xa_Target action) k of
       (Inl e, k1) \<Rightarrow> ((''FAILED'', ''get scale: '' @ error_text e), k1)
     | (Inr scale, k1) \<Rightarrow>
         update_scale api ''scale down'' ''scaled down''
           (if sint (sc_Replicas scale) > 0 then scale\<lparr>sc_Replicas := sc_Replicas scale - 1\<rparr> else scale) k1)"

definition patchConfigmap :: "ExecAction \<Rightarrow> 'k \<Rightarrow> (string \<times> string) \<times> 'k" where
  "patchConfigmap action k = ((''SUCCEEDED'', ''config change for '' @ xa_Target action
      @ '' (stub '' @ utf8_dash @ '' implement with ConfigMap patch)''), k)"

definition K8sExecutor_dispatch :: "'k k8s_api \<Rightarrow> ExecAction \<Rightarrow> 'k \<Rightarrow> (string \<times> string) \<times> 'k" where
  "K8sExecutor_dispatch api action k =
    (if xa_ActionType action = ''restart_pod'' then restartPod api action k
     else if xa_ActionType action = ''scale_up'' then scaleUp api action k
     else if xa_ActionType action = ''scale_down'' then scaleDown api action k
     else if xa_ActionType action = ''config_change'' then patchConfigmap action k
     else ((''FAILED'', ''unsupported action type: '' @ xa_ActionType action), k))"

definition K8sExecutor_Execute ::
  "'k k8s_api \<Rightarrow> ExecAction \<Rightarrow> time \<Rightarrow> time \<Rightarrow> 'k \<Rightarrow> ExecutionResult result \<times> 'k" where
  "K8sExecutor_Execute api action t0 t1 k =
    (case K8sExecutor_dispatch api action k of
       ((status, message), k1) \<Rightarrow>
         (Inr \<lparr>xr_ID = xa_ID action, xr_Status = status, xr_Message = message, xr_TicketID = [],
               xr_StartedAt = t0, xr_EndedAt = t1, xr_Rollback = []\<rparr>, k1))"

definition K8sExecutor_Rollback :: "ExecAction \<Rightarrow> 'k \<Rightarrow> gerror option \<times> 'k" where
  "K8sExecutor_Rollback action k = (None, k)"

section \<open>The interface\<close>

text \<open>What the orchestrator relies on: an execution that returns a result returns it for the action
  asked for, and its status is one of two.\<close>

locale executor =
  fixes execute :: "ExecAction \<Rightarrow> time \<Rightarrow> time \<Rightarrow> 'k \<Rightarrow> ExecutionResult result \<times> 'k"
  assumes execute_result: "execute a t0 t1 k = (Inr res, k') \<Longrightarrow>
      xr_ID res = xa_ID a \<and> (xr_Status res = ''SUCCEEDED'' \<or> xr_Status res = ''FAILED'')"
begin

lemma status_dichotomy:
  "execute a t0 t1 k = (Inr res, k') \<Longrightarrow> (xr_Status res \<noteq> ''FAILED'') = (xr_Status res = ''SUCCEEDED'')"
  using execute_result by force

end

interpretation noop_executor: executor NOOPExecutor_Execute
  by unfold_locales (auto simp: NOOPExecutor_Execute_def)

lemma update_scale_status:
  "fst (fst (update_scale api f s sc k)) = ''SUCCEEDED'' \<or> fst (fst (update_scale api f s sc k)) = ''FAILED''"
  by (auto simp: update_scale_def split: prod.split option.split)

lemma dispatch_status:
  "fst (fst (K8sExecutor_dispatch api a k)) = ''SUCCEEDED'' \<or> fst (fst (K8sExecutor_dispatch api a k)) = ''FAILED''"
  by (auto simp: K8sExecutor_dispatch_def restartPod_def scaleUp_def scaleDown_def patchConfigmap_def
      split: prod.split sum.split) (metis update_scale_status)+

interpretation k8s_executor: executor "K8sExecutor_Execute api" for api
proof unfold_locales
  fix a t0 t1 k res k'
  assume "K8sExecutor_Execute api a t0 t1 k = (Inr res, k')"
  then show "xr_ID res = xa_ID a \<and> (xr_Status res = ''SUCCEEDED'' \<or> xr_Status res = ''FAILED'')"
    using dispatch_status [of api a k] by (auto simp: K8sExecutor_Execute_def split: prod.splits)
qed

section \<open>Properties\<close>

text \<open>Both scaling actions pass \<open>namespace/name\<close> as the resource name of the
  update.  With an API that rejects resource names that hold a slash, as the Kubernetes client does,
  \<open>scale_up\<close> and \<open>scale_down\<close> never succeed, for any target and any cluster.\<close>

theorem k8s_scaling_fails:
  assumes "\<forall>ns name sc k. CHR ''/'' \<in> set name \<longrightarrow> (\<exists>e. Deployments_UpdateScale api ns name sc k = (Some e, k))"
    and "xa_ActionType a = ''scale_up'' \<or> xa_ActionType a = ''scale_down''"
  shows "\<exists>res. fst (K8sExecutor_Execute api a t0 t1 k) = Inr res \<and> xr_Status res = ''FAILED'' \<and>
    snd (K8sExecutor_Execute api a t0 t1 k) = snd (getScale api (xa_Target a) k)"
proof -
  have fails: "\<exists>m. update_scale api f s sc k = ((''FAILED'', m), k)" for f s sc k
  proof -
    have "CHR ''/'' \<in> set (sc_Namespace sc @ ''/'' @ sc_Name sc)" by simp
    with assms(1) obtain e where
      "Deployments_UpdateScale api (sc_Namespace sc) (sc_Namespace sc @ ''/'' @ sc_Name sc) sc k = (Some e, k)"
      by blast
    then show ?thesis by (simp add: update_scale_def)
  qed
  obtain r k1 where 1: "getScale api (xa_Target a) k = (r, k1)" by force
  have "\<exists>m. K8sExecutor_dispatch api a k = ((''FAILED'', m), k1)"
    using assms(2) fails 1
    by (cases r) (auto simp: K8sExecutor_dispatch_def scaleUp_def scaleDown_def)
  then show ?thesis using 1 by (auto simp: K8sExecutor_Execute_def)
qed

text \<open>A cluster of deployments, for evaluation: the state is the list of scales.\<close>

definition toy_api :: "Scale list k8s_api" where
  "toy_api = \<lparr>Pods_Get = (\<lambda>ns n k. (Inr \<lparr>pod_Namespace = ns, pod_Name = n\<rparr>, k)),
     Pods_List = (\<lambda>sel k. (Inr [], k)), Pods_Delete = (\<lambda>ns n k. (None, k)),
     Deployments_GetScale = (\<lambda>ns n k. (case List.find (\<lambda>s. sc_Namespace s = ns \<and> sc_Name s = n) k of
        None \<Rightarrow> Inl (ErrorString ''not found'') | Some s \<Rightarrow> Inr s, k)),
     Deployments_UpdateScale = (\<lambda>ns n sc k. if CHR ''/'' \<in> set n
        then (Some (ErrorString ''invalid resource name''), k)
        else (None, map (\<lambda>s. if sc_Namespace s = ns \<and> sc_Name s = n then sc else s) k))\<rparr>"

theorem k8s_scaling_fails_witness:
  "\<exists>res. fst (K8sExecutor_Execute toy_api \<lparr>xa_ID = 1, xa_SessionID = 2, xa_ActionType = ''scale_up'',
      xa_Target = ''shop/cart'', xa_Risk = ''LOW'', xa_RollbackPlan = []\<rparr> 0 1
      [\<lparr>sc_Namespace = ''shop'', sc_Name = ''cart'', sc_Replicas = 2\<rparr>]) = Inr res \<and> xr_Status res = ''FAILED''"
proof -
  let ?a = "\<lparr>xa_ID = 1, xa_SessionID = 2, xa_ActionType = ''scale_up'',
      xa_Target = ''shop/cart'', xa_Risk = ''LOW'', xa_RollbackPlan = []\<rparr>"
  have "\<forall>ns name sc k. CHR ''/'' \<in> set name \<longrightarrow> (\<exists>e. Deployments_UpdateScale toy_api ns name sc k = (Some e, k))"
    by (simp add: toy_api_def)
  from k8s_scaling_fails [OF this, of ?a 0 1] show ?thesis by auto
qed

end
