(* ===== verification/Report.thy ===== *)
theory Report imports Store_Approval Float64 begin

text \<open>
  \<open>internal/report\<close>: the data a report is made of, its Markdown text, and the PDF path with its
  fallback.  The formats of \<open>fmt\<close>, \<open>time\<close> and \<open>uuid\<close>, the file operations and the tool \<open>pandoc\<close> are arguments.
\<close>

section \<open>Report data (markdown.go)\<close>

record ObservationEntry =
  oe_ID :: uuid
  oe_Type :: string
  oe_SubType :: string
  oe_Severity :: string
  oe_TargetService :: string
  oe_Confidence :: float64
  oe_Message :: string
  oe_Labels :: "(string \<times> string) list"
  oe_Timestamp :: time

record RootCauseSummary =
  rc_Pattern :: string
  rc_Description :: string
  rc_Confidence :: float64
  rc_EvidenceIDs :: "string list"

record TimelineEntry =
  tl_EventType :: string
  tl_Source :: string
  tl_Message :: string
  tl_Timestamp :: time

record ReportData =
  rd_Session :: DiagnosticSession
  rd_Timeline :: "TimelineEntry list"
  rd_Observations :: "ObservationEntry list"
  rd_RootCause :: "RootCauseSummary option"
  rd_FixActions :: "FixAction list"
  rd_ApprovalLogs :: "Approval list"

text \<open>\<open>rl_percent x\<close> is \<open>fmt.Sprintf("%.0f", x*100)\<close> and \<open>rl_labels\<close> prints a map with \<open>%v\<close>.\<close>

record report_lib =
  rl_uuid :: "uuid \<Rightarrow> string"
  rl_rfc3339 :: "time \<Rightarrow> string"
  rl_percent :: "float64 \<Rightarrow> string"
  rl_labels :: "(string \<times> string) list \<Rightarrow> string"

definition nl :: string where
  "nl = [CHR 0x0A]"

definition paragraph_end :: string where
  "paragraph_end = nl @ nl"

definition buildExecutiveSummary :: "ReportData \<Rightarrow> string" where
  "buildExecutiveSummary data =
    (let s = rd_Session data; head = ''Diagnostic session for **'' @ s_TargetService s;
         n = show_nat (length (rd_FixActions data)) in
     if s_Status s = StatusResolved
       then head @ ''** has been successfully resolved. The root cause was identified and '' @ n @
            '' fix action(s) were executed.''
     else if s_Status s = StatusFailed
       then head @ ''** encountered a system failure and could not complete.''
     else if s_Status s = StatusRejected
       then head @ ''** was resolved by rejecting the proposed fix actions.''
     else if s_Status s = StatusIgnored
       then head @ ''** was ignored by an operator.''
     else if length (rd_FixActions data) > 0
       then head @ ''** produced '' @ n @ '' fix action(s). Current status: **'' @ s_Status s @ ''**.''
     else head @ ''** is currently in **'' @ s_Status s @ ''** state.'')"

definition header_section :: "report_lib \<Rightarrow> time \<Rightarrow> ReportData \<Rightarrow> string" where
  "header_section lib now data =
    (let s = rd_Session data in
     ''# Diagnostic Report'' @ paragraph_end @
     ''**Session ID:** `'' @ rl_uuid lib (s_ID s) @ ''`'' @ nl @
     ''**Target Service:** '' @ s_TargetService s @ nl @
     ''**Status:** '' @ s_Status s @ nl @
     ''**Trigger:** '' @ s_TriggerType s @ nl @
     ''**Created:** '' @ rl_rfc3339 lib (s_CreatedAt s) @ nl @
     ''**Report Generated:** '' @ rl_rfc3339 lib now @ paragraph_end)"

definition summary_section :: "ReportData \<Rightarrow> string" where
  "summary_section data =
    ''## Executive Summary'' @ paragraph_end @
    (if buildExecutiveSummary data \<noteq> [] then buildExecutiveSummary data else ''_(No summary available)_'') @
    paragraph_end"

definition timeline_row :: "report_lib \<Rightarrow> TimelineEntry \<Rightarrow> string" where
  "timeline_row lib ev = ''| '' @ rl_rfc3339 lib (tl_Timestamp ev) @ '' | '' @ tl_EventType ev @ '' | '' @
     tl_Source ev @ '' | '' @ tl_Message ev @ '' |'' @ nl"

definition timeline_section :: "report_lib \<Rightarrow> ReportData \<Rightarrow> string" where
  "timeline_section lib data =
    ''## Diagnostic Timeline'' @ paragraph_end @
    ''| Time (UTC) | Event | Source | Details |'' @ nl @
    ''|-----------|-------|--------|----------|'' @ nl @
    (if length (rd_Timeline data) = 0 then ''| - | - | - | No events recorded |'' @ nl else []) @
    concat (map (timeline_row lib) (rd_Timeline data)) @ nl"

definition observation_entry :: "report_lib \<Rightarrow> ObservationEntry \<Rightarrow> string" where
  "observation_entry lib ob =
    ''### ['' @ oe_Type ob @ ''] '' @ oe_SubType ob @ '' '' @ utf8_dash @ '' '' @ oe_TargetService ob @ nl @
    ''- **Severity:** '' @ oe_Severity ob @ '' | **Confidence:** '' @ rl_percent lib (oe_Confidence ob) @ ''%'' @ nl @
    (if oe_Message ob \<noteq> [] then ''- **Message:** '' @ oe_Message ob @ nl else []) @
    (if length (oe_Labels ob) > 0 then ''- **Labels:** '' @ rl_labels lib (oe_Labels ob) @ nl else []) @
    ''- **ID:** `'' @ rl_uuid lib (oe_ID ob) @ ''`'' @ paragraph_end"

definition evidence_section :: "report_lib \<Rightarrow> ReportData \<Rightarrow> string" where
  "evidence_section lib data =
    ''## Evidence Collected'' @ paragraph_end @
    (if length (rd_Observations data) = 0 then ''_(No evidence observations available)_''
     else concat (map (observation_entry lib) (rd_Observations data)))"

definition root_cause_section :: "report_lib \<Rightarrow> ReportData \<Rightarrow> string" where
  "root_cause_section lib data =
    ''## Root Cause Analysis'' @ paragraph_end @
    (case rd_RootCause data of
       None \<Rightarrow> ''_(Root cause analysis not yet completed)_'' @ nl
     | Some rc \<Rightarrow>
         ''**Pattern:** '' @ rc_Pattern rc @ paragraph_end @
         ''**Description:** '' @ rc_Description rc @ paragraph_end @
         ''**Confidence:** '' @ rl_percent lib (rc_Confidence rc) @ ''%'' @ paragraph_end @
         (if length (rc_EvidenceIDs rc) > 0
          then ''**Supporting Evidence IDs:**'' @ nl @
               concat (map (\<lambda>i. ''- `'' @ i @ ''`'' @ nl) (rc_EvidenceIDs rc))
          else [])) @ nl"

definition fix_row :: "FixAction \<Rightarrow> string" where
  "fix_row fa =
    ''| '' @ show_int (fa_Seq fa) @ '' | '' @ fa_ActionType fa @ '' | '' @ fa_Target fa @ '' | '' @ fa_Risk fa @
      '' | '' @ fa_ApprovalStatus fa @ '' | '' @ fa_ExecutionStatus fa @ '' |'' @ nl @
    ''| **Rollback** | '' @ fa_RollbackPlan fa @ '' |'' @ nl @
    (case fa_TicketID fa of
       Some t \<Rightarrow> if t \<noteq> [] then ''| **Ticket** | '' @ t @ '' |'' @ nl else []
     | None \<Rightarrow> []) @
    ''|-----|--------|--------|------|----------|-------------|'' @ nl"

definition fix_section :: "ReportData \<Rightarrow> string" where
  "fix_section data =
    ''## Fix Actions'' @ paragraph_end @
    (if length (rd_FixActions data) = 0 then ''_(No fix actions generated)_'' @ nl
     else ''| Seq | Action | Target | Risk | Approval | Execution |'' @ nl @
          ''|-----|--------|--------|------|----------|-------------|'' @ nl @
          concat (map fix_row (rd_FixActions data))) @ nl"

definition approval_row :: "report_lib \<Rightarrow> Approval \<Rightarrow> string" where
  "approval_row lib al =
    ''| '' @ rl_rfc3339 lib (ap_RequestedAt al) @ '' | '' @ rl_uuid lib (ap_FixActionID al) @ '' | '' @ ap_Status al @
    '' | '' @ (case ap_DecidedBy al of None \<Rightarrow> ''_(pending)_'' | Some who \<Rightarrow> who) @ '' |'' @ nl"

definition approval_section :: "report_lib \<Rightarrow> ReportData \<Rightarrow> string" where
  "approval_section lib data =
    (if length (rd_ApprovalLogs data) > 0
     then ''## Approval History'' @ paragraph_end @
          ''| Time | Fix Action | Decision | Decided By |'' @ nl @
          ''|------|------------|----------|-------------|'' @ nl @
          concat (map (approval_row lib) (rd_ApprovalLogs data)) @ nl
     else [])"

definition footer_section :: "ReportData \<Rightarrow> string" where
  "footer_section data =
    (if s_RetryCount (rd_Session data) > 0
     then ''**Retry Count:** '' @ show_int (s_RetryCount (rd_Session data)) @ paragraph_end else []) @
    ''---'' @ nl @ ''*Generated by microservice-diagnosis*'' @ nl"

text \<open>\<open>RenderMarkdown\<close> never fails; \<open>now\<close> is the clock.\<close>

definition Renderer_RenderMarkdown :: "report_lib \<Rightarrow> time \<Rightarrow> ReportData \<Rightarrow> string result" where
  "Renderer_RenderMarkdown lib now data =
    Inr (header_section lib now data @ summary_section data @ timeline_section lib data @
         evidence_section lib data @ root_cause_section lib data @ fix_section data @
         approval_section lib data @ footer_section data)"

section \<open>Loading\<close>

definition buildTimelineFromSession :: "report_lib \<Rightarrow> DiagnosticSession \<Rightarrow> Approval list \<Rightarrow> TimelineEntry list" where
  "buildTimelineFromSession lib s approvals =
    [\<lparr>tl_EventType = ''session_created'', tl_Source = ''orchestrator'',
      tl_Message = ''Diagnostic session created for service '' @ s_TargetService s @ '' (trigger: '' @ s_TriggerType s @ '')'',
      tl_Timestamp = s_CreatedAt s\<rparr>] @
    (if s_Status s \<noteq> StatusCreated
     then [\<lparr>tl_EventType = ''session_started'', tl_Source = ''orchestrator'',
            tl_Message = ''Session transitioned to '' @ s_Status s, tl_Timestamp = s_UpdatedAt s\<rparr>] else []) @
    map (\<lambda>a. \<lparr>tl_EventType = ''approval_'' @ ap_Status a, tl_Source = ''approval'',
               tl_Message = ''Approval '' @ ap_Status a @ '' for fix action '' @ rl_uuid lib (ap_FixActionID a),
               tl_Timestamp = (case ap_DecidedAt a of None \<Rightarrow> ap_RequestedAt a | Some t \<Rightarrow> t)\<rparr>) approvals @
    (if s_Status s = StatusResolved
     then [\<lparr>tl_EventType = ''session_resolved'', tl_Source = ''orchestrator'',
            tl_Message = ''Diagnostic session completed successfully'', tl_Timestamp = s_UpdatedAt s\<rparr>] else [])"

definition approvals_of :: "uuid \<Rightarrow> 'a db_scheme \<Rightarrow> Approval list" where
  "approvals_of sid w = sort_key ap_RequestedAt (filter (\<lambda>a. ap_SessionID a = sid) (w_approvals w))"

text \<open>The rows read before a stream error are returned with the error, which the caller drops.\<close>

definition getAllApprovalsForSession ::
  "uuid \<Rightarrow> 'a db_scheme \<Rightarrow> (Approval list \<times> gerror option) \<times> 'a db_scheme" where
  "getAllApprovalsForSession sid w0 = (case db_query (approvals_of sid) w0 of
       (Inl e, w1) \<Rightarrow> (([], Some e), w1)
     | (Inr (rows, rerr), w1) \<Rightarrow> ((rows, rerr), w1))"

definition timeline_entry :: "SessionEvent \<Rightarrow> TimelineEntry" where
  "timeline_entry e = \<lparr>tl_EventType = ev_EventType e, tl_Source = ev_Source e, tl_Message = ev_Message e,
                      tl_Timestamp = ev_Timestamp e\<rparr>"

definition LoadReportData :: "report_lib \<Rightarrow> uuid \<Rightarrow> 'a db_scheme \<Rightarrow> ReportData result \<times> 'a db_scheme" where
  "LoadReportData lib sid w0 =
    (case SessionDAO_GetByID sid w0 of
       (Inl e, w1) \<Rightarrow> (Inl (wrap ''load report: session: '' e), w1)
     | (Inr session, w1) \<Rightarrow>
        (let (fr, w2) = FixActionDAO_GetBySessionID sid w1;
             fixActions = (case fr of Inl e \<Rightarrow> [] | Inr fs \<Rightarrow> fs);
             ((allApprovals, aerr), w3) = getAllApprovalsForSession sid w2;
             ((events, eerr), w4) = SessionEventDAO_GetBySessionID sid w3;
             timeline = (if eerr = None \<and> length events > 0 then map timeline_entry events
                         else buildTimelineFromSession lib session allApprovals)
         in (Inr \<lparr>rd_Session = session, rd_Timeline = timeline, rd_Observations = [], rd_RootCause = None,
                  rd_FixActions = fixActions, rd_ApprovalLogs = allApprovals\<rparr>, w4)))"

section \<open>PDF and the engine (pdf.go, engine.go)\<close>

text \<open>The temporary directory as a map from paths to contents.  Writing and reading a file and running the tool
  are arguments; a run gives its combined output and an error.  The temporary directory is a cleaned path
  other than the root.\<close>

type_synonym temp_files = "string \<Rightarrow> string option"

record pandoc_os =
  os_TempDir :: string
  os_WriteFile :: "string \<Rightarrow> string \<Rightarrow> temp_files \<Rightarrow> gerror option \<times> temp_files"
  os_ReadFile :: "string \<Rightarrow> temp_files \<Rightarrow> string result"
  exec_pandoc :: "string list \<Rightarrow> temp_files \<Rightarrow> (string \<times> gerror option) \<times> temp_files"

definition os_Remove :: "string \<Rightarrow> temp_files \<Rightarrow> temp_files" where
  "os_Remove path fs = fs(path := None)"

definition TrimSuffix :: "string \<Rightarrow> string \<Rightarrow> string" where
  "TrimSuffix s suf = (if suf = drop (length s - length suf) s then take (length s - length suf) s else s)"

definition md_path :: "pandoc_os \<Rightarrow> string \<Rightarrow> time \<Rightarrow> string" where
  "md_path os tempDir now = (let tmpDir = (if tempDir = [] then os_TempDir os else tempDir)
     in tmpDir @ ''/report-'' @ show_int (now - unix_epoch) @ ''.md'')"

definition pdf_path :: "pandoc_os \<Rightarrow> string \<Rightarrow> time \<Rightarrow> string" where
  "pdf_path os tempDir now = TrimSuffix (md_path os tempDir now) ''.md'' @ ''.pdf''"

definition pandoc_args :: "string \<Rightarrow> string \<Rightarrow> string \<Rightarrow> string list" where
  "pandoc_args engine mdFile pdfFile =
    [mdFile, ''--pdf-engine='' @ engine, ''-o'', pdfFile, ''--pdf-engine-opts=--presentational-hints'']"

text \<open>Each removal is deferred when its file is expected to exist.\<close>

definition tryPandoc :: "pandoc_os \<Rightarrow> string \<Rightarrow> time \<Rightarrow> string \<Rightarrow> temp_files \<Rightarrow> string result \<times> temp_files" where
  "tryPandoc os tempDir now markdown fs =
    (let mdFile = md_path os tempDir now; pdfFile = pdf_path os tempDir now in
     case os_WriteFile os mdFile markdown fs of
       (Some e, fs1) \<Rightarrow> (Inl (wrap ''pandoc: write temp md: '' e), fs1)
     | (None, fs1) \<Rightarrow>
        (case exec_pandoc os (pandoc_args ''weasyprint'' mdFile pdfFile) fs1 of
           ((out, None), fs2) \<Rightarrow> (os_ReadFile os pdfFile fs2, os_Remove mdFile (os_Remove pdfFile fs2))
         | ((out, Some e), fs2) \<Rightarrow>
            (case exec_pandoc os (pandoc_args ''pdflatex'' mdFile pdfFile) fs2 of
               ((out, None), fs3) \<Rightarrow> (os_ReadFile os pdfFile fs3, os_Remove mdFile (os_Remove pdfFile fs3))
             | ((out, Some e), fs3) \<Rightarrow>
                (Inl (ErrorString (''pandoc: '' @ error_text e @ '': '' @ out)), os_Remove mdFile fs3))))"

text \<open>Once the Markdown file has been written it is removed again whatever happens, and nothing else remains when
  a PDF was produced: the directory is as it was, provided that both names were free and the tool writes
  only its output file.\<close>

lemma TrimSuffix_append: "TrimSuffix (s @ suf) suf = s"
  by (simp add: TrimSuffix_def)

lemma md_pdf_differ: "md_path os tempDir now \<noteq> pdf_path os tempDir now"
  by (simp add: md_path_def pdf_path_def Let_def TrimSuffix_append flip: append_assoc)

lemma tryPandoc_cleans:
  assumes "\<forall>args fs. \<exists>content. snd (exec_pandoc os args fs) = fs(args ! 3 := content)"
    and "os_WriteFile os (md_path os tempDir now) markdown fs = (None, fs(md_path os tempDir now \<mapsto> markdown))"
    and "fs (md_path os tempDir now) = None" and "fs (pdf_path os tempDir now) = None"
    and "tryPandoc os tempDir now markdown fs = (r, fs')"
  shows "fs' (md_path os tempDir now) = None \<and> (\<forall>p. p \<noteq> pdf_path os tempDir now \<longrightarrow> fs' p = fs p) \<and>
    (\<forall>pdf. r = Inr pdf \<longrightarrow> fs' = fs)"
proof -
  let ?md = "md_path os tempDir now" and ?pdf = "pdf_path os tempDir now"
  let ?fs1 = "fs(?md \<mapsto> markdown)"
  obtain o1 e1 fs2 where 1: "exec_pandoc os (pandoc_args ''weasyprint'' ?md ?pdf) ?fs1 = ((o1, e1), fs2)" by (metis surj_pair)
  obtain o2 e2 fs3 where 2: "exec_pandoc os (pandoc_args ''pdflatex'' ?md ?pdf) fs2 = ((o2, e2), fs3)" by (metis surj_pair)
  have arg: "pandoc_args eng ?md ?pdf ! 3 = ?pdf" for eng by (simp add: pandoc_args_def)
  obtain c2 where c2: "fs2 = ?fs1(?pdf := c2)" using assms(1) 1 arg by (metis snd_conv)
  obtain c3 where c3: "fs3 = ?fs1(?pdf := c3)" using assms(1) 2 c2 arg by (metis fun_upd_upd snd_conv)
  have removed: "os_Remove ?md (os_Remove ?pdf (?fs1(?pdf := c))) = fs"
    and left: "os_Remove ?md (?fs1(?pdf := c)) = fs(?pdf := c)" for c
    using assms(3,4) md_pdf_differ [of os tempDir now] by (auto simp: os_Remove_def fun_eq_iff)
  have "fs' = fs \<or> (\<exists>c e. fs' = fs(?pdf := c) \<and> r = Inl e)"
    using assms(5) 1 2
    by (cases e1; cases e2) (auto simp: tryPandoc_def Let_def assms(2) c2 c3 removed left)
  then show ?thesis using assms(3) md_pdf_differ [of os tempDir now] by auto
qed

text \<open>A failing tool can leave its output: the removal of that file is deferred only after a success.\<close>

lemma tryPandoc_leaves_output:
  "\<exists>os fs'. tryPandoc os ''/tmp'' now ''# r'' (\<lambda>p. None) = (Inl (ErrorString ''pandoc: exit status 43: bad''), fs') \<and>
     fs' (pdf_path os ''/tmp'' now) = Some ''partial''"
proof -
  let ?os = "\<lparr>os_TempDir = ''/tmp'', os_WriteFile = (\<lambda>p c fs. (None, fs(p \<mapsto> c))),
    os_ReadFile = (\<lambda>p fs. case fs p of None \<Rightarrow> Inl (ErrorString ''missing'') | Some c \<Rightarrow> Inr c),
    exec_pandoc = (\<lambda>args fs. ((''bad'', Some (ErrorString ''exit status 43'')), fs(args ! 3 \<mapsto> ''partial'')))\<rparr>"
  show ?thesis
    using md_pdf_differ [of ?os "''/tmp''" now]
    by (intro exI [of _ ?os]) (simp add: tryPandoc_def os_Remove_def pandoc_args_def Let_def)
qed

text \<open>\<open>pandoc\<close> is what running the tool on the Markdown text gave.\<close>

definition RenderPDF :: "report_lib \<Rightarrow> (string \<Rightarrow> string result) \<Rightarrow> time \<Rightarrow> ReportData \<Rightarrow> (string \<times> string) result" where
  "RenderPDF lib pandoc now data = (case Renderer_RenderMarkdown lib now data of
       Inl e \<Rightarrow> Inl (wrap ''pdf: render markdown: '' e)
     | Inr markdown \<Rightarrow> (case pandoc markdown of
           Inr bytes \<Rightarrow> Inr (bytes, ''application/pdf'')
         | Inl e \<Rightarrow> Inr (''% PDF placeholder '' @ utf8_dash @ '' markdown available'' @ paragraph_end @ markdown,
                        ''text/markdown'')))"

definition Engine_GenerateReport ::
  "report_lib \<Rightarrow> (string \<Rightarrow> string result) \<Rightarrow> uuid \<Rightarrow> 'a db_scheme \<Rightarrow>
   (string \<times> string \<times> string) result \<times> 'a db_scheme" where
  "Engine_GenerateReport lib pandoc sid w0 =
    (case LoadReportData lib sid w0 of
       (Inl e, w1) \<Rightarrow> (Inl (wrap ''report engine: load data: '' e), w1)
     | (Inr data, w1) \<Rightarrow>
        (case Renderer_RenderMarkdown lib (w_now w1) data of
           Inl e \<Rightarrow> (Inl (wrap ''report engine: render markdown: '' e), w1)
         | Inr markdown \<Rightarrow>
            (case RenderPDF lib pandoc (w_now w1) data of
               Inl e \<Rightarrow> (Inr (markdown @ paragraph_end @ ''_[PDF generation failed: '' @ error_text e @ '']_'' @ nl,
                             [], ''text/markdown''), w1)
             | Inr (pdf, contentType) \<Rightarrow> (Inr (markdown, pdf, contentType), w1))))"

definition Engine_RenderMarkdown :: "report_lib \<Rightarrow> uuid \<Rightarrow> 'a db_scheme \<Rightarrow> string result \<times> 'a db_scheme" where
  "Engine_RenderMarkdown lib sid w0 =
    (case LoadReportData lib sid w0 of
       (Inl e, w1) \<Rightarrow> (Inl e, w1)
     | (Inr data, w1) \<Rightarrow> (Renderer_RenderMarkdown lib (w_now w1) data, w1))"

text \<open>With the converter plugged in, no rendered report is lost: the bytes are what the converter wrote, or the
  Markdown text itself follows the placeholder line.\<close>

lemma RenderPDF_keeps_text:
  assumes "Renderer_RenderMarkdown lib now data = Inr markdown"
  shows "\<exists>bytes ct. RenderPDF lib (\<lambda>md. fst (tryPandoc os [] now md fs)) now data = Inr (bytes, ct) \<and>
    (if ct = ''application/pdf'' then fst (tryPandoc os [] now markdown fs) = Inr bytes
     else ct = ''text/markdown'' \<and> (\<exists>line. bytes = line @ markdown))"
  using assms by (cases "fst (tryPandoc os [] now markdown fs)") (auto simp: RenderPDF_def)

end
