(* ===== verification/Discovery.thy ===== *)
theory Discovery imports Prelude "HOL-Library.AList" begin

text \<open>
  \<open>internal/discovery\<close>: the service registry.  The interface is the locale \<open>registry\<close>; the in-memory
  \<open>MockRegistry\<close> is its interpretation, and the reading of Consul's answers is a function of them.
\<close>

record ServiceInstance =
  si_ID :: string
  si_Name :: string
  si_Kind :: string
  si_Version :: string
  si_HTTPAddr :: string
  si_Status :: string
  si_Heartbeat :: time

section \<open>The mock registry (consul.go)\<close>

text \<open>The Go map, as an association list with one entry per key.  Go enumerates it in no particular
  order, so only the set of the instances returned by \<open>Discover\<close> is meaningful.\<close>

type_synonym MockRegistry = "(string \<times> ServiceInstance) list"

definition NewMockRegistry :: MockRegistry where
  "NewMockRegistry = []"

text \<open>\<open>fresh\<close> is the identifier \<open>uuid.New\<close> makes for an instance without one.\<close>

definition MockRegistry_Register :: "string \<Rightarrow> ServiceInstance \<Rightarrow> MockRegistry \<Rightarrow> MockRegistry" where
  "MockRegistry_Register fresh inst m =
    (let inst = (if si_ID inst = [] then inst\<lparr>si_ID := fresh\<rparr> else inst)
     in AList.update (si_ID inst) inst m)"

definition MockRegistry_Deregister :: "string \<Rightarrow> MockRegistry \<Rightarrow> MockRegistry" where
  "MockRegistry_Deregister serviceID m = AList.delete serviceID m"

definition MockRegistry_Discover :: "string \<Rightarrow> MockRegistry \<Rightarrow> ServiceInstance list" where
  "MockRegistry_Discover serviceName m = filter (\<lambda>svc. si_Name svc = serviceName) (map snd m)"

definition MockRegistry_HealthCheck :: "string \<Rightarrow> string \<Rightarrow> MockRegistry \<Rightarrow> MockRegistry" where
  "MockRegistry_HealthCheck serviceID status m = (case map_of m serviceID of
       None \<Rightarrow> m
     | Some svc \<Rightarrow> AList.update serviceID (svc\<lparr>si_Status := status\<rparr>) m)"

section \<open>Reading Consul's answer\<close>

record consul_service =
  cs_ID :: string
  cs_Service :: string
  cs_Tags :: "string list"

text \<open>The value of the first tag \<open>prefix=value\<close> with a non-empty value.\<close>

fun tag_value :: "string \<Rightarrow> string list \<Rightarrow> string" where
  "tag_value p [] = []"
| "tag_value p (tag # tags) =
     (if length tag > length p \<and> take (length p) tag = p then drop (length p) tag else tag_value p tags)"

definition consul_tags :: "ServiceInstance \<Rightarrow> string list" where
  "consul_tags inst = [''httpaddr='' @ si_HTTPAddr inst, ''kind='' @ si_Kind inst, ''version='' @ si_Version inst]"

definition consul_instance :: "consul_service \<Rightarrow> ServiceInstance" where
  "consul_instance svc = \<lparr>si_ID = cs_ID svc, si_Name = cs_Service svc, si_Kind = tag_value ''kind='' (cs_Tags svc),
     si_Version = tag_value ''version='' (cs_Tags svc), si_HTTPAddr = tag_value ''httpaddr='' (cs_Tags svc),
     si_Status = ''healthy'', si_Heartbeat = 0\<rparr>"

text \<open>\<open>services\<close> is the answer of \<open>ServicesWithFilter\<close>.\<close>

definition ConsulRegistry_Discover :: "consul_service list result \<Rightarrow> ServiceInstance list result" where
  "ConsulRegistry_Discover services = (case services of
       Inl e \<Rightarrow> Inl (wrap ''consul discover: '' e)
     | Inr svcs \<Rightarrow> Inr (map consul_instance svcs))"

text \<open>\<open>ConsulDiscovery\<close> differs: its loop has no \<open>break\<close>, so the last tag counts.\<close>

definition ConsulDiscovery_Discover :: "consul_service list result \<Rightarrow> ServiceInstance list result" where
  "ConsulDiscovery_Discover services = (case services of
       Inl e \<Rightarrow> Inl (wrap ''consul discover: '' e)
     | Inr svcs \<Rightarrow> Inr (map (\<lambda>svc. consul_instance (svc\<lparr>cs_Tags := rev (cs_Tags svc)\<rparr>)) svcs))"

section \<open>Writing to Consul\<close>

text \<open>The registration handed to the agent.  The check carries both a TTL and an HTTP target.\<close>

record consul_registration =
  cr_ID :: string
  cr_Name :: string
  cr_Port :: int
  cr_Address :: string
  cr_Tags :: "string list"
  cr_Meta :: "(string \<times> string) list"
  cr_CheckTTL :: string
  cr_CheckHTTP :: string
  cr_DeregisterAfter :: string

definition consul_registration_of :: "nat \<Rightarrow> string \<Rightarrow> ServiceInstance \<Rightarrow> consul_registration" where
  "consul_registration_of ttlSecs svcID inst = \<lparr>cr_ID = svcID, cr_Name = si_Name inst, cr_Port = 0,
     cr_Address = si_HTTPAddr inst, cr_Tags = consul_tags inst,
     cr_Meta = [(''kind'', si_Kind inst), (''version'', si_Version inst)],
     cr_CheckTTL = show_nat ttlSecs @ ''s'', cr_CheckHTTP = ''http://'' @ si_HTTPAddr inst @ ''/healthz'',
     cr_DeregisterAfter = ''30s''\<rparr>"

text \<open>\<open>call\<close> is the agent's \<open>ServiceRegister\<close>; the result also tells the registry's new own identifier
  and whether the loop that refreshes the TTL has been started.\<close>

definition ConsulRegistry_Register ::
  "string \<Rightarrow> nat \<Rightarrow> (consul_registration \<Rightarrow> 'k \<Rightarrow> gerror option \<times> 'k) \<Rightarrow> ServiceInstance \<Rightarrow> 'k \<Rightarrow>
   gerror option \<times> string \<times> bool \<times> 'k" where
  "ConsulRegistry_Register fresh ttlSecs call inst k =
    (let svcID = (if si_ID inst = [] then fresh else si_ID inst) in
     case call (consul_registration_of ttlSecs svcID inst) k of
       (Some e, k1) \<Rightarrow> (Some (wrap ''consul register: '' e), svcID, False, k1)
     | (None, k1) \<Rightarrow> (None, svcID, True, k1))"

datatype ttl_update = PassTTL | WarnTTL | FailTTL

definition ConsulRegistry_HealthCheck :: "string \<Rightarrow> string \<Rightarrow> ttl_update \<times> string \<times> string" where
  "ConsulRegistry_HealthCheck serviceID status =
    (if status = ''healthy'' then PassTTL else if status = ''degraded'' then WarnTTL
     else if status = ''unhealthy'' then FailTTL else PassTTL, ''service:'' @ serviceID, status)"

text \<open>\<open>call\<close> is the agent's \<open>ServiceDeregister\<close>; the loop that refreshes the TTL is not told.\<close>

definition ConsulRegistry_Deregister ::
  "(string \<Rightarrow> 'k \<Rightarrow> gerror option \<times> 'k) \<Rightarrow> string \<Rightarrow> 'k \<Rightarrow> gerror option \<times> 'k" where
  "ConsulRegistry_Deregister call serviceID k = (case call serviceID k of
       (Some e, k1) \<Rightarrow> (Some (wrap ''consul deregister: '' e), k1)
     | (None, k1) \<Rightarrow> (None, k1))"

definition NewConsulDiscovery :: "(string \<Rightarrow> 'c result) \<Rightarrow> string \<Rightarrow> 'c result" where
  "NewConsulDiscovery client addr = (case client addr of
       Inl e \<Rightarrow> Inl (wrap ''consul discovery client: '' e)
     | Inr c \<Rightarrow> Inr c)"

text \<open>\<open>refreshTTLLoop\<close>, started at \<open>start\<close>: its ticks are the multiples of half the TTL (integer division) and
  each one passes the check.  A failed update is only logged, and nothing ends the loop.\<close>

definition ttl_period :: "nat \<Rightarrow> duration" where
  "ttl_period ttlSecs = int (ttlSecs div 2) * Second"

definition refreshTTLLoop :: "string \<Rightarrow> nat \<Rightarrow> time \<Rightarrow> time \<Rightarrow> (time \<times> ttl_update \<times> string \<times> string) option" where
  "refreshTTLLoop svcID ttlSecs start now = (let k = (now - start) div ttl_period ttlSecs in
     if k < 1 then None else Some (start + k * ttl_period ttlSecs, PassTTL, ''service:'' @ svcID, ''ok''))"

text \<open>The last update that the agent got up to \<open>now\<close>, from the loop or from the health reports, which are
  given with their times in order.\<close>

definition last_update ::
  "string \<Rightarrow> nat \<Rightarrow> time \<Rightarrow> (time \<times> string) list \<Rightarrow> time \<Rightarrow> (ttl_update \<times> string \<times> string) option" where
  "last_update svcID ttlSecs start reports now =
    (let tick = refreshTTLLoop svcID ttlSecs start now;
         after = (\<lambda>t. case tick of None \<Rightarrow> True | Some (t0, u) \<Rightarrow> t0 < t);
         rs = filter (\<lambda>(t, st). t \<le> now \<and> after t) reports in
     if rs = [] then map_option snd tick else Some (ConsulRegistry_HealthCheck svcID (snd (List.last rs))))"

text \<open>A report counts at its own time, and half a TTL later it is forgotten: the loop has passed the check.\<close>

lemma report_counts:
  assumes "now \<notin> (\<lambda>k. start + k * ttl_period ttlSecs) ` UNIV" and "0 < ttl_period ttlSecs"
  shows "last_update svcID ttlSecs start (reports @ [(now, st)]) now = Some (ConsulRegistry_HealthCheck svcID st)"
proof -
  let ?k = "(now - start) div ttl_period ttlSecs"
  have "0 \<le> (now - start) mod ttl_period ttlSecs" using assms(2) by simp
  moreover have "?k * ttl_period ttlSecs + (now - start) mod ttl_period ttlSecs = now - start" by simp
  moreover have "start + ?k * ttl_period ttlSecs \<noteq> now" using assms(1) by (metis rangeI)
  ultimately have "start + ?k * ttl_period ttlSecs < now" by linarith
  then show ?thesis by (auto simp: last_update_def refreshTTLLoop_def Let_def split: option.splits if_splits)
qed

lemma report_forgotten:
  assumes "\<forall>(t, st) \<in> set reports. t \<le> r" and "start \<le> r" and "r + ttl_period ttlSecs \<le> now" and "0 < ttl_period ttlSecs"
  shows "last_update svcID ttlSecs start reports now = Some (PassTTL, ''service:'' @ svcID, ''ok'')"
proof -
  let ?P = "ttl_period ttlSecs" and ?k = "(now - start) div ttl_period ttlSecs"
  have "?P div ?P \<le> ?k" using assms by (intro zdiv_mono1) simp_all
  then have k: "1 \<le> ?k" using assms(4) by simp
  have "(now - start) mod ?P < ?P" using assms(4) by simp
  moreover have "?k * ?P + (now - start) mod ?P = now - start" by simp
  ultimately have "r < start + ?k * ?P" using assms(3) by linarith
  with assms(1) have "filter (\<lambda>(t, st). t \<le> now \<and> start + ?k * ?P < t) reports = []"
    by (fastforce simp: filter_empty_conv)
  with k show ?thesis by (simp add: last_update_def refreshTTLLoop_def Let_def)
qed

section \<open>The interface\<close>

text \<open>The interfaces \<open>Discovery\<close>, which the list of agents reads, and \<open>Registry\<close>, which extends it by the writes.\<close>

locale discovery =
  fixes discover :: "string \<Rightarrow> 'r \<Rightarrow> ServiceInstance list"
    and inv :: "'r \<Rightarrow> bool"
  assumes discover_name: "inv r \<Longrightarrow> i \<in> set (discover n r) \<Longrightarrow> si_Name i = n"
begin

lemma listed_apart:
  assumes "inv r" and "n \<noteq> m"
  shows "set (discover n r) \<inter> set (discover m r) = {}"
  using assms discover_name by blast

lemma listed_under_name:
  assumes "inv r" and "i \<in> set (concat (map (\<lambda>n. discover n r) names))"
  shows "si_Name i \<in> set names \<and> i \<in> set (discover (si_Name i) r)"
proof -
  from assms(2) obtain n where n: "n \<in> set names" "i \<in> set (discover n r)" by auto
  moreover from discover_name [OF assms(1) n(2)] have "si_Name i = n" .
  ultimately show ?thesis by simp
qed

end

locale registry = discovery discover inv
  for discover :: "string \<Rightarrow> 'r \<Rightarrow> ServiceInstance list" and inv :: "'r \<Rightarrow> bool" +
  fixes register :: "string \<Rightarrow> ServiceInstance \<Rightarrow> 'r \<Rightarrow> 'r"
    and deregister :: "string \<Rightarrow> 'r \<Rightarrow> 'r"
    and health :: "string \<Rightarrow> string \<Rightarrow> 'r \<Rightarrow> 'r"
  assumes inv_register: "inv r \<Longrightarrow> inv (register fresh i r)"
    and inv_deregister: "inv r \<Longrightarrow> inv (deregister k r)"
    and inv_health: "inv r \<Longrightarrow> inv (health k st r)"
    and discover_register: "inv r \<Longrightarrow> si_ID i \<noteq> [] \<Longrightarrow>
      set (discover n (register fresh i r)) =
        {j \<in> set (discover n r). si_ID j \<noteq> si_ID i} \<union> (if si_Name i = n then {i} else {})"
    and discover_deregister: "inv r \<Longrightarrow>
      set (discover n (deregister k r)) = {j \<in> set (discover n r). si_ID j \<noteq> k}"
    and discover_health: "inv r \<Longrightarrow>
      set (discover n (health k st r)) =
        (\<lambda>j. if si_ID j = k then j\<lparr>si_Status := st\<rparr> else j) ` set (discover n r)"
begin

lemma registered_found: "inv r \<Longrightarrow> si_ID i \<noteq> [] \<Longrightarrow> i \<in> set (discover (si_Name i) (register fresh i r))"
  by (simp add: discover_register)

lemma deregistered_gone: "inv r \<Longrightarrow> j \<in> set (discover n (deregister k r)) \<Longrightarrow> si_ID j \<noteq> k"
  by (simp add: discover_deregister)

lemma survives_others:
  assumes "inv r" and "j \<in> set (discover n r)" and "si_ID i \<noteq> []" and "si_ID j \<noteq> si_ID i" and "si_ID j \<noteq> k"
  shows "j \<in> set (discover n (deregister k (register fresh i r)))"
  using assms by (simp add: discover_register discover_deregister inv_register)

lemma health_visible:
  assumes "inv r" and "i \<in> set (discover n r)"
  shows "i\<lparr>si_Status := st\<rparr> \<in> set (discover n (health (si_ID i) st r))"
  using assms by (force simp: discover_health)

end

definition registry_inv :: "MockRegistry \<Rightarrow> bool" where
  "registry_inv m \<longleftrightarrow> distinct (map fst m) \<and> (\<forall>(k, i) \<in> set m. si_ID i = k)"

lemma set_update_alist:
  "distinct (map fst m) \<Longrightarrow> set (AList.update k v m) = {(j, u) \<in> set m. j \<noteq> k} \<union> {(k, v)}"
  by (induction m) (auto simp: image_iff)

lemma distinct_update_alist: "distinct (map fst m) \<Longrightarrow> distinct (map fst (AList.update k v m))"
  by (rule AList.distinct_update)

lemma registry_inv_update: "registry_inv m \<Longrightarrow> si_ID i = k \<Longrightarrow> registry_inv (AList.update k i m)"
  by (auto simp: registry_inv_def set_update_alist distinct_update_alist)

lemma discover_set:
  "set (MockRegistry_Discover n m) = {i. \<exists>k. (k, i) \<in> set m \<and> si_Name i = n}"
  by (force simp: MockRegistry_Discover_def)

interpretation mock: registry MockRegistry_Discover registry_inv MockRegistry_Register MockRegistry_Deregister
  MockRegistry_HealthCheck
proof unfold_locales
  fix r n and i :: ServiceInstance
  assume "i \<in> set (MockRegistry_Discover n r)"
  then show "si_Name i = n" by (auto simp: discover_set)
next
  fix r fresh and i :: ServiceInstance
  assume "registry_inv r"
  then show "registry_inv (MockRegistry_Register fresh i r)"
    by (simp add: MockRegistry_Register_def Let_def registry_inv_update)
next
  fix r k
  assume "registry_inv r"
  then show "registry_inv (MockRegistry_Deregister k r)"
    by (auto simp: MockRegistry_Deregister_def registry_inv_def AList.delete_eq distinct_map_filter)
next
  fix r k st
  assume *: "registry_inv r"
  show "registry_inv (MockRegistry_HealthCheck k st r)"
  proof (cases "map_of r k")
    case None
    with * show ?thesis by (simp add: MockRegistry_HealthCheck_def)
  next
    case (Some svc)
    with * have "si_ID svc = k" by (auto simp: registry_inv_def dest: map_of_SomeD)
    with * Some show ?thesis by (simp add: MockRegistry_HealthCheck_def registry_inv_update)
  qed
next
  fix r n fresh and i :: ServiceInstance
  assume "registry_inv r" "si_ID i \<noteq> []"
  then show "set (MockRegistry_Discover n (MockRegistry_Register fresh i r)) =
      {j \<in> set (MockRegistry_Discover n r). si_ID j \<noteq> si_ID i} \<union> (if si_Name i = n then {i} else {})"
    by (auto simp: discover_set MockRegistry_Register_def registry_inv_def set_update_alist)
next
  fix r n k
  assume "registry_inv r"
  then show "set (MockRegistry_Discover n (MockRegistry_Deregister k r)) =
      {j \<in> set (MockRegistry_Discover n r). si_ID j \<noteq> k}"
    by (auto simp: discover_set MockRegistry_Deregister_def registry_inv_def AList.delete_eq)
next
  fix r n k st
  assume *: "registry_inv r"
  show "set (MockRegistry_Discover n (MockRegistry_HealthCheck k st r)) =
      (\<lambda>j. if si_ID j = k then j\<lparr>si_Status := st\<rparr> else j) ` set (MockRegistry_Discover n r)"
  proof (cases "map_of r k")
    case None
    then have "\<forall>i. (k, i) \<notin> set r" by (force simp: map_of_eq_None_iff)
    with * None show ?thesis
      by (auto simp: MockRegistry_HealthCheck_def discover_set registry_inv_def image_iff)
  next
    case (Some svc)
    then have svc: "(k, svc) \<in> set r" by (rule map_of_SomeD)
    have key: "si_ID i = j" if "(j, i) \<in> set r" for i j using * that by (auto simp: registry_inv_def)
    have uniq: "i = svc" if "(k, i) \<in> set r" for i
      using * Some that by (simp add: registry_inv_def map_of_is_SomeI)
    have S: "set (MockRegistry_Discover n (MockRegistry_HealthCheck k st r)) =
        {i. \<exists>j. (j, i) \<in> set r \<and> j \<noteq> k \<and> si_Name i = n} \<union>
        (if si_Name svc = n then {svc\<lparr>si_Status := st\<rparr>} else {})"
      using * Some by (auto simp: MockRegistry_HealthCheck_def discover_set registry_inv_def set_update_alist)
    show ?thesis
    proof (intro subset_antisym subsetI)
      fix x
      assume "x \<in> set (MockRegistry_Discover n (MockRegistry_HealthCheck k st r))"
      then consider j where "(j, x) \<in> set r" "j \<noteq> k" "si_Name x = n"
        | "x = svc\<lparr>si_Status := st\<rparr>" "si_Name svc = n" unfolding S by (auto split: if_splits)
      then show "x \<in> (\<lambda>j. if si_ID j = k then j\<lparr>si_Status := st\<rparr> else j) ` set (MockRegistry_Discover n r)"
      proof cases
        case 1
        then have "x \<in> set (MockRegistry_Discover n r)" "si_ID x \<noteq> k" using key by (auto simp: discover_set)
        then show ?thesis by (intro image_eqI [where x = x]) simp_all
      next
        case 2
        then have "svc \<in> set (MockRegistry_Discover n r)" "si_ID svc = k"
          using svc key by (auto simp: discover_set)
        with 2 show ?thesis by (intro image_eqI [where x = svc]) simp_all
      qed
    next
      fix x
      assume "x \<in> (\<lambda>j. if si_ID j = k then j\<lparr>si_Status := st\<rparr> else j) ` set (MockRegistry_Discover n r)"
      then obtain i j where i: "(j, i) \<in> set r" "si_Name i = n"
          "x = (if si_ID i = k then i\<lparr>si_Status := st\<rparr> else i)" by (auto simp: discover_set)
      show "x \<in> set (MockRegistry_Discover n (MockRegistry_HealthCheck k st r))"
        unfolding S using i key [OF i(1)] uniq [of i] by (cases "j = k") auto
    qed
  qed
qed

text \<open>Consul as the state: the services of each name, which is what its catalog gives for a query by name.  A
  failed query gives no instances.\<close>

definition consul_discover :: "string \<Rightarrow> (string \<Rightarrow> consul_service list result) \<Rightarrow> ServiceInstance list" where
  "consul_discover n catalog = (case ConsulDiscovery_Discover (catalog n) of Inl e \<Rightarrow> [] | Inr is \<Rightarrow> is)"

definition catalog_by_name :: "(string \<Rightarrow> consul_service list result) \<Rightarrow> bool" where
  "catalog_by_name catalog \<longleftrightarrow> (\<forall>n svcs. catalog n = Inr svcs \<longrightarrow> (\<forall>svc \<in> set svcs. cs_Service svc = n))"

interpretation consul: discovery consul_discover catalog_by_name
  by unfold_locales
     (auto simp: consul_discover_def catalog_by_name_def ConsulDiscovery_Discover_def consul_instance_def
       split: sum.splits)

section \<open>Properties\<close>

text \<open>In a registry whose entries are stored under their own identifiers (as all
  operations keep it), a registered instance is found under its name at once, a health report changes
  the status under which it is found, and it stays until an instance with the same identifier is
  deregistered.\<close>

theorem registry_discover:
  assumes "registry_inv m" and "si_ID i \<noteq> []"
  shows "i \<in> set (MockRegistry_Discover (si_Name i) (MockRegistry_Register fresh i m)) \<and>
    i\<lparr>si_Status := st\<rparr> \<in> set (MockRegistry_Discover (si_Name i)
        (MockRegistry_HealthCheck (si_ID i) st (MockRegistry_Register fresh i m))) \<and>
    (\<forall>k. i \<in> set (MockRegistry_Discover (si_Name i)
        (MockRegistry_Deregister k (MockRegistry_Register fresh i m))) \<longleftrightarrow> k \<noteq> si_ID i) \<and>
    registry_inv (MockRegistry_Register fresh i m)"
  using mock.registered_found [OF assms] mock.health_visible [OF mock.inv_register [OF assms(1)]]
    mock.discover_deregister [OF mock.inv_register [OF assms(1)]] mock.inv_register [OF assms(1)]
  by auto

theorem registry_discover_witness:
  "(let i = \<lparr>si_ID = ''a-1'', si_Name = ''agent-log'', si_Kind = ''log'', si_Version = ''1.0.0'', si_HTTPAddr = '':80'',
     si_Status = ''healthy'', si_Heartbeat = 0\<rparr>
   in i \<in> set (MockRegistry_Discover ''agent-log'' (MockRegistry_Register ''x'' i [])))"
proof -
  let ?i = "\<lparr>si_ID = ''a-1'', si_Name = ''agent-log'', si_Kind = ''log'', si_Version = ''1.0.0'', si_HTTPAddr = '':80'',
     si_Status = ''healthy'', si_Heartbeat = 0\<rparr>"
  have "registry_inv []" "si_ID ?i \<noteq> []" by (simp_all add: registry_inv_def)
  from registry_discover [OF this, of "''x''"] show ?thesis by (simp add: Let_def)
qed

text \<open>The tags that \<open>Register\<close> writes are read back: both Consul clients
  return the kind, version and address of a registered instance unchanged.  The status they report is
  always \<open>healthy\<close>, whatever the instance last reported.\<close>

theorem consul_tags_roundtrip:
  "(let svc = \<lparr>cs_ID = si_ID i, cs_Service = si_Name i, cs_Tags = consul_tags i\<rparr>;
        inst = \<lparr>si_ID = si_ID i, si_Name = si_Name i, si_Kind = si_Kind i, si_Version = si_Version i,
                si_HTTPAddr = si_HTTPAddr i, si_Status = ''healthy'', si_Heartbeat = 0\<rparr>
    in ConsulRegistry_Discover (Inr [svc]) = Inr [inst] \<and> ConsulDiscovery_Discover (Inr [svc]) = Inr [inst])"
  by (simp add: ConsulRegistry_Discover_def ConsulDiscovery_Discover_def consul_instance_def consul_tags_def Let_def)

end
