(* ===== verification/Bus.thy ===== *)
theory Bus imports Json begin

text \<open>
  \<open>internal/bus\<close>: topic names and groups, the message envelope, the configuration with its defaults
  and checks, the producer and the consumer-group loop.  Kafka itself is an argument or a state.
\<close>

section \<open>Topics (topic.go)\<close>

abbreviation TopicCommandsLog where "TopicCommandsLog \<equiv> ''mfdh.commands.log''"
abbreviation TopicCommandsMetric where "TopicCommandsMetric \<equiv> ''mfdh.commands.metric''"
abbreviation TopicCommandsTrace where "TopicCommandsTrace \<equiv> ''mfdh.commands.trace''"
abbreviation TopicCommandsRCA where "TopicCommandsRCA \<equiv> ''mfdh.commands.rca''"
abbreviation TopicObservationsLog where "TopicObservationsLog \<equiv> ''mfdh.observations.log''"
abbreviation TopicObservationsMetric where "TopicObservationsMetric \<equiv> ''mfdh.observations.metric''"
abbreviation TopicObservationsTrace where "TopicObservationsTrace \<equiv> ''mfdh.observations.trace''"
abbreviation TopicObservationsRCA where "TopicObservationsRCA \<equiv> ''mfdh.observations.rca''"
abbreviation TopicObservationsFix where "TopicObservationsFix \<equiv> ''mfdh.observations.fix''"

definition TopicPrefix :: string where
  "TopicPrefix = ''mfdh''"

record CommandMessage =
  cm_SessionID :: string
  cm_TargetService :: string
  cm_Command :: string
  cm_AgentKind :: string

definition marshal_command :: "CommandMessage \<Rightarrow> string" where
  "marshal_command c = json_object [(''session_id'', cm_SessionID c), (''target_service'', cm_TargetService c),
     (''command'', cm_Command c), (''agent_kind'', cm_AgentKind c)]"

definition Topic :: "string \<Rightarrow> string" where
  "Topic base = (if has_prefix base (TopicPrefix @ ''.'') then base else TopicPrefix @ ''.'' @ base)"

definition GroupID :: "string \<Rightarrow> string \<Rightarrow> string" where
  "GroupID service topic =
     (let base = trim_prefix topic (TopicPrefix @ ''.'') in TopicPrefix @ ''-'' @ service @ ''-'' @ base)"

section \<open>Messages (message.go)\<close>

text \<open>\<open>Headers\<close> is a Go map, a finite map here; the wire type has a list of headers, in the order in
  which Go enumerates the map (\<open>enum\<close>).\<close>

record Message =
  m_Topic :: string
  m_Partition :: int
  m_Offset :: int
  m_Key :: string
  m_Value :: string
  m_Headers :: "string \<Rightarrow> string option"
  m_Time :: time

record kafka_Message =
  k_Topic :: string
  k_Partition :: int
  k_Offset :: int
  k_Key :: string
  k_Value :: string
  k_Headers :: "(string \<times> string) list"
  k_Time :: time

definition toKafkaMessage :: "((string \<Rightarrow> string option) \<Rightarrow> (string \<times> string) list) \<Rightarrow> Message \<Rightarrow> kafka_Message" where
  "toKafkaMessage enum m = \<lparr>k_Topic = m_Topic m, k_Partition = 0, k_Offset = 0, k_Key = m_Key m,
     k_Value = m_Value m, k_Headers = enum (m_Headers m), k_Time = m_Time m\<rparr>"

text \<open>The loop assigns the headers in order, so the last one of a key wins.\<close>

fun headers_of :: "(string \<times> string) list \<Rightarrow> (string \<Rightarrow> string option) \<Rightarrow> string \<Rightarrow> string option" where
  "headers_of [] h = h"
| "headers_of ((k, v) # kvs) h = headers_of kvs (h(k \<mapsto> v))"

definition fromKafkaMessage :: "kafka_Message \<Rightarrow> Message" where
  "fromKafkaMessage m = \<lparr>m_Topic = k_Topic m, m_Partition = k_Partition m, m_Offset = k_Offset m,
     m_Key = k_Key m, m_Value = k_Value m, m_Headers = headers_of (k_Headers m) (\<lambda>k. None), m_Time = k_Time m\<rparr>"

section \<open>Configuration (bus.go)\<close>

definition FirstOffset :: int where "FirstOffset = - 2"

definition LastOffset :: int where "LastOffset = - 1"

record Config =
  c_Brokers :: "string list"
  c_DialTimeout :: duration
  c_WriteTimeout :: duration
  c_BatchSize :: int
  c_BatchBytes :: int
  c_BatchTimeout :: duration
  c_RequiredAcks :: string
  c_MinBytes :: int
  c_MaxBytes :: int
  c_MaxWait :: duration
  c_ReplayIdle :: duration
  c_HeartbeatInterval :: duration
  c_SessionTimeout :: duration
  c_RebalanceTimeout :: duration
  c_JoinGroupBackoff :: duration

definition default_to :: "int \<Rightarrow> int \<Rightarrow> int" where
  "default_to d x = (if x \<le> 0 then d else x)"

definition withDefaults :: "Config \<Rightarrow> Config" where
  "withDefaults c = c
    \<lparr>c_DialTimeout := default_to (10 * Second) (c_DialTimeout c),
     c_WriteTimeout := default_to (10 * Second) (c_WriteTimeout c),
     c_BatchSize := default_to 100 (c_BatchSize c),
     c_BatchBytes := default_to (2 ^ 20) (c_BatchBytes c),
     c_BatchTimeout := default_to (100 * Millisecond) (c_BatchTimeout c),
     c_RequiredAcks := (if c_RequiredAcks c = [] then ''all'' else c_RequiredAcks c),
     c_MinBytes := default_to 1 (c_MinBytes c),
     c_MaxBytes := default_to (2 ^ 20) (c_MaxBytes c),
     c_MaxWait := default_to (500 * Millisecond) (c_MaxWait c),
     c_ReplayIdle := default_to (2 * Second) (c_ReplayIdle c),
     c_HeartbeatInterval := default_to (3 * Second) (c_HeartbeatInterval c),
     c_SessionTimeout := default_to (30 * Second) (c_SessionTimeout c),
     c_RebalanceTimeout := default_to (30 * Second) (c_RebalanceTimeout c),
     c_JoinGroupBackoff := default_to (5 * Second) (c_JoinGroupBackoff c)\<rparr>"

datatype RequiredAcks = RequireNone | RequireOne | RequireAll

definition requiredAcks :: "Config \<Rightarrow> RequiredAcks result" where
  "requiredAcks c = (let s = to_lower (trim_space (c_RequiredAcks c)) in
     if s = ''none'' then Inr RequireNone
     else if s = ''one'' then Inr RequireOne
     else if s = ''all'' then Inr RequireAll
     else Inl (Wrapped [] (Sentinel ErrInvalidRequiredAcks) ('': '' @ quoted (c_RequiredAcks c))))"

text \<open>\<open>dur\<close> prints a duration with \<open>%s\<close>.  The checks in the order of the code, the first failure wins.\<close>

fun first_error :: "(bool \<times> gerror) list \<Rightarrow> gerror option" where
  "first_error [] = None"
| "first_error ((bad, e) # cs) = (if bad then Some e else first_error cs)"

definition not_positive :: "(int \<Rightarrow> string) \<Rightarrow> string \<Rightarrow> int \<Rightarrow> bool \<times> gerror" where
  "not_positive sh name x = (x \<le> 0, ErrorString (''bus: '' @ name @ '' must be > 0, got '' @ sh x))"

definition Config_Validate :: "(duration \<Rightarrow> string) \<Rightarrow> Config \<Rightarrow> gerror option" where
  "Config_Validate dur c = first_error
    ([(c_Brokers c = [], Sentinel ErrEmptyBrokers),
      (\<exists>b \<in> set (c_Brokers c). trim_space b = [], Sentinel ErrEmptyBroker)] @
     (case requiredAcks c of Inl e \<Rightarrow> [(True, e)] | Inr a \<Rightarrow> []) @
     [not_positive dur ''dial_timeout'' (c_DialTimeout c),
      not_positive dur ''write_timeout'' (c_WriteTimeout c),
      not_positive show_int ''batch_size'' (c_BatchSize c),
      not_positive show_int ''batch_bytes'' (c_BatchBytes c),
      not_positive dur ''batch_timeout'' (c_BatchTimeout c),
      not_positive show_int ''min_bytes'' (c_MinBytes c),
      (c_MaxBytes c < c_MinBytes c, ErrorString (''bus: max_bytes ('' @ show_int (c_MaxBytes c) @
          '') must be >= min_bytes ('' @ show_int (c_MinBytes c) @ '')'')),
      not_positive dur ''max_wait'' (c_MaxWait c),
      not_positive dur ''replay_idle'' (c_ReplayIdle c),
      not_positive dur ''heartbeat_interval'' (c_HeartbeatInterval c),
      (c_SessionTimeout c < c_HeartbeatInterval c, ErrorString (''bus: session_timeout ('' @ dur (c_SessionTimeout c) @
          '') must be >= heartbeat_interval ('' @ dur (c_HeartbeatInterval c) @ '')'')),
      not_positive dur ''rebalance_timeout'' (c_RebalanceTimeout c),
      not_positive dur ''join_group_backoff'' (c_JoinGroupBackoff c)])"

section \<open>Producer (producer.go)\<close>

record Writer =
  wr_Addr :: "string list"
  wr_BatchSize :: int
  wr_BatchBytes :: int
  wr_BatchTimeout :: duration
  wr_WriteTimeout :: duration
  wr_RequiredAcks :: RequiredAcks

definition NewProducer :: "(duration \<Rightarrow> string) \<Rightarrow> Config \<Rightarrow> Writer result" where
  "NewProducer dur cfg0 = (let cfg = withDefaults cfg0 in
     case Config_Validate dur cfg of
       Some e \<Rightarrow> Inl e
     | None \<Rightarrow> (case requiredAcks cfg of
         Inl e \<Rightarrow> Inl e
       | Inr acks \<Rightarrow> Inr \<lparr>wr_Addr = c_Brokers cfg, wr_BatchSize = 1, wr_BatchBytes = c_BatchBytes cfg,
           wr_BatchTimeout = c_BatchTimeout cfg, wr_WriteTimeout = c_WriteTimeout cfg, wr_RequiredAcks = acks\<rparr>))"

text \<open>\<open>write\<close> is \<open>Writer.WriteMessages\<close> on the broker's state.\<close>

definition Producer_Publish ::
  "((string \<Rightarrow> string option) \<Rightarrow> (string \<times> string) list) \<Rightarrow> (kafka_Message \<Rightarrow> 'k \<Rightarrow> gerror option \<times> 'k) \<Rightarrow>
   Message \<Rightarrow> 'k \<Rightarrow> gerror option \<times> 'k" where
  "Producer_Publish enum write msg k =
    (if m_Topic msg = [] then (Some (Sentinel ErrEmptyTopic), k)
     else (case write (toKafkaMessage enum msg) k of
       (Some e, k1) \<Rightarrow> (Some (wrap (''bus: publish to '' @ quoted (m_Topic msg) @ '': '') e), k1)
     | (None, k1) \<Rightarrow> (None, k1)))"

section \<open>Consumer (consumer.go)\<close>

record ConsumerConfig =
  cc_Topic :: string
  cc_GroupID :: string
  cc_StartOffset :: int

definition ConsumerConfig_Validate :: "ConsumerConfig \<Rightarrow> gerror option" where
  "ConsumerConfig_Validate c =
    (if cc_Topic c = [] then Some (Sentinel ErrEmptyTopic)
     else if cc_GroupID c = [] then Some (Sentinel ErrEmptyGroupID)
     else if cc_StartOffset c = 0 \<or> cc_StartOffset c = FirstOffset \<or> cc_StartOffset c = LastOffset then None
     else Some (Wrapped [] (Sentinel ErrInvalidStartOffset) ('': '' @ show_int (cc_StartOffset c))))"

record ReaderConfig =
  rd_Brokers :: "string list"
  rd_Topic :: string
  rd_GroupID :: string
  rd_MinBytes :: int
  rd_MaxBytes :: int
  rd_MaxWait :: duration
  rd_StartOffset :: int
  rd_HeartbeatInterval :: duration
  rd_SessionTimeout :: duration
  rd_RebalanceTimeout :: duration
  rd_JoinGroupBackoff :: duration

definition NewConsumer :: "(duration \<Rightarrow> string) \<Rightarrow> Config \<Rightarrow> ConsumerConfig \<Rightarrow> ReaderConfig result" where
  "NewConsumer dur cfg0 cc = (let cfg = withDefaults cfg0 in
     case Config_Validate dur cfg of
       Some e \<Rightarrow> Inl e
     | None \<Rightarrow> (case ConsumerConfig_Validate cc of
         Some e \<Rightarrow> Inl e
       | None \<Rightarrow> Inr \<lparr>rd_Brokers = c_Brokers cfg, rd_Topic = cc_Topic cc, rd_GroupID = cc_GroupID cc,
           rd_MinBytes = c_MinBytes cfg, rd_MaxBytes = c_MaxBytes cfg, rd_MaxWait = c_MaxWait cfg,
           rd_StartOffset = (if cc_StartOffset cc = 0 then FirstOffset else cc_StartOffset cc),
           rd_HeartbeatInterval = c_HeartbeatInterval cfg, rd_SessionTimeout = c_SessionTimeout cfg,
           rd_RebalanceTimeout = c_RebalanceTimeout cfg, rd_JoinGroupBackoff = c_JoinGroupBackoff cfg\<rparr>))"

text \<open>
  The consumer loop on one partition: \<open>fetched\<close> are the outcomes of the \<open>FetchMessage\<close> calls (after
  them the context ends), \<open>handler\<close> works on a state, \<open>commit\<close> tells of each commit whether it
  succeeds.  The partition's committed offset is the next offset to deliver, so committing a message
  also commits every earlier one.
\<close>

record group =
  g_committed :: int
  g_handled :: "int list"

datatype fetch = Fetched kafka_Message | FetchError gerror

definition commit_offset :: "kafka_Message \<Rightarrow> group \<Rightarrow> group" where
  "commit_offset m g = g\<lparr>g_committed := k_Offset m + 1\<rparr>"

definition handler_failure :: "Message \<Rightarrow> gerror \<Rightarrow> gerror" where
  "handler_failure msg e = wrap (''bus: handler failed at topic='' @ quoted (m_Topic msg) @ '' partition='' @
     show_int (m_Partition msg) @ '' offset='' @ show_int (m_Offset msg) @ '': '') e"

fun Consume :: "(Message \<Rightarrow> 's \<Rightarrow> gerror option \<times> 's) \<Rightarrow> (kafka_Message \<Rightarrow> gerror option) \<Rightarrow> fetch list \<Rightarrow>
    's \<Rightarrow> group \<Rightarrow> gerror option \<times> 's \<times> group" where
  "Consume handler commit [] s g = (None, s, g)"
| "Consume handler commit (FetchError e # fs) s g =
     (if errors_is e CtxCanceled \<or> errors_is e CtxDeadlineExceeded then (None, s, g)
      else (Some (wrap ''bus: fetch message: '' e), s, g))"
| "Consume handler commit (Fetched m # fs) s g =
     (let msg = fromKafkaMessage m in
      case handler msg s of
        (Some e, s1) \<Rightarrow> (Some (handler_failure msg e), s1, g)
      | (None, s1) \<Rightarrow>
         (let g1 = g\<lparr>g_handled := g_handled g @ [m_Offset msg]\<rparr> in
          case commit m of
            Some e \<Rightarrow> (Some (wrap ''bus: commit offset: '' e), s1, g1)
          | None \<Rightarrow> Consume handler commit fs s1 (commit_offset m g1)))"

end
