(* ===== verification/Server_State.thy ===== *)
theory Server_State imports Workflow Webhook Executor Report Discovery Bus begin

text \<open>
  The state and the dependencies of the orchestrator process (\<open>internal/server\<close>), its HTTP answers
  (\<open>response.go\<close>), the conversions to the wire types, the commands it sends to the agents
  (\<open>DispatchCollect\<close>, \<open>DispatchAnalyze\<close>), and the choice of the back-ends in \<open>gin.go\<close>.
\<close>

section \<open>State and dependencies\<close>

text \<open>
  The interfaces a handler holds, each a function on the state \<open>'e\<close> of the outside world, and the
  libraries.  \<open>o_executed\<close> records the actions handed to the executor, \<open>o_outbox\<close> the messages that
  the producer accepted and \<open>o_notified\<close> the webhook deliveries started.
\<close>

record 'e deps =
  d_uuid :: uuid_lib
  d_Request :: "ApprovalRequest \<Rightarrow> time \<Rightarrow> 'e \<Rightarrow> string result \<times> 'e"
  d_Execute :: "ExecAction \<Rightarrow> time \<Rightarrow> 'e \<Rightarrow> ExecutionResult result \<times> 'e"
  d_CreateIncident :: "Incident \<Rightarrow> time \<Rightarrow> 'e \<Rightarrow> string result \<times> 'e"
  d_Publish :: "Message \<Rightarrow> 'e \<Rightarrow> gerror option \<times> 'e"
  d_has_producer :: bool
  d_has_webhook :: bool
  d_has_eventLoop :: bool
  d_discovery :: "(string \<Rightarrow> ServiceInstance list result) option"
  d_report :: report_lib
  d_pandoc :: "string \<Rightarrow> string result"

record 'e orch = hook_db +
  o_env :: 'e
  o_outbox :: "Message list"
  o_executed :: "ExecAction list"
  o_notified :: "(WebhookConfig \<times> DiagnosticEvent) list"

abbreviation id_text :: "'e deps \<Rightarrow> uuid \<Rightarrow> string" where
  "id_text d \<equiv> uuid_String (d_uuid d)"

text \<open>A call on the outside world.\<close>

definition call_env :: "('e \<Rightarrow> 'r \<times> 'e) \<Rightarrow> 'e orch \<Rightarrow> 'r \<times> 'e orch" where
  "call_env f w = (case f (o_env w) of (r, e) \<Rightarrow> (r, w\<lparr>o_env := e\<rparr>))"

definition producer_Publish :: "'e deps \<Rightarrow> Message \<Rightarrow> 'e orch \<Rightarrow> gerror option \<times> 'e orch" where
  "producer_Publish d msg w = (case call_env (d_Publish d msg) w of
       (Some e, w1) \<Rightarrow> (Some e, w1)
     | (None, w1) \<Rightarrow> (None, w1\<lparr>o_outbox := o_outbox w1 @ [msg]\<rparr>))"

definition webhook_Notify :: "DiagnosticEvent \<Rightarrow> 'e orch \<Rightarrow> 'e orch" where
  "webhook_Notify e w = (case WebhookNotifier_Notify e w of
       (err, started, w1) \<Rightarrow> w1\<lparr>o_notified := o_notified w1 @ started\<rparr>)"

section \<open>Commands to the agents (event_loop.go)\<close>

definition command_message :: "string \<Rightarrow> string \<Rightarrow> string \<Rightarrow> string \<Rightarrow> string \<Rightarrow> Message" where
  "command_message topic sessionID targetService command kind = \<lparr>m_Topic = topic, m_Partition = 0, m_Offset = 0,
     m_Key = sessionID, m_Value = marshal_command \<lparr>cm_SessionID = sessionID, cm_TargetService = targetService,
       cm_Command = command, cm_AgentKind = kind\<rparr>, m_Headers = (\<lambda>k. None), m_Time = 0\<rparr>"

definition collectors :: "(string \<times> string) list" where
  "collectors = [(''agent-log'', TopicCommandsLog), (''agent-metric'', TopicCommandsMetric),
     (''agent-trace'', TopicCommandsTrace)]"

text \<open>A publish error of one agent is logged and the loop goes on.\<close>

fun dispatch_all :: "'e deps \<Rightarrow> string \<Rightarrow> string \<Rightarrow> (string \<times> string) list \<Rightarrow> 'e orch \<Rightarrow> 'e orch" where
  "dispatch_all d sessionID targetService [] w = w"
| "dispatch_all d sessionID targetService ((kind, topic) # agents) w =
     dispatch_all d sessionID targetService agents
       (snd (producer_Publish d (command_message topic sessionID targetService ''collect'' kind) w))"

definition DispatchCollect :: "'e deps \<Rightarrow> string \<Rightarrow> string \<Rightarrow> 'e orch \<Rightarrow> gerror option \<times> 'e orch" where
  "DispatchCollect d sessionID targetService w =
     (if \<not> d_has_producer d then (Some (ErrorString ''event loop: no producer configured''), w)
      else (None, dispatch_all d sessionID targetService collectors w))"

definition DispatchAnalyze :: "'e deps \<Rightarrow> string \<Rightarrow> string \<Rightarrow> 'e orch \<Rightarrow> gerror option \<times> 'e orch" where
  "DispatchAnalyze d sessionID targetService w =
     (if \<not> d_has_producer d then (Some (ErrorString ''event loop: no producer configured''), w)
      else (case producer_Publish d (command_message TopicCommandsRCA sessionID targetService ''analyze'' ''agent-rca'') w of
          (Some e, w1) \<Rightarrow> (Some (wrap ''publish analyze command: '' e), w1)
        | (None, w1) \<Rightarrow> (None, w1)))"

section \<open>Answers (response.go) and wire types\<close>

record SessionProto =
  sp_Id :: string
  sp_TargetService :: string
  sp_Status :: int
  sp_RetryCount :: int
  sp_CreatedAt :: time
  sp_UpdatedAt :: time

record FixSummary =
  fs_Id :: string
  fs_Seq :: int
  fs_ActionType :: string
  fs_Target :: string
  fs_Risk :: string
  fs_Status :: string
  fs_RollbackPlan :: string

record AgentInfo =
  ai_Name :: string
  ai_Kind :: string
  ai_Version :: string
  ai_Status :: string
  ai_Endpoint :: string
  ai_LastHeartbeat :: time

datatype body =
    ErrorBody string string
  | SessionBody SessionProto
  | SessionsBody "SessionProto list" int int int
  | DetailBody SessionProto "TimelineEntry list" "FixSummary list"
  | DecisionBody string string
  | ReportBody string string
  | DataBody string string
  | DownloadBody string string string
  | AgentsBody "AgentInfo list"
  | StatusBody string

text \<open>\<open>Panic\<close> is the nil dereference that \<open>gin.Recovery\<close> turns into a bare 500.\<close>

datatype response = Resp nat body | Panic

definition notFound :: "string \<Rightarrow> response" where
  "notFound msg = Resp 404 (ErrorBody msg ''NotFound'')"

definition badRequest :: "string \<Rightarrow> response" where
  "badRequest msg = Resp 400 (ErrorBody msg ''InvalidArgument'')"

definition internalError :: "string \<Rightarrow> response" where
  "internalError msg = Resp 500 (ErrorBody msg ''Internal'')"

definition status_numbers :: "(string \<times> int) list" where
  "status_numbers = [(StatusCreated, 1), (StatusCollecting, 2), (StatusAnalyzing, 3), (StatusRCADone, 4),
     (StatusFixProposed, 5), (StatusAwaitingApproval, 6), (StatusFixSuggested, 11), (StatusFixExecuting, 7),
     (StatusVerifying, 8), (StatusResolved, 9), (StatusRolledBack, 10), (StatusRejected, 12),
     (StatusIgnored, 14), (StatusFailed, 13)]"

definition statusToProto :: "string \<Rightarrow> int" where
  "statusToProto s = (case map_of status_numbers s of Some n \<Rightarrow> n | None \<Rightarrow> 0)"

definition statusProtoToString :: "int \<Rightarrow> string" where
  "statusProtoToString n = (case map_of (map (\<lambda>(s, k). (k, s)) status_numbers) n of Some s \<Rightarrow> s | None \<Rightarrow> [])"

definition toSessionProto :: "'e deps \<Rightarrow> DiagnosticSession \<Rightarrow> SessionProto" where
  "toSessionProto d s = \<lparr>sp_Id = id_text d (s_ID s), sp_TargetService = s_TargetService s,
     sp_Status = statusToProto (s_Status s), sp_RetryCount = int32_of (s_RetryCount s),
     sp_CreatedAt = s_CreatedAt s, sp_UpdatedAt = s_UpdatedAt s\<rparr>"

definition toFixSummaryProto :: "'e deps \<Rightarrow> FixAction \<Rightarrow> FixSummary" where
  "toFixSummaryProto d fa = \<lparr>fs_Id = id_text d (fa_ID fa), fs_Seq = int32_of (fa_Seq fa),
     fs_ActionType = fa_ActionType fa, fs_Target = fa_Target fa, fs_Risk = fa_Risk fa,
     fs_Status = fa_ExecutionStatus fa, fs_RollbackPlan = fa_RollbackPlan fa\<rparr>"

definition buildTimeline :: "DiagnosticSession \<Rightarrow> TimelineEntry list" where
  "buildTimeline s =
    [\<lparr>tl_EventType = ''session_created'', tl_Source = ''orchestrator'',
      tl_Message = ''Diagnostic session created for service '' @ s_TargetService s, tl_Timestamp = s_CreatedAt s\<rparr>] @
    (if s_Status s \<noteq> StatusCreated
     then [\<lparr>tl_EventType = ''session_started'', tl_Source = ''orchestrator'',
            tl_Message = ''Session transitioned to '' @ s_Status s, tl_Timestamp = s_UpdatedAt s\<rparr>] else []) @
    (if s_Status s = StatusResolved
     then [\<lparr>tl_EventType = ''session_resolved'', tl_Source = ''orchestrator'',
            tl_Message = ''Diagnostic session completed successfully'', tl_Timestamp = s_UpdatedAt s\<rparr>] else [])"

text \<open>A successful answer with the session; without one the handler dereferences nil.\<close>

definition session_answer :: "'e deps \<Rightarrow> DiagnosticSession result \<Rightarrow> response" where
  "session_answer d r = (case r of Inl e \<Rightarrow> Panic | Inr s \<Rightarrow> Resp 200 (SessionBody (toSessionProto d s)))"

section \<open>Choice of the back-ends (gin.go)\<close>

datatype approval_backend = UseWebhookClient string | UseNOOPClient
datatype executor_backend = UseK8s | UseNOOPExecutor
datatype notifier_backend = UseJira string string string | UsePagerDuty string | UseNOOPNotifier

definition buildApprovalClient :: "string \<Rightarrow> string \<Rightarrow> approval_backend" where
  "buildApprovalClient mode callback =
     (if mode = ''webhook'' then UseWebhookClient callback else UseNOOPClient)"

text \<open>\<open>k8s\<close> is the outcome of \<open>NewK8sExecutor\<close>.\<close>

definition buildExecutor :: "string \<Rightarrow> unit result \<Rightarrow> executor_backend" where
  "buildExecutor mode k8s =
     (if mode = ''k8s'' then (case k8s of Inl e \<Rightarrow> UseNOOPExecutor | Inr u \<Rightarrow> UseK8s) else UseNOOPExecutor)"

definition buildIncidentNotifier :: "string \<Rightarrow> string \<Rightarrow> string \<Rightarrow> string \<Rightarrow> string \<Rightarrow> notifier_backend" where
  "buildIncidentNotifier mode baseURL token project routingKey =
     (if mode = ''jira'' then UseJira baseURL token project
      else if mode = ''pagerduty'' then UsePagerDuty routingKey
      else UseNOOPNotifier)"

end
