(* ===== verification/Orchestrator.thy ===== *)
theory Orchestrator imports Server_State begin

text \<open>
  The HTTP handlers of \<open>internal/server/orchestrator.go\<close> and the two callbacks of the event loop, the
  approval gate and the execution of fixes.  A handler maps the parsed request and the state to the
  answer and the new state.
\<close>

section \<open>Sessions\<close>

text \<open>\<open>body\<close> is what \<open>ShouldBindJSON\<close> gave: the target service.\<close>

definition CreateSession :: "'e deps \<Rightarrow> string result \<Rightarrow> 'e orch \<Rightarrow> response \<times> 'e orch" where
  "CreateSession d body w =
    (case body of
       Inl e \<Rightarrow> (badRequest (''invalid request body: '' @ error_text e), w)
     | Inr targetService \<Rightarrow>
        (if targetService = [] then (badRequest ''target_service is required'', w)
         else (case SessionDAO_Create targetService TriggerManual w of
             (Inl e, w1) \<Rightarrow> (internalError (''create session: '' @ error_text e), w1)
           | (Inr s, w1) \<Rightarrow> (Resp 201 (SessionBody (toSessionProto d s)), w1))))"

record ListSessionsRequest =
  lr_Page :: int
  lr_PageSize :: int
  lr_Status :: int
  lr_TargetService :: string
  lr_From :: "time option"
  lr_To :: "time option"
  lr_Keyword :: string

definition ListSessions :: "'e deps \<Rightarrow> ListSessionsRequest result \<Rightarrow> 'e orch \<Rightarrow> response \<times> 'e orch" where
  "ListSessions d query w =
    (case query of
       Inl e \<Rightarrow> (badRequest (''invalid query params: '' @ error_text e), w)
     | Inr req0 \<Rightarrow>
        (let req1 = (if lr_Page req0 = 0 then req0\<lparr>lr_Page := 1\<rparr> else req0);
             req = (if lr_PageSize req1 = 0 then req1\<lparr>lr_PageSize := 20\<rparr> else req1);
             f = \<lparr>lf_Status = statusProtoToString (lr_Status req), lf_TargetService = lr_TargetService req,
                  lf_From = (case lr_From req of None \<Rightarrow> 0 | Some t \<Rightarrow> t),
                  lf_To = (case lr_To req of None \<Rightarrow> 0 | Some t \<Rightarrow> t),
                  lf_Keyword = lr_Keyword req, lf_Page = lr_Page req, lf_PageSize = lr_PageSize req\<rparr>
         in case SessionDAO_List (id_text d) f w of
              (Inl e, w1) \<Rightarrow> (internalError (''list sessions: '' @ error_text e), w1)
            | (Inr (sessions, cnt), w1) \<Rightarrow>
                (Resp 200 (SessionsBody (map (toSessionProto d) sessions) (int32_of (int cnt))
                   (lr_Page req) (lr_PageSize req)), w1)))"

text \<open>A handler on one session starts by parsing the path parameter.\<close>

definition with_session_id ::
  "'e deps \<Rightarrow> string \<Rightarrow> (uuid \<Rightarrow> 'e orch \<Rightarrow> response \<times> 'e orch) \<Rightarrow> 'e orch \<Rightarrow> response \<times> 'e orch" where
  "with_session_id d idStr k w = (case uuid_Parse (d_uuid d) idStr of
       Inl e \<Rightarrow> (badRequest ''invalid session id'', w)
     | Inr i \<Rightarrow> k i w)"

definition GetSession :: "'e deps \<Rightarrow> string \<Rightarrow> 'e orch \<Rightarrow> response \<times> 'e orch" where
  "GetSession d idStr = with_session_id d idStr (\<lambda>i w.
    (case SessionDAO_GetByID i w of
       (Inl e, w1) \<Rightarrow> (if errors_is e ErrNotFound then (notFound ''session not found'', w1)
                       else (internalError (''get session: '' @ error_text e), w1))
     | (Inr s, w1) \<Rightarrow>
        (let (r, w2) = FixActionDAO_GetBySessionID i w1;
             fixes = (case r of Inl e \<Rightarrow> [] | Inr fs \<Rightarrow> fs)
         in (Resp 200 (DetailBody (toSessionProto d s) (buildTimeline s) (map (toFixSummaryProto d) fixes)), w2))))"

definition StartSession :: "'e deps \<Rightarrow> string \<Rightarrow> 'e orch \<Rightarrow> response \<times> 'e orch" where
  "StartSession d idStr = with_session_id d idStr (\<lambda>i w.
    (case Transition i EventStartCollect w of
       (Inl e, w1) \<Rightarrow>
         (if errors_is e ErrSessionNotFound then (notFound ''session not found'', w1)
          else if errors_is e ErrInvalidTransition
          then (badRequest (''cannot start session in current state: '' @ error_text e), w1)
          else (internalError (''start session: '' @ error_text e), w1))
     | (Inr newStatus, w1) \<Rightarrow>
        (case SessionDAO_GetByID i w1 of
           (Inl e, w2) \<Rightarrow> (if errors_is e ErrNotFound then (notFound ''session not found'', w2)
                           else (internalError (''get session: '' @ error_text e), w2))
         | (Inr s, w2) \<Rightarrow>
            (if d_has_eventLoop d
             then (case DispatchCollect d (id_text d i) (s_TargetService s) w2 of
                 (Some e, w3) \<Rightarrow> (internalError (''dispatch collect: '' @ error_text e), w3)
               | (None, w3) \<Rightarrow> (Resp 200 (SessionBody (toSessionProto d s)), w3))
             else (Resp 200 (SessionBody (toSessionProto d s)), w2)))))"

definition RetrySession :: "'e deps \<Rightarrow> string \<Rightarrow> 'e orch \<Rightarrow> response \<times> 'e orch" where
  "RetrySession d idStr = with_session_id d idStr (\<lambda>i w.
    (case SessionDAO_IncrementRetry i w of
       (Inl e, w1) \<Rightarrow> (if errors_is e ErrNotFound then (notFound ''session not found'', w1)
                       else (internalError (''retry session: '' @ error_text e), w1))
     | (Inr n, w1) \<Rightarrow>
        (case Transition i EventRetry w1 of
           (Inl e, w2) \<Rightarrow>
             (if errors_is e ErrInvalidTransition
              then (badRequest (''cannot retry session in current state: '' @ error_text e), w2)
              else (internalError (''retry session: '' @ error_text e), w2))
         | (Inr newStatus, w2) \<Rightarrow>
             (let (r, w3) = SessionDAO_GetByID i w2 in (session_answer d r, w3)))))"

text \<open>The reason in the body is only logged.\<close>

definition IgnoreSession :: "'e deps \<Rightarrow> string \<Rightarrow> 'e orch \<Rightarrow> response \<times> 'e orch" where
  "IgnoreSession d idStr = with_session_id d idStr (\<lambda>i w.
    (case Transition i EventIgnore w of
       (Inl e, w1) \<Rightarrow>
         (if errors_is e ErrSessionNotFound then (notFound ''session not found'', w1)
          else if errors_is e ErrInvalidTransition
          then (badRequest (''cannot ignore session in current state: '' @ error_text e), w1)
          else (internalError (''ignore session: '' @ error_text e), w1))
     | (Inr newStatus, w1) \<Rightarrow>
         (let (r, w2) = SessionDAO_GetByID i w1 in (session_answer d r, w2))))"

section \<open>Decisions\<close>

record DecisionRequest =
  dr_Decision :: int
  dr_DecidedBy :: string

definition APPROVAL_DECISION_UNSPECIFIED :: int where "APPROVAL_DECISION_UNSPECIFIED = 0"

definition APPROVAL_DECISION_REJECT :: int where "APPROVAL_DECISION_REJECT = 2"

definition decide :: "'e deps \<Rightarrow> uuid \<Rightarrow> uuid \<Rightarrow> Approval \<Rightarrow> DecisionRequest \<Rightarrow> 'e orch \<Rightarrow> response \<times> 'e orch" where
  "decide d sessionID approvalID appr req w =
    (let reject = (dr_Decision req = APPROVAL_DECISION_REJECT);
         decision = (if reject then ApprovalStatusRejected else ApprovalStatusApproved);
         event = (if reject then EventReject else EventApprove)
     in case ApprovalDAO_UpdateDecision approvalID decision (dr_DecidedBy req) w of
          (Some e, w1) \<Rightarrow> (internalError (''update approval decision: '' @ error_text e), w1)
        | (None, w1) \<Rightarrow>
           (let (r, w2) = FixActionDAO_GetByID (ap_FixActionID appr) w1;
                w3 = (case r of Inl e \<Rightarrow> w2
                      | Inr fa \<Rightarrow> snd (FixActionDAO_UpdateApprovalStatus (fa_ID fa) decision w2));
                w4 = fire event sessionID w3
            in (Resp 200 (DecisionBody (id_text d approvalID) decision), w4)))"

definition DecisionApproval ::
  "'e deps \<Rightarrow> string \<Rightarrow> string \<Rightarrow> DecisionRequest result \<Rightarrow> 'e orch \<Rightarrow> response \<times> 'e orch" where
  "DecisionApproval d idStr approvalIDStr body = with_session_id d idStr (\<lambda>sessionID w.
    (case uuid_Parse (d_uuid d) approvalIDStr of
       Inl e \<Rightarrow> (badRequest ''invalid approval id'', w)
     | Inr approvalID \<Rightarrow>
    (case body of
       Inl e \<Rightarrow> (badRequest (''invalid request body: '' @ error_text e), w)
     | Inr req \<Rightarrow>
        (if dr_Decision req = APPROVAL_DECISION_UNSPECIFIED then (badRequest ''decision is required'', w)
         else (case ApprovalDAO_GetByID approvalID w of
             (Inl e, w1) \<Rightarrow> (if errors_is e ErrNotFound then (notFound ''approval not found'', w1)
                             else (internalError (''get approval: '' @ error_text e), w1))
           | (Inr appr, w1) \<Rightarrow>
              (if ap_SessionID appr \<noteq> sessionID
               then (badRequest ''approval does not belong to this session'', w1)
               else decide d sessionID approvalID appr req w1))))))"

section \<open>Reports\<close>

definition GetReport :: "'e deps \<Rightarrow> string \<Rightarrow> string \<Rightarrow> 'e orch \<Rightarrow> response \<times> 'e orch" where
  "GetReport d idStr format = with_session_id d idStr (\<lambda>i w.
    (if format = ''pdf''
     then (case Engine_GenerateReport (d_report d) (d_pandoc d) i w of
         (Inl e, w1) \<Rightarrow> (internalError (''generate report: '' @ error_text e), w1)
       | (Inr (markdown, pdf, contentType), w1) \<Rightarrow> (Resp 200 (DataBody contentType pdf), w1))
     else (case Engine_RenderMarkdown (d_report d) i w of
         (Inl e, w1) \<Rightarrow> (if errors_is e ErrNotFound then (notFound ''session not found'', w1)
                         else (internalError (''generate report: '' @ error_text e), w1))
       | (Inr markdown, w1) \<Rightarrow>
           (Resp 200 (ReportBody markdown (''/v1/sessions/'' @ idStr @ ''/report/download?format=markdown'')), w1))))"

definition DownloadReport :: "'e deps \<Rightarrow> string \<Rightarrow> string \<Rightarrow> 'e orch \<Rightarrow> response \<times> 'e orch" where
  "DownloadReport d idStr query = with_session_id d idStr (\<lambda>i w.
    (let format = (if query = ''pdf'' then ''pdf'' else ''markdown'');
         disposition = ''attachment; filename='' @ quoted (''report-'' @ idStr @ ''.'' @ format) in
     if format = ''pdf''
     then (case Engine_GenerateReport (d_report d) (d_pandoc d) i w of
         (Inl e, w1) \<Rightarrow> (internalError (''generate pdf report: '' @ error_text e), w1)
       | (Inr (markdown, pdf, ct), w1) \<Rightarrow> (Resp 200 (DownloadBody disposition ct pdf), w1))
     else (case Engine_RenderMarkdown (d_report d) i w of
         (Inl e, w1) \<Rightarrow> (if errors_is e ErrNotFound then (notFound ''session not found'', w1)
                         else (internalError (''generate markdown report: '' @ error_text e), w1))
       | (Inr markdown, w1) \<Rightarrow> (Resp 200 (DownloadBody disposition ''text/markdown'' markdown), w1))))"

section \<open>Agents\<close>

definition agent_types :: "string list" where
  "agent_types = [''agent-log'', ''agent-metric'', ''agent-trace'', ''agent-rca'', ''agent-fix'', ''orchestrator'']"

definition agent_info :: "ServiceInstance \<Rightarrow> AgentInfo" where
  "agent_info inst = \<lparr>ai_Name = si_Name inst, ai_Kind = si_Kind inst, ai_Version = si_Version inst,
     ai_Status = si_Status inst, ai_Endpoint = si_HTTPAddr inst, ai_LastHeartbeat = si_Heartbeat inst\<rparr>"

definition ListAgents :: "'e deps \<Rightarrow> 'e orch \<Rightarrow> response \<times> 'e orch" where
  "ListAgents d w = (case d_discovery d of
       None \<Rightarrow> (Resp 200 (AgentsBody []), w)
     | Some discover \<Rightarrow>
        (Resp 200 (AgentsBody (concat (map (\<lambda>name. case discover name of
             Inl e \<Rightarrow> [] | Inr instances \<Rightarrow> map agent_info instances) agent_types))), w))"

definition Healthz :: "'e orch \<Rightarrow> response \<times> 'e orch" where
  "Healthz w = (Resp 200 (StatusBody ''ok''), w)"

section \<open>The approval gate\<close>

definition needs_gate :: "FixAction \<Rightarrow> bool" where
  "needs_gate fa \<longleftrightarrow> fa_Risk fa = RiskHigh \<and> fa_ApprovalStatus fa = ApprovalStatusNone"

definition approval_request :: "'e deps \<Rightarrow> uuid \<Rightarrow> FixAction \<Rightarrow> ApprovalRequest" where
  "approval_request d sessionID fa = \<lparr>rq_SessionID = sessionID, rq_FixActionID = fa_ID fa,
     rq_Summary = ''HIGH-risk fix action ['' @ fa_ActionType fa @ ''] on '' @ fa_Target fa @ '' (session '' @
        id_text d sessionID @ '')'',
     rq_Risk = fa_Risk fa, rq_Target = fa_Target fa, rq_RequestedBy = []\<rparr>"

definition gate_one :: "'e deps \<Rightarrow> uuid \<Rightarrow> FixAction \<Rightarrow> 'e orch \<Rightarrow> 'e orch" where
  "gate_one d sessionID fa w =
    (case call_env (d_Request d (approval_request d sessionID fa) (w_now w)) w of
       (Inl e, w1) \<Rightarrow> w1
     | (Inr token, w1) \<Rightarrow>
        (case ApprovalDAO_Create \<lparr>ap_ID = uuid_Nil, ap_SessionID = sessionID, ap_FixActionID = fa_ID fa,
             ap_Status = ApprovalStatusPending, ap_RequestToken = token, ap_RequestedAt = 0,
             ap_DecidedAt = None, ap_DecidedBy = None\<rparr> w1 of
           (Some e, a, w2) \<Rightarrow> w2
         | (None, a, w2) \<Rightarrow> snd (FixActionDAO_UpdateApprovalStatus (fa_ID fa) ApprovalStatusPending w2)))"

definition TriggerApprovalGate :: "'e deps \<Rightarrow> uuid \<Rightarrow> 'e orch \<Rightarrow> gerror option \<times> 'e orch" where
  "TriggerApprovalGate d sessionID w =
    (case FixActionDAO_GetBySessionID sessionID w of
       (Inl e, w1) \<Rightarrow> (Some (wrap ''trigger approval: get fixes: '' e), w1)
     | (Inr fixes, w1) \<Rightarrow>
        (let highRiskFixes = filter needs_gate fixes; n = show_nat (length highRiskFixes) in
         if length highRiskFixes = 0 then (None, w1)
         else (case SessionDAO_GetByID sessionID w1 of
             (Inl e, w2) \<Rightarrow> (Some (wrap ''trigger approval: get session: '' e), w2)
           | (Inr s, w2) \<Rightarrow>
              (let w3 = fold (gate_one d sessionID) highRiskFixes w2 in
               (None, if d_has_webhook d
                  then webhook_Notify \<lparr>de_EventType = ''approval_required'', de_SessionID = sessionID,
                    de_Status = StatusAwaitingApproval,
                    de_Summary = ''Approval required for '' @ n @ '' HIGH-risk fix action(s)'',
                    de_Message = ''Session '' @ id_text d sessionID @ '' requires approval for '' @ n @
                      '' HIGH-risk fix step(s)'',
                    de_Service = s_TargetService s, de_ReportURL = [], de_Timestamp = w_now w3, de_Labels = []\<rparr> w3
                  else w3)))))"

section \<open>The execution of fixes\<close>

definition may_execute :: "FixAction \<Rightarrow> bool" where
  "may_execute fa \<longleftrightarrow> \<not> (fa_RequiresApproval fa \<and> fa_ApprovalStatus fa \<noteq> ApprovalStatusApproved) \<and>
     fa_ExecutionStatus fa = ExecStatusNotStarted"

definition exec_action :: "uuid \<Rightarrow> FixAction \<Rightarrow> ExecAction" where
  "exec_action sessionID fa = \<lparr>xa_ID = fa_ID fa, xa_SessionID = sessionID, xa_ActionType = fa_ActionType fa,
     xa_Target = fa_Target fa, xa_Risk = fa_Risk fa, xa_RollbackPlan = fa_RollbackPlan fa\<rparr>"

definition executor_Execute :: "'e deps \<Rightarrow> ExecAction \<Rightarrow> 'e orch \<Rightarrow> ExecutionResult result \<times> 'e orch" where
  "executor_Execute d a w = (let w1 = w\<lparr>o_executed := o_executed w @ [a]\<rparr> in
     call_env (d_Execute d a (w_now w1)) w1)"

definition ticket_incident :: "'e deps \<Rightarrow> uuid \<Rightarrow> DiagnosticSession \<Rightarrow> FixAction \<Rightarrow> Incident" where
  "ticket_incident d sessionID s fa = \<lparr>in_SessionID = sessionID,
     in_Summary = ''['' @ s_TargetService s @ ''] Auto-fix: '' @ fa_ActionType fa @ '' on '' @ fa_Target fa,
     in_Description = ''Fix action '' @ fa_ActionType fa @ '' executed automatically by microservice-diagnosis.'' @
       nl @ ''Rollback plan: '' @ fa_RollbackPlan fa,
     in_Severity = fa_Risk fa, in_Status = ''OPEN'',
     in_ReportURL = ''/v1/sessions/'' @ id_text d sessionID @ ''/report''\<rparr>"

definition open_ticket :: "'e deps \<Rightarrow> uuid \<Rightarrow> DiagnosticSession \<Rightarrow> FixAction \<Rightarrow> 'e orch \<Rightarrow> 'e orch" where
  "open_ticket d sessionID s fa w =
    (case call_env (d_CreateIncident d (ticket_incident d sessionID s fa) (w_now w)) w of
       (Inl e, w1) \<Rightarrow> w1
     | (Inr ticketID, w1) \<Rightarrow> snd (FixActionDAO_SetTicketID (fa_ID fa) ticketID w1))"

definition execute_one :: "'e deps \<Rightarrow> uuid \<Rightarrow> DiagnosticSession \<Rightarrow> FixAction \<Rightarrow> 'e orch \<Rightarrow> 'e orch" where
  "execute_one d sessionID s fa w =
    (if \<not> may_execute fa then w
     else (let w1 = snd (FixActionDAO_UpdateExecutionStatus (fa_ID fa) ExecStatusRunning w) in
       case executor_Execute d (exec_action sessionID fa) w1 of
         (Inl e, w2) \<Rightarrow> snd (FixActionDAO_UpdateExecutionStatus (fa_ID fa) ExecStatusFailed w2)
       | (Inr result, w2) \<Rightarrow>
          (let finalStatus = (if xr_Status result = ''FAILED'' then ExecStatusFailed else ExecStatusSucceeded);
               w3 = snd (FixActionDAO_UpdateExecutionStatus (fa_ID fa) finalStatus w2)
           in if xr_Status result = ''SUCCEEDED'' \<and> fa_TicketID fa = None
              then open_ticket d sessionID s fa w3 else w3)))"

definition ExecuteFixActions :: "'e deps \<Rightarrow> uuid \<Rightarrow> 'e orch \<Rightarrow> gerror option \<times> 'e orch" where
  "ExecuteFixActions d sessionID w =
    (case FixActionDAO_GetBySessionID sessionID w of
       (Inl e, w1) \<Rightarrow> (Some (wrap ''execute fixes: get fixes: '' e), w1)
     | (Inr fixes, w1) \<Rightarrow>
    (case SessionDAO_GetByID sessionID w1 of
       (Inl e, w2) \<Rightarrow> (Some (wrap ''execute fixes: get session: '' e), w2)
     | (Inr s, w2) \<Rightarrow>
        (let w3 = fold (execute_one d sessionID s) fixes w2 in
         case Transition sessionID EventExecuteComplete w3 of
           (r, w4) \<Rightarrow>
            (case (case r of Inr n \<Rightarrow> None | Inl e \<Rightarrow> if errors_is e ErrInvalidTransition then None else Some e) of
               Some e \<Rightarrow> (Some (wrap ''execute fixes: advance to verifying: '' e), w4)
             | None \<Rightarrow> (None, if d_has_webhook d
                 then webhook_Notify \<lparr>de_EventType = ''fix_executed'', de_SessionID = sessionID,
                   de_Status = StatusVerifying,
                   de_Summary = ''Fix actions executed for session '' @ id_text d sessionID, de_Message = [],
                   de_Service = s_TargetService s, de_ReportURL = [], de_Timestamp = w_now w4, de_Labels = []\<rparr> w4
                 else w4)))))"

definition NotifySessionEvent :: "'e deps \<Rightarrow> DiagnosticSession \<Rightarrow> string \<Rightarrow> string \<Rightarrow> 'e orch \<Rightarrow> 'e orch" where
  "NotifySessionEvent d s eventType message w =
    (if \<not> d_has_webhook d then w
     else webhook_Notify \<lparr>de_EventType = eventType, de_SessionID = s_ID s, de_Status = s_Status s,
       de_Summary = message, de_Message = [], de_Service = s_TargetService s, de_ReportURL = [],
       de_Timestamp = w_now w, de_Labels = []\<rparr> w)"

end
