(* ===== verification/Event_Loop.thy ===== *)
theory Event_Loop imports Orchestrator begin

text \<open>
  \<open>internal/server/event_loop.go\<close>: the handling of one observation, the main loop with its commits, the
  skip of a large backlog at the start, and the periodic sweep.  The callbacks are the ones that
  \<open>NewGinServer\<close> wires: the approval gate and the execution of fixes.
\<close>

section \<open>One observation\<close>

record observationPayload =
  op_ID :: string
  op_SessionID :: string
  op_Source :: string
  op_Type :: string
  op_SubType :: string
  op_Confidence :: float64
  op_DetailJSON :: string
  op_TargetService :: string

definition normalizeType :: "string \<Rightarrow> string" where
  "normalizeType t = to_upper (trim_prefix t ''EVIDENCE_TYPE_'')"

definition collect_observation :: "'e deps \<Rightarrow> uuid \<Rightarrow> observationPayload \<Rightarrow> 'e orch \<Rightarrow> gerror option \<times> 'e orch" where
  "collect_observation d sid ob w =
    (case Transition sid EventCollectComplete w of
       (Inl e, w1) \<Rightarrow> (Some (wrap (''transition COLLECTING'' @ utf8_arrow @ ''ANALYZING: '') e), w1)
     | (Inr newStatus, w1) \<Rightarrow>
        (if newStatus = StatusAnalyzing
         then (None, snd (DispatchAnalyze d (id_text d sid) (op_TargetService ob) w1)) else (None, w1)))"

definition rca_observation :: "uuid \<Rightarrow> 'e orch \<Rightarrow> gerror option \<times> 'e orch" where
  "rca_observation sid w =
    (case Transition sid EventAnalysisComplete w of
       (Inl e, w1) \<Rightarrow> (Some (wrap (''transition ANALYZING'' @ utf8_arrow @ ''RCA_DONE: '') e), w1)
     | (Inr newStatus, w1) \<Rightarrow> (None, w1))"

text \<open>Steps 1 to 3 after a FIX_ACTION in RCA_DONE.\<close>

definition drive_fix :: "'e deps \<Rightarrow> uuid \<Rightarrow> string \<Rightarrow> 'e orch \<Rightarrow> gerror option \<times> 'e orch" where
  "drive_fix d sid newStatus w =
    (if newStatus = StatusAwaitingApproval then (None, snd (TriggerApprovalGate d sid w))
     else if newStatus = StatusFixSuggested
     then (case Transition sid EventExecute w of
         (Inl e, w1) \<Rightarrow> (if errors_is e ErrInvalidTransition then (None, w1)
                         else (Some (wrap (''transition FIX_SUGGESTED'' @ utf8_arrow @ ''FIX_EXECUTING: '') e), w1))
       | (Inr n, w1) \<Rightarrow> (None, snd (ExecuteFixActions d sid w1)))
     else (None, w))"

definition fix_observation :: "'e deps \<Rightarrow> uuid \<Rightarrow> 'e orch \<Rightarrow> gerror option \<times> 'e orch" where
  "fix_observation d sid w =
    (case Transition sid EventRCAGenerated w of
       (Inl e, w1) \<Rightarrow> (Some (wrap (''transition RCA_DONE'' @ utf8_arrow @ ''FIX_PROPOSED: '') e), w1)
     | (Inr n1, w1) \<Rightarrow>
        (case Transition sid EventFixGenerated w1 of
           (Inl e, w2) \<Rightarrow> (if errors_is e ErrInvalidTransition then (None, w2)
                           else (Some (wrap ''transition evaluate fix_proposed: '' e), w2))
         | (Inr n2, w2) \<Rightarrow> drive_fix d sid n2 w2))"

definition handleObservation ::
  "'e deps \<Rightarrow> uuid \<Rightarrow> observationPayload \<Rightarrow> 'e orch \<Rightarrow> gerror option \<times> 'e orch" where
  "handleObservation d sid ob w =
    (case GetStatus sid w of
       (Inl e, w1) \<Rightarrow> (Some (wrap ''get status: '' e), w1)
     | (Inr currentStatus, w1) \<Rightarrow>
        (let obsType = normalizeType (op_Type ob) in
         if currentStatus = StatusCollecting
         then (if obsType = ''LOG'' \<or> obsType = ''METRIC'' \<or> obsType = ''TRACE''
               then collect_observation d sid ob w1 else (None, w1))
         else if currentStatus = StatusAnalyzing
         then (if obsType = ''RCA_RESULT'' then rca_observation sid w1 else (None, w1))
         else if currentStatus = StatusRCADone
         then (if obsType = ''FIX_ACTION'' then fix_observation d sid w1 else (None, w1))
         else (None, w1)))"

section \<open>The main loop\<close>

text \<open>\<open>parse\<close> is \<open>json.Unmarshal\<close> into the payload.  The boolean says that the offset is committed.\<close>

definition process_message ::
  "'e deps \<Rightarrow> (string \<Rightarrow> observationPayload result) \<Rightarrow> kafka_Message \<Rightarrow> 'e orch \<Rightarrow> bool \<times> 'e orch" where
  "process_message d parse m w =
    (case parse (k_Value m) of
       Inl e \<Rightarrow> (True, w)
     | Inr ob \<Rightarrow>
        (if op_SessionID ob = [] then (True, w)
         else (case uuid_Parse (d_uuid d) (op_SessionID ob) of
             Inl e \<Rightarrow> (True, w)
           | Inr sid \<Rightarrow>
              (case handleObservation d sid ob w of
                 (Some e, w1) \<Rightarrow> (False, w1)
               | (None, w1) \<Rightarrow> (True, w1)))))"

text \<open>The committed position of each partition: the next offset that a restarted consumer reads.  A
  commit of a message moves it behind the message.  \<open>ok\<close> tells whether the commit call succeeds; a
  failure is logged.\<close>

type_synonym offsets = "string \<times> int \<Rightarrow> int"

definition commitOffset :: "(kafka_Message \<Rightarrow> bool) \<Rightarrow> kafka_Message \<Rightarrow> offsets \<Rightarrow> offsets" where
  "commitOffset ok m pos = (if ok m then pos((k_Topic m, k_Partition m) := k_Offset m + 1) else pos)"

fun Run_loop ::
  "'e deps \<Rightarrow> (string \<Rightarrow> observationPayload result) \<Rightarrow> (kafka_Message \<Rightarrow> bool) \<Rightarrow> kafka_Message list \<Rightarrow>
   'e orch \<Rightarrow> offsets \<Rightarrow> 'e orch \<times> offsets" where
  "Run_loop d parse ok [] w pos = (w, pos)"
| "Run_loop d parse ok (m # ms) w pos =
     (case process_message d parse m w of
        (True, w1) \<Rightarrow> Run_loop d parse ok ms w1 (commitOffset ok m pos)
      | (False, w1) \<Rightarrow> Run_loop d parse ok ms w1 pos)"

definition redelivered :: "offsets \<Rightarrow> kafka_Message \<Rightarrow> bool" where
  "redelivered pos m \<longleftrightarrow> pos (k_Topic m, k_Partition m) \<le> k_Offset m"

definition observation_topics :: "string list" where
  "observation_topics = [TopicObservationsLog, TopicObservationsMetric, TopicObservationsTrace,
     TopicObservationsRCA, TopicObservationsFix]"

text \<open>One tick of the sweep goroutine; errors are logged.\<close>

definition sweep_tick :: "'a db_scheme \<Rightarrow> 'a db_scheme" where
  "sweep_tick w = snd (SweepVerifying (snd (SweepFixProposed (snd (Sweep w)))))"

section \<open>Skipping a backlog\<close>

definition defaultBacklogSkip :: int where
  "defaultBacklogSkip = 10000"

text \<open>
  The answers of the broker: the partitions of each topic, the group's committed offsets (\<open>-1\<close> when a
  partition has none; a partition missing from the map reads 0), the last offsets with a possible
  error each, and for each attempt to commit before the timeout whether every partition was committed.
\<close>

record backlog_answers =
  ba_Metadata :: "(string \<times> int list) list result"
  ba_Committed :: "(int \<times> int) list result"
  ba_Offsets :: "(int \<times> int \<times> gerror option) list result"
  ba_Commits :: "bool list"

definition map_get :: "(int \<times> int) list \<Rightarrow> int \<Rightarrow> int" where
  "map_get m k = (case map_of m k of None \<Rightarrow> 0 | Some v \<Rightarrow> v)"

text \<open>The loop over the last offsets: the largest lag, whether a partition is uncommitted, and the
  last offset of each partition.\<close>

fun scan_offsets ::
  "(int \<times> int) list \<Rightarrow> (int \<times> int \<times> gerror option) list \<Rightarrow> int \<Rightarrow> bool \<Rightarrow> (int \<times> int) list \<Rightarrow>
   (int \<times> bool \<times> (int \<times> int) list) result" where
  "scan_offsets committed [] lag uncommitted latest = Inr (lag, uncommitted, latest)"
| "scan_offsets committed ((p, lastOffset, Some e) # os) lag uncommitted latest =
     Inl (wrap (''skip backlog: partition '' @ show_int p @ '': '') e)"
| "scan_offsets committed ((p, lastOffset, None) # os) lag uncommitted latest =
     (let c0 = map_get committed p; c = (if c0 = -1 then 0 else c0); pLag = lastOffset - c in
      scan_offsets committed os (if pLag > lag then pLag else lag) (uncommitted \<or> c0 = -1)
        ((p, lastOffset) # latest))"

text \<open>The result is the error and the offsets committed, if any.\<close>

definition skipBacklogFast ::
  "backlog_answers \<Rightarrow> string \<Rightarrow> int \<Rightarrow> gerror option \<times> (int \<times> int) list option" where
  "skipBacklogFast b topic backlogSkip =
    (case ba_Metadata b of
       Inl e \<Rightarrow> (Some (wrap ''skip backlog: metadata: '' e), None)
     | Inr topics \<Rightarrow>
    (let partitions = concat (map snd (filter (\<lambda>(name, ps). name = topic) topics)) in
     if length partitions = 0 then (None, None)
     else (case ba_Committed b of
       Inl e \<Rightarrow> (Some (wrap ''skip backlog: fetch committed offsets: '' e), None)
     | Inr committed \<Rightarrow>
    (case ba_Offsets b of
       Inl e \<Rightarrow> (Some (wrap ''skip backlog: fetch latest offsets: '' e), None)
     | Inr os \<Rightarrow>
    (case scan_offsets committed os 0 False [] of
       Inl e \<Rightarrow> (Some e, None)
     | Inr (lag, uncommitted, latest) \<Rightarrow>
        (let threshold = (if backlogSkip = 0 then defaultBacklogSkip else backlogSkip) in
         if lag \<le> threshold then (None, None)
         else if uncommitted then (None, None)
         else if True \<in> set (ba_Commits b) then (None, Some (map (\<lambda>p. (p, map_get latest p)) partitions))
         else (None, None)))))))"

end
