(* ===== verification/Server_Steps.thy ===== *)
theory Server_Steps imports Workflow_Laws Event_Loop begin

text \<open>
  The orchestrator as a transition system.  Every handler, callback, message and sweep is a sequence of
  primitive effects on the tables and on the recorded interactions (\<open>primitive\<close>), proved once for each
  of them; an invariant is then an induction over the primitives.  \<open>sys_step\<close> is one step of the whole
  system: a request, a message, a tick, a fix action stored by an agent, or a change of the environment.
\<close>

section \<open>Primitive effects\<close>

inductive primitive :: "'e orch \<Rightarrow> 'e orch \<Rightarrow> bool" where
  p_pop: "primitive w (pop_fault w)"
| p_sleep: "primitive w (sleep t w)"
| p_uuid: "primitive w (w\<lparr>w_ctr := c\<rparr>)"
| p_create: "insert_session s w = Inr w' \<Longrightarrow> s_Status s = StatusCreated \<Longrightarrow> primitive w w'"
| p_retry: "increment_retry i w = Inr w' \<Longrightarrow> primitive w w'"
| p_attempt: "tryTransition i ev w = (r, w') \<Longrightarrow> primitive w w'"
| p_insert_fix: "insert_fix fa w = Inr w' \<Longrightarrow> primitive w w'"
| p_fix_approval: "primitive w (set_fix i (put_fix_approval (st, t)) w)"
| p_fix_execution: "primitive w (set_fix i (put_fix_execution (st, t)) w)"
| p_fix_ticket: "primitive w (set_fix i (put_fix_ticket (st, t)) w)"
| p_insert_approval: "insert_approval a w = Inr w' \<Longrightarrow> primitive w w'"
| p_decision: "primitive w (set_approval i (put_decision (st, who, t)) w)"
| p_env: "primitive w (w\<lparr>o_env := e\<rparr>)"
| p_outbox: "primitive w (w\<lparr>o_outbox := o_outbox w @ [msg]\<rparr>)"
| p_executed: "primitive w (w\<lparr>o_executed := o_executed w @ [a]\<rparr>)"
| p_notified: "primitive w (w\<lparr>o_notified := o_notified w @ started\<rparr>)"
| p_outside: "primitive w (w\<lparr>w_locked := locked, w_faults := faults, w_now := now, o_env := e\<rparr>)"

abbreviation effects :: "'e orch \<Rightarrow> 'e orch \<Rightarrow> bool" where
  "effects \<equiv> primitive\<^sup>*\<^sup>*"

lemmas effects_trans = rtranclp_trans [of primitive]
lemmas effects_step = r_into_rtranclp [of primitive]

lemma effects_snoc: "effects u v \<Longrightarrow> primitive v w \<Longrightarrow> effects u w"
  by (rule rtranclp.rtrancl_into_rtrancl)

named_theorems effect_intros "operations are sequences of primitive effects"

lemma effects_pop [simp]: "effects w w' \<Longrightarrow> effects w (pop_fault w')"
  by (rule effects_snoc [OF _ p_pop])

lemma effects_exec:
  assumes "db_exec f w = (r, w')" and "\<And>u u'. f u = Inr u' \<Longrightarrow> effects u u'"
  shows "effects w w'"
  using assms(1)
proof (cases rule: db_exec_cases)
  case ok
  then show ?thesis using assms(2) [of "pop_fault w"] effects_trans effects_pop by blast
next
  case lost
  then show ?thesis using assms(2) [of "pop_fault w"] effects_trans effects_pop by blast
qed simp

lemma effects_reads:
  "db_query q w = (r, w') \<Longrightarrow> effects w w'"
  "db_query_row p w = (r1, w') \<Longrightarrow> effects w w'"
  by (auto elim: db_query_cases db_query_row_cases)

lemma effects_uuid: "uuid_New w = (i, w') \<Longrightarrow> effects w w'"
  by (auto simp: uuid_New_def intro: effects_step p_uuid)

lemma effects_fill:
  "(if b then (case uuid_New w of (i, w) \<Rightarrow> (f i, w)) else (x, w)) = (y, w') \<Longrightarrow> effects w w'"
  by (auto split: if_splits prod.splits dest: effects_uuid)

section \<open>The DAOs\<close>

lemma effects_sessions [effect_intros]:
  "SessionDAO_GetByID i w = (r1, w') \<Longrightarrow> effects w w'"
  "SessionDAO_List t f w = (r2, w') \<Longrightarrow> effects w w'"
  "SessionDAO_IncrementRetry i w = (r3, w') \<Longrightarrow> effects w w'"
  by (auto simp: SessionDAO_GetByID_def SessionDAO_List_def SessionDAO_IncrementRetry_def Let_def
      split: prod.splits sum.splits if_splits option.splits
      dest!: effects_reads intro: effects_trans effects_step p_retry elim!: effects_exec)

lemma effects_create [effect_intros]:
  assumes "SessionDAO_Create svc trig w = (r, w')"
  shows "effects w w'"
proof -
  obtain i w1 where 1: "uuid_New w = (i, w1)" by force
  let ?s = "\<lparr>s_ID = i, s_Status = StatusCreated, s_TargetService = svc,
              s_TriggerType = (if trig = [] then TriggerManual else trig), s_RetryCount = 0, s_ReportURL = None,
              s_CreatedAt = w_now w1, s_UpdatedAt = w_now w1\<rparr>"
  obtain err w2 where 2: "db_exec (fitted fit_session insert_session ?s) w1 = (err, w2)" by force
  have "effects w1 w2"
  proof (rule effects_exec [OF 2])
    fix u u' :: "'a orch"
    assume "fitted fit_session insert_session ?s u = Inr u'"
    then obtain s' where s': "fit_session ?s = Some s'" "insert_session s' u = Inr u'" by (auto dest: fitted_ok)
    have "s_Status s' = StatusCreated" using s'(1) by (auto simp: fit_session_def split: option.splits)
    with s'(2) show "effects u u'" by (intro effects_step p_create)
  qed
  moreover have "w' = w2"
    using assms 1 2 by (simp add: SessionDAO_Create_def Let_def split: option.splits)
  ultimately show ?thesis using effects_uuid [OF 1] effects_trans by blast
qed

lemma effects_fixes [effect_intros]:
  "FixActionDAO_GetByID i w = (r1, w') \<Longrightarrow> effects w w'"
  "FixActionDAO_GetBySessionID i w = (r2, w') \<Longrightarrow> effects w w'"
  "FixActionDAO_UpdateApprovalStatus i st w = (r3, w') \<Longrightarrow> effects w w'"
  "FixActionDAO_UpdateExecutionStatus i st w = (r4, w') \<Longrightarrow> effects w w'"
  "FixActionDAO_SetTicketID i st w = (r5, w') \<Longrightarrow> effects w w'"
  by (auto simp: FixActionDAO_GetByID_def FixActionDAO_GetBySessionID_def
      FixActionDAO_UpdateApprovalStatus_def FixActionDAO_UpdateExecutionStatus_def FixActionDAO_SetTicketID_def
      split: prod.splits sum.splits if_splits option.splits
      dest!: effects_reads intro: effects_step primitive.intros elim!: effects_exec dest!: fitted_ok)

lemma effects_fix_create [effect_intros]:
  assumes "FixActionDAO_Create fa w = (r, fa', w')"
  shows "effects w w'"
proof -
  obtain fa1 w1 where 1: "(if fa_ID fa = uuid_Nil then (case uuid_New w of (i, w) \<Rightarrow> (fa\<lparr>fa_ID := i\<rparr>, w))
      else (fa, w)) = (fa1, w1)" by force
  have "effects w w1" using 1 by (rule effects_fill)
  moreover have "effects w1 w'"
    using assms unfolding FixActionDAO_Create_def 1 Let_def
    by (auto split: prod.splits option.splits intro: effects_step p_insert_fix elim!: effects_exec dest!: fitted_ok)
  ultimately show ?thesis by (rule effects_trans)
qed

lemma effects_approvals [effect_intros]:
  "ApprovalDAO_GetByID i w = (r1, w') \<Longrightarrow> effects w w'"
  "ApprovalDAO_UpdateDecision i st who w = (r2, w') \<Longrightarrow> effects w w'"
  by (auto simp: ApprovalDAO_GetByID_def scan_approval_def ApprovalDAO_UpdateDecision_def
      split: prod.splits sum.splits if_splits option.splits
      dest!: effects_reads intro: effects_step primitive.intros elim!: effects_exec dest!: fitted_ok)

lemma effects_approval_create [effect_intros]:
  assumes "ApprovalDAO_Create a w = (r, a', w')"
  shows "effects w w'"
proof -
  obtain a1 w1 where 1: "(if ap_ID a = uuid_Nil then (case uuid_New w of (i, w) \<Rightarrow> (a\<lparr>ap_ID := i\<rparr>, w))
      else (a, w)) = (a1, w1)" by force
  have "effects w w1" using 1 by (rule effects_fill)
  moreover have "effects w1 w'"
    using assms unfolding ApprovalDAO_Create_def 1 Let_def
    by (auto split: prod.splits option.splits intro: effects_step p_insert_approval elim!: effects_exec dest!: fitted_ok)
  ultimately show ?thesis by (rule effects_trans)
qed

lemma effects_attempt [effect_intros]: "tryTransition i ev w = (r, w') \<Longrightarrow> effects w w'"
  by (rule effects_step) (rule p_attempt)

lemma effects_attempts: "transition_attempts n i ev w = (r, w') \<Longrightarrow> effects w w'"
proof (induction n arbitrary: w)
  case (Suc n)
  obtain r1 w1 where 1: "tryTransition i ev w = (r1, w1)" by force
  note e1 = effects_attempt [OF 1]
  have "effects w (sleep t w1)" for t using e1 p_sleep by (rule effects_snoc)
  with Suc 1 e1 show ?case by (auto split: sum.splits if_splits intro: effects_trans)
qed simp

lemma effects_transition [effect_intros]: "Transition i ev w = (r, w') \<Longrightarrow> effects w w'"
  unfolding Transition_def by (rule effects_attempts)

lemma effects_events [effect_intros]:
  "SessionEventDAO_GetBySessionID i w = (r1, w') \<Longrightarrow> effects w w'"
  "getAllApprovalsForSession i w = (r2, w') \<Longrightarrow> effects w w'"
  by (auto simp: SessionEventDAO_GetBySessionID_def getAllApprovalsForSession_def
      split: prod.splits sum.splits dest!: effects_reads)

section \<open>The outside world\<close>

lemma effects_env: "call_env f w = (r, w') \<Longrightarrow> effects w w'"
  by (auto simp: call_env_def split: prod.splits intro: effects_step p_env)

lemma effects_publish [effect_intros]:
  assumes "producer_Publish d msg w = (r, w')"
  shows "effects w w'"
proof -
  obtain r1 w1 where 1: "call_env (d_Publish d msg) w = (r1, w1)" by force
  show ?thesis
    using assms 1 effects_env [OF 1] effects_trans [OF effects_env [OF 1] effects_step [OF p_outbox]]
    by (cases r1) (auto simp: producer_Publish_def)
qed

lemma effects_notify: "effects w (webhook_Notify e w)"
proof -
  obtain rows w1 where 1: "WebhookDAO_ListEnabled w = (rows, w1)" by force
  have "effects w w1"
    using 1 by (auto simp: WebhookDAO_ListEnabled_def query_columns_def missing_column_def
        split: prod.splits sum.splits if_splits option.splits dest!: effects_reads)
  moreover have "webhook_Notify e w = w1\<lparr>o_notified := o_notified w1 @
      (case rows of Inl err \<Rightarrow> [] | Inr cs \<Rightarrow> map (\<lambda>cfg. (cfg, e)) cs)\<rparr>"
    using 1 by (cases rows) (auto simp: webhook_Notify_def WebhookNotifier_Notify_def)
  ultimately show ?thesis by (simp add: effects_snoc [OF _ p_notified])
qed

lemma effects_dispatch_all: "effects w (dispatch_all d i svc agents w)"
proof (induction agents arbitrary: w)
  case (Cons a agents)
  obtain kind topic where a: "a = (kind, topic)" by force
  obtain r w1 where 1: "producer_Publish d (command_message topic i svc ''collect'' kind) w = (r, w1)" by force
  from effects_trans [OF effects_publish [OF 1] Cons.IH [of w1]] 1 a show ?case by simp
qed simp

lemma effects_dispatch [effect_intros]:
  "DispatchCollect d i svc w = (r1, w') \<Longrightarrow> effects w w'"
  "DispatchAnalyze d i svc w = (r2, w') \<Longrightarrow> effects w w'"
  by (auto simp: DispatchCollect_def DispatchAnalyze_def effects_dispatch_all
      split: if_splits prod.splits option.splits dest: effects_publish)

lemma effects_fire: "effects w (fire ev i w)"
  unfolding fire_def by (rule effects_transition [OF surjective_pairing])

lemma effects_fold: "(\<And>x u. effects u (f x u)) \<Longrightarrow> effects w (fold f xs w)"
  by (induction xs arbitrary: w) (auto intro: effects_trans)

section \<open>Handlers and callbacks\<close>

lemma effects_load_report [effect_intros]:
  assumes "LoadReportData lib i w = (r, w')"
  shows "effects w w'"
proof -
  obtain r1 w1 where 1: "SessionDAO_GetByID i w = (r1, w1)" by force
  obtain r2 w2 where 2: "FixActionDAO_GetBySessionID i w1 = (r2, w2)" by force
  obtain r3 e3 w3 where 3: "getAllApprovalsForSession i w2 = ((r3, e3), w3)" by (metis surj_pair)
  obtain r4 e4 w4 where 4: "SessionEventDAO_GetBySessionID i w3 = ((r4, e4), w4)" by (metis surj_pair)
  note fx = effects_sessions(1) [OF 1] effects_fixes(2) [OF 2] effects_events(2) [OF 3] effects_events(1) [OF 4]
  have "w' = w1 \<or> w' = w4"
    using assms 1 2 3 4 by (cases r1) (auto simp: LoadReportData_def)
  with fx show ?thesis using effects_trans by blast
qed

lemma effects_reports [effect_intros]:
  "Engine_GenerateReport lib pandoc i w = (r1, w') \<Longrightarrow> effects w w'"
  "Engine_RenderMarkdown lib i w = (r2, w') \<Longrightarrow> effects w w'"
  by (auto simp: Engine_GenerateReport_def Engine_RenderMarkdown_def
      split: prod.splits sum.splits dest: effects_load_report)

lemma effects_gate_one: "effects w (gate_one d sid fa w)"
proof -
  obtain r w1 where 1: "call_env (d_Request d (approval_request d sid fa) (w_now w)) w = (r, w1)" by force
  note e1 = effects_env [OF 1]
  show ?thesis
  proof (cases r)
    case (Inl e)
    with 1 e1 show ?thesis by (simp add: gate_one_def)
  next
    case (Inr token)
    let ?a = "\<lparr>ap_ID = uuid_Nil, ap_SessionID = sid, ap_FixActionID = fa_ID fa,
             ap_Status = ApprovalStatusPending, ap_RequestToken = token, ap_RequestedAt = 0,
             ap_DecidedAt = None, ap_DecidedBy = None\<rparr>"
    obtain r2 a2 w2 where 2: "ApprovalDAO_Create ?a w1 = (r2, a2, w2)" by (metis surj_pair)
    obtain r3 w3 where 3: "FixActionDAO_UpdateApprovalStatus (fa_ID fa) ApprovalStatusPending w2 = (r3, w3)" by force
    have "gate_one d sid fa w = w2 \<or> gate_one d sid fa w = w3"
      using 1 2 3 Inr by (cases r2) (simp_all add: gate_one_def)
    with e1 effects_approval_create [OF 2] effects_fixes(3) [OF 3] show ?thesis
      using effects_trans by metis
  qed
qed

lemma effects_gate [effect_intros]:
  assumes "TriggerApprovalGate d sid w = (r, w')"
  shows "effects w w'"
proof -
  obtain r1 w1 where 1: "FixActionDAO_GetBySessionID sid w = (r1, w1)" by force
  obtain r2 w2 where 2: "SessionDAO_GetByID sid w1 = (r2, w2)" by force
  note e1 = effects_fixes(2) [OF 1]
  note e2 = effects_trans [OF e1 effects_sessions(1) [OF 2]]
  have gates: "effects w (fold (gate_one d sid) fas w2)" for fas
    using e2 effects_fold [of "gate_one d sid", OF effects_gate_one] by (rule effects_trans)
  have notified: "effects w (webhook_Notify ev (fold (gate_one d sid) fas w2))" for ev fas
    using gates effects_notify by (rule effects_trans)
  show ?thesis
    using assms 1 2 e1 e2 gates notified
    by (auto simp: TriggerApprovalGate_def Let_def split: sum.splits if_splits)
qed

lemma effects_execute_one: "effects w (execute_one d sid s fa w)"
proof (cases "may_execute fa")
  case True
  obtain r1 w1 where 1: "FixActionDAO_UpdateExecutionStatus (fa_ID fa) ExecStatusRunning w = (r1, w1)" by force
  let ?w1 = "w1\<lparr>o_executed := o_executed w1 @ [exec_action sid fa]\<rparr>"
  obtain r2 w2 where 2: "call_env (d_Execute d (exec_action sid fa) (w_now ?w1)) ?w1 = (r2, w2)" by force
  have e12: "effects w w2"
    using effects_fixes(4) [OF 1] effects_step [OF p_executed] effects_env [OF 2] effects_trans by metis
  have upd: "effects u (snd (FixActionDAO_UpdateExecutionStatus i st u))" for u i st
    by (rule effects_fixes(4) [OF surjective_pairing])
  have tick: "effects u (open_ticket d sid s fa u)" for u
  proof -
    obtain r u1 where t: "call_env (d_CreateIncident d (ticket_incident d sid s fa) (w_now u)) u = (r, u1)" by force
    have "effects u1 (snd (FixActionDAO_SetTicketID i tk u1))" for i tk
      by (rule effects_fixes(5) [OF surjective_pairing])
    with t effects_env [OF t] show ?thesis
      by (cases r) (auto simp: open_ticket_def intro: effects_trans)
  qed
  have upd2: "effects w (snd (FixActionDAO_UpdateExecutionStatus i st w2))" for i st
    using e12 upd by (rule effects_trans)
  have ticket: "effects w (open_ticket d sid s fa (snd (FixActionDAO_UpdateExecutionStatus i st w2)))" for i st
    using upd2 tick by (rule effects_trans)
  show ?thesis
    using True 1 2 upd2 ticket
    by (cases r2) (auto simp: execute_one_def executor_Execute_def Let_def)
qed (simp add: execute_one_def)

lemma effects_execute [effect_intros]:
  assumes "ExecuteFixActions d sid w = (r, w')"
  shows "effects w w'"
proof -
  obtain r1 w1 where 1: "FixActionDAO_GetBySessionID sid w = (r1, w1)" by force
  obtain r2 w2 where 2: "SessionDAO_GetByID sid w1 = (r2, w2)" by force
  note e2 = effects_trans [OF effects_fixes(2) [OF 1] effects_sessions(1) [OF 2]]
  show ?thesis
  proof (cases "\<exists>fas s. r1 = Inr fas \<and> r2 = Inr s")
    case False
    with assms 1 2 effects_fixes(2) [OF 1] e2 show ?thesis
      by (cases r1; cases r2) (auto simp: ExecuteFixActions_def)
  next
    case True
    then obtain fas s where rs: "r1 = Inr fas" "r2 = Inr s" by blast
    let ?w3 = "fold (execute_one d sid s) fas w2"
    obtain r4 w4 where 4: "Transition sid EventExecuteComplete ?w3 = (r4, w4)" by force
    have e4: "effects w w4"
      using e2 effects_fold [of "execute_one d sid s", OF effects_execute_one] effects_transition [OF 4] effects_trans
      by meson
    show ?thesis
      using assms 1 2 4 rs e4 effects_trans [OF e4 effects_notify]
      by (auto simp: ExecuteFixActions_def Let_def split: option.splits if_splits)
  qed
qed

lemma effects_decide [effect_intros]:
  assumes "decide d sid aid a req w = (r, w')"
  shows "effects w w'"
proof -
  define st where "st = (if dr_Decision req = APPROVAL_DECISION_REJECT then ApprovalStatusRejected else ApprovalStatusApproved)"
  obtain r1 w1 where 1: "ApprovalDAO_UpdateDecision aid st (dr_DecidedBy req) w = (r1, w1)" by force
  note e1 = effects_approvals(2) [OF 1]
  show ?thesis
  proof (cases r1)
    case (Some e)
    with assms 1 e1 show ?thesis by (simp add: decide_def st_def Let_def)
  next
    case None
    obtain r2 w2 where 2: "FixActionDAO_GetByID (ap_FixActionID a) w1 = (r2, w2)" by force
    note e2 = effects_trans [OF e1 effects_fixes(1) [OF 2]]
    have upd: "effects w (snd (FixActionDAO_UpdateApprovalStatus i x w2))" for i x
      using e2 effects_fixes(3) [OF surjective_pairing] by (rule effects_trans)
    have fired: "effects w (fire ev sid (snd (FixActionDAO_UpdateApprovalStatus i x w2)))" for ev i x
      using upd effects_fire by (rule effects_trans)
    have "effects w (fire ev sid w2)" for ev using e2 effects_fire by (rule effects_trans)
    with assms 1 2 None fired show ?thesis
      by (auto simp: decide_def st_def Let_def split: sum.splits)
  qed
qed

text \<open>Chaining: an operation whose outcome is analysed after \<open>w\<close> has reached \<open>u\<close>.\<close>

lemma effects_chain:
  assumes "effects w u" and "op u = (r, w')" and "\<And>u r u'. op u = (r, u') \<Longrightarrow> effects u u'"
  shows "effects w w'"
  using assms effects_trans by blast

lemma effects_with_id:
  assumes "with_session_id d idStr k w = (r, w')" and "\<And>i r u. k i w = (r, u) \<Longrightarrow> effects w u"
  shows "effects w w'"
  using assms by (auto simp: with_session_id_def split: sum.splits)

lemma effects_sessions_handlers [effect_intros]:
  "CreateSession d body w = (r1, w') \<Longrightarrow> effects w w'"
  "ListSessions d query w = (r2, w') \<Longrightarrow> effects w w'"
  "GetSession d idStr w = (r3, w') \<Longrightarrow> effects w w'"
  by (auto simp: CreateSession_def ListSessions_def GetSession_def Let_def
      split: sum.splits if_splits prod.splits dest!: effects_create effects_sessions effects_fixes
      elim!: effects_with_id intro: effects_trans)

lemma effects_transition_handlers [effect_intros]:
  "StartSession d idStr w = (r1, w') \<Longrightarrow> effects w w'"
  "IgnoreSession d idStr w = (r2, w') \<Longrightarrow> effects w w'"
  "RetrySession d idStr w = (r3, w') \<Longrightarrow> effects w w'"
proof -
  assume "StartSession d idStr w = (r1, w')"
  then show "effects w w'"
    unfolding StartSession_def
  proof (rule effects_with_id)
    fix i r u
    assume "(case Transition i EventStartCollect w of
       (Inl e, w1) \<Rightarrow>
         (if errors_is e ErrSessionNotFound then (notFound ''session not found'', w1)
          else if errors_is e ErrInvalidTransition
          then (badRequest (''cannot start session in current state: '' @ error_text e), w1)
          else (internalError (''start session: '' @ error_text e), w1))
     | (Inr newStatus, w1) \<Rightarrow>
        (case SessionDAO_GetByID i w1 of
           (Inl e, w2) \<Rightarrow> (if errors_is e ErrNotFound then (notFound ''session not found'', w2)
                           else (internalError (''get session: '' @ error_text e), w2))
         | (Inr s, w2) \<Rightarrow>
            (if d_has_eventLoop d
             then (case DispatchCollect d (id_text d i) (s_TargetService s) w2 of
                 (Some e, w3) \<Rightarrow> (internalError (''dispatch collect: '' @ error_text e), w3)
               | (None, w3) \<Rightarrow> (Resp 200 (SessionBody (toSessionProto d s)), w3))
             else (Resp 200 (SessionBody (toSessionProto d s)), w2)))) = (r, u)"
    then show "effects w u"
      by (auto split: sum.splits prod.splits if_splits option.splits
          dest!: effects_transition effects_sessions effects_dispatch intro: effects_trans)
  qed
next
  assume "IgnoreSession d idStr w = (r2, w')"
  then show "effects w w'"
    by (auto simp: IgnoreSession_def Let_def split: sum.splits prod.splits if_splits
        dest!: effects_transition effects_sessions elim!: effects_with_id intro: effects_trans)
next
  assume "RetrySession d idStr w = (r3, w')"
  then show "effects w w'"
    by (auto simp: RetrySession_def Let_def split: sum.splits prod.splits if_splits
        dest!: effects_transition effects_sessions elim!: effects_with_id intro: effects_trans)
qed

lemma effects_decision [effect_intros]: "DecisionApproval d idStr aid body w = (r, w') \<Longrightarrow> effects w w'"
  by (auto simp: DecisionApproval_def split: sum.splits prod.splits if_splits
      dest!: effects_approvals effects_decide elim!: effects_with_id intro: effects_trans)

lemma effects_report_handlers [effect_intros]:
  "GetReport d idStr format w = (r1, w') \<Longrightarrow> effects w w'"
  "DownloadReport d idStr query w = (r2, w') \<Longrightarrow> effects w w'"
  by (auto simp: GetReport_def DownloadReport_def Let_def split: sum.splits prod.splits if_splits
      dest!: effects_reports elim!: effects_with_id)

section \<open>The event loop and the sweeps\<close>

lemma effects_drive [effect_intros]: "drive_fix d sid n w = (r, w') \<Longrightarrow> effects w w'"
  by (auto simp: drive_fix_def split: sum.splits prod.splits if_splits
      dest!: effects_transition effects_gate effects_execute
      intro: effects_trans effects_gate [OF surjective_pairing] effects_execute [OF surjective_pairing])

lemma effects_fix_observation [effect_intros]: "fix_observation d sid w = (r, w') \<Longrightarrow> effects w w'"
  by (auto simp: fix_observation_def split: sum.splits prod.splits if_splits
      dest!: effects_transition effects_drive intro: effects_trans)

lemma effects_collect_rca [effect_intros]:
  "collect_observation d sid ob w = (r1, w') \<Longrightarrow> effects w w'"
  "rca_observation sid w = (r2, w') \<Longrightarrow> effects w w'"
  by (auto simp: collect_observation_def rca_observation_def split: sum.splits prod.splits if_splits
      dest!: effects_transition intro: effects_trans effects_dispatch(2) [OF surjective_pairing])

lemma effects_get_status [effect_intros]: "GetStatus i w = (r, w') \<Longrightarrow> effects w w'"
  by (auto simp: GetStatus_def split: sum.splits prod.splits dest: effects_sessions(1))

lemma effects_observation [effect_intros]: "handleObservation d sid ob w = (r, w') \<Longrightarrow> effects w w'"
  by (auto simp: handleObservation_def Let_def split: sum.splits prod.splits if_splits
      dest!: effects_get_status effects_collect_rca effects_fix_observation intro: effects_trans)

lemma effects_message [effect_intros]: "process_message d parse m w = (r, w') \<Longrightarrow> effects w w'"
  by (auto simp: process_message_def split: sum.splits prod.splits if_splits option.splits
      dest!: effects_observation)

lemma effects_verify_session: "effects w (verify_session i w)"
  by (auto simp: verify_session_def split: prod.split sum.split dest!: effects_fixes(2)
      intro: effects_trans effects_fire)

lemma effects_sweeps:
  "Sweep w = (r1, w') \<Longrightarrow> effects w w'"
  "SweepFixProposed w = (r2, w') \<Longrightarrow> effects w w'"
  "SweepVerifying w = (r3, w') \<Longrightarrow> effects w w'"
  by (auto simp: Sweep_def SweepFixProposed_def SweepVerifying_def split: prod.splits sum.splits
      dest!: effects_reads intro: effects_trans effects_fold effects_fire effects_verify_session)

lemma effects_tick: "effects w (sweep_tick w)"
  unfolding sweep_tick_def
  using effects_sweeps [OF surjective_pairing] effects_trans by meson

end
