(* ===== verification/Server_Invariants.thy ===== *)
theory Server_Invariants imports Server_Steps begin

text \<open>
  The whole orchestrator as a step relation whose steps are whole handlers, messages and sweeps, and what holds in every reachable state: how the status of
  a session can have changed, and the integrity of the tables.
\<close>

section \<open>The steps of the system\<close>

inductive sys_step ::
  "'e deps \<Rightarrow> (string \<Rightarrow> observationPayload result) \<Rightarrow> 'e orch \<Rightarrow> 'e orch \<Rightarrow> bool"
  for d parse where
  st_create: "CreateSession d body w = (r, w') \<Longrightarrow> sys_step d parse w w'"
| st_list: "ListSessions d query w = (r, w') \<Longrightarrow> sys_step d parse w w'"
| st_get: "GetSession d idStr w = (r, w') \<Longrightarrow> sys_step d parse w w'"
| st_start: "StartSession d idStr w = (r, w') \<Longrightarrow> sys_step d parse w w'"
| st_retry: "RetrySession d idStr w = (r, w') \<Longrightarrow> sys_step d parse w w'"
| st_ignore: "IgnoreSession d idStr w = (r, w') \<Longrightarrow> sys_step d parse w w'"
| st_decision: "DecisionApproval d idStr apStr decision w = (r, w') \<Longrightarrow> sys_step d parse w w'"
| st_report: "GetReport d idStr format w = (r, w') \<Longrightarrow> sys_step d parse w w'"
| st_download: "DownloadReport d idStr format w = (r, w') \<Longrightarrow> sys_step d parse w w'"
| st_message: "process_message d parse m w = (committed, w') \<Longrightarrow> sys_step d parse w w'"
| st_sweep: "sys_step d parse w (sweep_tick w)"
| st_agent: "FixActionDAO_Create fa w = (r, fa', w') \<Longrightarrow> sys_step d parse w w'"
| st_outside: "sys_step d parse w (w\<lparr>w_locked := locked, w_faults := faults, w_now := now, o_env := e\<rparr>)"

inductive_cases sys_stepE: "sys_step d parse w w'"

lemma sys_step_effects: "sys_step d parse w w' \<Longrightarrow> effects w w'"
  by (erule sys_step.cases)
     (auto intro: effect_intros effects_tick effects_step p_outside)

lemma sys_steps_effects: "(sys_step d parse)\<^sup>*\<^sup>* w w' \<Longrightarrow> effects w w'"
  by (induction rule: rtranclp_induct) (auto dest: sys_step_effects intro: effects_trans)

section \<open>How a status can change\<close>

text \<open>A session's status moves along the table; a new session starts at CREATED; none disappears.\<close>

definition status_le :: "string option \<Rightarrow> string option \<Rightarrow> bool" where
  "status_le a b = (case a of
      None \<Rightarrow> (case b of None \<Rightarrow> True | Some s' \<Rightarrow> status_step\<^sup>*\<^sup>* StatusCreated s')
    | Some s \<Rightarrow> (case b of None \<Rightarrow> False | Some s' \<Rightarrow> status_step\<^sup>*\<^sup>* s s'))"

definition evolves :: "'a db_scheme \<Rightarrow> 'a db_scheme \<Rightarrow> bool" where
  "evolves w w' \<longleftrightarrow> (\<forall>i. status_le (status_of w i) (status_of w' i))"

lemma status_le_refl [simp]: "status_le a a"
  by (simp add: status_le_def split: option.split)

lemma status_le_trans: "status_le a b \<Longrightarrow> status_le b c \<Longrightarrow> status_le a c"
  by (auto simp: status_le_def split: option.splits)

lemma evolves_trans: "evolves u v \<Longrightarrow> evolves v w \<Longrightarrow> evolves u w"
  unfolding evolves_def using status_le_trans by blast

lemma evolves_same: "w_sessions w' = w_sessions w \<Longrightarrow> evolves w w'"
  using status_of_same [of w' w] by (simp add: evolves_def)

lemma evolves_create:
  assumes "insert_session s w = Inr w'" and "s_Status s = StatusCreated"
  shows "evolves w w'"
proof -
  have new: "find_session (s_ID s) w = None" and ss: "w_sessions w' = w_sessions w @ [s]"
    using assms(1) by (auto simp: insert_session_def split: if_splits)
  have "find_session i w' = (if i = s_ID s then Some s else find_session i w)" for i
    using new by (auto simp: find_session_def ss split: option.split)
  then show ?thesis
    using assms(2) new by (auto simp: evolves_def status_of_def status_le_def split: option.split)
qed

lemma evolves_retry:
  assumes "increment_retry i w = Inr w'"
  shows "evolves w w'"
proof -
  from assms have w': "w' = set_session i (put_retry (w_now w)) w"
    by (auto simp: increment_retry_def split: option.splits if_splits)
  have "status_of w' j = status_of w j" for j
    unfolding w' status_of_def find_session_def set_session_def
    by (simp add: retry_rows.find_put option.map_comp comp_def put_retry_def)
  then show ?thesis by (simp add: evolves_def)
qed

lemma evolves_attempt:
  assumes "tryTransition i ev w = (r, w')"
  shows "evolves w w'"
  unfolding evolves_def
proof
  fix j
  show "status_le (status_of w j) (status_of w' j)"
  proof (cases "status_of w j")
    case None
    with attempt.call_unknown [OF None assms] show ?thesis by simp
  next
    case (Some s)
    from attempt.call_evolves [OF Some assms] obtain s' where "status_of w' j = Some s'" "status_step\<^sup>*\<^sup>* s s'" .
    with Some show ?thesis by (simp add: status_le_def)
  qed
qed

lemma primitive_evolves: "primitive w w' \<Longrightarrow> evolves w w'"
proof (induction rule: primitive.induct)
  case (p_create s w w')
  then show ?case by (rule evolves_create)
next
  case (p_retry i w w')
  then show ?case by (rule evolves_retry)
next
  case (p_attempt i ev w r w')
  then show ?case by (rule evolves_attempt)
qed (auto intro!: evolves_same simp: sleep_def insert_fix_def set_fix_def insert_approval_def set_approval_def
    split: if_splits)

lemma effects_evolve: "effects w w' \<Longrightarrow> evolves w w'"
  by (induction rule: rtranclp_induct) (auto intro: evolves_same evolves_trans primitive_evolves)

section \<open>Integrity of the tables\<close>

lemma find_session_None: "find_session i w = None \<longleftrightarrow> i \<notin> s_ID ` set (w_sessions w)"
  by (auto simp: find_session_def tbl_find_None_iff)

lemma find_fix_None: "find_fix i w = None \<longleftrightarrow> i \<notin> fa_ID ` set (w_fix_actions w)"
  by (auto simp: find_fix_def tbl_find_None_iff)

lemma find_approval_None: "find_approval i w = None \<longleftrightarrow> i \<notin> ap_ID ` set (w_approvals w)"
  by (auto simp: find_approval_def tbl_find_None_iff)

text \<open>Keys are unique, foreign keys point to rows, the approval tokens and the sequence numbers of a
  session's actions are unique, and every status is one of the table.\<close>

record table_keys =
  tk_sessions :: "uuid list"
  tk_fixes :: "(uuid \<times> uuid \<times> int) list"
  tk_approvals :: "(uuid \<times> uuid \<times> uuid \<times> string) list"

definition keys_of :: "'a db_scheme \<Rightarrow> table_keys" where
  "keys_of w = \<lparr>tk_sessions = map s_ID (w_sessions w),
     tk_fixes = map (\<lambda>f. (fa_ID f, fa_SessionID f, fa_Seq f)) (w_fix_actions w),
     tk_approvals = map (\<lambda>a. (ap_ID a, ap_SessionID a, ap_FixActionID a, ap_RequestToken a)) (w_approvals w)\<rparr>"

definition keys_ok :: "table_keys \<Rightarrow> bool" where
  "keys_ok k \<longleftrightarrow> distinct (tk_sessions k) \<and>
     distinct (map fst (tk_fixes k)) \<and> distinct (map snd (tk_fixes k)) \<and>
     (\<forall>(i, sid, n) \<in> set (tk_fixes k). sid \<in> set (tk_sessions k)) \<and>
     distinct (map fst (tk_approvals k)) \<and> distinct (map (\<lambda>(i, sid, fid, tok). tok) (tk_approvals k)) \<and>
     (\<forall>(i, sid, fid, tok) \<in> set (tk_approvals k). sid \<in> set (tk_sessions k) \<and> fid \<in> fst ` set (tk_fixes k))"

definition known_statuses :: "'a db_scheme \<Rightarrow> bool" where
  "known_statuses w \<longleftrightarrow> (\<forall>s \<in> set (w_sessions w). s_Status s \<in> fst ` set ValidTransitions)"

definition db_ok :: "'a db_scheme \<Rightarrow> bool" where
  "db_ok w \<longleftrightarrow> keys_ok (keys_of w) \<and> known_statuses w"

lemma keys_simps:
  "map fst (tk_fixes (keys_of w)) = map fa_ID (w_fix_actions w)"
  "map fst (tk_approvals (keys_of w)) = map ap_ID (w_approvals w)"
  "fst ` set (tk_fixes (keys_of w)) = fa_ID ` set (w_fix_actions w)"
  "set (tk_sessions (keys_of w)) = s_ID ` set (w_sessions w)"
  by (auto simp: keys_of_def comp_def image_image)

lemma keys_create:
  assumes "insert_session s w = Inr w'" and "keys_ok (keys_of w)"
  shows "keys_ok (keys_of w')"
proof -
  have new: "s_ID s \<notin> s_ID ` set (w_sessions w)" and ss: "w' = w\<lparr>w_sessions := w_sessions w @ [s]\<rparr>"
    using assms(1) by (auto simp: insert_session_def find_session_None split: if_splits)
  show ?thesis using assms(2) new by (fastforce simp: ss keys_ok_def keys_of_def)
qed

lemma keys_insert_fix:
  assumes "insert_fix fa w = Inr w'" and "keys_ok (keys_of w)"
  shows "keys_ok (keys_of w')"
proof -
  have new: "fa_ID fa \<notin> fa_ID ` set (w_fix_actions w)"
    "\<forall>r \<in> set (w_fix_actions w). \<not> (fa_SessionID r = fa_SessionID fa \<and> fa_Seq r = fa_Seq fa)"
    "fa_SessionID fa \<in> s_ID ` set (w_sessions w)" and ff: "w' = w\<lparr>w_fix_actions := w_fix_actions w @ [fa]\<rparr>"
    using assms(1) by (auto simp: insert_fix_def find_fix_None find_session_None split: if_splits)
  show ?thesis using assms(2) new by (fastforce simp: ff keys_ok_def keys_of_def)
qed

lemma keys_insert_approval:
  assumes "insert_approval a w = Inr w'" and "keys_ok (keys_of w)"
  shows "keys_ok (keys_of w')"
proof -
  have new: "ap_ID a \<notin> ap_ID ` set (w_approvals w)"
    "\<forall>r \<in> set (w_approvals w). ap_RequestToken r \<noteq> ap_RequestToken a"
    "ap_SessionID a \<in> s_ID ` set (w_sessions w)" "ap_FixActionID a \<in> fa_ID ` set (w_fix_actions w)"
    and aa: "w' = w\<lparr>w_approvals := w_approvals w @ [a]\<rparr>"
    using assms(1)
    by (auto simp: insert_approval_def find_approval_None find_session_None find_fix_None split: if_splits)
  show ?thesis using assms(2) new by (auto simp: aa keys_ok_def keys_of_def image_image)
qed

lemma map_tbl_update: "(\<And>r. f (u r) = f r) \<Longrightarrow> map f (tbl_update P u t) = map f t"
  by (induction t) auto

lemma keys_update:
  "keys_of (set_fix i (put_fix_approval (st, t)) w) = keys_of w"
  "keys_of (set_fix i (put_fix_execution (st, t)) w) = keys_of w"
  "keys_of (set_fix i (put_fix_ticket (st, t)) w) = keys_of w"
  "keys_of (set_approval i (put_decision (st, who, t)) w) = keys_of w"
  "keys_of (set_session i (put_retry t) w) = keys_of w"
  by (simp_all add: keys_of_def set_fix_def set_approval_def set_session_def map_tbl_update put_retry_def)

lemma table_closed:
  "list_all (\<lambda>(s, m). list_all (\<lambda>(e, n). n \<in> fst ` set ValidTransitions) m) ValidTransitions"
  by code_simp

lemma next_status_known:
  assumes "next_status h s e = Some n"
  shows "n \<in> fst ` set ValidTransitions"
proof -
  have "StatusAwaitingApproval \<in> fst ` set ValidTransitions" "StatusFixSuggested \<in> fst ` set ValidTransitions"
    by code_simp+
  moreover have "\<forall>(s, m) \<in> set ValidTransitions. \<forall>(e, n) \<in> set m. n \<in> fst ` set ValidTransitions"
    using table_closed by (auto simp: list_all_iff)
  ultimately show ?thesis
    using assms by (auto simp: next_status_def split: option.splits if_splits dest!: map_of_SomeD)
qed

lemma db_ok_step:
  assumes "next_status h s ev = Some n" and "db_ok w" and "engine_frame w w'"
    and "w_sessions w' = tbl_update (\<lambda>s. s_ID s = i) (put_status (n, t)) (w_sessions w)"
  shows "db_ok w'"
proof -
  have "keys_of w' = keys_of w" using assms(3,4) by (simp add: keys_of_def engine_frame_def status_rows.keys_put)
  moreover have "known_statuses w'"
    unfolding known_statuses_def assms(4)
  proof
    fix q
    assume "q \<in> set (tbl_update (\<lambda>s. s_ID s = i) (put_status (n, t)) (w_sessions w))"
    then obtain p where "p \<in> set (w_sessions w)" "q = (if s_ID p = i then put_status (n, t) p else p)"
      unfolding in_tbl_update by blast
    then show "s_Status q \<in> fst ` set ValidTransitions"
      using assms(2) next_status_known [OF assms(1)] by (simp add: db_ok_def known_statuses_def)
  qed
  ultimately show ?thesis using assms(2) by (simp add: db_ok_def)
qed

lemma db_ok_attempt:
  assumes "tryTransition i ev w = (r, w')" and "db_ok w"
  shows "db_ok w'"
  using assms(1)
proof (cases rule: tryTransition_cases)
  case err
  then have "keys_of w' = keys_of w" by (simp add: keys_of_def engine_frame_def)
  with err assms(2) show ?thesis by (simp add: db_ok_def known_statuses_def)
next
  case (ok s n)
  then show ?thesis using db_ok_step assms(2) by blast
next
  case (lost s n m)
  then show ?thesis using db_ok_step assms(2) by blast
qed

lemma known_same: "w_sessions w' = w_sessions w \<Longrightarrow> known_statuses w' = known_statuses w"
  by (simp add: known_statuses_def)

lemma db_ok_retry:
  assumes "increment_retry i w = Inr w'" and "db_ok w"
  shows "db_ok w'"
proof -
  from assms(1) have w': "w' = set_session i (put_retry (w_now w)) w"
    by (auto simp: increment_retry_def split: option.splits if_splits)
  then have "keys_of w' = keys_of w" by (simp add: keys_update)
  moreover have "known_statuses w'"
    using assms(2) by (auto simp: w' db_ok_def known_statuses_def set_session_def in_tbl_update put_retry_def)
  ultimately show ?thesis using assms(2) by (simp add: db_ok_def)
qed

lemma primitive_db_ok: "primitive w w' \<Longrightarrow> db_ok w \<Longrightarrow> db_ok w'"
proof (induction rule: primitive.induct)
  case (p_create s w w')
  moreover from p_create have "known_statuses w'"
    by (auto simp: insert_session_def db_ok_def known_statuses_def ValidTransitions_def split: if_splits)
  ultimately show ?case using keys_create by (auto simp: db_ok_def)
next
  case (p_retry i w w')
  then show ?case by (rule db_ok_retry)
next
  case (p_attempt i ev w r w')
  then show ?case by (rule db_ok_attempt)
next
  case (p_insert_fix fa w w')
  then have "w_sessions w' = w_sessions w" by (auto simp: insert_fix_def split: if_splits)
  with p_insert_fix keys_insert_fix known_same [OF this] show ?case by (auto simp: db_ok_def)
next
  case (p_insert_approval a w w')
  then have "w_sessions w' = w_sessions w" by (auto simp: insert_approval_def split: if_splits)
  with p_insert_approval keys_insert_approval known_same [OF this] show ?case by (auto simp: db_ok_def)
qed (simp_all add: db_ok_def keys_update known_statuses_def, simp_all add: keys_of_def sleep_def set_fix_def set_approval_def)

lemma effects_db_ok: "effects w w' \<Longrightarrow> db_ok w \<Longrightarrow> db_ok w'"
  by (induction rule: rtranclp_induct) (auto intro: primitive_db_ok)

end
