(* ===== verification/Workflow_Spec.thy ===== *)
theory Workflow_Spec imports Workflow_Laws begin

text \<open>
  What the state machine promises: the abstract machine of section 5.2 of \<open>PLAN.md\<close> and the
  refinement of it by the engine, and the properties of \<open>Transition\<close> and of the sweeps.
\<close>

section \<open>The planned state machine\<close>

datatype phase = Created | Collecting | Analyzing | RcaDone | FixProposed | AwaitingApproval
  | FixSuggested | FixExecuting | Verifying | Resolved | RolledBack | Rejected | Ignored | Failed

datatype plan_event = DispatchCollection | EvidenceComplete | RcaComplete | FixGenerated | FixAssessed
  | HumanApproves | HumanRejects | ExecutionDone | AnomalyGone | AnomalyRemains
  | UserIgnores | SystemError

text \<open>The rows of the table; \<open>high\<close> says that the session has a pending HIGH-risk step.  The
  last two rows apply to any state.\<close>

inductive plan_step :: "bool \<Rightarrow> phase \<Rightarrow> plan_event \<Rightarrow> phase \<Rightarrow> bool" where
  "plan_step high Created DispatchCollection Collecting"
| "plan_step high Collecting EvidenceComplete Analyzing"
| "plan_step high Analyzing RcaComplete RcaDone"
| "plan_step high RcaDone FixGenerated FixProposed"
| "plan_step True FixProposed FixAssessed AwaitingApproval"
| "plan_step False FixProposed FixAssessed FixSuggested"
| "plan_step high AwaitingApproval HumanApproves FixExecuting"
| "plan_step high AwaitingApproval HumanRejects Rejected"
| "plan_step high FixExecuting ExecutionDone Verifying"
| "plan_step high Verifying AnomalyGone Resolved"
| "plan_step high Verifying AnomalyRemains RolledBack"
| "plan_step high p UserIgnores Ignored"
| "plan_step high p SystemError Failed"

inductive_simps plan_step_simps [simp]:
  "plan_step high Created e p" "plan_step high Collecting e p" "plan_step high Analyzing e p"
  "plan_step high RcaDone e p" "plan_step high FixProposed e p" "plan_step high AwaitingApproval e p"
  "plan_step high FixSuggested e p" "plan_step high FixExecuting e p" "plan_step high Verifying e p"
  "plan_step high Resolved e p" "plan_step high RolledBack e p" "plan_step high Rejected e p"
  "plan_step high Ignored e p" "plan_step high Failed e p"

definition phase_of :: "string \<Rightarrow> phase option" where
  "phase_of = map_of
    [(StatusCreated, Created), (StatusCollecting, Collecting), (StatusAnalyzing, Analyzing),
     (StatusRCADone, RcaDone), (StatusFixProposed, FixProposed),
     (StatusAwaitingApproval, AwaitingApproval), (StatusFixSuggested, FixSuggested),
     (StatusFixExecuting, FixExecuting), (StatusVerifying, Verifying), (StatusResolved, Resolved),
     (StatusRolledBack, RolledBack), (StatusRejected, Rejected), (StatusIgnored, Ignored),
     (StatusFailed, Failed)]"

definition plan_event_of :: "string \<Rightarrow> plan_event option" where
  "plan_event_of = map_of
    [(EventStartCollect, DispatchCollection), (EventCollectComplete, EvidenceComplete),
     (EventAnalysisComplete, RcaComplete), (EventRCAGenerated, FixGenerated),
     (EventFixGenerated, FixAssessed), (EventApprove, HumanApproves), (EventReject, HumanRejects),
     (EventExecuteComplete, ExecutionDone), (EventVerifySuccess, AnomalyGone),
     (EventVerifyFailure, AnomalyRemains), (EventIgnore, UserIgnores), (EventFail, SystemError)]"

text \<open>The two edges of the code that the plan does not have.\<close>

definition extra_edge :: "string \<Rightarrow> string \<Rightarrow> string \<Rightarrow> bool" where
  "extra_edge s e n \<longleftrightarrow> n = StatusFixExecuting \<and>
     (s = StatusFixProposed \<and> e = EventApprove \<or> s = StatusFixSuggested \<and> e = EventExecute)"

definition planned :: "bool \<Rightarrow> string \<Rightarrow> string \<Rightarrow> string \<Rightarrow> bool" where
  "planned high s e n \<longleftrightarrow> (\<exists>p a q. phase_of s = Some p \<and> plan_event_of e = Some a \<and>
      phase_of n = Some q \<and> plan_step high p a q)"

lemma table_planned:
  "\<forall>(s, m) \<in> set ValidTransitions. \<forall>(e, n) \<in> set m.
     (s = StatusFixProposed \<and> e = EventFixGenerated) \<or> extra_edge s e n \<or> planned high s e n"
  by (simp add: ValidTransitions_def extra_edge_def planned_def phase_of_def plan_event_of_def)

lemma next_status_planned:
  assumes "next_status high s e = Some n"
  shows "extra_edge s e n \<or> planned high s e n"
proof (cases "s = StatusFixProposed \<and> e = EventFixGenerated")
  case True
  with assms have "n = (if high then StatusAwaitingApproval else StatusFixSuggested)"
    by (simp add: next_status_fail)
  with True show ?thesis
    by (cases high) (simp_all add: planned_def phase_of_def plan_event_of_def)
next
  case False
  from assms obtain m n' where m: "map_of ValidTransitions s = Some m" "map_of m e = Some n'"
    by (auto simp: next_status_def split: option.splits)
  with False assms have "(s, m) \<in> set ValidTransitions" "(e, n) \<in> set m"
    by (auto simp: next_status_def dest: map_of_SomeD)
  with table_planned [of high] False show ?thesis by fast
qed

text \<open>Conversely, the engine offers every planned step from a state that is not terminal.\<close>

lemma phase_of_Some:
  "phase_of s = Some p \<longleftrightarrow> (s, p) \<in> set
    [(StatusCreated, Created), (StatusCollecting, Collecting), (StatusAnalyzing, Analyzing),
     (StatusRCADone, RcaDone), (StatusFixProposed, FixProposed),
     (StatusAwaitingApproval, AwaitingApproval), (StatusFixSuggested, FixSuggested),
     (StatusFixExecuting, FixExecuting), (StatusVerifying, Verifying), (StatusResolved, Resolved),
     (StatusRolledBack, RolledBack), (StatusRejected, Rejected), (StatusIgnored, Ignored),
     (StatusFailed, Failed)]"
  unfolding phase_of_def by (subst map_of_eq_Some_iff) simp_all

lemma plan_event_of_Some:
  "plan_event_of e = Some a \<longleftrightarrow> (e, a) \<in> set
    [(EventStartCollect, DispatchCollection), (EventCollectComplete, EvidenceComplete),
     (EventAnalysisComplete, RcaComplete), (EventRCAGenerated, FixGenerated),
     (EventFixGenerated, FixAssessed), (EventApprove, HumanApproves), (EventReject, HumanRejects),
     (EventExecuteComplete, ExecutionDone), (EventVerifySuccess, AnomalyGone),
     (EventVerifyFailure, AnomalyRemains), (EventIgnore, UserIgnores), (EventFail, SystemError)]"
  unfolding plan_event_of_def by (subst map_of_eq_Some_iff) simp_all

lemma table_exits:
  "list_all (\<lambda>(s, m). m \<noteq> [] \<longrightarrow> map_of m EventIgnore = Some StatusIgnored \<and>
     map_of m EventFail = Some StatusFailed) ValidTransitions"
  by code_simp

lemma table_known: "phase_of s = Some p \<Longrightarrow> map_of ValidTransitions s \<noteq> None"
  unfolding phase_of_Some by (auto simp: ValidTransitions_def)

lemma exit_offered:
  assumes "phase_of s = Some p" and "\<not> IsTerminal s"
  shows "next_status high s EventIgnore = Some StatusIgnored \<and>
    next_status high s EventFail = Some StatusFailed"
proof -
  from table_known [OF assms(1)] obtain m where m: "map_of ValidTransitions s = Some m" by auto
  with assms(2) have "m \<noteq> []" by (simp add: IsTerminal_def)
  with map_of_SomeD [OF m] table_exits
  have "map_of m EventIgnore = Some StatusIgnored" "map_of m EventFail = Some StatusFailed"
    by (auto simp: list_all_iff)
  with m show ?thesis by (simp add: next_status_def)
qed

lemma plan_offered:
  assumes "planned high s e n" and "\<not> IsTerminal s"
  shows "next_status high s e = Some n"
proof -
  from assms(1) obtain p a q where 1: "phase_of s = Some p" "plan_event_of e = Some a"
    "phase_of n = Some q" and 2: "plan_step high p a q" by (auto simp: planned_def)
  note exits = exit_offered [OF 1(1) assms(2), of high]
  show ?thesis
  proof (cases "a = UserIgnores \<or> a = SystemError")
    case True
    with 1 2 exits show ?thesis
      unfolding phase_of_Some plan_event_of_Some by (auto elim: plan_step.cases)
  next
    case False
    with 2 1 show ?thesis
      unfolding phase_of_Some plan_event_of_Some
      by cases (simp_all add: next_status_def ValidTransitions_def)
  qed
qed

text \<open>The gate, as a fact of the table.\<close>

lemma table_gate:
  "list_all (\<lambda>(s, m). list_all (\<lambda>(e, n).
     (n = StatusFixSuggested \<longrightarrow> s = StatusFixProposed \<and> e = EventFixGenerated) \<and>
     n \<noteq> StatusAwaitingApproval \<and>
     (n = StatusFixExecuting \<longrightarrow> e = EventApprove \<or> e = EventExecute)) m) ValidTransitions"
  by code_simp

lemma next_status_gate:
  assumes "next_status high s e = Some n"
  shows "(n = StatusFixSuggested \<longrightarrow> \<not> high) \<and> (n = StatusAwaitingApproval \<longrightarrow> s = StatusFixProposed \<and> high) \<and>
    (n = StatusFixExecuting \<longrightarrow> e = EventApprove \<or> e = EventExecute)"
proof (cases "s = StatusFixProposed \<and> e = EventFixGenerated")
  case True
  with assms have "n = (if high then StatusAwaitingApproval else StatusFixSuggested)"
    by (simp add: next_status_fail)
  with True show ?thesis by simp
next
  case False
  from assms obtain m n' where m: "map_of ValidTransitions s = Some m" "map_of m e = Some n'"
    by (auto simp: next_status_def split: option.splits)
  with False assms have "(s, m) \<in> set ValidTransitions" "(e, n) \<in> set m"
    by (auto simp: next_status_def dest: map_of_SomeD)
  with table_gate False show ?thesis by (fastforce simp: list_all_iff)
qed

lemma status_rank_le: "status_rank s \<le> 8"
  by (auto simp: status_rank_def split: option.splits if_splits)

section \<open>A small database\<close>

text \<open>For evaluations: one session per identifier, with the statuses given.\<close>

definition sample_session :: "nat \<Rightarrow> string \<Rightarrow> time \<Rightarrow> DiagnosticSession" where
  "sample_session i st t = \<lparr>s_ID = of_nat i, s_Status = st, s_TargetService = ''cart'',
     s_TriggerType = TriggerManual, s_RetryCount = 0, s_ReportURL = None, s_CreatedAt = t, s_UpdatedAt = t\<rparr>"

definition sample_fix :: "nat \<Rightarrow> nat \<Rightarrow> string \<Rightarrow> string \<Rightarrow> FixAction" where
  "sample_fix i sid risk exec = \<lparr>fa_ID = of_nat i, fa_SessionID = of_nat sid, fa_Seq = int i,
     fa_ActionType = ''restart_pod'', fa_Target = ''cart'', fa_Risk = risk, fa_RollbackPlan = [],
     fa_RequiresApproval = (risk = RiskHigh), fa_ApprovalStatus = ApprovalStatusNone,
     fa_ExecutionStatus = exec, fa_TicketID = None, fa_CreatedAt = 1, fa_UpdatedAt = 1\<rparr>"

definition sample_db :: "DiagnosticSession list \<Rightarrow> FixAction list \<Rightarrow> db" where
  "sample_db ss fas = \<lparr>w_sessions = ss, w_fix_actions = fas, w_approvals = [], w_events = [], w_kb = [],
     w_locked = [], w_faults = [], w_now = Hour, w_fresh = (\<lambda>n. of_nat (1000 + n)), w_ctr = 0\<rparr>"

section \<open>Properties of a transition\<close>



text \<open>\<open>stepped sid ev w w' n\<close>: from \<open>w\<close> to \<open>w'\<close> the session \<open>sid\<close>, which no other
  transaction holds, has taken the step of the table for \<open>ev\<close> to \<open>n\<close>, at a time not before the
  call, and no other session has changed.\<close>

definition stepped :: "uuid \<Rightarrow> string \<Rightarrow> 'a db_scheme \<Rightarrow> 'a db_scheme \<Rightarrow> string \<Rightarrow> bool" where
  "stepped sid ev w w' n \<longleftrightarrow> (\<exists>s t. status_of w sid = Some s \<and> sid \<notin> set (w_locked w) \<and>
        next_status (high_risk_count sid w > 0) s ev = Some n \<and> w_now w \<le> t \<and>
        w_sessions w' = tbl_update (\<lambda>q. s_ID q = sid) (put_status (n, t)) (w_sessions w))"



text \<open>The retry loop cannot tell a lost commit from a failed one: the second attempt finds the event no
  longer allowed, and the caller is told \<open>ErrInvalidTransition\<close> for a transition that was made and that
  the timeline does not show.\<close>

lemma lost_commit_misreported:
  "let (r, w') = Transition 1 EventStartCollect ((sample_db [sample_session 1 StatusCreated 5] [])
       \<lparr>w_faults := [NoFault, NoFault, NoFault, Lost ''broken pipe'']\<rparr>)
   in (case r of Inl e \<Rightarrow> errors_is e ErrInvalidTransition | Inr n \<Rightarrow> False) \<and>
      status_of w' 1 = Some StatusCollecting \<and> w_events w' = []"
  by code_simp

text \<open>C6 (risk_gate): the HIGH-risk gate, for every status that a call returns and every status that it
  leads to, also when the call is answered by an error.  A session leaves FIX_PROPOSED for FIX_SUGGESTED only when
  none of its HIGH-risk actions is waiting, it enters AWAITING_APPROVAL exactly from FIX_PROPOSED with
  one waiting, and it enters FIX_EXECUTING only by an approval or by an explicit request to execute.\<close>

theorem risk_gate:
  assumes "Transition sid ev w = (r, w')"
    and "r = Inr n \<or> status_of w' sid = Some n \<and> status_of w sid \<noteq> Some n"
  shows "(n = StatusFixSuggested \<longrightarrow> (\<forall>fa \<in> set (w_fix_actions w).
        \<not> (fa_SessionID fa = sid \<and> fa_Risk fa = RiskHigh \<and> fa_ExecutionStatus fa = ExecStatusNotStarted)))
    \<and> (n = StatusAwaitingApproval \<longrightarrow> status_of w sid = Some StatusFixProposed \<and>
        (\<exists>fa \<in> set (w_fix_actions w). fa_SessionID fa = sid \<and> fa_Risk fa = RiskHigh \<and>
          fa_ExecutionStatus fa = ExecStatusNotStarted))
    \<and> (n = StatusFixExecuting \<longrightarrow> ev = EventApprove \<or> ev = EventExecute)"
proof -
  let ?h = "high_risk_count sid w > 0"
  have h: "?h = (\<exists>fa \<in> set (w_fix_actions w). fa_SessionID fa = sid \<and>
             fa_Risk fa = RiskHigh \<and> fa_ExecutionStatus fa = ExecStatusNotStarted)"
    by (auto simp: high_risk_count_def filter_empty_conv)
  from assms obtain s where s: "status_of w sid = Some s" "next_status ?h s ev = Some n"
    by (rule Transition_moves)
  from s(2) have "(n = StatusFixSuggested \<longrightarrow> \<not> ?h) \<and>
      (n = StatusAwaitingApproval \<longrightarrow> s = StatusFixProposed \<and> ?h) \<and>
      (n = StatusFixExecuting \<longrightarrow> ev = EventApprove \<or> ev = EventExecute)"
    by (rule next_status_gate)
  with h s(1) show ?thesis by auto
qed

theorem risk_gate_witness:
  "\<exists>w'. Transition 1 EventFixGenerated (sample_db [sample_session 1 StatusFixProposed 5]
      [sample_fix 1 1 RiskLow ExecStatusNotStarted]) = (Inr StatusFixSuggested, w') \<and>
    (\<forall>fa \<in> set [sample_fix 1 1 RiskLow ExecStatusNotStarted]. fa_Risk fa \<noteq> RiskHigh)"
proof -
  let ?w = "sample_db [sample_session 1 StatusFixProposed 5] [sample_fix 1 1 RiskLow ExecStatusNotStarted]"
  have "fst (Transition 1 EventFixGenerated ?w) = Inr StatusFixSuggested" by code_simp
  then obtain w' where 1: "Transition 1 EventFixGenerated ?w = (Inr StatusFixSuggested, w')"
    by (metis prod.collapse)
  from risk_gate [OF 1, of StatusFixSuggested] 1 show ?thesis by (auto simp: sample_db_def sample_fix_def)
qed

text \<open>C11 (transitions_bounded): whatever calls are made in whatever order, and whatever the driver
  does, a session changes its status at most eight times, also counting changes whose commit was
  answered by an error, every change follows the table, and a session in a terminal status never
  changes again.\<close>

theorem transitions_bounded:
  assumes "status_of w i = Some s"
  shows "successes i (fst (run_calls Transition calls w)) \<le> status_rank s \<and> status_rank s \<le> 8 \<and>
    status_changes status_of Transition i calls w \<le> status_rank s \<and>
    (\<exists>s'. status_of (snd (run_calls Transition calls w)) i = Some s' \<and> status_step\<^sup>*\<^sup>* s s' \<and>
      (IsTerminal s \<longrightarrow> s' = s))"
  using engine.run_bounded [OF assms] engine.changes_bounded [OF assms] engine.run_evolves [OF assms, of calls]
    engine.steps_from_rank_zero IsTerminal_rank status_rank_le by blast

theorem transitions_bounded_witness:
  "successes (1 :: uuid) (fst (run_calls Transition [(1, EventIgnore), (1, EventIgnore), (1, EventFail)]
     (sample_db [sample_session 1 StatusVerifying 5] []))) \<le> 1"
proof -
  have "status_of (sample_db [sample_session 1 StatusVerifying 5] []) 1 = Some StatusVerifying"
    by code_simp
  from transitions_bounded [OF this, of "[(1, EventIgnore), (1, EventIgnore), (1, EventFail)]"]
  have "successes (1 :: uuid) (fst (run_calls Transition [(1, EventIgnore), (1, EventIgnore), (1, EventFail)]
     (sample_db [sample_session 1 StatusVerifying 5] []))) \<le> status_rank StatusVerifying" by blast
  also have "status_rank StatusVerifying = 1" by code_simp
  finally show ?thesis .
qed

text \<open>C9 (plan_refinement): the engine refines the planned state machine of \<open>PLAN.md\<close> 5.2.  A
  successful \<open>Transition\<close>, and one that moved the session although its answer is an error, is a planned step of the abstract machine, or one of the two edges the
  code adds (approving a FIX_PROPOSED session, executing a FIX_SUGGESTED one); and every planned step
  from a status that is not terminal is offered.\<close>

theorem plan_refinement:
  assumes "status_of w sid = Some s"
  shows "(\<forall>ev n. fst (Transition sid ev w) = Inr n \<or>
          status_of (snd (Transition sid ev w)) sid = Some n \<and> n \<noteq> s \<longrightarrow>
        planned (high_risk_count sid w > 0) s ev n \<or> extra_edge s ev n) \<and>
    (\<forall>ev n. w_faults w = [] \<and> sid \<notin> set (w_locked w) \<and> \<not> IsTerminal s \<and>
        planned (high_risk_count sid w > 0) s ev n \<longrightarrow> fst (Transition sid ev w) = Inr n)"
proof (intro conjI allI impI)
  fix ev n
  assume "fst (Transition sid ev w) = Inr n \<or> status_of (snd (Transition sid ev w)) sid = Some n \<and> n \<noteq> s"
  then obtain s0 where "status_of w sid = Some s0" "next_status (high_risk_count sid w > 0) s0 ev = Some n"
    using assms Transition_moves [OF surjective_pairing] by (metis option.inject)
  then show "planned (high_risk_count sid w > 0) s ev n \<or> extra_edge s ev n"
    using assms next_status_planned by auto
next
  fix ev n
  assume "w_faults w = [] \<and> sid \<notin> set (w_locked w) \<and> \<not> IsTerminal s \<and>
        planned (high_risk_count sid w > 0) s ev n"
  then show "fst (Transition sid ev w) = Inr n"
    using assms plan_offered by (auto simp: Transition_no_fault transition_result_def)
qed

theorem plan_refinement_witness:
  "fst (Transition 1 EventStartCollect (sample_db [sample_session 1 StatusCreated 5] [])) = Inr StatusCollecting"
proof -
  let ?w = "sample_db [sample_session 1 StatusCreated 5] []"
  have "status_of ?w 1 = Some StatusCreated" by code_simp
  moreover have "w_faults ?w = []" "1 \<notin> set (w_locked ?w)" by code_simp+
  moreover have "\<not> IsTerminal StatusCreated" by code_simp
  moreover have "planned h StatusCreated EventStartCollect StatusCollecting" for h
    by (simp add: planned_def phase_of_def plan_event_of_def)
  ultimately show ?thesis using plan_refinement by blast
qed

section \<open>Properties of the sweeps\<close>

text \<open>On a database that answers, one \<open>Sweep\<close> fails exactly the sessions that have
  been in COLLECTING for more than thirty minutes and that no other transaction holds, and leaves the
  status of every other session alone.\<close>

theorem Sweep_spec:
  assumes "w_faults w = []" and "distinct (map s_ID (w_sessions w))"
  shows "fst (Sweep w) = None \<and> status_of (snd (Sweep w)) i = (case find_session i w of None \<Rightarrow> None
    | Some s \<Rightarrow> Some (if s_Status s = StatusCollecting \<and> w_now w - s_UpdatedAt s > 30 * Minute \<and>
        i \<notin> set (w_locked w) then StatusFailed else s_Status s))"
proof -
  have S: "Sweep w = (None, fold (fire EventFail) (stuck_sessions w) w)"
    using assms(1) by (simp add: Sweep_def db_no_fault pop_fault_id)
  have "find_session i w = Some s \<Longrightarrow> s_ID s = i" for s
    unfolding find_session_def by (auto dest: tbl_find_Some)
  then show ?thesis
    unfolding S stuck_sessions_def fst_conv snd_conv sweep_loop [OF assms, where ev = "\<lambda>i. EventFail"]
    by (auto simp: fired_def status_of_def next_status_fail split: option.split)
qed

theorem Sweep_spec_witness:
  "status_of (snd (Sweep (sample_db [sample_session 1 StatusCollecting 5,
     sample_session 2 StatusCollecting (Hour - 60), sample_session 3 StatusAnalyzing 5] []))) 1 = Some StatusFailed"
  by (subst Sweep_spec [THEN conjunct2]) code_simp+

text \<open>On a database that answers, one \<open>SweepFixProposed\<close> moves every
  FIX_PROPOSED session that no other transaction holds to AWAITING_APPROVAL if one of its HIGH-risk
  actions is waiting and to FIX_SUGGESTED otherwise, and no other session.\<close>

theorem SweepFixProposed_spec:
  assumes "w_faults w = []" and "distinct (map s_ID (w_sessions w))"
  shows "fst (SweepFixProposed w) = None \<and>
    status_of (snd (SweepFixProposed w)) i = (case find_session i w of None \<Rightarrow> None
    | Some s \<Rightarrow> Some (if s_Status s = StatusFixProposed \<and> i \<notin> set (w_locked w)
        then (if high_risk_count i w > 0 then StatusAwaitingApproval else StatusFixSuggested)
        else s_Status s))"
proof -
  have S: "SweepFixProposed w = (None, fold (fire EventFixGenerated) (sessions_in StatusFixProposed w) w)"
    using assms(1) by (simp add: SweepFixProposed_def db_no_fault pop_fault_id)
  show ?thesis
    unfolding S sessions_in_def fst_conv snd_conv sweep_loop [OF assms, where ev = "\<lambda>i. EventFixGenerated"]
    by (auto simp: fired_def status_of_def next_status_fail split: option.split)
qed

theorem SweepFixProposed_spec_witness:
  "status_of (snd (SweepFixProposed (sample_db [sample_session 1 StatusFixProposed 5,
     sample_session 2 StatusFixProposed 5] [sample_fix 1 2 RiskHigh ExecStatusNotStarted]))) 2
   = Some StatusAwaitingApproval"
  by (subst SweepFixProposed_spec [THEN conjunct2]) code_simp+

lemma verify_event_alt:
  "verify_event fas = (if fas = [] \<or> (\<exists>fa \<in> set fas. fa_ExecutionStatus fa = ExecStatusFailed)
     then EventVerifyFailure else EventVerifySuccess)"
  by (cases fas) (auto simp: verify_event_def Let_def)

lemma verify_event_fixes:
  "verify_event (fixes_of i w) = (let fas = filter (\<lambda>fa. fa_SessionID fa = i) (w_fix_actions w) in
     if fas = [] \<or> (\<exists>fa \<in> set fas. fa_ExecutionStatus fa = ExecStatusFailed)
     then EventVerifyFailure else EventVerifySuccess)"
proof -
  let ?fas = "filter (\<lambda>fa. fa_SessionID fa = i) (w_fix_actions w)"
  have E: "fixes_of i w = [] \<longleftrightarrow> ?fas = []" "set (fixes_of i w) = set ?fas"
    unfolding fixes_of_def by (simp_all only: set_empty [symmetric] set_sort)
  show ?thesis unfolding verify_event_alt Let_def E by (rule refl)
qed

text \<open>On a database that answers, one \<open>SweepVerifying\<close> rolls back every
  VERIFYING session (that no other transaction holds) that has a FAILED action or no action at all,
  resolves every other one, whatever the statuses of its actions that have not failed, and moves no
  other session.\<close>

theorem SweepVerifying_spec:
  assumes "w_faults w = []" and "distinct (map s_ID (w_sessions w))"
  shows "fst (SweepVerifying w) = None \<and>
    status_of (snd (SweepVerifying w)) i = (case find_session i w of None \<Rightarrow> None
    | Some s \<Rightarrow> Some (if s_Status s = StatusVerifying \<and> i \<notin> set (w_locked w)
        then (let fas = filter (\<lambda>fa. fa_SessionID fa = i) (w_fix_actions w) in
          if fas = [] \<or> (\<exists>fa \<in> set fas. fa_ExecutionStatus fa = ExecStatusFailed)
          then StatusRolledBack else StatusResolved)
        else s_Status s))"
proof -
  have S: "SweepVerifying w =
      (None, fold (\<lambda>i. fire (verify_event (fixes_of i w)) i) (sessions_in StatusVerifying w) w)"
    using assms(1) by (simp add: SweepVerifying_def db_no_fault pop_fault_id fold_verify_session [of w w])
  show ?thesis
    unfolding S sessions_in_def fst_conv snd_conv sweep_loop [OF assms] verify_event_fixes Let_def
    by (simp add: fired_def status_of_def next_status_fail split: option.split) blast
qed

theorem SweepVerifying_spec_witness:
  "status_of (snd (SweepVerifying (sample_db [sample_session 1 StatusVerifying 5]
     [sample_fix 1 1 RiskLow ExecStatusSucceeded, sample_fix 2 1 RiskLow ExecStatusRunning]))) 1
   = Some StatusResolved"
  by (subst SweepVerifying_spec [THEN conjunct2]) code_simp+

end
