(* ===== verification/Execution_Spec.thy ===== *)
theory Execution_Spec imports Server_Invariants Workflow_Spec begin

text \<open>
  Properties of the whole system and of the execution of fixes: which actions reach the executor, how
  often, and what the tables say afterwards.
\<close>

section \<open>Properties of every run\<close>

text \<open>In every run of the orchestrator, with any requests, messages, sweeps, agents
  and driver failures in any order, a session is never lost, its status only moves along the transition
  table, and a terminal status is final.\<close>

theorem system_evolution:
  assumes "(sys_step d parse)\<^sup>*\<^sup>* w w'" and "status_of w i = Some s"
  shows "\<exists>s'. status_of w' i = Some s' \<and> status_step\<^sup>*\<^sup>* s s' \<and> (IsTerminal s \<longrightarrow> s' = s)"
proof -
  have "evolves w w'" using effects_evolve [OF sys_steps_effects [OF assms(1)]] .
  then have "status_le (Some s) (status_of w' i)" using assms(2) unfolding evolves_def by metis
  then obtain s' where "status_of w' i = Some s'" "status_step\<^sup>*\<^sup>* s s'"
    by (auto simp: status_le_def split: option.splits)
  then show ?thesis using engine.steps_from_rank_zero IsTerminal_rank by blast
qed

lemma db_ok_tables:
  assumes "db_ok w'"
  shows "distinct (map s_ID (w_sessions w')) \<and> distinct (map fa_ID (w_fix_actions w')) \<and>
    distinct (map ap_ID (w_approvals w')) \<and> distinct (map ap_RequestToken (w_approvals w')) \<and>
    distinct (map (\<lambda>fa. (fa_SessionID fa, fa_Seq fa)) (w_fix_actions w')) \<and>
    (\<forall>fa \<in> set (w_fix_actions w'). find_session (fa_SessionID fa) w' \<noteq> None) \<and>
    (\<forall>a \<in> set (w_approvals w'). find_session (ap_SessionID a) w' \<noteq> None \<and> find_fix (ap_FixActionID a) w' \<noteq> None) \<and>
    (\<forall>s \<in> set (w_sessions w'). map_of ValidTransitions (s_Status s) \<noteq> None)"
proof -
  have ok: "keys_ok (keys_of w')" "known_statuses w'" using assms by (simp_all add: db_ok_def)
  have "\<forall>s \<in> set (w_sessions w'). map_of ValidTransitions (s_Status s) \<noteq> None"
    using ok(2) by (simp add: known_statuses_def map_of_eq_None_iff)
  then show ?thesis
    using ok(1) unfolding keys_ok_def find_session_None find_fix_None keys_of_def
    by (auto simp: comp_def image_image)
qed

text \<open>Every atomic step keeps the integrity of the tables: primary keys, approval tokens
  and the sequence numbers of a session's actions stay unique, every action, and every approval with its
  action, belongs to a stored session, and no session ever gets a status that the engine does not know.\<close>

theorem system_integrity:
  assumes "(sys_step d parse)\<^sup>*\<^sup>* w w'" and "db_ok w"
  shows "distinct (map s_ID (w_sessions w')) \<and> distinct (map fa_ID (w_fix_actions w')) \<and>
    distinct (map ap_ID (w_approvals w')) \<and> distinct (map ap_RequestToken (w_approvals w')) \<and>
    distinct (map (\<lambda>fa. (fa_SessionID fa, fa_Seq fa)) (w_fix_actions w')) \<and>
    (\<forall>fa \<in> set (w_fix_actions w'). find_session (fa_SessionID fa) w' \<noteq> None) \<and>
    (\<forall>a \<in> set (w_approvals w'). find_session (ap_SessionID a) w' \<noteq> None \<and> find_fix (ap_FixActionID a) w' \<noteq> None) \<and>
    (\<forall>s \<in> set (w_sessions w'). map_of ValidTransitions (s_Status s) \<noteq> None)"
  using effects_db_ok [OF sys_steps_effects [OF assms(1)] assms(2)] by (rule db_ok_tables)

section \<open>The record of executed actions\<close>

lemma orch_more: "db.more w' = db.more w \<Longrightarrow> o_executed w' = o_executed w"
  by (cases w, cases w') simp

lemma executed_simps [simp]:
  "o_executed (pop_fault w) = o_executed w" "o_executed (set_fix i f w) = o_executed w"
  "o_executed (set_approval i g w) = o_executed w" "o_executed (set_session i h w) = o_executed w"
  by (simp_all add: pop_fault_def set_fix_def set_approval_def set_session_def)

lemma executed_reads: "reads_only w w' \<Longrightarrow> o_executed w' = o_executed w"
  using reads_only_fields(10) orch_more by blast

lemma executed_Transition: "Transition i ev w = (r, w') \<Longrightarrow> o_executed w' = o_executed w"
  by (erule Transition_cases) (auto simp: engine_frame_def intro: orch_more)

lemma executed_updates [simp]:
  "o_executed (snd (FixActionDAO_UpdateExecutionStatus i st w)) = o_executed w"
  "o_executed (snd (FixActionDAO_SetTicketID i tk w)) = o_executed w"
  by (auto simp: FixActionDAO_UpdateExecutionStatus_def FixActionDAO_SetTicketID_def db_exec_def fitted_def
      split: option.split)

lemma executed_env [simp]: "o_executed (snd (call_env f w)) = o_executed w"
  by (simp add: call_env_def split: prod.split)

lemma executed_ticket [simp]: "o_executed (open_ticket d sid s fa w) = o_executed w"
proof -
  obtain r w1 where 1: "call_env (d_CreateIncident d (ticket_incident d sid s fa) (w_now w)) w = (r, w1)" by force
  then have "o_executed w1 = o_executed w" by (metis executed_env snd_conv)
  with 1 show ?thesis by (cases r) (simp_all add: open_ticket_def)
qed

lemma executed_notify [simp]: "o_executed (webhook_Notify e w) = o_executed w"
proof -
  obtain rows w1 where 1: "WebhookDAO_ListEnabled w = (rows, w1)" by force
  have "reads_only w w1"
    using 1 by (auto simp: WebhookDAO_ListEnabled_def query_columns_def missing_column_def
        split: prod.splits sum.splits if_splits option.splits elim!: db_query_cases)
  with 1 show ?thesis
    by (cases rows) (auto simp: webhook_Notify_def WebhookNotifier_Notify_def executed_reads)
qed

lemma executed_one:
  "o_executed (execute_one d sid s fa w) = o_executed w @ (if may_execute fa then [exec_action sid fa] else [])"
proof (cases "may_execute fa")
  case True
  let ?w1 = "snd (FixActionDAO_UpdateExecutionStatus (fa_ID fa) ExecStatusRunning w)"
  obtain r w2 where 2: "executor_Execute d (exec_action sid fa) ?w1 = (r, w2)" by force
  then have "o_executed w2 = o_executed w @ [exec_action sid fa]"
    by (auto simp: executor_Execute_def Let_def dest: arg_cong [where f = "\<lambda>p. o_executed (snd p)"])
  with True 2 show ?thesis by (cases r) (simp_all add: execute_one_def Let_def)
qed (simp add: execute_one_def)

lemma executed_fold:
  "o_executed (fold (execute_one d sid s) fas w) = o_executed w @ map (exec_action sid) (filter may_execute fas)"
  by (induction fas arbitrary: w) (simp_all add: executed_one)

lemma executed_ExecuteFixActions:
  assumes "ExecuteFixActions d sid w = (r, w')"
  obtains (none) "o_executed w' = o_executed w"
  | (all) "o_executed w' = o_executed w @ map (exec_action sid) (filter may_execute (fixes_of sid w))"
proof -
  obtain r1 w1 where 1: "FixActionDAO_GetBySessionID sid w = (r1, w1)" by force
  obtain r2 w2 where 2: "SessionDAO_GetByID sid w1 = (r2, w2)" by force
  note e1 = executed_reads [OF reads_only_lists(1) [OF 1]]
  note e2 = executed_reads [OF reads_only_GetByID(1) [OF 2]]
  show thesis
  proof (cases "\<exists>fas s. r1 = Inr fas \<and> r2 = Inr s")
    case False
    with assms 1 2 e1 e2 none show thesis by (cases r1; cases r2) (auto simp: ExecuteFixActions_def)
  next
    case True
    then obtain fas s where rs: "r1 = Inr fas" "r2 = Inr s" by blast
    let ?w3 = "fold (execute_one d sid s) fas w2"
    obtain r4 w4 where 4: "Transition sid EventExecuteComplete ?w3 = (r4, w4)" by force
    have "fas = fixes_of sid w" using GetBySessionID_ok [OF 1 [unfolded rs(1)]] .
    then have "o_executed w4 = o_executed w @ map (exec_action sid) (filter may_execute (fixes_of sid w))"
      using executed_Transition [OF 4] e1 e2 by (simp add: executed_fold)
    moreover have "o_executed w' = o_executed w4"
      using assms 1 2 4 rs by (auto simp: ExecuteFixActions_def Let_def split: option.splits if_splits)
    ultimately show thesis using all by simp
  qed
qed

text \<open>No handler and no sweep executes anything.\<close>

lemma executed_env_case: "call_env f w = (r, w') \<Longrightarrow> o_executed w' = o_executed w"
  by (metis executed_env snd_conv)

lemma executed_exec:
  assumes "db_exec f w = (r, w')" and "\<And>u u'. f u = Inr u' \<Longrightarrow> o_executed u' = o_executed u"
  shows "o_executed w' = o_executed w"
  using assms(1) by (cases rule: db_exec_cases) (auto dest: assms(2))

lemma executed_inserts:
  "insert_session s w = Inr w' \<Longrightarrow> o_executed w' = o_executed w"
  "insert_fix fa w = Inr w' \<Longrightarrow> o_executed w' = o_executed w"
  "insert_approval a w = Inr w' \<Longrightarrow> o_executed w' = o_executed w"
  "increment_retry i w = Inr w' \<Longrightarrow> o_executed w' = o_executed w"
  by (auto simp: insert_session_def insert_fix_def insert_approval_def increment_retry_def
      split: if_splits option.splits)

lemma executed_writes:
  "SessionDAO_Create svc trig w = (r1, w') \<Longrightarrow> o_executed w' = o_executed w"
  "FixActionDAO_Create fa w = (r2, fa', w') \<Longrightarrow> o_executed w' = o_executed w"
  "ApprovalDAO_Create a w = (r3, a', w') \<Longrightarrow> o_executed w' = o_executed w"
  "SessionDAO_IncrementRetry i w = (r4, w') \<Longrightarrow> o_executed w' = o_executed w"
  "ApprovalDAO_UpdateDecision i st who w = (r5, w') \<Longrightarrow> o_executed w' = o_executed w"
  "FixActionDAO_UpdateApprovalStatus i st w = (r6, w') \<Longrightarrow> o_executed w' = o_executed w"
  by (auto simp: SessionDAO_Create_def FixActionDAO_Create_def ApprovalDAO_Create_def
      SessionDAO_IncrementRetry_def ApprovalDAO_UpdateDecision_def FixActionDAO_UpdateApprovalStatus_def Let_def
      uuid_New_def
      split: prod.splits option.splits if_splits
      dest!: executed_exec dest: executed_inserts dest!: fitted_ok)

lemma executed_fire [simp]: "o_executed (fire ev i w) = o_executed w"
  unfolding fire_def by (rule executed_Transition [OF surjective_pairing])

lemma executed_publish: "producer_Publish d msg w = (r, w') \<Longrightarrow> o_executed w' = o_executed w"
  by (auto simp: producer_Publish_def split: prod.splits option.splits dest: executed_env_case)

lemma executed_dispatch_all [simp]: "o_executed (dispatch_all d i svc agents w) = o_executed w"
proof (induction agents arbitrary: w)
  case (Cons a agents)
  then show ?case
    using executed_publish [OF surjective_pairing] by (cases a) simp
qed simp

lemma executed_dispatch:
  "DispatchCollect d i svc w = (r1, w') \<Longrightarrow> o_executed w' = o_executed w"
  "DispatchAnalyze d i svc w = (r2, w') \<Longrightarrow> o_executed w' = o_executed w"
  by (auto simp: DispatchCollect_def DispatchAnalyze_def
      split: if_splits prod.splits option.splits dest: executed_publish)

lemma executed_gets:
  "SessionDAO_GetByID i w = (r1, w') \<Longrightarrow> o_executed w' = o_executed w"
  "FixActionDAO_GetByID i w = (r2, w') \<Longrightarrow> o_executed w' = o_executed w"
  "ApprovalDAO_GetByID i w = (r3, w') \<Longrightarrow> o_executed w' = o_executed w"
  "FixActionDAO_GetBySessionID i w = (r4, w') \<Longrightarrow> o_executed w' = o_executed w"
  "SessionDAO_List t f w = (r5, w') \<Longrightarrow> o_executed w' = o_executed w"
  "GetStatus i w = (r6, w') \<Longrightarrow> o_executed w' = o_executed w"
  by (auto simp: GetStatus_def split: prod.splits sum.splits
      intro: executed_reads dest: reads_only_GetByID reads_only_lists)

lemma executed_load_report: "LoadReportData lib i w = (r, w') \<Longrightarrow> o_executed w' = o_executed w"
proof -
  assume a: "LoadReportData lib i w = (r, w')"
  have e: "getAllApprovalsForSession i u = (q, u') \<Longrightarrow> o_executed u' = o_executed u" for u u' q
    by (auto simp: getAllApprovalsForSession_def split: prod.splits sum.splits elim!: db_query_cases)
  have v: "SessionEventDAO_GetBySessionID i u = (q, u') \<Longrightarrow> o_executed u' = o_executed u" for u u' q
    by (rule executed_reads [OF reads_only_lists(2)])
  show ?thesis using a
    by (auto simp: LoadReportData_def split: prod.splits sum.splits dest!: executed_gets e v)
qed

lemma executed_handlers:
  "CreateSession d body w = (r, w') \<Longrightarrow> o_executed w' = o_executed w"
  "ListSessions d query w = (r, w') \<Longrightarrow> o_executed w' = o_executed w"
  "GetSession d idStr w = (r, w') \<Longrightarrow> o_executed w' = o_executed w"
  "StartSession d idStr w = (r, w') \<Longrightarrow> o_executed w' = o_executed w"
  "RetrySession d idStr w = (r, w') \<Longrightarrow> o_executed w' = o_executed w"
  "IgnoreSession d idStr w = (r, w') \<Longrightarrow> o_executed w' = o_executed w"
  "GetReport d idStr format w = (r, w') \<Longrightarrow> o_executed w' = o_executed w"
  "DownloadReport d idStr format w = (r, w') \<Longrightarrow> o_executed w' = o_executed w"
  by (auto simp: CreateSession_def ListSessions_def GetSession_def StartSession_def RetrySession_def
      IgnoreSession_def GetReport_def DownloadReport_def Engine_GenerateReport_def Engine_RenderMarkdown_def
      with_session_id_def Let_def
      split: prod.splits sum.splits if_splits option.splits
      dest!: executed_writes executed_gets executed_Transition executed_dispatch executed_load_report)

lemma executed_DecisionApproval:
  "DecisionApproval d idStr apStr body w = (r, w') \<Longrightarrow> o_executed w' = o_executed w"
proof -
  have u: "o_executed (snd (FixActionDAO_UpdateApprovalStatus i st u)) = o_executed u" for i st and u :: "'a orch"
    by (rule executed_writes(6) [OF surjective_pairing])
  show "DecisionApproval d idStr apStr body w = (r, w') \<Longrightarrow> o_executed w' = o_executed w"
    by (auto simp: DecisionApproval_def decide_def with_session_id_def Let_def u
      split: prod.splits sum.splits if_splits option.splits
      dest!: executed_writes executed_gets)
qed

lemma executed_verify_session [simp]: "o_executed (verify_session i w) = o_executed w"
  by (auto simp: verify_session_def split: prod.split sum.split dest: executed_gets)

lemma executed_fold_same: "(\<And>x u. o_executed (f x u) = o_executed u) \<Longrightarrow> o_executed (fold f xs w) = o_executed w"
  by (induction xs arbitrary: w) auto

lemma executed_sweeps:
  "o_executed (snd (Sweep w)) = o_executed w"
  "o_executed (snd (SweepFixProposed w)) = o_executed w"
  "o_executed (snd (SweepVerifying w)) = o_executed w"
  by (auto simp: Sweep_def SweepFixProposed_def SweepVerifying_def executed_fold_same
      split: prod.split sum.split elim!: db_query_cases)

lemma executed_tick: "o_executed (sweep_tick w) = o_executed w"
  by (simp add: sweep_tick_def executed_sweeps)

lemma executed_gate_one [simp]: "o_executed (gate_one d sid fa w) = o_executed w"
proof -
  have u: "o_executed (snd (FixActionDAO_UpdateApprovalStatus i st u)) = o_executed u" for i st and u :: "'a orch"
    by (rule executed_writes(6) [OF surjective_pairing])
  show ?thesis
    by (auto simp: gate_one_def u split: prod.splits sum.splits option.splits
        dest!: executed_env_case executed_writes)
qed

lemma executed_gate: "TriggerApprovalGate d sid w = (r, w') \<Longrightarrow> o_executed w' = o_executed w"
  by (auto simp: TriggerApprovalGate_def Let_def executed_fold_same split: prod.splits sum.splits if_splits
      dest!: executed_gets)

section \<open>What the event loop executes\<close>

lemma GetStatus_same: "GetStatus sid w = (r, w') \<Longrightarrow> reads_only w w'"
  by (auto simp: GetStatus_def split: prod.splits sum.splits dest: reads_only_GetByID)

lemma executable_low:
  assumes "high_risk_count sid w = 0" and "fa \<in> set (filter may_execute (fixes_of sid w))"
  shows "fa \<in> set (w_fix_actions w) \<and> fa_SessionID fa = sid \<and> fa_Risk fa \<noteq> RiskHigh \<and>
    fa_ExecutionStatus fa = ExecStatusNotStarted \<and>
    (fa_RequiresApproval fa \<longrightarrow> fa_ApprovalStatus fa = ApprovalStatusApproved)"
  using assms by (auto simp: high_risk_count_def fixes_of_def may_execute_def filter_empty_conv)

text \<open>\<open>fresh_batch sid w acts\<close>: the actions are those of distinct rows of the session, in the order of
  their sequence numbers, that have not started, need no approval or have it, and are not HIGH-risk.\<close>

definition fresh_batch :: "uuid \<Rightarrow> 'a db_scheme \<Rightarrow> ExecAction list \<Rightarrow> bool" where
  "fresh_batch sid w acts \<longleftrightarrow> (\<exists>fas. acts = map (exec_action sid) fas \<and> sorted (map fa_Seq fas) \<and>
     (\<forall>fa \<in> set fas. fa \<in> set (w_fix_actions w) \<and> fa_SessionID fa = sid \<and> fa_Risk fa \<noteq> RiskHigh \<and>
        fa_ExecutionStatus fa = ExecStatusNotStarted \<and>
        (fa_RequiresApproval fa \<longrightarrow> fa_ApprovalStatus fa = ApprovalStatusApproved)))"

lemma fresh_batch_Nil [simp]: "fresh_batch sid w []"
  unfolding fresh_batch_def by (rule exI [of _ "[]"]) simp

lemma fresh_batch_fixes:
  "high_risk_count sid w = 0 \<Longrightarrow> fresh_batch sid w (map (exec_action sid) (filter may_execute (fixes_of sid w)))"
  unfolding fresh_batch_def
  by (rule exI [of _ "filter may_execute (fixes_of sid w)"])
     (use executable_low in \<open>auto simp: fixes_of_def sorted_filter\<close>)

lemma executed_drive_fix:
  assumes "drive_fix d sid n w = (r, w')"
    and "n = StatusFixSuggested \<Longrightarrow> high_risk_count sid w = 0"
  shows "\<exists>acts. o_executed w' = o_executed w @ acts \<and> fresh_batch sid w acts"
proof -
  consider (gate) "n = StatusAwaitingApproval" | (run) "n = StatusFixSuggested"
    | (other) "n \<noteq> StatusAwaitingApproval" "n \<noteq> StatusFixSuggested" by blast
  then show ?thesis
  proof cases
    case gate
    with assms executed_gate [OF surjective_pairing, of d sid w] show ?thesis
      by (auto simp: drive_fix_def)
  next
    case other
    with assms show ?thesis by (auto simp: drive_fix_def)
  next
    case run
    obtain r1 w1 where 1: "Transition sid EventExecute w = (r1, w1)" by force
    have "engine_frame w w1" using 1 by (cases rule: Transition_cases)
    then have e1: "o_executed w1 = o_executed w" "fixes_of sid w1 = fixes_of sid w"
      using executed_Transition [OF 1] by (simp_all add: engine_frame_status)
    show ?thesis
    proof (cases r1)
      case (Inl e)
      with assms 1 run e1 show ?thesis by (auto simp: drive_fix_def split: if_splits)
    next
      case (Inr m)
      obtain r2 w2 where 2: "ExecuteFixActions d sid w1 = (r2, w2)" by force
      with assms 1 run Inr have "w' = w2" by (simp add: drive_fix_def)
      with 2 show ?thesis
        using assms(2) [OF run] e1 fresh_batch_fixes [of sid w]
        by (cases rule: executed_ExecuteFixActions) auto
    qed
  qed
qed

lemma fresh_batch_same: "w_fix_actions w' = w_fix_actions w \<Longrightarrow> fresh_batch sid w' = fresh_batch sid w"
  by (rule ext) (simp add: fresh_batch_def)

lemma executed_fix_observation:
  assumes "fix_observation d sid w = (r, w')"
  shows "\<exists>acts. o_executed w' = o_executed w @ acts \<and> fresh_batch sid w acts"
proof -
  obtain r1 w1 where 1: "Transition sid EventRCAGenerated w = (r1, w1)" by force
  obtain r2 w2 where 2: "Transition sid EventFixGenerated w1 = (r2, w2)" by force
  have f1: "w_fix_actions w1 = w_fix_actions w"
    by (rule Transition_cases [OF 1]) (simp_all add: engine_frame_def)
  have f2: "w_fix_actions w2 = w_fix_actions w1"
    by (rule Transition_cases [OF 2]) (simp_all add: engine_frame_def)
  note e = executed_Transition [OF 1] executed_Transition [OF 2]
  show ?thesis
  proof (cases "\<exists>n1 n2. r1 = Inr n1 \<and> r2 = Inr n2")
    case False
    with assms 1 2 e show ?thesis by (cases r1; cases r2) (auto simp: fix_observation_def split: if_splits)
  next
    case True
    then obtain n1 n2 where rs: "r1 = Inr n1" "r2 = Inr n2" by blast
    with assms 1 2 have d: "drive_fix d sid n2 w2 = (r, w')" by (simp add: fix_observation_def)
    have "high_risk_count sid w2 = 0" if n2: "n2 = StatusFixSuggested"
      using 2 unfolding rs
    proof (cases rule: Transition_cases)
      case (ok s n t)
      then have "next_status (high_risk_count sid w1 > 0) s EventFixGenerated = Some StatusFixSuggested"
        using n2 by simp
      then have "\<not> high_risk_count sid w1 > 0"
        by (rule next_status_gate [THEN conjunct1, rule_format]) simp
      with f2 show ?thesis by (simp add: high_risk_count_def)
    qed simp_all
    from executed_drive_fix [OF d this] e show ?thesis
      using fresh_batch_same [OF f2] fresh_batch_same [OF f1] by simp
  qed
qed

lemma executed_observation:
  assumes "handleObservation d sid ob w = (r, w')"
  shows "\<exists>acts. o_executed w' = o_executed w @ acts \<and> fresh_batch sid w acts"
proof -
  obtain r1 w1 where 1: "GetStatus sid w = (r1, w1)" by force
  have f1: "o_executed w1 = o_executed w" "fresh_batch sid w1 = fresh_batch sid w"
    using executed_reads [OF GetStatus_same [OF 1]] reads_only_fields(2) [OF GetStatus_same [OF 1]]
      fresh_batch_same by metis+
  have quiet: "o_executed w' = o_executed w \<Longrightarrow> ?thesis" by (intro exI [of _ "[]"]) simp
  have c: "collect_observation d sid ob w1 = (r, w') \<Longrightarrow> o_executed w' = o_executed w"
    by (auto simp: collect_observation_def f1 executed_dispatch(2) [OF surjective_pairing]
        split: prod.splits sum.splits if_splits dest!: executed_Transition)
  have a: "rca_observation sid w1 = (r, w') \<Longrightarrow> o_executed w' = o_executed w"
    by (auto simp: rca_observation_def f1 split: prod.splits sum.splits dest!: executed_Transition)
  have x: "fix_observation d sid w1 = (r, w') \<Longrightarrow> ?thesis"
    using executed_fix_observation [of d sid w1 r w'] f1 by simp
  show ?thesis
    using assms 1 c a x quiet f1(1)
    by (auto simp: handleObservation_def Let_def split: sum.splits if_splits)
qed

lemma executed_message:
  assumes "process_message d parse m w = (r, w')"
  shows "\<exists>sid acts. o_executed w' = o_executed w @ acts \<and> fresh_batch sid w acts"
proof -
  have quiet: "o_executed w' = o_executed w \<Longrightarrow> ?thesis" by (intro exI) (rule conjI [OF _ fresh_batch_Nil], simp)
  show ?thesis
    using assms quiet
    by (auto simp: process_message_def split: sum.splits if_splits prod.splits option.splits
        dest!: executed_observation)
qed

lemma executed_step:
  assumes "sys_step d parse w w'"
  shows "\<exists>sid acts. o_executed w' = o_executed w @ acts \<and> fresh_batch sid w acts"
proof -
  have quiet: "o_executed w' = o_executed w \<Longrightarrow> ?thesis" by (intro exI) (rule conjI [OF _ fresh_batch_Nil], simp)
  from assms show ?thesis
    by (cases rule: sys_step.cases)
       (auto simp: executed_tick
         intro: quiet executed_handlers executed_DecisionApproval executed_message executed_writes(2))
qed

section \<open>A small orchestrator\<close>

text \<open>For evaluations: a world whose executor succeeds, whose producer accepts and whose approval client
  hands out the identifier of the action as its token; identifiers are written in unary.\<close>

definition sample_deps :: "unit deps" where
  "sample_deps = \<lparr>d_uuid = \<lparr>uuid_Parse = (\<lambda>s. if s = [] then Inl (ErrorString ''invalid UUID length: 0'')
       else Inr (of_nat (length s))), uuid_String = (\<lambda>u. replicate (unat u) (CHR ''i''))\<rparr>,
     d_Request = (\<lambda>rq t e. (Inr (replicate (unat (rq_FixActionID rq)) (CHR ''t'')), e)),
     d_Execute = (\<lambda>a t e. (Inr \<lparr>xr_ID = xa_ID a, xr_Status = ''SUCCEEDED'', xr_Message = [],
        xr_TicketID = [], xr_StartedAt = t, xr_EndedAt = t, xr_Rollback = []\<rparr>, e)),
     d_CreateIncident = (\<lambda>i t e. (Inr ''T-1'', e)), d_Publish = (\<lambda>m e. (None, e)), d_has_producer = True,
     d_has_webhook = False, d_has_eventLoop = True, d_discovery = None,
     d_report = \<lparr>rl_uuid = (\<lambda>u. []), rl_rfc3339 = (\<lambda>t. []), rl_percent = (\<lambda>f. []), rl_labels = (\<lambda>l. [])\<rparr>,
     d_pandoc = (\<lambda>s. Inr s)\<rparr>"

definition sample_orch :: "DiagnosticSession list \<Rightarrow> FixAction list \<Rightarrow> unit orch" where
  "sample_orch ss fas = \<lparr>w_sessions = ss, w_fix_actions = fas, w_approvals = [], w_events = [], w_kb = [],
     w_locked = [], w_faults = [], w_now = Hour, w_fresh = (\<lambda>n. of_nat (1000 + n)), w_ctr = 0,
     w_hooks = [], w_deliveries = [], w_hook_columns = migrated_hook_columns,
     w_delivery_columns = migrated_delivery_columns, o_env = (), o_outbox = [], o_executed = [], o_notified = []\<rparr>"

definition sample_payload :: "nat \<Rightarrow> string \<Rightarrow> observationPayload" where
  "sample_payload i ty = \<lparr>op_ID = ''o'', op_SessionID = replicate i (CHR ''i''), op_Source = ''agent-fix'',
     op_Type = ty, op_SubType = [], op_Confidence = Fin 1, op_DetailJSON = [], op_TargetService = ''cart''\<rparr>"

definition sample_message :: "string \<Rightarrow> int \<Rightarrow> kafka_Message" where
  "sample_message v n = \<lparr>k_Topic = TopicObservationsFix, k_Partition = 0, k_Offset = n, k_Key = [], k_Value = v,
     k_Headers = [], k_Time = 0\<rparr>"

section \<open>Properties of the execution of fixes\<close>

text \<open>C1 (execution_safety): whatever a step of the orchestrator executes (a request, a message, a sweep,
  under every pattern of failures) is a batch of rows of one session, in the order of their sequence
  numbers, each of which has not started, is not HIGH-risk, and if it requires an approval is APPROVED.\<close>

theorem execution_safety:
  assumes "sys_step d parse w w'"
  shows "\<exists>sid fas. o_executed w' = o_executed w @ map (exec_action sid) fas \<and> sorted (map fa_Seq fas) \<and>
    (\<forall>fa \<in> set fas. fa \<in> set (w_fix_actions w) \<and> fa_SessionID fa = sid \<and> fa_Risk fa \<noteq> RiskHigh \<and>
      fa_ExecutionStatus fa = ExecStatusNotStarted \<and>
      (fa_RequiresApproval fa \<longrightarrow> fa_ApprovalStatus fa = ApprovalStatusApproved))"
proof -
  from executed_step [OF assms] obtain sid acts
    where "o_executed w' = o_executed w @ acts" "fresh_batch sid w acts" by blast
  then show ?thesis unfolding fresh_batch_def by blast
qed

text \<open>C2 (high_risk_never_executed): in no run of the orchestrator whose handlers, messages and sweeps are not
  interrupted is a HIGH-risk action ever handed to the executor, not even an approved one.\<close>

theorem high_risk_never_executed:
  assumes "(sys_step d parse)\<^sup>*\<^sup>* w w'" and "o_executed w = []"
  shows "\<forall>a \<in> set (o_executed w'). xa_Risk a \<noteq> RiskHigh"
  using assms(1)
proof (induction rule: rtranclp_induct)
  case base
  then show ?case by (simp add: assms(2))
next
  case (step u v)
  from executed_step [OF step.hyps(2)] obtain sid acts
    where "o_executed v = o_executed u @ acts" "fresh_batch sid u acts" by blast
  with step.IH show ?case by (auto simp: fresh_batch_def exec_action_def)
qed


definition sample_run :: "unit orch" where
  "sample_run = snd (CreateSession sample_deps (Inr ''cart'') (sample_orch [] []))"

lemma sample_run_steps: "(sys_step sample_deps parse)\<^sup>*\<^sup>* (sample_orch [] []) sample_run"
  unfolding sample_run_def
  by (rule r_into_rtranclp) (rule st_create [OF surjective_pairing])

lemma sample_ignored_steps:
  "(sys_step sample_deps parse)\<^sup>*\<^sup>* (sample_orch [sample_session 1 StatusIgnored 5] [])
     (snd (RetrySession sample_deps ''i'' (sample_orch [sample_session 1 StatusIgnored 5] [])))"
  by (rule r_into_rtranclp) (rule st_retry [OF surjective_pairing])

theorem system_evolution_witness:
  "status_of (snd (RetrySession sample_deps ''i'' (sample_orch [sample_session 1 StatusIgnored 5] []))) 1
    = Some StatusIgnored"
proof -
  have "status_of (sample_orch [sample_session 1 StatusIgnored 5] []) 1 = Some StatusIgnored" by code_simp
  moreover have "IsTerminal StatusIgnored" by code_simp
  ultimately show ?thesis
    using system_evolution [OF sample_ignored_steps [where parse = "\<lambda>s. Inl (ErrorString s)"]] by blast
qed

theorem system_integrity_witness: "distinct (map s_ID (w_sessions sample_run))"
proof -
  have "db_ok (sample_orch [] [])"
    by (simp add: db_ok_def keys_ok_def keys_of_def known_statuses_def sample_orch_def)
  from system_integrity [OF sample_run_steps [where parse = "\<lambda>s. Inl (ErrorString s)"] this] show ?thesis by blast
qed

section \<open>The rows after an execution\<close>

text \<open>\<open>settles I g\<close>: the update \<open>g\<close> of a row finishes the execution of the actions \<open>I\<close> and changes
  nothing that the gate reads; other rows it leaves alone.\<close>

definition gate_columns :: "FixAction \<Rightarrow> uuid \<times> uuid \<times> int \<times> bool \<times> string" where
  "gate_columns fa = (fa_ID fa, fa_SessionID fa, fa_Seq fa, fa_RequiresApproval fa, fa_ApprovalStatus fa)"

definition settles :: "uuid set \<Rightarrow> (FixAction \<Rightarrow> FixAction) \<Rightarrow> bool" where
  "settles I g \<longleftrightarrow> (\<forall>r. gate_columns (g r) = gate_columns r \<and>
     (if fa_ID r \<in> I then fa_ExecutionStatus (g r) \<in> {ExecStatusSucceeded, ExecStatusFailed} else g r = r))"

lemma settles_id: "settles {} (\<lambda>r. r)"
  by (simp add: settles_def)

lemma settles_comp:
  assumes "settles I f" and "settles J g"
  shows "settles (I \<union> J) (g \<circ> f)"
  unfolding settles_def comp_def
proof
  fix r
  have f: "gate_columns (f r) = gate_columns r"
    "if fa_ID r \<in> I then fa_ExecutionStatus (f r) \<in> {ExecStatusSucceeded, ExecStatusFailed} else f r = r"
    using assms(1) unfolding settles_def by blast+
  have g: "gate_columns (g (f r)) = gate_columns (f r)"
    "if fa_ID (f r) \<in> J then fa_ExecutionStatus (g (f r)) \<in> {ExecStatusSucceeded, ExecStatusFailed} else g (f r) = f r"
    using assms(2) unfolding settles_def by blast+
  have "fa_ID (f r) = fa_ID r" using f(1) by (simp add: gate_columns_def)
  with f g show "gate_columns (g (f r)) = gate_columns r \<and> (if fa_ID r \<in> I \<union> J
      then fa_ExecutionStatus (g (f r)) \<in> {ExecStatusSucceeded, ExecStatusFailed} else g (f r) = r)"
    by (simp split: if_splits)
qed

lemma updates_no_fault:
  assumes "w_faults w = []"
  shows "varchar 16 st = Some st \<Longrightarrow>
      snd (FixActionDAO_UpdateExecutionStatus i st w) = set_fix i (put_fix_execution (st, w_now w)) w"
    and "snd (FixActionDAO_SetTicketID i tk w) = (case varchar 64 tk of None \<Rightarrow> w
      | Some tk' \<Rightarrow> set_fix i (put_fix_ticket (tk', w_now w)) w)"
    and "varchar 16 st = Some st \<Longrightarrow>
      snd (FixActionDAO_UpdateApprovalStatus i st w) = set_fix i (put_fix_approval (st, w_now w)) w"
  using assms by (simp_all add: FixActionDAO_UpdateExecutionStatus_def FixActionDAO_SetTicketID_def
      FixActionDAO_UpdateApprovalStatus_def db_no_fault pop_fault_id fitted_def split: option.split)

text \<open>What the execution does not touch.\<close>

definition exec_frame :: "'a db_scheme \<Rightarrow> 'a db_scheme \<Rightarrow> bool" where
  "exec_frame w w' \<longleftrightarrow> w_sessions w' = w_sessions w \<and> w_approvals w' = w_approvals w \<and>
     w_locked w' = w_locked w \<and> w_faults w' = w_faults w"

lemma exec_frame_simps [simp]:
  "exec_frame w w" "w_faults (set_fix i f w) = w_faults w" "exec_frame w (set_fix i f w') = exec_frame w w'"
  by (simp_all add: exec_frame_def set_fix_def)

lemma exec_frame_trans: "exec_frame u v \<Longrightarrow> exec_frame v w \<Longrightarrow> exec_frame u w"
  by (simp add: exec_frame_def)

lemma call_env_frame:
  assumes "call_env f w = (r, w')"
  shows "exec_frame w w'" and "w_fix_actions w' = w_fix_actions w"
  using assms by (auto simp: call_env_def exec_frame_def split: prod.splits)

lemma set_fix_rows: "w_fix_actions (set_fix i f w) = map (\<lambda>r. if fa_ID r = i then f r else r) (w_fix_actions w)"
  by (simp add: set_fix_def tbl_update_def)

lemma settles_final:
  "st = ExecStatusSucceeded \<or> st = ExecStatusFailed \<Longrightarrow>
   settles {i} ((\<lambda>r. if fa_ID r = i then put_fix_execution (st, t) r else r) \<circ> (\<lambda>r. if fa_ID r = i then put_fix_execution (st0, t0) r else r))"
  by (auto simp: settles_def gate_columns_def)

lemma settles_ticket:
  assumes "settles {i} g"
  shows "settles {i} ((\<lambda>r. if fa_ID r = i then put_fix_ticket (tk, t) r else r) \<circ> g)"
  unfolding settles_def comp_def
proof
  fix r
  from assms have "gate_columns (g r) = gate_columns r" and
    "if fa_ID r \<in> {i} then fa_ExecutionStatus (g r) \<in> {ExecStatusSucceeded, ExecStatusFailed} else g r = r"
    unfolding settles_def by blast+
  then show "gate_columns (if fa_ID (g r) = i then put_fix_ticket (tk, t) (g r) else g r) = gate_columns r \<and>
      (if fa_ID r \<in> {i} then fa_ExecutionStatus (if fa_ID (g r) = i then put_fix_ticket (tk, t) (g r) else g r)
         \<in> {ExecStatusSucceeded, ExecStatusFailed}
       else (if fa_ID (g r) = i then put_fix_ticket (tk, t) (g r) else g r) = r)"
    by (cases "fa_ID r = i") (auto simp: gate_columns_def)
qed

lemma open_ticket_no_fault:
  assumes "w_faults w = []" and "settles {fa_ID fa} g"
  shows "exec_frame w (open_ticket d sid s fa w) \<and>
    (\<exists>f. settles {fa_ID fa} (f \<circ> g) \<and> w_fix_actions (open_ticket d sid s fa w) = map f (w_fix_actions w))"
proof -
  let ?i = "fa_ID fa"
  obtain q w1 where 1: "call_env (d_CreateIncident d (ticket_incident d sid s fa) (w_now w)) w = (q, w1)" by force
  note w1 = call_env_frame [OF 1]
  have nf: "w_faults w1 = []" using w1(1) assms(1) by (simp add: exec_frame_def)
  let ?f = "\<lambda>tk r. if fa_ID r = ?i then put_fix_ticket (tk, w_now w1) r else r"
  consider (kept) "open_ticket d sid s fa w = w1"
    | (stored) tk where "open_ticket d sid s fa w = set_fix ?i (put_fix_ticket (tk, w_now w1)) w1"
    using 1
    by (cases q; cases "varchar 64 (projr q)") (auto simp: open_ticket_def updates_no_fault(2) [OF nf])
  then show ?thesis
  proof cases
    case kept
    show ?thesis unfolding kept w1(2) using w1(1) assms(2) by (auto simp: comp_def intro!: exI [of _ "\<lambda>r. r"])
  next
    case stored
    have "settles {?i} (?f tk \<circ> g)" using assms(2) by (rule settles_ticket)
    moreover have "w_fix_actions (open_ticket d sid s fa w) = map (?f tk) (w_fix_actions w)"
      unfolding stored set_fix_rows [of _ _ w1] w1(2) by simp
    moreover have "exec_frame w (open_ticket d sid s fa w)" unfolding stored using w1(1) by simp
    ultimately show ?thesis by blast
  qed
qed

lemma execute_one_no_fault:
  assumes "w_faults w = []"
  shows "exec_frame w (execute_one d sid s fa w) \<and>
    (\<exists>g. settles (if may_execute fa then {fa_ID fa} else {}) g \<and>
       w_fix_actions (execute_one d sid s fa w) = map g (w_fix_actions w))"
proof (cases "may_execute fa")
  case False
  then show ?thesis using settles_id by (auto simp: execute_one_def intro!: exI [of _ "\<lambda>r. r"])
next
  case True
  let ?i = "fa_ID fa"
  let ?w1 = "set_fix ?i (put_fix_execution (ExecStatusRunning, w_now w)) w"
  obtain r w2 where 2: "executor_Execute d (exec_action sid fa) ?w1 = (r, w2)" by force
  then obtain f where "call_env f (?w1\<lparr>o_executed := o_executed ?w1 @ [exec_action sid fa]\<rparr>) = (r, w2)"
    by (auto simp: executor_Execute_def Let_def)
  from call_env_frame [OF this] have w2: "exec_frame w w2" "w_fix_actions w2 = w_fix_actions ?w1"
    by (auto simp: exec_frame_def set_fix_def)
  have nf: "w_faults w2 = []" using w2(1) assms by (simp add: exec_frame_def)
  define fin where "fin = (case r of Inl e \<Rightarrow> ExecStatusFailed
     | Inr x \<Rightarrow> if xr_Status x = ''FAILED'' then ExecStatusFailed else ExecStatusSucceeded)"
  let ?w3 = "set_fix ?i (put_fix_execution (fin, w_now w2)) w2"
  let ?g = "(\<lambda>r. if fa_ID r = ?i then put_fix_execution (fin, w_now w2) r else r) \<circ>
      (\<lambda>r. if fa_ID r = ?i then put_fix_execution (ExecStatusRunning, w_now w) r else r)"
  have g: "settles {?i} ?g" by (rule settles_final) (auto simp: fin_def split: sum.split)
  have w3: "exec_frame w ?w3" "w_fix_actions ?w3 = map ?g (w_fix_actions w)" "w_faults ?w3 = []"
    using w2 nf by (simp_all add: set_fix_rows)
  have run: "snd (FixActionDAO_UpdateExecutionStatus ?i ExecStatusRunning w) = ?w1"
    by (simp add: updates_no_fault(1) [OF assms])
  have o: "execute_one d sid s fa w = ?w3 \<or> execute_one d sid s fa w = open_ticket d sid s fa ?w3"
    using True 2 run by (auto simp: execute_one_def Let_def fin_def updates_no_fault(1) [OF nf] split: sum.splits if_splits)
  from o show ?thesis
  proof
    assume "execute_one d sid s fa w = ?w3"
    with g w3 True show ?thesis by auto
  next
    assume o: "execute_one d sid s fa w = open_ticket d sid s fa ?w3"
    from open_ticket_no_fault [OF w3(3) g] obtain f where f: "exec_frame ?w3 (open_ticket d sid s fa ?w3)"
      "settles {?i} (f \<circ> ?g)" "w_fix_actions (open_ticket d sid s fa ?w3) = map f (w_fix_actions ?w3)" by blast
    have "w_fix_actions (execute_one d sid s fa w) = map (f \<circ> ?g) (w_fix_actions w)"
      unfolding o f(3) w3(2) by simp
    with f(2) exec_frame_trans [OF w3(1) f(1)] True show ?thesis unfolding o by auto
  qed
qed

lemma settled_gate: "settles I g \<Longrightarrow> fa_SessionID (g r) = fa_SessionID r"
  by (simp add: settles_def gate_columns_def)

lemma notify_frame:
  "w_fix_actions (webhook_Notify e w) = w_fix_actions w" "status_of (webhook_Notify e w) = status_of w"
  "w_approvals (webhook_Notify e w) = w_approvals w"
proof -
  obtain rows w1 where 1: "WebhookDAO_ListEnabled w = (rows, w1)" by force
  have "reads_only w w1"
    using 1 by (auto simp: WebhookDAO_ListEnabled_def query_columns_def missing_column_def
        split: prod.splits sum.splits if_splits option.splits elim!: db_query_cases)
  note f = reads_only_fields(1-3) [OF this]
  have "w_fix_actions (webhook_Notify e w) = w_fix_actions w1 \<and> w_sessions (webhook_Notify e w) = w_sessions w1 \<and>
      w_approvals (webhook_Notify e w) = w_approvals w1"
    using 1 by (cases rows) (auto simp: webhook_Notify_def WebhookNotifier_Notify_def)
  with f show "w_fix_actions (webhook_Notify e w) = w_fix_actions w" "status_of (webhook_Notify e w) = status_of w"
    "w_approvals (webhook_Notify e w) = w_approvals w"
    by (auto intro: status_of_same)
qed

lemma execute_fold_no_fault:
  assumes "w_faults w = []"
  shows "exec_frame w (fold (execute_one d sid s) fas w) \<and>
    (\<exists>g. settles (fa_ID ` set (filter may_execute fas)) g \<and>
       w_fix_actions (fold (execute_one d sid s) fas w) = map g (w_fix_actions w))"
  using assms
proof (induction fas arbitrary: w)
  case Nil
  show ?case using settles_id by (auto intro!: exI [of _ "\<lambda>r. r"])
next
  case (Cons fa fas)
  let ?w1 = "execute_one d sid s fa w"
  from execute_one_no_fault [OF Cons.prems, of d sid s fa] obtain f where f: "exec_frame w ?w1"
    "settles (if may_execute fa then {fa_ID fa} else {}) f" "w_fix_actions ?w1 = map f (w_fix_actions w)" by blast
  have "w_faults ?w1 = []" using f(1) Cons.prems by (simp add: exec_frame_def)
  from Cons.IH [OF this] obtain g where g: "exec_frame ?w1 (fold (execute_one d sid s) fas ?w1)"
    "settles (fa_ID ` set (filter may_execute fas)) g"
    "w_fix_actions (fold (execute_one d sid s) fas ?w1) = map g (w_fix_actions ?w1)" by blast
  have "settles (fa_ID ` set (filter may_execute (fa # fas))) (g \<circ> f)"
    using settles_comp [OF f(2) g(2)] by (cases "may_execute fa") simp_all
  moreover have "w_fix_actions (fold (execute_one d sid s) (fa # fas) w) = map (g \<circ> f) (w_fix_actions w)"
    using f(3) g(3) by simp
  moreover have "exec_frame w (fold (execute_one d sid s) (fa # fas) w)"
    using exec_frame_trans [OF f(1) g(1)] by simp
  ultimately show ?case by blast
qed

lemma execute_run:
  assumes "w_faults w = []" and "distinct (map fa_ID (w_fix_actions w))"
    and "status_of w sid = Some StatusFixExecuting" and "sid \<notin> set (w_locked w)"
    and "ExecuteFixActions d sid w = (r, w')"
  shows "r = None \<and> status_of w' sid = Some StatusVerifying \<and>
    o_executed w' = o_executed w @ map (exec_action sid) (filter may_execute (fixes_of sid w)) \<and>
    (\<exists>g. w_fix_actions w' = map g (w_fix_actions w) \<and> (\<forall>fa \<in> set (w_fix_actions w).
       if fa_SessionID fa = sid \<and> may_execute fa
       then fa_ID (g fa) = fa_ID fa \<and> fa_ExecutionStatus (g fa) \<in> {ExecStatusSucceeded, ExecStatusFailed}
       else g fa = fa)) \<and>
    (\<forall>w2. w_fix_actions w2 = w_fix_actions w' \<longrightarrow> o_executed (snd (ExecuteFixActions d sid w2)) = o_executed w2)"
proof -
  let ?run = "filter may_execute (fixes_of sid w)"
  from assms(3) obtain s where s: "find_session sid w = Some s" by (auto simp: status_of_def)
  define w3 where "w3 = fold (execute_one d sid s) (fixes_of sid w) w"
  from execute_fold_no_fault [OF assms(1), of d sid s "fixes_of sid w"] obtain g
    where f3: "exec_frame w w3" and g: "settles (fa_ID ` set ?run) g"
      and rows3: "w_fix_actions w3 = map g (w_fix_actions w)" unfolding w3_def by blast
  have x3: "o_executed w3 = o_executed w @ map (exec_action sid) ?run"
    unfolding w3_def by (rule executed_fold)
  have nf3: "w_faults w3 = []" using f3 assms(1) by (simp add: exec_frame_def)
  have st3: "status_of w3 sid = Some StatusFixExecuting" "sid \<notin> set (w_locked w3)"
    using f3 assms(3,4) by (simp_all add: exec_frame_def status_of_same [of w3 w])
  define w4 where "w4 = moved sid StatusFixExecuting StatusVerifying w3"
  have "next_status h StatusFixExecuting EventExecuteComplete = Some StatusVerifying" for h
    by (simp add: next_status_def ValidTransitions_def)
  then have T: "Transition sid EventExecuteComplete w3 = (Inr StatusVerifying, w4)"
    using st3 by (simp add: Transition_no_fault [OF nf3] transition_result_def w4_def)
  have reads: "FixActionDAO_GetBySessionID sid w = (Inr (fixes_of sid w), w)" "SessionDAO_GetByID sid w = (Inr s, w)"
    using assms(1) s by (simp_all add: GetByID_no_fault)
  have R: "r = None \<and> (w' = w4 \<or> (\<exists>e. w' = webhook_Notify e w4))"
    using assms(5) by (cases "d_has_webhook d") (auto simp: ExecuteFixActions_def Let_def reads T w3_def [symmetric])
  then have same: "w_fix_actions w' = w_fix_actions w4" "status_of w' = status_of w4" "o_executed w' = o_executed w4"
    using notify_frame(1,2) executed_notify by metis+
  have rows: "w_fix_actions w' = map g (w_fix_actions w)"
    using same(1) rows3 moved_simps(2) [of w3 sid StatusFixExecuting StatusVerifying]
    by (simp add: engine_frame_def w4_def)
  have "status_of w4 = (status_of w3)(sid \<mapsto> StatusVerifying)"
    unfolding w4_def by (rule status_of_update [OF moved_simps(1) st3(1)])
  then have V: "status_of w' sid = Some StatusVerifying" using same(2) by simp
  have X: "o_executed w' = o_executed w @ map (exec_action sid) ?run"
    using same(3) x3 executed_Transition [OF T] by simp
  have member: "fa_ID fa \<in> fa_ID ` set ?run \<longleftrightarrow> fa_SessionID fa = sid \<and> may_execute fa" if "fa \<in> set (w_fix_actions w)" for fa
    using that assms(2) by (auto simp: fixes_of_def distinct_map inj_on_def)
  have G: "\<forall>fa \<in> set (w_fix_actions w). if fa_SessionID fa = sid \<and> may_execute fa
       then fa_ID (g fa) = fa_ID fa \<and> fa_ExecutionStatus (g fa) \<in> {ExecStatusSucceeded, ExecStatusFailed}
       else g fa = fa"
  proof
    fix fa assume "fa \<in> set (w_fix_actions w)"
    from member [OF this] g [unfolded settles_def, THEN spec, of fa]
    show "if fa_SessionID fa = sid \<and> may_execute fa
       then fa_ID (g fa) = fa_ID fa \<and> fa_ExecutionStatus (g fa) \<in> {ExecStatusSucceeded, ExecStatusFailed}
       else g fa = fa" by (auto simp: gate_columns_def split: if_splits)
  qed
  have none_left: "filter may_execute (fixes_of sid w2) = []" if "w_fix_actions w2 = w_fix_actions w'" for w2 :: "'a orch"
  proof -
    have "\<not> (fa_SessionID (g fa) = sid \<and> may_execute (g fa))" if "fa \<in> set (w_fix_actions w)" for fa
      using G that settled_gate [OF g] by (auto simp: may_execute_def split: if_splits)
    with that rows show ?thesis by (auto simp: fixes_of_def filter_empty_conv)
  qed
  have again: "o_executed (snd (ExecuteFixActions d sid w2)) = o_executed w2" if "w_fix_actions w2 = w_fix_actions w'" for w2
    by (rule executed_ExecuteFixActions [of d sid w2, OF surjective_pairing]) (simp_all add: none_left [OF that])
  show ?thesis using R V X rows G again by blast
qed

text \<open>C14 (execute_spec): on a database that answers, \<open>ExecuteFixActions\<close> on a session in FIX_EXECUTING
  hands exactly the actions that may execute to the executor, once and in the order of their sequence
  numbers, whatever the executor and the ticket system answer.  Afterwards each of them is SUCCEEDED or
  FAILED, every other row is unchanged, the session is in VERIFYING, and running the function again
  executes nothing.\<close>

theorem execute_spec:
  assumes "w_faults w = []" and "distinct (map fa_ID (w_fix_actions w))"
    and "status_of w sid = Some StatusFixExecuting" and "sid \<notin> set (w_locked w)"
    and "ExecuteFixActions d sid w = (r, w')"
  shows "r = None \<and> status_of w' sid = Some StatusVerifying \<and>
    o_executed w' = o_executed w @ map (exec_action sid) (filter may_execute (fixes_of sid w)) \<and>
    (\<exists>g. w_fix_actions w' = map g (w_fix_actions w) \<and> (\<forall>fa \<in> set (w_fix_actions w).
       if fa_SessionID fa = sid \<and> may_execute fa
       then fa_ID (g fa) = fa_ID fa \<and> fa_ExecutionStatus (g fa) \<in> {ExecStatusSucceeded, ExecStatusFailed}
       else g fa = fa)) \<and>
    (\<forall>w2. w_fix_actions w2 = w_fix_actions w' \<longrightarrow> o_executed (snd (ExecuteFixActions d sid w2)) = o_executed w2)"
  using assms by (rule execute_run)

theorem execute_spec_witness:
  "o_executed (snd (ExecuteFixActions sample_deps 1 (sample_orch [sample_session 1 StatusFixExecuting 5]
     [sample_fix 2 1 RiskHigh ExecStatusNotStarted, sample_fix 1 1 RiskLow ExecStatusNotStarted])))
   = [exec_action 1 (sample_fix 1 1 RiskLow ExecStatusNotStarted)]"
proof -
  let ?w = "sample_orch [sample_session 1 StatusFixExecuting 5]
     [sample_fix 2 1 RiskHigh ExecStatusNotStarted, sample_fix 1 1 RiskLow ExecStatusNotStarted]"
  obtain r w' where 1: "ExecuteFixActions sample_deps 1 ?w = (r, w')" by force
  have "w_faults ?w = []" "distinct (map fa_ID (w_fix_actions ?w))" "1 \<notin> set (w_locked ?w)"
    "status_of ?w 1 = Some StatusFixExecuting" "o_executed ?w = []"
    by (simp_all add: sample_orch_def sample_fix_def sample_session_def status_of_def find_session_def)
  with execute_spec [OF _ _ _ _ 1]
  have "o_executed w' = map (exec_action 1) (filter may_execute (fixes_of 1 ?w))" by simp
  also have "filter may_execute (fixes_of 1 ?w) = [sample_fix 1 1 RiskLow ExecStatusNotStarted]"
    by (simp add: fixes_of_def sample_orch_def sample_fix_def may_execute_def)
  finally show ?thesis using 1 by simp
qed

end
