(* ===== verification/Handlers_Spec.thy ===== *)
theory Handlers_Spec imports Execution_Spec begin

text \<open>
  Properties of the HTTP handlers and of the approval gate: creation, retry and listing of sessions, the
  wire numbers of the statuses, which approvals the gate requests, and what a decision does.
\<close>

lemma increment_status:
  assumes "increment_retry i w = Inr w'"
  shows "status_of w' = status_of w"
proof
  fix j
  from assms have w': "w' = set_session i (put_retry (w_now w)) w"
    by (auto simp: increment_retry_def split: option.splits if_splits)
  show "status_of w' j = status_of w j"
    unfolding w' status_of_def find_session_def set_session_def
    by (simp add: retry_rows.find_put option.map_comp comp_def put_retry_def)
qed

lemma status_pop [simp]: "status_of (pop_fault w) = status_of w"
  by (rule status_of_same) simp

text \<open>The row stored is what the columns make of the session returned; when the answer of the insert is
  lost it is stored although an error is returned.\<close>

lemma session_create_cases:
  assumes "SessionDAO_Create svc trig w = (q, w1)"
  shows "case q of
      Inl e \<Rightarrow> w_sessions w1 = w_sessions w \<or> (\<not> no_lost w \<and> (\<exists>row. w_sessions w1 = w_sessions w @ [row] \<and>
        find_session (s_ID row) w = None \<and> s_Status row = StatusCreated \<and> varchar 128 svc = Some (s_TargetService row)))
    | Inr s \<Rightarrow> (\<exists>row. fit_session s = Some row \<and> w_sessions w1 = w_sessions w @ [row]) \<and> find_session (s_ID s) w = None \<and>
        s_Status s = StatusCreated \<and> s_TargetService s = svc \<and> s_RetryCount s = 0"
proof -
  obtain i w2 where 2: "uuid_New w = (i, w2)" by force
  let ?s = "\<lparr>s_ID = i, s_Status = StatusCreated, s_TargetService = svc,
              s_TriggerType = (if trig = [] then TriggerManual else trig), s_RetryCount = 0, s_ReportURL = None,
              s_CreatedAt = w_now w2, s_UpdatedAt = w_now w2\<rparr>"
  obtain err w3 where 3: "db_exec (fitted fit_session insert_session ?s) w2 = (err, w3)" by force
  have ss: "w_sessions w2 = w_sessions w" "no_lost w \<Longrightarrow> no_lost w2" using 2 by (auto simp: uuid_New_def)
  have r: "q = (case err of Some e \<Rightarrow> Inl (wrap ''session create: '' e) | None \<Rightarrow> Inr ?s)" "w1 = w3"
    using assms 2 3 by (auto simp: SessionDAO_Create_def Let_def split: option.splits)
  have ins: "\<exists>row. fit_session ?s = Some row \<and> w_sessions w3 = w_sessions w @ [row] \<and> find_session i w = None"
    if "fitted fit_session insert_session ?s (pop_fault w2) = Inr w3"
  proof -
    from fitted_ok [OF that] obtain row where row: "fit_session ?s = Some row" "insert_session row (pop_fault w2) = Inr w3" by blast
    from fit_session_keys [OF row(1)] have "s_ID row = i" by simp
    with row ss(1) show ?thesis by (auto simp: insert_session_def find_session_def split: if_splits)
  qed
  from 3 show ?thesis
  proof (cases rule: db_exec_cases)
    case (err e)
    with r ss show ?thesis by simp
  next
    case ok
    with r ins show ?thesis by auto
  next
    case (lost m)
    from ins [OF lost(3)] obtain row where row: "fit_session ?s = Some row" "w_sessions w3 = w_sessions w @ [row]"
      "find_session i w = None" by blast
    have "s_ID row = i" "s_Status row = StatusCreated" "varchar 128 svc = Some (s_TargetService row)"
      using row(1) by (auto simp: fit_session_def split: option.splits)
    moreover have "\<not> no_lost w" using ss(2) lost(2) no_lost_answer by blast
    ultimately show ?thesis using r lost(1) row by auto
  qed
qed

section \<open>Sessions\<close>

lemma table_no_retry: "list_all (\<lambda>(s, m). map_of m EventRetry = None) ValidTransitions"
  by code_simp

lemma next_status_retry: "next_status h s EventRetry = None"
proof (cases "map_of ValidTransitions s")
  case (Some m)
  with table_no_retry have "map_of m EventRetry = None" by (auto simp: list_all_iff dest: map_of_SomeD)
  with Some show ?thesis by (simp add: next_status_def)
qed (simp add: next_status_def)

lemma Transition_retry:
  "Transition i EventRetry w = (r, w') \<Longrightarrow> \<exists>e. r = Inl e \<and> w_sessions w' = w_sessions w \<and> status_of w' = status_of w"
  by (erule Transition_cases) (auto simp: next_status_retry intro: status_of_same)

text \<open>A retry never succeeds.  Whatever the state and the driver, the handler
  answers no 200, no session changes its status, and yet, when the driver answers, the retry counter of
  the session has been incremented.\<close>

theorem RetrySession_fails:
  assumes "RetrySession d idStr w = (r, w')"
  shows "(\<forall>b. r \<noteq> Resp 200 b) \<and> status_of w' = status_of w \<and>
    (\<forall>i s. w_faults w = [] \<and> uuid_Parse (d_uuid d) idStr = Inr i \<and> find_session i w = Some s \<and>
       s_RetryCount s < 2147483647 \<longrightarrow>
       map_option s_RetryCount (find_session i w') = Some (s_RetryCount s + 1))"
proof (cases "uuid_Parse (d_uuid d) idStr")
  case (Inl e)
  with assms show ?thesis by (auto simp: RetrySession_def with_session_id_def badRequest_def)
next
  case (Inr i)
  obtain q w1 where 1: "SessionDAO_IncrementRetry i w = (q, w1)" by force
  obtain t w2 where 2: "Transition i EventRetry w1 = (t, w2)" by force
  from Transition_retry [OF 2] obtain e where t: "t = Inl e" "status_of w2 = status_of w1"
    and ses: "w_sessions w2 = w_sessions w1" by blast
  have st: "status_of w1 = status_of w"
    using 1 by (auto simp: SessionDAO_IncrementRetry_def split: prod.splits option.splits
        elim!: db_exec_cases dest!: increment_status simp: status_pop)
  have "w_faults w = [] \<Longrightarrow> find_session i w = Some s \<Longrightarrow> s_RetryCount s < 2147483647 \<Longrightarrow>
      (\<exists>n. q = Inr n) \<and> map_option s_RetryCount (find_session i w1) = Some (s_RetryCount s + 1)" for s
    using 1 by (auto simp: SessionDAO_IncrementRetry_def db_no_fault pop_fault_id increment_retry_def
        find_session_def set_session_def retry_rows.find_put put_retry_def)
  moreover have "w' = w1 \<and> (\<exists>x. q = Inl x) \<or> w' = w2 \<and> (\<exists>n. q = Inr n)" "\<forall>b. r \<noteq> Resp 200 b"
    using assms Inr 1 2 t(1)
    by (auto simp: RetrySession_def with_session_id_def badRequest_def notFound_def internalError_def
        split: sum.splits if_splits)
  ultimately show ?thesis
    using Inr st t(2) ses by (auto simp: find_session_def)
qed

theorem RetrySession_fails_witness:
  "map_option s_RetryCount (find_session 1 (snd (RetrySession sample_deps ''i''
     (sample_orch [sample_session 1 StatusFailed 5] [])))) = Some 1"
proof -
  let ?w = "sample_orch [sample_session 1 StatusFailed 5] []"
  obtain r w' where 1: "RetrySession sample_deps ''i'' ?w = (r, w')" by force
  have "w_faults ?w = []" "uuid_Parse (d_uuid sample_deps) ''i'' = Inr 1"
    "find_session 1 ?w = Some (sample_session 1 StatusFailed 5)" "s_RetryCount (sample_session 1 StatusFailed 5) = 0"
    by (simp_all add: sample_orch_def sample_deps_def sample_session_def find_session_def)
  with RetrySession_fails [OF 1] have "map_option s_RetryCount (find_session 1 w') = Some (0 + 1)" by fastforce
  with 1 show ?thesis by simp
qed

text \<open>Creating a session is atomic: under every pattern of driver failures, either the answer is a 201 with a
  new session in CREATED for the requested service, whose row is appended to the table, or it is a 4xx or 5xx and
  the table is unchanged (unless the answer of the insert was lost, when the row may be there); an empty target
  service is always refused with a 400.\<close>

theorem CreateSession_atomic:
  assumes "CreateSession d body w = (r, w')"
  shows "(case r of Resp code b \<Rightarrow>
      if code = 201 then (\<exists>svc s row. body = Inr svc \<and> svc \<noteq> [] \<and> w_sessions w' = w_sessions w @ [row] \<and>
          fit_session s = Some row \<and> find_session (s_ID s) w = None \<and> s_Status s = StatusCreated \<and>
          s_TargetService s = svc \<and> s_RetryCount s = 0 \<and> b = SessionBody (toSessionProto d s))
      else (code = 400 \<or> code = 500) \<and> (no_lost w \<longrightarrow> w_sessions w' = w_sessions w)
    | Panic \<Rightarrow> False) \<and> (body = Inr [] \<longrightarrow> r = badRequest ''target_service is required'')"
proof (cases "\<exists>svc. body = Inr svc \<and> svc \<noteq> []")
  case False
  with assms show ?thesis by (cases body) (auto simp: CreateSession_def badRequest_def)
next
  case True
  then obtain svc where svc: "body = Inr svc" "svc \<noteq> []" by blast
  obtain q w1 where 1: "SessionDAO_Create svc TriggerManual w = (q, w1)" by force
  note C = session_create_cases [OF 1]
  show ?thesis
  proof (cases q)
    case (Inl e)
    with assms svc 1 C show ?thesis by (auto simp: CreateSession_def internalError_def)
  next
    case (Inr s)
    with assms svc 1 have "r = Resp 201 (SessionBody (toSessionProto d s))" "w' = w1"
      by (auto simp: CreateSession_def)
    with Inr svc C show ?thesis by auto
  qed
qed

theorem CreateSession_atomic_witness:
  "\<exists>r w'. CreateSession sample_deps (Inr ''cart'') ((sample_orch [] [])\<lparr>w_faults := [Fault ''connection refused'' 0]\<rparr>)
     = (r, w') \<and> r \<noteq> Panic"
proof -
  obtain r w' where 1: "CreateSession sample_deps (Inr ''cart'')
      ((sample_orch [] [])\<lparr>w_faults := [Fault ''connection refused'' 0]\<rparr>) = (r, w')" by force
  from CreateSession_atomic [OF 1] have "r \<noteq> Panic" by (auto split: response.splits)
  with 1 show ?thesis by blast
qed

text \<open>The wire numbers of the statuses are faithful.  Every status of the
  engine has a number other than 0 (unspecified), distinct statuses have distinct numbers, and the filter
  of a list request that names the number selects that status.\<close>

theorem status_numbers_roundtrip:
  "map (\<lambda>(s, m). statusProtoToString (statusToProto s)) ValidTransitions = map fst ValidTransitions \<and>
   distinct (map (\<lambda>(s, m). statusToProto s) ValidTransitions) \<and>
   0 \<notin> set (map (\<lambda>(s, m). statusToProto s) ValidTransitions)"
  by (intro conjI; code_simp)

lemma pages_cover:
  assumes "0 < n"
  shows "concat (map (\<lambda>p. take n (drop ((p - 1) * n) xs)) [1 ..< Suc k]) = take (k * n) xs"
proof (induction k)
  case (Suc k)
  have "[1 ..< Suc (Suc k)] = [1 ..< Suc k] @ [Suc k]" by simp
  with Suc show ?case by (simp add: take_add add.commute [of n])
qed simp

text \<open>On a database that answers, the pages of a list request, taken in order
  with a page size of \<open>n\<close>, are together exactly the sessions that match the filter, newest first and
  each as often as it is stored, once \<open>k\<close> pages reach the reported total; each page has at most \<open>n\<close>.\<close>

theorem ListSessions_pages:
  assumes "w_faults w = []" and "0 < n"
    and "\<And>p. rows p = (case fst (SessionDAO_List t (f\<lparr>lf_Page := int p, lf_PageSize := int n\<rparr>) w) of
       Inr (page, cnt) \<Rightarrow> page | Inl e \<Rightarrow> [])"
    and "length (filter (list_where t f) (w_sessions w)) \<le> k * n"
  shows "concat (map rows [1 ..< Suc k]) = sort_key (\<lambda>s. - s_CreatedAt s) (filter (list_where t f) (w_sessions w))
    \<and> (\<forall>p > 0. length (rows p) \<le> n \<and> fst (SessionDAO_List t (f\<lparr>lf_Page := int p, lf_PageSize := int n\<rparr>) w) =
        Inr (rows p, length (filter (list_where t f) (w_sessions w))))"
proof -
  let ?all = "sort_key (\<lambda>s. - s_CreatedAt s) (filter (list_where t f) (w_sessions w))"
  have wh: "list_where t (f\<lparr>lf_Page := a, lf_PageSize := b\<rparr>) = list_where t f" for a b
    by (rule ext) (simp add: list_where_def)
  have L: "fst (SessionDAO_List t (f\<lparr>lf_Page := int p, lf_PageSize := int n\<rparr>) w) =
      Inr (take n (drop ((p - 1) * n) ?all), length (filter (list_where t f) (w_sessions w)))" if "p > 0" for p
  proof -
    have "nat ((int p - 1) * int n) = (p - 1) * n" using that by (simp add: nat_mult_distrib of_nat_diff [symmetric] nat_diff_distrib)
    then show ?thesis
      using that assms(1,2) by (simp add: SessionDAO_List_def Let_def db_no_fault pop_fault_id list_page_def list_page_size_def list_rows_def wh)
  qed
  then have R: "rows p = take n (drop ((p - 1) * n) ?all)" if "p > 0" for p
    using that by (simp add: assms(3))
  have M: "map rows [1 ..< Suc k] = map (\<lambda>p. take n (drop ((p - 1) * n) ?all)) [1 ..< Suc k]"
    by (rule map_cong) (simp_all add: R del: upt_Suc)
  have "concat (map rows [1 ..< Suc k]) = take (k * n) ?all"
    unfolding M by (rule pages_cover [OF assms(2)])
  also have "\<dots> = ?all" using assms(4) by simp
  finally show ?thesis using L R by simp
qed

theorem ListSessions_pages_witness:
  "let w = sample_db [sample_session 1 StatusCreated 5, sample_session 2 StatusFailed 9, sample_session 3 StatusCreated 7] [];
       f = \<lparr>lf_Status = StatusCreated, lf_TargetService = [], lf_From = 0, lf_To = 0, lf_Keyword = [], lf_Page = 1, lf_PageSize = 1\<rparr>
   in concat (map (\<lambda>p. case fst (SessionDAO_List (\<lambda>i. []) (f\<lparr>lf_Page := int p, lf_PageSize := int 1\<rparr>) w) of
       Inr (page, cnt) \<Rightarrow> page | Inl e \<Rightarrow> []) [1 ..< Suc 2]) = [sample_session 3 StatusCreated 7, sample_session 1 StatusCreated 5]"
proof -
  let ?w = "sample_db [sample_session 1 StatusCreated 5, sample_session 2 StatusFailed 9, sample_session 3 StatusCreated 7] []"
  let ?f = "\<lparr>lf_Status = StatusCreated, lf_TargetService = [], lf_From = 0, lf_To = 0, lf_Keyword = [], lf_Page = 1, lf_PageSize = 1\<rparr>"
  have rows: "filter (list_where (\<lambda>i. []) ?f) (w_sessions ?w) = [sample_session 1 StatusCreated 5, sample_session 3 StatusCreated 7]"
    by (simp add: sample_db_def sample_session_def list_where_def)
  then have len: "length (filter (list_where (\<lambda>i. []) ?f) (w_sessions ?w)) \<le> 2 * 1" by simp
  have nf: "w_faults ?w = []" by (simp add: sample_db_def)
  have srt: "sort_key (\<lambda>s. - s_CreatedAt s) [sample_session 1 StatusCreated 5, sample_session 3 StatusCreated 7]
    = [sample_session 3 StatusCreated 7, sample_session 1 StatusCreated 5]"
    by (simp add: sample_session_def)
  show ?thesis
    unfolding Let_def
    using ListSessions_pages [OF nf zero_less_one refl len, THEN conjunct1] unfolding rows srt .
qed

section \<open>The approval gate\<close>

text \<open>The requests that one run of the gate makes, in order, with the answers of the client and the state in
  which it leaves the outside world; and the actions granted a token.\<close>

fun gate_requests :: "'e deps \<Rightarrow> uuid \<Rightarrow> time \<Rightarrow> FixAction list \<Rightarrow> 'e \<Rightarrow> string result list \<times> 'e" where
  "gate_requests d sid now [] e = ([], e)"
| "gate_requests d sid now (fa # fas) e =
     (case d_Request d (approval_request d sid fa) now e of (r, e1) \<Rightarrow>
      (case gate_requests d sid now fas e1 of (rs, e2) \<Rightarrow> (r # rs, e2)))"

fun granted :: "FixAction list \<Rightarrow> string result list \<Rightarrow> (FixAction \<times> string) list" where
  "granted (fa # fas) (Inr token # rs) = (fa, token) # granted fas rs"
| "granted (fa # fas) (Inl e # rs) = granted fas rs"
| "granted fas rs = []"

definition gate_row :: "uuid \<Rightarrow> uuid \<Rightarrow> time \<Rightarrow> FixAction \<times> string \<Rightarrow> Approval" where
  "gate_row i sid t g = \<lparr>ap_ID = i, ap_SessionID = sid, ap_FixActionID = fa_ID (fst g),
     ap_Status = ApprovalStatusPending, ap_RequestToken = snd g, ap_RequestedAt = t,
     ap_DecidedAt = None, ap_DecidedBy = None\<rparr>"

text \<open>The database after the actions of \<open>gs\<close> were granted tokens.\<close>

definition gated :: "uuid \<Rightarrow> (FixAction \<times> string) list \<Rightarrow> 'e \<Rightarrow> 'e orch \<Rightarrow> 'e orch" where
  "gated sid gs e w = w\<lparr>w_ctr := w_ctr w + length gs, o_env := e,
     w_approvals := w_approvals w @ map2 (\<lambda>i g. gate_row i sid (w_now w) g) (map (w_fresh w) [w_ctr w ..< w_ctr w + length gs]) gs,
     w_fix_actions := tbl_update (\<lambda>r. fa_ID r \<in> fa_ID ` fst ` set gs) (put_fix_approval (ApprovalStatusPending, w_now w)) (w_fix_actions w)\<rparr>"

lemma tbl_update_none: "tbl_update (\<lambda>r. False) f t = t"
  by (simp add: tbl_update_def)

lemma gated_Nil: "gated sid [] e w = w\<lparr>o_env := e\<rparr>"
  by (cases w) (simp add: gated_def tbl_update_none)

lemma ids_upt: "[c ..< Suc c] = [c]" "[c ..< Suc (c + n)] = c # [Suc c ..< Suc (c + n)]"
  by simp (rule upt_conv_Cons, simp)

lemma gated_Cons:
  "gated sid gs e (gated sid [g] e1 w) = gated sid (g # gs) e w"
  unfolding gated_def by (cases w) (auto simp: ids_upt tbl_update_def simp del: upt_Suc)

lemma gate_one_failed:
  "d_Request d (approval_request d sid fa) (w_now w) (o_env w) = (Inl x, e) \<Longrightarrow> gate_one d sid fa w = gated sid [] e w"
  by (simp add: gate_one_def call_env_def gated_Nil)

lemma gate_one_ok:
  assumes "w_faults w = []" and "d_Request d (approval_request d sid fa) (w_now w) (o_env w) = (Inr token, e)"
    and "w_fresh w (w_ctr w) \<notin> ap_ID ` set (w_approvals w)"
    and "token \<notin> ap_RequestToken ` set (w_approvals w)" and "varchar 128 token = Some token"
    and "find_session sid w \<noteq> None" and "find_fix (fa_ID fa) w \<noteq> None"
  shows "gate_one d sid fa w = gated sid [(fa, token)] e w"
proof -
  have e: "call_env (d_Request d (approval_request d sid fa) (w_now w)) w = (Inr token, w\<lparr>o_env := e\<rparr>)"
    using assms(2) by (simp add: call_env_def)
  have "find_approval (w_fresh w (w_ctr w)) w = None" using assms(3) by (auto simp: find_approval_None)
  then show ?thesis
    using assms e
    by (auto simp: gate_one_def ApprovalDAO_Create_def uuid_New_def Let_def db_no_fault pop_fault_id insert_approval_def
        fit_approval_def opt_column_def
        find_approval_def find_session_def find_fix_def updates_no_fault set_fix_def gate_row_def image_def gated_def)
qed

lemma gate_rows_columns:
  "length is = length gs \<Longrightarrow>
   map (\<lambda>a. (ap_SessionID a, ap_FixActionID a, ap_Status a, ap_RequestToken a, ap_RequestedAt a, ap_DecidedAt a, ap_DecidedBy a))
     (map2 (\<lambda>i g. gate_row i sid t g) is gs) =
   map (\<lambda>(fa, token). (sid, fa_ID fa, ApprovalStatusPending, token, t, None, None)) gs"
  by (induction "is" gs rule: list_induct2) (auto simp: gate_row_def)

lemma gate_fold_ok:
  assumes "w_faults w = []" and "gate_requests d sid (w_now w) fas (o_env w) = (rs, e)"
    and "distinct (map ap_ID (w_approvals w) @ map (w_fresh w) [w_ctr w ..< w_ctr w + length (granted fas rs)])"
    and "distinct (map ap_RequestToken (w_approvals w) @ map snd (granted fas rs))"
    and "\<forall>(fa, token) \<in> set (granted fas rs). varchar 128 token = Some token"
    and "find_session sid w \<noteq> None" and "\<forall>fa \<in> set fas. find_fix (fa_ID fa) w \<noteq> None"
  shows "fold (gate_one d sid) fas w = gated sid (granted fas rs) e w"
  using assms
proof (induction fas arbitrary: w rs)
  case Nil
  then show ?case by (cases w) (simp add: gated_Nil)
next
  case (Cons fa fas)
  obtain r e1 where r: "d_Request d (approval_request d sid fa) (w_now w) (o_env w) = (r, e1)" by force
  obtain rs1 where rs1: "gate_requests d sid (w_now w) fas e1 = (rs1, e)" and rs: "rs = r # rs1"
    using Cons.prems(2) r by (auto split: prod.splits)
  let ?w1 = "case r of Inl x \<Rightarrow> gated sid [] e1 w | Inr token \<Rightarrow> gated sid [(fa, token)] e1 w"
  let ?i = "w_fresh w (w_ctr w)"
  have "gate_one d sid fa w = ?w1"
  proof (cases r)
    case (Inl x)
    with r show ?thesis by (simp add: gate_one_failed)
  next
    case (Inr token)
    have "?i \<notin> ap_ID ` set (w_approvals w)" "token \<notin> ap_RequestToken ` set (w_approvals w)" "varchar 128 token = Some token"
      using Cons.prems(3-5) unfolding rs Inr by (auto simp: ids_upt simp del: upt_Suc)
    from gate_one_ok [OF Cons.prems(1) r [unfolded Inr] this Cons.prems(6)] Cons.prems(7) Inr show ?thesis by simp
  qed
  moreover have "fold (gate_one d sid) fas ?w1 = gated sid (granted fas rs1) e ?w1"
  proof (rule Cons.IH)
    show "w_faults ?w1 = []" using Cons.prems(1) by (cases r) (simp_all add: gated_def)
    show "gate_requests d sid (w_now ?w1) fas (o_env ?w1) = (rs1, e)" using rs1 by (cases r) (simp_all add: gated_def)
    show "distinct (map ap_ID (w_approvals ?w1) @ map (w_fresh ?w1) [w_ctr ?w1 ..< w_ctr ?w1 + length (granted fas rs1)])"
      using Cons.prems(3) unfolding rs
      by (cases r) (auto simp: ids_upt gated_def gate_row_def simp del: upt_Suc)
    show "distinct (map ap_RequestToken (w_approvals ?w1) @ map snd (granted fas rs1))"
      using Cons.prems(4) unfolding rs by (cases r) (auto simp: gated_def gate_row_def)
    show "\<forall>(fa, token) \<in> set (granted fas rs1). varchar 128 token = Some token"
      using Cons.prems(5) unfolding rs by (cases r) auto
    show "find_session sid ?w1 \<noteq> None" using Cons.prems(6) by (cases r) (simp_all add: gated_def find_session_def)
    show "\<forall>fa \<in> set fas. find_fix (fa_ID fa) ?w1 \<noteq> None"
      using Cons.prems(7) by (cases r) (simp_all add: gated_def find_fix_def fix_approval_rows.find_present)
  qed
  moreover have "gated sid (granted fas rs1) e ?w1 = gated sid (granted (fa # fas) rs) e w"
    unfolding rs
    by (cases r) (simp_all add: gated_Cons gated_Nil, simp add: gated_def)
  ultimately show ?case by simp
qed

text \<open>What the gate answers, and that the notification leaves the tables alone.\<close>

lemma notify_env [simp]: "o_env (webhook_Notify e w) = o_env w"
proof -
  obtain rows w1 where 1: "WebhookDAO_ListEnabled w = (rows, w1)" by force
  have "reads_only w w1"
    using 1 by (auto simp: WebhookDAO_ListEnabled_def query_columns_def missing_column_def
        split: prod.splits sum.splits if_splits option.splits elim!: db_query_cases)
  then have "o_env w1 = o_env w" using reads_only_fields(10) by (cases w; cases w1) fastforce
  with 1 show ?thesis by (cases rows) (auto simp: webhook_Notify_def WebhookNotifier_Notify_def)
qed

lemma gate_returns:
  assumes "w_faults w = []" and "find_session sid w = Some s" and "TriggerApprovalGate d sid w = (r, w')"
    and "w1 = fold (gate_one d sid) (filter needs_gate (fixes_of sid w)) w"
  shows "r = None" and "w_approvals w' = w_approvals w1" and "w_fix_actions w' = w_fix_actions w1"
    and "o_env w' = o_env w1"
proof -
  have "r = None \<and> (w' = w1 \<or> (\<exists>e. w' = webhook_Notify e w1))"
  proof (cases "filter needs_gate (fixes_of sid w) = []")
    case True
    then have "(r, w') = (None, w)"
      unfolding assms(3) [symmetric] by (simp add: TriggerApprovalGate_def GetByID_no_fault [OF assms(1)])
    with True show ?thesis by (simp add: assms(4))
  next
    case False
    have "\<exists>e. (r, w') = (None, if d_has_webhook d then webhook_Notify e w1 else w1)"
      unfolding assms(3) [symmetric] assms(4) using False assms(2)
      by (simp add: TriggerApprovalGate_def GetByID_no_fault [OF assms(1)] Let_def del: fold_simps) blast
    then show ?thesis by (auto split: if_splits)
  qed
  then show "r = None" "w_approvals w' = w_approvals w1" "w_fix_actions w' = w_fix_actions w1" "o_env w' = o_env w1"
    using notify_frame notify_env by metis+
qed

lemma granted_subset: "fst ` set (granted fas rs) \<subseteq> set fas"
  by (induction fas rs rule: granted.induct) auto

lemma needs_gate_marked: "\<not> needs_gate (fa\<lparr>fa_ApprovalStatus := ApprovalStatusPending, fa_UpdatedAt := t\<rparr>)"
  by (simp add: needs_gate_def)

text \<open>After the marks, the actions that still need the gate are those not granted.\<close>

lemma still_gated:
  assumes "w_fix_actions w' = map (\<lambda>fa. if fa_ID fa \<in> ids
      then fa\<lparr>fa_ApprovalStatus := ApprovalStatusPending, fa_UpdatedAt := t\<rparr> else fa) (w_fix_actions w)"
  shows "filter needs_gate (fixes_of sid w') = filter (\<lambda>fa. fa_ID fa \<notin> ids) (filter needs_gate (fixes_of sid w))"
proof -
  let ?m = "\<lambda>fa. if fa_ID fa \<in> ids then fa\<lparr>fa_ApprovalStatus := ApprovalStatusPending, fa_UpdatedAt := t\<rparr> else fa"
  have one: "filter (\<lambda>fa. fa_SessionID fa = sid \<and> needs_gate fa) (map ?m rows) =
      filter (\<lambda>fa. fa_ID fa \<notin> ids \<and> fa_SessionID fa = sid \<and> needs_gate fa) rows" for rows
    using needs_gate_marked by (induction rows) auto
  have swap: "filter needs_gate (sort_key fa_Seq rows) = sort_key fa_Seq (filter needs_gate rows)" for rows
    by (simp add: filter_sort)
  show ?thesis
    unfolding fixes_of_def swap filter_filter assms filter_sort
    using one by (simp add: conj_commute conj_left_commute)
qed

text \<open>C15 (gate_spec): on a database that answers and with any approval client, the gate makes exactly one request
  per HIGH-risk action of the session that has no approval, in the order of the sequence numbers: the state
  in which it leaves the client is that of these requests, made once each.  Every token that the client
  returns (new, at most 128 characters) is stored as a PENDING approval of its action, which is marked
  PENDING; an action whose request fails is left alone, and so are the other rows.  What a second run of
  the gate would request are the actions whose request failed, and no other.\<close>

theorem gate_spec:
  assumes "w_faults w = []" and "find_session sid w \<noteq> None" and "distinct (map fa_ID (w_fix_actions w))"
    and "high = filter needs_gate (fixes_of sid w)"
    and "gate_requests d sid (w_now w) high (o_env w) = (results, e)"
    and "distinct (map ap_ID (w_approvals w) @ map (w_fresh w) [w_ctr w ..< w_ctr w + length (granted high results)])"
    and "distinct (map ap_RequestToken (w_approvals w) @ map snd (granted high results))"
    and "\<forall>(fa, token) \<in> set (granted high results). varchar 128 token = Some token"
    and "TriggerApprovalGate d sid w = (r, w')"
  shows "r = None \<and> o_env w' = e \<and> (\<exists>new. w_approvals w' = w_approvals w @ new \<and>
      map (\<lambda>a. (ap_SessionID a, ap_FixActionID a, ap_Status a, ap_RequestToken a, ap_RequestedAt a, ap_DecidedAt a, ap_DecidedBy a)) new =
      map (\<lambda>(fa, token). (sid, fa_ID fa, ApprovalStatusPending, token, w_now w, None, None)) (granted high results)) \<and>
    w_fix_actions w' = map (\<lambda>fa. if fa_ID fa \<in> fa_ID ` fst ` set (granted high results)
      then fa\<lparr>fa_ApprovalStatus := ApprovalStatusPending, fa_UpdatedAt := w_now w\<rparr> else fa) (w_fix_actions w) \<and>
    filter needs_gate (fixes_of sid w') = filter (\<lambda>fa. fa_ID fa \<notin> fa_ID ` fst ` set (granted high results)) high"
proof -
  define w1 where "w1 = fold (gate_one d sid) high w"
  from assms(2) obtain s where s: "find_session sid w = Some s" by blast
  have "\<forall>fa \<in> set high. find_fix (fa_ID fa) w \<noteq> None" by (auto simp: assms(4) fixes_of_def find_fix_None)
  from gate_fold_ok [OF assms(1,5-8,2) this] have w1: "w1 = gated sid (granted high results) e w" by (simp add: w1_def)
  note same = gate_returns [OF assms(1) s assms(9) w1_def [unfolded assms(4)]]
  have rows: "w_fix_actions w' = map (\<lambda>fa. if fa_ID fa \<in> fa_ID ` fst ` set (granted high results)
      then fa\<lparr>fa_ApprovalStatus := ApprovalStatusPending, fa_UpdatedAt := w_now w\<rparr> else fa) (w_fix_actions w)"
    unfolding same w1 gated_def by (simp add: tbl_update_def)
  let ?new = "map2 (\<lambda>i g. gate_row i sid (w_now w) g)
      (map (w_fresh w) [w_ctr w ..< w_ctr w + length (granted high results)]) (granted high results)"
  have apps: "w_approvals w1 = w_approvals w @ ?new" unfolding w1 gated_def by simp
  have cols: "map (\<lambda>a. (ap_SessionID a, ap_FixActionID a, ap_Status a, ap_RequestToken a, ap_RequestedAt a, ap_DecidedAt a, ap_DecidedBy a)) ?new =
      map (\<lambda>(fa, token). (sid, fa_ID fa, ApprovalStatusPending, token, w_now w, None, None)) (granted high results)"
    by (rule gate_rows_columns) (simp only: length_map length_upt diff_add_inverse)
  have new: "\<exists>new. w_approvals w' = w_approvals w @ new \<and>
      map (\<lambda>a. (ap_SessionID a, ap_FixActionID a, ap_Status a, ap_RequestToken a, ap_RequestedAt a, ap_DecidedAt a, ap_DecidedBy a)) new =
      map (\<lambda>(fa, token). (sid, fa_ID fa, ApprovalStatusPending, token, w_now w, None, None)) (granted high results)"
    by (rule exI, rule conjI [OF _ cols]) (simp only: same(2) apps)
  have env: "o_env w' = e" unfolding same w1 by (simp add: gated_def)
  show ?thesis by (intro conjI same(1) env new rows) (simp only: still_gated [OF rows] assms(4))
qed

text \<open>The webhook client of \<open>internal/approval\<close>, with a source of random bytes: the third request fails
  because the source is exhausted.\<close>

definition webhook_request :: "ApprovalRequest \<Rightarrow> time \<Rightarrow> WebhookClient \<times> 8 word list list \<Rightarrow> string result \<times> (WebhookClient \<times> 8 word list list)" where
  "webhook_request rq now = (\<lambda>(c, entropy). (case entropy of
       [] \<Rightarrow> (case WebhookClient_RequestApproval defaultHTTPClient (\<lambda>i. []) (\<lambda>t. []) (Inl (ErrorString ''entropy'')) now rq c of
           (r, c1) \<Rightarrow> (r, (c1, [])))
     | bs # rest \<Rightarrow> (case WebhookClient_RequestApproval defaultHTTPClient (\<lambda>i. []) (\<lambda>t. []) (Inr bs) now rq c of
           (r, c1) \<Rightarrow> (r, (c1, rest)))))"

definition webhook_deps :: "(WebhookClient \<times> 8 word list list) deps" where
  "webhook_deps = \<lparr>d_uuid = d_uuid sample_deps, d_Request = webhook_request,
     d_Execute = (\<lambda>a t e. (Inl (ErrorString ''none''), e)), d_CreateIncident = (\<lambda>i t e. (Inr ''T-1'', e)),
     d_Publish = (\<lambda>m e. (None, e)), d_has_producer = True, d_has_webhook = False, d_has_eventLoop = True,
     d_discovery = None, d_report = d_report sample_deps, d_pandoc = (\<lambda>s. Inr s)\<rparr>"

definition webhook_orch :: "FixAction list \<Rightarrow> (WebhookClient \<times> 8 word list list) orch" where
  "webhook_orch fas = \<lparr>w_sessions = [sample_session 1 StatusAwaitingApproval 5], w_fix_actions = fas, w_approvals = [],
     w_events = [], w_kb = [], w_locked = [], w_faults = [], w_now = Hour, w_fresh = (\<lambda>n. of_nat (1000 + n)), w_ctr = 0,
     w_hooks = [], w_deliveries = [], w_hook_columns = migrated_hook_columns, w_delivery_columns = migrated_delivery_columns,
     o_env = (NewWebhookClient ''http://cb'', [replicate 16 1, replicate 16 255]), o_outbox = [], o_executed = [], o_notified = []\<rparr>"

theorem gate_spec_witness:
  "let w' = snd (TriggerApprovalGate webhook_deps 1 (webhook_orch (map (\<lambda>i. sample_fix i 1 RiskHigh ExecStatusNotStarted) [1, 2, 3])))
   in map (\<lambda>a. (ap_FixActionID a, ap_RequestToken a)) (w_approvals w') =
        [(1, ''01010101010101010101010101010101''), (2, ''ffffffffffffffffffffffffffffffff'')] \<and>
      map fa_ID (filter needs_gate (fixes_of 1 w')) = [3]"
proof -
  let ?fas = "map (\<lambda>i. sample_fix i 1 RiskHigh ExecStatusNotStarted) [1, 2, 3]"
  let ?w = "webhook_orch ?fas"
  obtain r w' where 1: "TriggerApprovalGate webhook_deps 1 ?w = (r, w')" by force
  have high: "?fas = filter needs_gate (fixes_of 1 ?w)"
    by (simp add: fixes_of_def webhook_orch_def sample_fix_def needs_gate_def)
  have rs: "fst (gate_requests webhook_deps 1 (w_now ?w) ?fas (o_env ?w)) =
      [Inr ''01010101010101010101010101010101'', Inr ''ffffffffffffffffffffffffffffffff'',
       Inl (wrap ''approval: token entropy: '' (ErrorString ''entropy''))]"
    by code_simp
  then obtain e where req: "gate_requests webhook_deps 1 (w_now ?w) ?fas (o_env ?w) =
      ([Inr ''01010101010101010101010101010101'', Inr ''ffffffffffffffffffffffffffffffff'',
       Inl (wrap ''approval: token entropy: '' (ErrorString ''entropy''))], e)"
    by (metis prod.collapse)
  have w: "w_faults ?w = []" "find_session 1 ?w \<noteq> None" "distinct (map fa_ID (w_fix_actions ?w))" "w_approvals ?w = []"
    "w_ctr ?w = 0" "w_fresh ?w 0 = 1000" "w_fresh ?w 1 = 1001"
    by (simp_all add: webhook_orch_def sample_fix_def sample_session_def find_session_def)
  from gate_spec [OF w(1,2,3) high req _ _ _ 1] w(4-)
  have "map (\<lambda>a. (ap_SessionID a, ap_FixActionID a, ap_Status a, ap_RequestToken a, ap_RequestedAt a, ap_DecidedAt a, ap_DecidedBy a)) (w_approvals w') =
      [(1, 1, ApprovalStatusPending, ''01010101010101010101010101010101'', w_now ?w, None, None),
       (1, 2, ApprovalStatusPending, ''ffffffffffffffffffffffffffffffff'', w_now ?w, None, None)]"
    "filter needs_gate (fixes_of 1 w') = [sample_fix 3 1 RiskHigh ExecStatusNotStarted]"
    by (simp_all add: varchar_short sample_fix_def)
  from arg_cong [OF this(1), of "map (\<lambda>(s, i, st, tok, t, d, b). (i, tok))"] arg_cong [OF this(2), of "map fa_ID"]
  show ?thesis unfolding Let_def 1 snd_conv by (simp add: comp_def sample_fix_def)
qed

lemma high_risk_count_approval:
  assumes "w_fix_actions w' = tbl_update P (put_fix_approval (st, t)) (w_fix_actions w)"
  shows "high_risk_count sid w' = high_risk_count sid w"
proof -
  have "length (filter Q (tbl_update P (put_fix_approval (st, t)) rows)) = length (filter Q rows)"
    if "\<And>r. Q (put_fix_approval (st, t) r) = Q r" for Q rows
    using that by (induction rows) auto
  then show ?thesis unfolding high_risk_count_def assms by simp
qed

section \<open>Decisions\<close>

lemma find_session_same: "w_sessions w' = w_sessions w \<Longrightarrow> find_session i w' = find_session i w"
  by (simp add: find_session_def)

text \<open>The tables after a decision, before the transition.\<close>

definition decided :: "string \<Rightarrow> string \<Rightarrow> Approval \<Rightarrow> 'a db_scheme \<Rightarrow> 'a db_scheme" where
  "decided decision who a w = (let w1 = set_approval (ap_ID a) (put_decision (decision, who, w_now w)) w in
     case find_fix (ap_FixActionID a) w of None \<Rightarrow> w1
     | Some fa \<Rightarrow> set_fix (fa_ID fa) (put_fix_approval (decision, w_now w)) w1)"

lemma decided_simps [simp]:
  "w_faults (decided st who a w) = w_faults w" "w_sessions (decided st who a w) = w_sessions w"
  "w_locked (decided st who a w) = w_locked w"
  "w_approvals (decided st who a w) = w_approvals (set_approval (ap_ID a) (put_decision (st, who, w_now w)) w)"
  by (auto simp: decided_def Let_def set_approval_def set_fix_def split: option.split)

lemma decided_risk: "high_risk_count sid (decided st who a w) = high_risk_count sid w"
proof (cases "find_fix (ap_FixActionID a) w")
  case None
  then show ?thesis by (simp add: decided_def set_approval_def high_risk_count_def)
next
  case (Some fa)
  show ?thesis
    by (rule high_risk_count_approval) (simp add: Some decided_def Let_def set_approval_def set_fix_def)
qed

lemma decided_fix:
  "find_fix (ap_FixActionID a) (decided st who a w) =
     map_option (put_fix_approval (st, w_now w)) (find_fix (ap_FixActionID a) w)"
proof (cases "find_fix (ap_FixActionID a) w")
  case None
  then show ?thesis by (simp add: find_fix_def decided_def set_approval_def)
next
  case (Some fa)
  then have "fa_ID fa = ap_FixActionID a" unfolding find_fix_def by (auto dest: tbl_find_Some)
  with Some show ?thesis
    by (simp add: find_fix_def decided_def set_approval_def set_fix_def fix_approval_rows.find_put)
qed

lemma decided_approval:
  "find_approval (ap_ID a) w = Some a \<Longrightarrow>
     find_approval (ap_ID a) (decided st who a w) = Some (put_decision (st, who, w_now w) a)"
  by (simp add: find_approval_def set_approval_def approval_rows.find_put)

lemma decide_no_fault:
  assumes "w_faults w = []" and "decision = (if dr_Decision req = 2 then ApprovalStatusRejected else ApprovalStatusApproved)"
    and "event = (if dr_Decision req = 2 then EventReject else EventApprove)" and "ap_ID a = aid"
    and "varchar 64 (dr_DecidedBy req) = Some who"
  shows "decide d sid aid a req w =
    (Resp 200 (DecisionBody (id_text d aid) decision), fire event sid (decided decision who a w))"
proof -
  define w1 where "w1 = set_approval aid (put_decision (decision, who, w_now w)) w"
  have fits: "varchar 16 decision = Some decision" by (simp add: assms(2))
  have nf: "w_faults w1 = []" using assms(1) by (simp add: w1_def set_approval_def)
  have now: "w_now w1 = w_now w" "find_fix i w1 = find_fix i w" for i
    by (simp_all add: w1_def set_approval_def find_fix_def)
  have U: "ApprovalDAO_UpdateDecision aid decision (dr_DecidedBy req) w = (None, w1)"
    using assms(1) by (simp add: ApprovalDAO_UpdateDecision_def db_no_fault pop_fault_id w1_def fit_decision_def fits assms(5))
  have D: "decided decision who a w = (case find_fix (ap_FixActionID a) w of None \<Rightarrow> w1
      | Some fa \<Rightarrow> set_fix (fa_ID fa) (put_fix_approval (decision, w_now w)) w1)"
    unfolding decided_def Let_def w1_def assms(4) by (rule refl)
  show ?thesis
    unfolding D
    by (cases "find_fix (ap_FixActionID a) w")
       (simp_all add: decide_def Let_def APPROVAL_DECISION_REJECT_def assms(2,3) [symmetric] U GetByID_no_fault [OF nf] now
         updates_no_fault [OF nf] fits)
qed

lemma decide_too_long:
  assumes "w_faults w = []" and "varchar 64 (dr_DecidedBy req) = None"
  shows "decide d sid aid a req w = (internalError (''update approval decision: '' @
    error_text (wrap ''approval update decision: '' too_long)), w)"
proof -
  have "ApprovalDAO_UpdateDecision aid st (dr_DecidedBy req) w = (Some (wrap ''approval update decision: '' too_long), w)" for st
    using assms by (simp add: ApprovalDAO_UpdateDecision_def db_no_fault pop_fault_id fit_decision_def fitted_def split: option.split)
  then show ?thesis by (simp add: decide_def Let_def)
qed

lemma DecisionApproval_decide:
  assumes "w_faults w = []" and "uuid_Parse (d_uuid d) idStr = Inr sid" and "uuid_Parse (d_uuid d) apStr = Inr aid"
    and "find_approval aid w = Some a" and "ap_SessionID a = sid" and "dr_Decision req \<noteq> 0"
  shows "DecisionApproval d idStr apStr (Inr req) w = decide d sid aid a req w"
  using assms by (simp add: DecisionApproval_def with_session_id_def GetByID_no_fault APPROVAL_DECISION_UNSPECIFIED_def)

text \<open>What a decision whose decider fits the column does.\<close>

lemma decision_stored:
  assumes "w_faults w = []" and "find_approval aid w = Some a"
    and "decision = (if dr_Decision req = 2 then ApprovalStatusRejected else ApprovalStatusApproved)"
    and "event = (if dr_Decision req = 2 then EventReject else EventApprove)"
    and "varchar 64 (dr_DecidedBy req) = Some who" and "decide d sid aid a req w = (r, w')"
  shows "r = Resp 200 (DecisionBody (id_text d aid) decision)"
    and "find_approval aid w' = Some (a\<lparr>ap_Status := decision, ap_DecidedAt := Some (w_now w), ap_DecidedBy := Some who\<rparr>)"
    and "find_fix (ap_FixActionID a) w' = map_option
      (\<lambda>fa. fa\<lparr>fa_ApprovalStatus := decision, fa_UpdatedAt := w_now w\<rparr>) (find_fix (ap_FixActionID a) w)"
    and "status_of w' sid = fired event w sid" and "o_executed w' = o_executed w"
proof -
  let ?w1 = "decided decision who a w"
  have aid: "ap_ID a = aid" using assms(2) unfolding find_approval_def by (auto dest: tbl_find_Some)
  from assms(6) decide_no_fault [OF assms(1,3,4) aid assms(5)]
  show r: "r = Resp 200 (DecisionBody (id_text d aid) decision)" by simp
  have w': "w' = fire event sid ?w1" using assms(6) decide_no_fault [OF assms(1,3,4) aid assms(5)] by simp
  have nf: "w_faults ?w1 = []" using assms(1) by simp
  note f = fire_no_fault [OF nf, of event sid]
  have rows: "w_approvals w' = w_approvals ?w1" "w_fix_actions w' = w_fix_actions ?w1"
    using f(2) unfolding w' by (simp_all add: engine_frame_def)
  show "find_approval aid w' = Some (a\<lparr>ap_Status := decision, ap_DecidedAt := Some (w_now w), ap_DecidedBy := Some who\<rparr>)"
    using decided_approval [of a w] assms(2) aid rows(1) by (simp add: find_approval_def)
  have "put_fix_approval (decision, w_now w) = (\<lambda>fa. fa\<lparr>fa_ApprovalStatus := decision, fa_UpdatedAt := w_now w\<rparr>)"
    by (rule ext) simp
  then show "find_fix (ap_FixActionID a) w' = map_option
      (\<lambda>fa. fa\<lparr>fa_ApprovalStatus := decision, fa_UpdatedAt := w_now w\<rparr>) (find_fix (ap_FixActionID a) w)"
    using decided_fix [of a decision who w] rows(2) unfolding find_fix_def by metis
  have "fired event ?w1 sid = fired event w sid"
    unfolding fired_def decided_simps(3) decided_risk status_of_same [OF decided_simps(2)] by (rule refl)
  with f(3) show "status_of w' sid = fired event w sid" by (simp add: w')
  have "o_executed ?w1 = o_executed w" by (simp add: decided_def Let_def split: option.split)
  then show "o_executed w' = o_executed w" by (simp add: w')
qed

lemma fired_awaiting:
  assumes "status_of w sid = Some StatusAwaitingApproval" and "sid \<notin> set (w_locked w)"
  shows "fired EventApprove w sid = Some StatusFixExecuting" and "fired EventReject w sid = Some StatusRejected"
  using assms by (simp_all add: fired_def next_status_def ValidTransitions_def)

lemma fired_cases:
  "fired event w sid = (case status_of w sid of None \<Rightarrow> None
      | Some s \<Rightarrow> Some (case next_status (high_risk_count sid w > 0) s event of
          Some n \<Rightarrow> if sid \<in> set (w_locked w) then s else n | None \<Rightarrow> s))"
  by (simp add: fired_def split: option.split)


text \<open>A column of 64 characters holds any ASCII name of at most 64 bytes as it is.\<close>

lemma decider_fits: "length who \<le> 64 \<Longrightarrow> CHR 0x00 \<notin> set who \<Longrightarrow> varchar 64 who = Some who"
  by (rule varchar_short)


section \<open>A session that another transaction holds\<close>

text \<open>\<open>SKIP LOCKED\<close> makes a busy row look like a missing one, and a missing session is not tried again: the
  engine says that the session does not exist, and the handlers answer 404 for a session that is stored.\<close>

lemma busy_session_not_found:
  assumes "w_faults w = []" and "sid \<in> set (w_locked w)" and "uuid_Parse (d_uuid d) idStr = Inr sid"
  shows "Transition sid ev w = (Inl (Sentinel ErrSessionNotFound), w)"
    and "StartSession d idStr w = (notFound ''session not found'', w)"
    and "IgnoreSession d idStr w = (notFound ''session not found'', w)"
proof -
  show T: "Transition sid ev w = (Inl (Sentinel ErrSessionNotFound), w)" for ev
    using assms(1,2) by (simp add: Transition_no_fault transition_result_def)
  show "StartSession d idStr w = (notFound ''session not found'', w)"
    "IgnoreSession d idStr w = (notFound ''session not found'', w)"
    using assms(3) T by (simp_all add: StartSession_def IgnoreSession_def with_session_id_def)
qed

section \<open>Tickets and agents\<close>

text \<open>A ticket system that counts its calls: every succeeded action opens a ticket of its own, not only the
  first one of the session.\<close>

definition counting_deps :: "nat deps" where
  "counting_deps = \<lparr>d_uuid = d_uuid sample_deps,
     d_Request = (\<lambda>rq t n. (Inr [], n)),
     d_Execute = (\<lambda>a t n. (Inr \<lparr>xr_ID = xa_ID a, xr_Status = ''SUCCEEDED'', xr_Message = [],
        xr_TicketID = [], xr_StartedAt = t, xr_EndedAt = t, xr_Rollback = []\<rparr>, n)),
     d_CreateIncident = (\<lambda>i t n. (Inr ''T-1'', Suc n)), d_Publish = (\<lambda>m n. (None, n)), d_has_producer = True,
     d_has_webhook = False, d_has_eventLoop = True, d_discovery = None, d_report = d_report sample_deps,
     d_pandoc = (\<lambda>s. Inr s)\<rparr>"

definition counting_orch :: "FixAction list \<Rightarrow> nat orch" where
  "counting_orch fas = \<lparr>w_sessions = [sample_session 1 StatusFixExecuting 5], w_fix_actions = fas, w_approvals = [],
     w_events = [], w_kb = [], w_locked = [], w_faults = [], w_now = Hour, w_fresh = (\<lambda>n. of_nat (1000 + n)), w_ctr = 0,
     w_hooks = [], w_deliveries = [], w_hook_columns = migrated_hook_columns,
     w_delivery_columns = migrated_delivery_columns, o_env = 0, o_outbox = [], o_executed = [], o_notified = []\<rparr>"

lemma ticket_per_action:
  "(let fas = [sample_fix 1 1 RiskLow ExecStatusNotStarted, sample_fix 2 1 RiskLow ExecStatusNotStarted] in
    o_env (fold (execute_one counting_deps 1 (sample_session 1 StatusFixExecuting 5)) fas (counting_orch fas))) = 2"
  by code_simp

text \<open>With Consul behind it, the list of agents names only the six kinds it asks for.\<close>

lemma listed_agents_known:
  assumes "d_discovery d = Some (\<lambda>n. ConsulDiscovery_Discover (catalog n))" and "catalog_by_name catalog"
    and "ListAgents d w = (Resp 200 (AgentsBody infos), w')"
  shows "\<forall>a \<in> set infos. ai_Name a \<in> set agent_types"
proof -
  have "set infos \<subseteq> agent_info ` set (concat (map (\<lambda>n. consul_discover n catalog) agent_types))"
    using assms(1,3) by (force simp: ListAgents_def consul_discover_def split: sum.splits)
  then show ?thesis
    using consul.listed_under_name [OF assms(2), of _ agent_types] by (fastforce simp: agent_info_def)
qed

end
