(* ===== verification/Event_Spec.thy ===== *)
theory Event_Spec imports Handlers_Spec begin

text \<open>
  Properties of the event loop: the automatic pipeline of a fix, what a restarted consumer reads again,
  and when the backlog of a topic is skipped.
\<close>

section \<open>The pipeline of a fix\<close>

lemma sessions_env: "call_env f w = (r, w') \<Longrightarrow> w_sessions w' = w_sessions w"
  by (auto simp: call_env_def split: prod.splits)

lemma sessions_gate_one [simp]: "w_sessions (gate_one d sid fa w) = w_sessions w"
proof -
  have c: "ApprovalDAO_Create a u = (r, a', u') \<Longrightarrow> w_sessions u' = w_sessions u" for a u r a' and u' :: "'a orch"
    by (auto simp: ApprovalDAO_Create_def uuid_New_def insert_approval_def Let_def
        split: prod.splits option.splits if_splits elim!: db_exec_cases dest!: fitted_ok)
  have u: "w_sessions (snd (FixActionDAO_UpdateApprovalStatus i st u)) = w_sessions u" for i st and u :: "'a orch"
    by (auto simp: FixActionDAO_UpdateApprovalStatus_def set_fix_def split: prod.split option.split elim!: db_exec_cases dest!: fitted_ok)
  show ?thesis
    by (auto simp: gate_one_def u split: prod.splits sum.splits option.splits dest!: sessions_env c)
qed

lemma sessions_fold: "(\<And>x u. w_sessions (f x u) = w_sessions u) \<Longrightarrow> w_sessions (fold f xs w) = w_sessions w"
  by (induction xs arbitrary: w) auto

lemma status_gate: "TriggerApprovalGate d sid w = (r, w') \<Longrightarrow> status_of w' = status_of w"
proof -
  have l: "FixActionDAO_GetBySessionID i u = (q, u') \<Longrightarrow> status_of u' = status_of u"
    "SessionDAO_GetByID i u = (q1, u') \<Longrightarrow> status_of u' = status_of u" for i u q q1 and u' :: "'a orch"
    using reads_only_fields(1) [OF reads_only_lists(1)] reads_only_fields(1) [OF reads_only_GetByID(1)]
      status_of_same by metis+
  have g: "status_of (fold (gate_one d sid) fas u) = status_of u" for fas u
    by (rule status_of_same) (simp add: sessions_fold)
  show "TriggerApprovalGate d sid w = (r, w') \<Longrightarrow> status_of w' = status_of w"
    by (auto simp: TriggerApprovalGate_def Let_def g notify_frame split: prod.splits sum.splits if_splits dest!: l)
qed

lemma Transition_moved:
  assumes "w_faults w = []" and "status_of w sid = Some s" and "sid \<notin> set (w_locked w)"
    and "next_status (high_risk_count sid w > 0) s ev = Some n"
  shows "\<exists>w'. Transition sid ev w = (Inr n, w') \<and> w_faults w' = [] \<and> status_of w' sid = Some n \<and>
    sid \<notin> set (w_locked w') \<and> w_fix_actions w' = w_fix_actions w"
proof -
  have "Transition sid ev w = (Inr n, moved sid s n w)"
    using assms by (simp add: Transition_no_fault transition_result_def)
  moreover have "status_of (moved sid s n w) sid = Some n"
    using status_of_update [OF moved_simps(1) assms(2)] by simp
  ultimately show ?thesis
    using assms(1,3) moved_simps(2) [of w sid s n] by (auto simp: engine_frame_def)
qed

lemma fix_pipeline_run:
  assumes "w_faults w = []" and "distinct (map fa_ID (w_fix_actions w))"
    and "status_of w sid = Some StatusRCADone" and "sid \<notin> set (w_locked w)"
    and "normalizeType (op_Type ob) = ''FIX_ACTION''" and "handleObservation d sid ob w = (r, w')"
  shows "r = None \<and>
    (if \<exists>fa \<in> set (w_fix_actions w). fa_SessionID fa = sid \<and> fa_Risk fa = RiskHigh \<and> fa_ExecutionStatus fa = ExecStatusNotStarted
     then status_of w' sid = Some StatusAwaitingApproval \<and> o_executed w' = o_executed w
     else status_of w' sid = Some StatusVerifying \<and>
       o_executed w' = o_executed w @ map (exec_action sid) (filter may_execute (fixes_of sid w)))"
proof -
  let ?high = "high_risk_count sid w > 0"
  have high: "?high = (\<exists>fa \<in> set (w_fix_actions w). fa_SessionID fa = sid \<and> fa_Risk fa = RiskHigh \<and>
      fa_ExecutionStatus fa = ExecStatusNotStarted)"
    by (auto simp: high_risk_count_def filter_empty_conv)
  have nx: "next_status h StatusRCADone EventRCAGenerated = Some StatusFixProposed"
    "next_status h StatusFixSuggested EventExecute = Some StatusFixExecuting" for h
    by (simp_all add: next_status_def ValidTransitions_def)
  obtain w1 where 1: "Transition sid EventRCAGenerated w = (Inr StatusFixProposed, w1)"
      "w_faults w1 = []" "status_of w1 sid = Some StatusFixProposed" "sid \<notin> set (w_locked w1)" "w_fix_actions w1 = w_fix_actions w"
    using Transition_moved [OF assms(1,3,4) nx(1)] by blast
  let ?n = "if ?high then StatusAwaitingApproval else StatusFixSuggested"
  have "next_status (high_risk_count sid w1 > 0) StatusFixProposed EventFixGenerated = Some ?n"
    using 1(5) by (simp add: next_status_fail high_risk_count_def)
  from Transition_moved [OF 1(2,3,4) this] obtain w2 where 2: "Transition sid EventFixGenerated w1 = (Inr ?n, w2)"
      "w_faults w2 = []" "status_of w2 sid = Some ?n" "sid \<notin> set (w_locked w2)" "w_fix_actions w2 = w_fix_actions w1" by blast
  have x2: "o_executed w2 = o_executed w"
    using executed_Transition [OF 1(1)] executed_Transition [OF 2(1)] by simp
  obtain s where "find_session sid w = Some s" "s_Status s = StatusRCADone" using assms(3) by (auto simp: status_of_def)
  then have "GetStatus sid w = (Inr StatusRCADone, w)" by (simp add: GetStatus_def GetByID_no_fault [OF assms(1)])
  then have D: "drive_fix d sid ?n w2 = (r, w')"
    using assms(5,6) 1(1) 2(1) by (simp add: handleObservation_def fix_observation_def)
  show ?thesis
  proof (cases ?high)
    case True
    obtain q w3 where 3: "TriggerApprovalGate d sid w2 = (q, w3)" by force
    from D True 3 have "r = None" "w' = w3" by (simp_all add: drive_fix_def)
    with status_gate [OF 3] executed_gate [OF 3] 2(3) x2 True show ?thesis unfolding high [symmetric] by simp
  next
    case False
    then have n: "?n = StatusFixSuggested" by simp
    obtain w3 where 3: "Transition sid EventExecute w2 = (Inr StatusFixExecuting, w3)"
      "w_faults w3 = []" "status_of w3 sid = Some StatusFixExecuting" "sid \<notin> set (w_locked w3)" "w_fix_actions w3 = w_fix_actions w2"
      using Transition_moved [OF 2(2) 2(3) [unfolded n] 2(4) nx(2)] by blast
    obtain q w4 where 4: "ExecuteFixActions d sid w3 = (q, w4)" by force
    from D False 3 4 have r: "r = None" "w' = w4" by (simp_all add: drive_fix_def)
    have rows3: "w_fix_actions w3 = w_fix_actions w" using 1(5) 2(5) 3(5) by simp
    with assms(2) have "distinct (map fa_ID (w_fix_actions w3))" by simp
    from execute_run [OF 3(2) this 3(3,4) 4]
    have "status_of w4 sid = Some StatusVerifying"
      "o_executed w4 = o_executed w3 @ map (exec_action sid) (filter may_execute (fixes_of sid w3))" by blast+
    moreover have "fixes_of sid w3 = fixes_of sid w" using rows3 by (simp add: fixes_of_def)
    ultimately show ?thesis
      using r x2 executed_Transition [OF 3(1)] False unfolding high [symmetric] by simp
  qed
qed

text \<open>The loop reads a FIX_ACTION message of a session in RCA_DONE whose only action is of low risk.\<close>

lemma sample_pipeline:
  "\<exists>(w :: unit orch) w' parse. process_message sample_deps parse (sample_message [] 7) w = (True, w') \<and>
    o_executed w = [] \<and> o_executed w' = [exec_action 1 (sample_fix 1 1 RiskLow ExecStatusNotStarted)]"
proof -
  let ?fa = "sample_fix 1 1 RiskLow ExecStatusNotStarted"
  let ?w = "sample_orch [sample_session 1 StatusRCADone 5] [?fa]"
  let ?ob = "sample_payload 1 ''fix_action''"
  obtain r w' where 1: "handleObservation sample_deps 1 ?ob ?w = (r, w')" by force
  have h: "w_faults ?w = []" "distinct (map fa_ID (w_fix_actions ?w))" "status_of ?w 1 = Some StatusRCADone"
    "1 \<notin> set (w_locked ?w)" "\<not> (\<exists>fa \<in> set (w_fix_actions ?w). fa_SessionID fa = 1 \<and> fa_Risk fa = RiskHigh \<and>
      fa_ExecutionStatus fa = ExecStatusNotStarted)" "o_executed ?w = []" "filter may_execute (fixes_of 1 ?w) = [?fa]"
    by (simp_all add: sample_orch_def sample_session_def sample_fix_def status_of_def find_session_def fixes_of_def
        may_execute_def)
  have "normalizeType (op_Type ?ob) = ''FIX_ACTION''" by code_simp
  from fix_pipeline_run [OF h(1-4) this 1] h(5-7) have x: "r = None" "o_executed w' = [exec_action 1 ?fa]" by auto
  have "op_SessionID ?ob \<noteq> []" "uuid_Parse (d_uuid sample_deps) (op_SessionID ?ob) = Inr 1"
    by (simp_all add: sample_payload_def sample_deps_def)
  then have "process_message sample_deps (\<lambda>s. Inr ?ob) (sample_message [] 7) ?w = (True, w')"
    using 1 x(1) by (simp add: process_message_def)
  with x(2) h(6) show ?thesis by blast
qed

theorem execution_safety_witness:
  "\<exists>w' :: unit orch. o_executed w' = [exec_action 1 (sample_fix 1 1 RiskLow ExecStatusNotStarted)] \<and>
    (\<exists>sid fas. o_executed w' = map (exec_action sid) fas \<and> filter (\<lambda>fa. fa_Risk fa = RiskHigh) fas = [])"
proof -
  obtain w w' :: "unit orch" and parse where 1: "process_message sample_deps parse (sample_message [] 7) w = (True, w')"
    and 2: "o_executed w = []" "o_executed w' = [exec_action 1 (sample_fix 1 1 RiskLow ExecStatusNotStarted)]"
    using sample_pipeline by blast
  from execution_safety [OF st_message [OF 1]] obtain sid fas
    where "o_executed w' = map (exec_action sid) fas" "\<forall>fa \<in> set fas. fa_Risk fa \<noteq> RiskHigh"
    unfolding 2(1) append_Nil by blast
  moreover from this(2) have "filter (\<lambda>fa. fa_Risk fa = RiskHigh) fas = []" by simp
  ultimately show ?thesis using 2(2) by blast
qed

theorem high_risk_never_executed_witness:
  "\<exists>w' :: unit orch. o_executed w' = [exec_action 1 (sample_fix 1 1 RiskLow ExecStatusNotStarted)] \<and>
    filter (\<lambda>a. xa_Risk a = RiskHigh) (o_executed w') = []"
proof -
  obtain w w' :: "unit orch" and parse where 1: "process_message sample_deps parse (sample_message [] 7) w = (True, w')"
    and 2: "o_executed w = []" "o_executed w' = [exec_action 1 (sample_fix 1 1 RiskLow ExecStatusNotStarted)]"
    using sample_pipeline by blast
  from st_message [OF 1] have "(sys_step sample_deps parse)\<^sup>*\<^sup>* w w'" by blast
  from high_risk_never_executed [OF this 2(1)]
  have "filter (\<lambda>a. xa_Risk a = RiskHigh) (o_executed w') = []" by (simp add: filter_empty_conv)
  with 2(2) show ?thesis by blast
qed

section \<open>What is redelivered after a restart\<close>

text \<open>The messages whose commit succeeds in a run of the loop.\<close>

fun committed ::
  "'e deps \<Rightarrow> (string \<Rightarrow> observationPayload result) \<Rightarrow> (kafka_Message \<Rightarrow> bool) \<Rightarrow> kafka_Message list \<Rightarrow>
   'e orch \<Rightarrow> kafka_Message list" where
  "committed d parse ok [] w = []"
| "committed d parse ok (m # ms) w = (case process_message d parse m w of
     (b, w1) \<Rightarrow> (if b \<and> ok m then [m] else []) @ committed d parse ok ms w1)"

definition partition_of :: "kafka_Message \<Rightarrow> string \<times> int" where
  "partition_of m = (k_Topic m, k_Partition m)"

lemma Run_loop_position:
  assumes "sorted_wrt (\<lambda>m m'. partition_of m = partition_of m' \<longrightarrow> k_Offset m < k_Offset m') ms"
    and "\<forall>m \<in> set ms. partition_of m = partition_of m0 \<longrightarrow> pos (partition_of m0) \<le> k_Offset m"
  shows "redelivered (snd (Run_loop d parse ok ms w pos)) m0 \<longleftrightarrow> redelivered pos m0 \<and>
    \<not> (\<exists>m' \<in> set (committed d parse ok ms w). partition_of m' = partition_of m0 \<and> k_Offset m0 \<le> k_Offset m')"
  using assms
proof (induction ms arbitrary: w pos)
  case (Cons m ms)
  obtain b w1 where 1: "process_message d parse m w = (b, w1)" by force
  let ?pos = "if b then commitOffset ok m pos else pos"
  have "\<forall>m \<in> set ms. partition_of m = partition_of m0 \<longrightarrow> ?pos (partition_of m0) \<le> k_Offset m"
    using Cons.prems by (auto simp: commitOffset_def partition_of_def)
  from Cons.IH [where w = w1 and pos = ?pos, OF _ this] Cons.prems(1)
  have IH: "redelivered (snd (Run_loop d parse ok ms w1 ?pos)) m0 \<longleftrightarrow> redelivered ?pos m0 \<and>
    \<not> (\<exists>m' \<in> set (committed d parse ok ms w1). partition_of m' = partition_of m0 \<and> k_Offset m0 \<le> k_Offset m')"
    by simp
  have R: "redelivered ?pos m0 \<longleftrightarrow> redelivered pos m0 \<and>
      \<not> (b \<and> ok m \<and> partition_of m = partition_of m0 \<and> k_Offset m0 \<le> k_Offset m)"
    using Cons.prems(2) by (auto simp: commitOffset_def redelivered_def partition_of_def)
  have "Run_loop d parse ok (m # ms) w pos = Run_loop d parse ok ms w1 ?pos"
    using 1 by (cases b) simp_all
  moreover have "set (committed d parse ok (m # ms) w) = (if b \<and> ok m then {m} else {}) \<union> set (committed d parse ok ms w1)"
    using 1 by auto
  ultimately show ?case using IH R by auto
qed simp

text \<open>C29 (loop_redelivery): let the loop read the messages of each partition in the order of their offsets.
  After a restart a message is read again exactly if neither it nor a later message of its partition was
  committed.  So a message whose handling fails, and which the loop therefore does not commit, is read
  again only until a later message of the same partition has been handled.\<close>

theorem loop_redelivery:
  assumes "sorted_wrt (\<lambda>m m'. partition_of m = partition_of m' \<longrightarrow> k_Offset m < k_Offset m') ms"
    and "\<forall>m \<in> set ms. redelivered pos m" and "m \<in> set ms"
  shows "redelivered (snd (Run_loop d parse ok ms w pos)) m \<longleftrightarrow>
    (\<forall>m' \<in> set (committed d parse ok ms w). partition_of m' = partition_of m \<longrightarrow> k_Offset m' < k_Offset m)"
proof -
  have "\<forall>m' \<in> set ms. partition_of m' = partition_of m \<longrightarrow> pos (partition_of m) \<le> k_Offset m'"
    using assms(2) by (auto simp: redelivered_def partition_of_def)
  from Run_loop_position [where pos = pos and ?m0.0 = m, OF assms(1) this] assms(2,3) show ?thesis by force
qed

text \<open>A session under collection gets a log observation while another transaction holds its row: the
  handling fails.  The next message, of no interest, is committed, and the observation is lost.\<close>

theorem loop_redelivery_witness:
  "\<not> redelivered (snd (Run_loop sample_deps (\<lambda>v. Inr (sample_payload (length v) ''log'')) (\<lambda>m. True)
      [sample_message ''x'' 7, sample_message [] 8]
      ((sample_orch [sample_session 1 StatusCollecting 5] [])\<lparr>w_locked := [1]\<rparr>) (\<lambda>p. 7))) (sample_message ''x'' 7)"
proof -
  let ?parse = "\<lambda>v. Inr (sample_payload (length v) ''log'') :: observationPayload result"
  let ?ms = "[sample_message ''x'' 7, sample_message [] 8]"
  let ?w = "(sample_orch [sample_session 1 StatusCollecting 5] [])\<lparr>w_locked := [1]\<rparr>"
  have skip: "process_message sample_deps ?parse (sample_message [] 8) w = (True, w)" for w
    by (simp add: process_message_def sample_message_def sample_payload_def)
  then have "sample_message [] 8 \<in> set (committed sample_deps ?parse (\<lambda>m. True) ?ms ?w)"
    by (cases "process_message sample_deps ?parse (sample_message ''x'' 7) ?w") simp
  moreover have "sorted_wrt (\<lambda>m m'. partition_of m = partition_of m' \<longrightarrow> k_Offset m < k_Offset m') ?ms"
    "\<forall>m \<in> set ?ms. redelivered (\<lambda>p. 7) m" "sample_message ''x'' 7 \<in> set ?ms"
    by (simp_all add: sample_message_def redelivered_def)
  note iff = loop_redelivery [OF this, of sample_deps ?parse "\<lambda>m. True" ?w]
  moreover have "partition_of (sample_message [] 8) = partition_of (sample_message ''x'' 7)"
    "\<not> k_Offset (sample_message [] 8) < k_Offset (sample_message ''x'' 7)"
    by (simp_all add: partition_of_def sample_message_def)
  ultimately show ?thesis unfolding iff by blast
qed

section \<open>Skipping a backlog\<close>

lemma scan_offsets_cases:
  "scan_offsets cm os lag unc latest = (case List.find (\<lambda>(p, lo, e). e \<noteq> None) os of
     Some (p, lo, e) \<Rightarrow> Inl (wrap (''skip backlog: partition '' @ show_int p @ '': '') (the e))
   | None \<Rightarrow> Inr (fold (\<lambda>(p, lo, e) l. max l (lo - (if map_get cm p = -1 then 0 else map_get cm p))) os lag,
       unc \<or> (\<exists>(p, lo, e) \<in> set os. map_get cm p = -1), rev (map (\<lambda>(p, lo, e). (p, lo)) os) @ latest))"
proof (induction os arbitrary: lag unc latest)
  case (Cons o1 os)
  obtain p lo e where o: "o1 = (p, lo, e)" by (metis prod_cases3)
  show ?case
  proof (cases e)
    case None
    with o Cons.IH show ?thesis
      by (auto simp: Let_def max_def split: option.split)
  next
    case (Some x)
    with o show ?thesis by simp
  qed
qed simp

lemma fold_max_less:
  fixes t :: int
  shows "t < fold (\<lambda>x l. max l (f x)) xs l0 \<longleftrightarrow> t < l0 \<or> (\<exists>x \<in> set xs. t < f x)"
  by (induction xs arbitrary: l0) (auto simp: less_max_iff_disj)

text \<open>C34 (skip_backlog_spec): when the broker answers, the backlog of a topic with partitions is skipped
  exactly if every partition reports its last offset and has a committed one, some partition lags by more
  than the threshold (10000 unless another is given), and a commit succeeds before the timeout; then the
  last offset of every partition is committed.  A group without committed offsets never skips.\<close>

theorem skip_backlog_spec:
  assumes "ba_Metadata b = Inr topics" and "ba_Committed b = Inr cm" and "ba_Offsets b = Inr os" and "0 \<le> k"
    and "partitions = concat (map snd (filter (\<lambda>(name, ps). name = topic) topics))"
  shows "skipBacklogFast b topic k = (None, Some commits) \<longleftrightarrow> partitions \<noteq> [] \<and>
    (\<forall>(p, lo, e) \<in> set os. e = None \<and> map_get cm p \<noteq> -1) \<and>
    (\<exists>(p, lo, e) \<in> set os. lo - map_get cm p > (if k = 0 then 10000 else k)) \<and>
    True \<in> set (ba_Commits b) \<and>
    commits = map (\<lambda>p. (p, map_get (rev (map (\<lambda>(p, lo, e). (p, lo)) os)) p)) partitions"
proof (cases "List.find (\<lambda>(p, lo, e). e \<noteq> None) os")
  case (Some o1)
  then have "\<not> (\<forall>(p, lo, e) \<in> set os. e = None \<and> map_get cm p \<noteq> -1)"
    unfolding find_Some_iff by (metis (mono_tags, lifting) case_prod_beta nth_mem)
  with Some show ?thesis
    by (auto simp: skipBacklogFast_def assms(1-3) assms(5) [symmetric] scan_offsets_cases Let_def split: prod.splits)
next
  case None
  let ?lag = "fold (\<lambda>(p, lo, e) l. max l (lo - (if map_get cm p = -1 then 0 else map_get cm p))) os 0"
  let ?t = "if k = 0 then 10000 else k"
  let ?unc = "\<exists>(p, lo, e) \<in> set os. map_get cm p = -1"
  have lag: "?t < ?lag \<longleftrightarrow> (\<exists>(p, lo, e) \<in> set os. ?t < lo - (if map_get cm p = -1 then 0 else map_get cm p))"
    using fold_max_less [of ?t "\<lambda>(p, lo, e). lo - (if map_get cm p = -1 then 0 else map_get cm p)" os 0] assms(4)
    by (simp add: case_prod_beta' split: if_splits)
  have "skipBacklogFast b topic k = (None, Some commits) \<longleftrightarrow> partitions \<noteq> [] \<and> ?t < ?lag \<and> \<not> ?unc \<and>
      True \<in> set (ba_Commits b) \<and>
      commits = map (\<lambda>p. (p, map_get (rev (map (\<lambda>(p, lo, e). (p, lo)) os)) p)) partitions"
  proof -
    have S: "scan_offsets cm os 0 False [] = Inr (?lag, ?unc, rev (map (\<lambda>(p, lo, e). (p, lo)) os))"
      unfolding scan_offsets_cases None by simp
    have "skipBacklogFast b topic k = (if partitions = [] then (None, None) else if ?lag \<le> ?t then (None, None)
        else if ?unc then (None, None) else if True \<in> set (ba_Commits b)
        then (None, Some (map (\<lambda>p. (p, map_get (rev (map (\<lambda>(p, lo, e). (p, lo)) os)) p)) partitions)) else (None, None))"
      by (simp only: skipBacklogFast_def assms(1-3) sum.case Let_def assms(5) [symmetric] S prod.case
          defaultBacklogSkip_def length_0_conv)
    then show ?thesis by auto
  qed
  moreover have "\<forall>(p, lo, e) \<in> set os. e = None" using None by (auto simp: find_None_iff)
  ultimately show ?thesis unfolding lag by fastforce
qed

theorem skip_backlog_spec_witness:
  "skipBacklogFast \<lparr>ba_Metadata = Inr [(''t'', [0, 1])], ba_Committed = Inr [(0, 5), (1, 7)],
      ba_Offsets = Inr [(0, 20000, None), (1, 9, None)], ba_Commits = [False, True]\<rparr> ''t'' 0
    = (None, Some [(0, 20000), (1, 9)])"
proof -
  let ?b = "\<lparr>ba_Metadata = Inr [(''t'', [0, 1])], ba_Committed = Inr [(0, 5), (1, 7)],
      ba_Offsets = Inr [(0, 20000, None), (1, 9, None)], ba_Commits = [False, True]\<rparr>"
  have "ba_Metadata ?b = Inr [(''t'', [0, 1])]" "ba_Committed ?b = Inr [(0, 5), (1, 7)]"
    "ba_Offsets ?b = Inr [(0, 20000, None), (1, 9, None)]" "(0 :: int) \<le> 0" by simp_all
  from skip_backlog_spec [OF this refl, where topic = "''t''"] show ?thesis
    by (simp add: map_get_def)
qed

end
