(* ===== verification/Event_Readers.thy ===== *)
theory Event_Readers imports Event_Spec begin

text \<open>
  The goroutines of \<open>eventLoop.Run\<close> (\<open>internal/server/event_loop.go\<close>): one reader per observation topic
  forwards what it fetches into one channel, from which the main loop receives.  They run concurrently, so
  the model is a step relation; the handling of a message is \<open>process_message\<close>.  The rest of the orchestrator
  may change the state between two steps: \<open>env\<close> is the relation of these changes.  \<open>fi_Log t\<close> is the sequence
  of messages that the broker serves to the reader of topic \<open>t\<close>, and \<open>fi_Handled\<close> is history.
\<close>

section \<open>State\<close>

text \<open>\<open>tr_Checked\<close>: the goroutine has seen that the context goes on and is in \<open>FetchMessage\<close>; otherwise, unless it
  holds a message, it is at the head of its loop or waits after an error.\<close>

record topicReader =
  tr_Next :: nat
  tr_Checked :: bool
  tr_Held :: "kafka_Message option"
  tr_Backoff :: duration
  tr_Running :: bool

record 'e fan_in =
  fi_Log :: "string \<Rightarrow> kafka_Message list"
  fi_Reader :: "string \<Rightarrow> topicReader"
  fi_Chan :: "kafka_Message list"
  fi_Done :: bool
  fi_Returned :: bool
  fi_Orch :: "'e orch"
  fi_Position :: offsets
  fi_Handled :: "kafka_Message list"

definition msgCh_capacity :: nat where
  "msgCh_capacity = 1024"

definition initial_backoff :: duration where
  "initial_backoff = 500 * Millisecond"

section \<open>The start of the loop\<close>

text \<open>Before the readers are created the backlog of each topic may be skipped; an error is logged.\<close>

definition skip_topic :: "(string \<Rightarrow> backlog_answers) \<Rightarrow> string \<Rightarrow> offsets \<Rightarrow> offsets" where
  "skip_topic b topic pos = (case skipBacklogFast (b topic) topic 0 of
       (e, None) \<Rightarrow> pos
     | (e, Some commits) \<Rightarrow> fold (\<lambda>(p, off) q. q((topic, p) := off)) commits pos)"

definition new_reader :: topicReader where
  "new_reader = \<lparr>tr_Next = 0, tr_Checked = False, tr_Held = None, tr_Backoff = initial_backoff, tr_Running = True\<rparr>"

text \<open>A reader starts at the committed position of each partition, or at the first offset.\<close>

definition Run_start ::
  "(string \<Rightarrow> backlog_answers) \<Rightarrow> (string \<Rightarrow> kafka_Message list) \<Rightarrow> 'e orch \<Rightarrow> offsets \<Rightarrow> 'e fan_in" where
  "Run_start b broker w pos = (let start = fold (skip_topic b) observation_topics pos in
     \<lparr>fi_Log = (\<lambda>t. filter (redelivered start) (broker t)), fi_Reader = (\<lambda>t. new_reader), fi_Chan = [],
      fi_Done = False, fi_Returned = False, fi_Orch = w, fi_Position = start, fi_Handled = []\<rparr>)"

section \<open>Steps of a reader\<close>

definition set_reader :: "string \<Rightarrow> topicReader \<Rightarrow> 'e fan_in \<Rightarrow> 'e fan_in" where
  "set_reader t r s = s\<lparr>fi_Reader := (fi_Reader s)(t := r)\<rparr>"

definition fetched :: "kafka_Message \<Rightarrow> topicReader \<Rightarrow> topicReader" where
  "fetched m r = r\<lparr>tr_Next := tr_Next r + 1, tr_Checked := False, tr_Held := Some m, tr_Backoff := initial_backoff\<rparr>"

text \<open>A fetch error ends the goroutine if the context is done; otherwise it waits and tries again.\<close>

definition fetch_failed :: "bool \<Rightarrow> topicReader \<Rightarrow> topicReader" where
  "fetch_failed done r = (if done then r\<lparr>tr_Running := False\<rparr>
     else r\<lparr>tr_Checked := False, tr_Backoff := (if tr_Backoff r < 10 * Second then tr_Backoff r * 2 else tr_Backoff r)\<rparr>)"

definition forwarded :: "topicReader \<Rightarrow> topicReader" where
  "forwarded r = r\<lparr>tr_Checked := False, tr_Held := None\<rparr>"

definition reader_stopped :: "topicReader \<Rightarrow> topicReader" where
  "reader_stopped r = r\<lparr>tr_Running := False, tr_Held := None\<rparr>"

inductive reader_step :: "string \<Rightarrow> 'e fan_in \<Rightarrow> 'e fan_in \<Rightarrow> bool" where
  Check: "r = fi_Reader s t \<Longrightarrow> tr_Running r \<Longrightarrow> tr_Held r = None \<Longrightarrow> \<not> tr_Checked r \<Longrightarrow> \<not> fi_Done s \<Longrightarrow>
    reader_step t s (set_reader t (r\<lparr>tr_Checked := True\<rparr>) s)"
| Fetch: "r = fi_Reader s t \<Longrightarrow> tr_Running r \<Longrightarrow> tr_Held r = None \<Longrightarrow> tr_Checked r \<Longrightarrow> tr_Next r < length (fi_Log s t) \<Longrightarrow>
    reader_step t s (set_reader t (fetched (fi_Log s t ! tr_Next r) r) s)"
| Fetch_error: "r = fi_Reader s t \<Longrightarrow> tr_Running r \<Longrightarrow> tr_Held r = None \<Longrightarrow> tr_Checked r \<Longrightarrow>
    reader_step t s (set_reader t (fetch_failed (fi_Done s) r) s)"
| Stop: "r = fi_Reader s t \<Longrightarrow> tr_Running r \<Longrightarrow> tr_Held r = None \<Longrightarrow> \<not> tr_Checked r \<Longrightarrow> fi_Done s \<Longrightarrow>
    reader_step t s (set_reader t (reader_stopped r) s)"
| Forward: "r = fi_Reader s t \<Longrightarrow> tr_Running r \<Longrightarrow> tr_Held r = Some m \<Longrightarrow> length (fi_Chan s) < msgCh_capacity \<Longrightarrow>
    reader_step t s (set_reader t (forwarded r) (s\<lparr>fi_Chan := fi_Chan s @ [m]\<rparr>))"
| Forward_cancelled: "r = fi_Reader s t \<Longrightarrow> tr_Running r \<Longrightarrow> tr_Held r = Some m \<Longrightarrow> fi_Done s \<Longrightarrow>
    reader_step t s (set_reader t (reader_stopped r) s)"

section \<open>Steps of the loop\<close>

text \<open>One turn of the main loop with a received message.\<close>

definition loop_turn ::
  "'e deps \<Rightarrow> (string \<Rightarrow> observationPayload result) \<Rightarrow> (kafka_Message \<Rightarrow> bool) \<Rightarrow> kafka_Message \<Rightarrow>
   'e fan_in \<Rightarrow> 'e fan_in" where
  "loop_turn d parse ok m s = (case process_message d parse m (fi_Orch s) of
     (commit, w1) \<Rightarrow> s\<lparr>fi_Chan := tl (fi_Chan s), fi_Orch := w1, fi_Handled := fi_Handled s @ [m],
        fi_Position := (if commit then commitOffset ok m (fi_Position s) else fi_Position s)\<rparr>)"

text \<open>Kafka serves the messages of a partition in the order of their offsets.\<close>

definition served :: "string \<Rightarrow> kafka_Message list \<Rightarrow> bool" where
  "served t ms \<longleftrightarrow> (\<forall>m \<in> set ms. k_Topic m = t) \<and>
     sorted_wrt (\<lambda>m m'. k_Partition m = k_Partition m' \<longrightarrow> k_Offset m < k_Offset m') ms"

text \<open>The steps of \<open>Run\<close>: those of its readers, and those of the loop, which returns once the context is done.\<close>

inductive Run_step ::
  "'e deps \<Rightarrow> (string \<Rightarrow> observationPayload result) \<Rightarrow> (kafka_Message \<Rightarrow> bool) \<Rightarrow> 'e fan_in \<Rightarrow> 'e fan_in \<Rightarrow> bool"
  for d parse ok where
  Run_reader: "t \<in> set observation_topics \<Longrightarrow> reader_step t s s' \<Longrightarrow> Run_step d parse ok s s'"
| Run_turn: "\<not> fi_Returned s \<Longrightarrow> fi_Chan s = m # ms \<Longrightarrow> Run_step d parse ok s (loop_turn d parse ok m s)"
| Run_return: "\<not> fi_Returned s \<Longrightarrow> fi_Done s \<Longrightarrow> Run_step d parse ok s (s\<lparr>fi_Returned := True\<rparr>)"

text \<open>The others: the context is cancelled, a message arrives at the broker, the rest of the system goes on.\<close>

inductive outside_step :: "('e orch \<Rightarrow> 'e orch \<Rightarrow> bool) \<Rightarrow> 'e fan_in \<Rightarrow> 'e fan_in \<Rightarrow> bool" for env where
  Cancelled: "outside_step env s (s\<lparr>fi_Done := True\<rparr>)"
| Produce: "served t (fi_Log s t @ [m]) \<Longrightarrow> redelivered (fi_Position s) m \<Longrightarrow>
    outside_step env s (s\<lparr>fi_Log := (fi_Log s)(t := fi_Log s t @ [m])\<rparr>)"
| Other: "env (fi_Orch s) w' \<Longrightarrow> outside_step env s (s\<lparr>fi_Orch := w'\<rparr>)"

inductive fan_in_step ::
  "'e deps \<Rightarrow> (string \<Rightarrow> observationPayload result) \<Rightarrow> (kafka_Message \<Rightarrow> bool) \<Rightarrow>
   ('e orch \<Rightarrow> 'e orch \<Rightarrow> bool) \<Rightarrow> 'e fan_in \<Rightarrow> 'e fan_in \<Rightarrow> bool"
  for d parse ok env where
  Own: "Run_step d parse ok s s' \<Longrightarrow> fan_in_step d parse ok env s s'"
| Outside: "outside_step env s s' \<Longrightarrow> fan_in_step d parse ok env s s'"

lemmas Reader = Own [OF Run_reader]
lemmas Turn = Own [OF Run_turn]

lemma fan_in_step_cases [consumes 1, case_names Reader Turn Return Cancel_ctx Produced Elsewhere]:
  assumes "fan_in_step d parse ok env s s'"
    and "\<And>t. t \<in> set observation_topics \<Longrightarrow> reader_step t s s' \<Longrightarrow> P"
    and "\<And>m ms. s' = loop_turn d parse ok m s \<Longrightarrow> \<not> fi_Returned s \<Longrightarrow> fi_Chan s = m # ms \<Longrightarrow> P"
    and "s' = s\<lparr>fi_Returned := True\<rparr> \<Longrightarrow> \<not> fi_Returned s \<Longrightarrow> fi_Done s \<Longrightarrow> P"
    and "s' = s\<lparr>fi_Done := True\<rparr> \<Longrightarrow> P"
    and "\<And>t m. s' = s\<lparr>fi_Log := (fi_Log s)(t := fi_Log s t @ [m])\<rparr> \<Longrightarrow> served t (fi_Log s t @ [m]) \<Longrightarrow>
      redelivered (fi_Position s) m \<Longrightarrow> P"
    and "\<And>w'. s' = s\<lparr>fi_Orch := w'\<rparr> \<Longrightarrow> env (fi_Orch s) w' \<Longrightarrow> P"
  shows P
  using assms(1) by cases (auto elim!: Run_step.cases outside_step.cases intro: assms(2-))

inductive_cases reader_stepE: "reader_step t s s'"

lemmas reader_ops = fetched_def fetch_failed_def forwarded_def reader_stopped_def

section \<open>Invariants\<close>

definition of_topic :: "string \<Rightarrow> kafka_Message list \<Rightarrow> kafka_Message list" where
  "of_topic t = filter (\<lambda>m. k_Topic m = t)"

lemma of_topic_simps [simp]:
  "of_topic t [] = []" "of_topic t (m # ms) = (if k_Topic m = t then m # of_topic t ms else of_topic t ms)"
  "of_topic t (xs @ ys) = of_topic t xs @ of_topic t ys"
  by (simp_all add: of_topic_def)

definition held :: "topicReader \<Rightarrow> kafka_Message list" where
  "held r = (case tr_Held r of None \<Rightarrow> [] | Some m \<Rightarrow> [m])"

text \<open>What the loop handled, what the channel holds and what the reader holds of a topic are, in this order, the
  first messages of its sequence; only a reader that stopped has dropped the last one it fetched.\<close>

definition topic_in_order :: "'e fan_in \<Rightarrow> string \<Rightarrow> bool" where
  "topic_in_order s t \<longleftrightarrow> (let r = fi_Reader s t; k = length (of_topic t (fi_Handled s @ fi_Chan s) @ held r) in
     served t (fi_Log s t) \<and> tr_Next r \<le> length (fi_Log s t) \<and>
     of_topic t (fi_Handled s @ fi_Chan s) @ held r = take k (fi_Log s t) \<and>
     k \<le> tr_Next r \<and> tr_Next r \<le> length (of_topic t (fi_Handled s @ fi_Chan s)) + 1 \<and> (tr_Running r \<longrightarrow> k = tr_Next r))"

definition backoff_in_range :: "duration \<Rightarrow> bool" where
  "backoff_in_range b \<longleftrightarrow> (\<exists>k \<le> 5. b = 2 ^ k * initial_backoff)"

definition fan_in_ok :: "'e fan_in \<Rightarrow> bool" where
  "fan_in_ok s \<longleftrightarrow> (\<forall>t. topic_in_order s t \<and> backoff_in_range (tr_Backoff (fi_Reader s t))) \<and>
     length (fi_Chan s) \<le> msgCh_capacity \<and>
     (\<forall>m \<in> set (fi_Handled s @ fi_Chan s). k_Topic m \<in> set observation_topics) \<and>
     (\<not> fi_Done s \<longrightarrow> \<not> fi_Returned s \<and> (\<forall>t. tr_Running (fi_Reader s t)))"

lemma take_one_more:
  assumes "xs = take k ys" and "k = length xs" and "k < length ys"
  shows "xs @ [ys ! k] = take (Suc k) ys"
  using assms by (simp add: take_Suc_conv_app_nth)

lemma set_reader_simps [simp]:
  "fi_Log (set_reader t r s) = fi_Log s" "fi_Chan (set_reader t r s) = fi_Chan s" "fi_Done (set_reader t r s) = fi_Done s"
  "fi_Returned (set_reader t r s) = fi_Returned s" "fi_Orch (set_reader t r s) = fi_Orch s"
  "fi_Position (set_reader t r s) = fi_Position s" "fi_Handled (set_reader t r s) = fi_Handled s"
  "fi_Reader (set_reader t r s) t' = (if t' = t then r else fi_Reader s t')"
  by (simp_all add: set_reader_def)

lemma held_topic:
  assumes "topic_in_order s t" and "tr_Held (fi_Reader s t) = Some m"
  shows "k_Topic m = t"
proof -
  from assms have "m \<in> set (take (length (of_topic t (fi_Handled s @ fi_Chan s) @ held (fi_Reader s t))) (fi_Log s t))"
    unfolding topic_in_order_def Let_def held_def by (metis in_set_conv_decomp option.simps(5))
  with assms(1) show ?thesis by (auto simp: topic_in_order_def served_def Let_def dest: in_set_takeD)
qed

lemma reader_step_order:
  assumes "reader_step t s s'" and "topic_in_order s t" and "topic_in_order s t'"
  shows "topic_in_order s' t'"
  using assms(1)
proof cases
  case (Check r)
  with assms(3) show ?thesis by (auto simp: topic_in_order_def held_def Let_def)
next
  case (Fetch r)
  with assms(2,3) show ?thesis
    using take_one_more [of "of_topic t (fi_Handled s @ fi_Chan s)" "tr_Next r" "fi_Log s t"]
    by (cases "t' = t") (auto simp: topic_in_order_def fetched_def held_def Let_def)
next
  case (Fetch_error r)
  with assms(3) show ?thesis by (auto simp: topic_in_order_def fetch_failed_def held_def Let_def)
next
  case (Stop r)
  with assms(3) show ?thesis by (auto simp: topic_in_order_def reader_stopped_def held_def Let_def)
next
  case (Forward r m)
  with held_topic [OF assms(2)] have "k_Topic m = t" by simp
  with Forward assms(2,3) show ?thesis
    by (cases "t' = t") (auto simp: topic_in_order_def forwarded_def held_def Let_def)
next
  case (Forward_cancelled r m)
  have T: "xs @ zs @ [m] = take k ys \<Longrightarrow> Suc (length xs + length zs) = k \<Longrightarrow> xs @ zs = take (length xs + length zs) ys"
    for xs zs ys :: "kafka_Message list" and k
    using append_eq_conv_conj [of "xs @ zs" "[m]" "take k ys"] by (auto simp: min_def)
  from Forward_cancelled assms(2,3) show ?thesis
    by (cases "t' = t") (auto simp: topic_in_order_def reader_stopped_def held_def Let_def intro: T)
qed

lemma loop_turn_simps:
  "fi_Log (loop_turn d parse ok m s) = fi_Log s" "fi_Reader (loop_turn d parse ok m s) = fi_Reader s"
  "fi_Chan (loop_turn d parse ok m s) = tl (fi_Chan s)" "fi_Done (loop_turn d parse ok m s) = fi_Done s"
  "fi_Returned (loop_turn d parse ok m s) = fi_Returned s" "fi_Handled (loop_turn d parse ok m s) = fi_Handled s @ [m]"
  by (simp_all add: loop_turn_def split: prod.splits)

lemma fan_in_step_order:
  assumes "fan_in_step d parse ok env s s'" and "\<forall>t. topic_in_order s t"
  shows "topic_in_order s' t"
  using assms(1)
proof (cases rule: fan_in_step_cases)
  case (Reader t')
  with assms(2) reader_step_order show ?thesis by blast
next
  case (Produced t' m)
  with assms(2) show ?thesis by (auto simp: topic_in_order_def Let_def dest!: spec [of _ t])
qed (use assms(2) [rule_format, of t] in \<open>auto simp: topic_in_order_def Let_def loop_turn_simps\<close>)

lemma backoff_next:
  assumes "backoff_in_range b"
  shows "backoff_in_range (if b < 10 * Second then b * 2 else b)"
proof (cases "b < 10 * Second")
  case True
  from assms obtain k where k: "k \<le> 5" "b = 2 ^ k * initial_backoff" by (auto simp: backoff_in_range_def)
  with True have "k \<noteq> 5" by (auto simp: initial_backoff_def)
  with k have "k + 1 \<le> 5" "b * 2 = 2 ^ (k + 1) * initial_backoff" by simp_all
  moreover from True have "(if b < 10 * Second then b * 2 else b) = b * 2" by simp
  ultimately show ?thesis unfolding backoff_in_range_def by metis
qed (use assms in simp)

lemma backoff_first: "backoff_in_range initial_backoff"
  unfolding backoff_in_range_def by (rule exI [of _ 0]) simp

lemma backoff_failed:
  "backoff_in_range (tr_Backoff r) \<Longrightarrow> backoff_in_range (tr_Backoff (fetch_failed stopping r))"
  using backoff_next [of "tr_Backoff r"] by (cases stopping) (simp_all add: fetch_failed_def)

lemma reader_step_backoff:
  assumes "reader_step t s s'" and "backoff_in_range (tr_Backoff (fi_Reader s t))"
    and "backoff_in_range (tr_Backoff (fi_Reader s t'))"
  shows "backoff_in_range (tr_Backoff (fi_Reader s' t'))"
  using assms(1)
  by cases (use assms(2,3) in \<open>simp_all add: fetched_def forwarded_def reader_stopped_def backoff_first backoff_failed\<close>)

lemma reader_step_rest:
  assumes "reader_step t s s'"
  shows "fi_Log s' = fi_Log s \<and> fi_Done s' = fi_Done s \<and> fi_Returned s' = fi_Returned s \<and> fi_Orch s' = fi_Orch s \<and>
    fi_Position s' = fi_Position s \<and> fi_Handled s' = fi_Handled s \<and>
    (fi_Chan s' = fi_Chan s \<or> (\<exists>m. tr_Held (fi_Reader s t) = Some m \<and> length (fi_Chan s) < msgCh_capacity \<and>
       fi_Chan s' = fi_Chan s @ [m])) \<and>
    (\<not> fi_Done s \<longrightarrow> (\<forall>t'. tr_Running (fi_Reader s t') \<longrightarrow> tr_Running (fi_Reader s' t')))"
  using assms by cases (auto simp: reader_ops)

lemma fan_in_step_ok:
  assumes "fan_in_step d parse ok env s s'" and "fan_in_ok s"
  shows "fan_in_ok s'"
proof -
  have o: "\<forall>t. topic_in_order s t" and b: "\<forall>t. backoff_in_range (tr_Backoff (fi_Reader s t))"
    using assms(2) by (simp_all add: fan_in_ok_def)
  have o': "\<forall>t. topic_in_order s' t" using fan_in_step_order [OF assms(1) o] by blast
  have b': "\<forall>t. backoff_in_range (tr_Backoff (fi_Reader s' t))"
    using assms(1)
  proof (cases rule: fan_in_step_cases)
    case (Reader t)
    with reader_step_backoff [OF Reader(2)] b show ?thesis by blast
  qed (use b in \<open>simp_all add: loop_turn_simps\<close>)
  from assms(1) show ?thesis
  proof (cases rule: fan_in_step_cases)
    case (Reader t)
    note rest = reader_step_rest [OF Reader(2)]
    have "fi_Chan s' = fi_Chan s \<or> (\<exists>m. k_Topic m = t \<and> length (fi_Chan s) < msgCh_capacity \<and> fi_Chan s' = fi_Chan s @ [m])"
      using rest held_topic o by blast
    then have "length (fi_Chan s') \<le> msgCh_capacity"
      and "\<forall>m \<in> set (fi_Chan s'). k_Topic m \<in> set observation_topics"
      using assms(2) Reader(1) by (auto simp: fan_in_ok_def)
    with rest assms(2) o' b' show ?thesis by (auto simp: fan_in_ok_def)
  qed (use assms(2) o' b' in \<open>auto simp: fan_in_ok_def loop_turn_simps\<close>)
qed

lemma Run_start_ok:
  assumes "\<forall>t. served t (broker t)"
  shows "fan_in_ok (Run_start b broker w pos)"
proof -
  have "served t (filter P (broker t))" for t P
    using assms by (auto simp: served_def intro: sorted_wrt_filter)
  then show ?thesis
    by (simp add: Run_start_def Let_def fan_in_ok_def topic_in_order_def new_reader_def held_def backoff_first)
qed

lemma fan_in_reachable_ok:
  assumes "(fan_in_step d parse ok env)\<^sup>*\<^sup>* (Run_start b broker w pos) s" and "\<forall>t. served t (broker t)"
  shows "fan_in_ok s"
  using assms(1) by (induction rule: rtranclp_induct) (use Run_start_ok [OF assms(2)] fan_in_step_ok in auto)

lemma fan_in_ok_order: "fan_in_ok s \<Longrightarrow> topic_in_order s t"
  by (simp add: fan_in_ok_def)

text \<open>The committed position never passes a message that has not been handled.\<close>

definition unhandled :: "'e fan_in \<Rightarrow> string \<Rightarrow> kafka_Message list" where
  "unhandled s t = drop (length (of_topic t (fi_Handled s))) (fi_Log s t)"

definition position_behind :: "'e fan_in \<Rightarrow> bool" where
  "position_behind s \<longleftrightarrow> (\<forall>t. \<forall>m \<in> set (unhandled s t). redelivered (fi_Position s) m)"

lemma unhandled_turn:
  assumes "topic_in_order s t" and "fi_Chan s = m # ms" and "k_Topic m = t"
  shows "unhandled s t = m # unhandled (loop_turn d parse ok m s) t \<and>
    (\<forall>m' \<in> set (unhandled (loop_turn d parse ok m s) t). k_Partition m = k_Partition m' \<longrightarrow> k_Offset m < k_Offset m')"
proof -
  let ?h = "of_topic t (fi_Handled s)"
  obtain k where "?h @ m # of_topic t ms @ held (fi_Reader s t) = take k (fi_Log s t)"
    using assms by (auto simp: topic_in_order_def Let_def)
  then obtain rest where l: "fi_Log s t = ?h @ m # rest"
    using append_take_drop_id [of k "fi_Log s t"] by (metis append_Cons append_assoc)
  then have "unhandled s t = m # rest" "unhandled (loop_turn d parse ok m s) t = rest"
    using assms(3) by (simp_all add: unhandled_def loop_turn_simps)
  with assms(1) l show ?thesis by (auto simp: topic_in_order_def Let_def served_def sorted_wrt_append)
qed

lemma unhandled_other:
  "k_Topic m \<noteq> t \<Longrightarrow> unhandled (loop_turn d parse ok m s) t = unhandled s t"
  by (simp add: unhandled_def loop_turn_simps)

lemma position_turn:
  assumes "fan_in_ok s" and "position_behind s" and "fi_Chan s = m # ms"
  shows "position_behind (loop_turn d parse ok m s)"
  unfolding position_behind_def
proof (intro allI ballI)
  fix t m'
  assume m': "m' \<in> set (unhandled (loop_turn d parse ok m s) t)"
  have p: "fi_Position (loop_turn d parse ok m s) = fi_Position s \<or>
      fi_Position (loop_turn d parse ok m s) = commitOffset ok m (fi_Position s)"
    by (auto simp: loop_turn_def split: prod.splits)
  show "redelivered (fi_Position (loop_turn d parse ok m s)) m'"
  proof (cases "k_Topic m = t")
    case True
    note u = unhandled_turn [OF fan_in_ok_order [OF assms(1)] assms(3) True, of d parse ok]
    with m' have "m' \<in> set (unhandled s t)" "k_Partition m = k_Partition m' \<longrightarrow> k_Offset m < k_Offset m'"
      by (metis list.set_intros(2), blast)
    moreover from this(1) assms(2) have "redelivered (fi_Position s) m'" by (auto simp: position_behind_def)
    moreover note p
    ultimately show ?thesis by (auto simp: redelivered_def commitOffset_def)
  next
    case False
    with m' assms(2) have r: "redelivered (fi_Position s) m'" and "m' \<in> set (fi_Log s t)"
      by (auto simp: unhandled_other position_behind_def) (auto simp: unhandled_def dest: in_set_dropD)
    with assms(1) have "k_Topic m' = t" by (auto simp: fan_in_ok_def topic_in_order_def served_def Let_def)
    with False r p show ?thesis by (auto simp: redelivered_def commitOffset_def)
  qed
qed

lemma unhandled_same:
  "fi_Handled s' = fi_Handled s \<Longrightarrow> fi_Log s' = fi_Log s \<Longrightarrow> fi_Position s' = fi_Position s \<Longrightarrow>
   position_behind s' = position_behind s"
  by (simp add: position_behind_def unhandled_def)

lemma handled_length: "topic_in_order s t \<Longrightarrow> length (of_topic t (fi_Handled s)) \<le> length (fi_Log s t)"
  using length_take [of _ "fi_Log s t"] by (auto simp: topic_in_order_def Let_def)

lemma fan_in_step_position:
  assumes "fan_in_step d parse ok env s s'" and "fan_in_ok s" and "position_behind s"
  shows "position_behind s'"
  using assms(1)
proof (cases rule: fan_in_step_cases)
  case (Reader t)
  with reader_step_rest [OF Reader(2)] unhandled_same [of s' s] assms(3) show ?thesis by blast
next
  case (Turn m ms)
  with position_turn [OF assms(2,3) Turn(3)] show ?thesis by simp
next
  case (Produced t m)
  have "length (of_topic t (fi_Handled s)) \<le> length (fi_Log s t)"
    by (rule handled_length [OF fan_in_ok_order [OF assms(2)]])
  with Produced assms(3) show ?thesis by (auto simp: position_behind_def unhandled_def)
qed (use assms(3) in \<open>auto simp: position_behind_def unhandled_def\<close>)

lemma fan_in_reachable_position:
  assumes "(fan_in_step d parse ok env)\<^sup>*\<^sup>* (Run_start b broker w pos) s" and "\<forall>t. served t (broker t)"
  shows "fan_in_ok s \<and> position_behind s"
  using assms(1)
proof (induction rule: rtranclp_induct)
  case base
  show ?case
    using Run_start_ok [OF assms(2)] by (simp add: Run_start_def Let_def position_behind_def unhandled_def)
next
  case (step s s')
  then show ?case using fan_in_step_ok fan_in_step_position by blast
qed

section \<open>The concurrent loop and the sequential one\<close>

lemma Run_loop_append:
  "Run_loop d parse ok (ms @ [m]) w pos = (case Run_loop d parse ok ms w pos of (w1, pos1) \<Rightarrow>
     (case process_message d parse m w1 of (commit, w2) \<Rightarrow>
        (w2, if commit then commitOffset ok m pos1 else pos1)))"
  by (induction ms arbitrary: w pos) (auto split: prod.splits bool.splits)

lemma fan_in_runs_loop:
  assumes "(fan_in_step d parse ok (\<lambda>w w'. False))\<^sup>*\<^sup>* s0 s" and "fi_Handled s0 = []"
  shows "(fi_Orch s, fi_Position s) = Run_loop d parse ok (fi_Handled s) (fi_Orch s0) (fi_Position s0)"
  using assms(1)
proof (induction rule: rtranclp_induct)
  case base
  with assms(2) show ?case by simp
next
  case (step s s')
  from step(2) show ?case
  proof (cases rule: fan_in_step_cases)
    case (Reader t)
    with reader_step_rest [OF Reader(2)] step.IH show ?thesis by simp
  next
    case (Turn m ms)
    with step.IH show ?thesis by (auto simp: Run_loop_append loop_turn_def split: prod.splits)
  qed (use step.IH in simp_all)
qed

text \<open>With steps of the whole system between its own, the loop only takes steps of the system.\<close>

lemma fan_in_sys_steps:
  assumes "(fan_in_step d parse ok (sys_step d parse))\<^sup>*\<^sup>* s0 s"
  shows "(sys_step d parse)\<^sup>*\<^sup>* (fi_Orch s0) (fi_Orch s)"
  using assms
proof (induction rule: rtranclp_induct)
  case (step s s')
  from step(2) have "fi_Orch s' = fi_Orch s \<or> sys_step d parse (fi_Orch s) (fi_Orch s')"
  proof (cases rule: fan_in_step_cases)
    case (Reader t)
    with reader_step_rest [OF Reader(2)] show ?thesis by simp
  next
    case (Turn m ms)
    obtain c w1 where 1: "process_message d parse m (fi_Orch s) = (c, w1)" by force
    with Turn st_message [OF 1] show ?thesis by (simp add: loop_turn_def)
  qed simp_all
  with step.IH show ?case by (metis rtranclp.rtrancl_into_rtrancl)
qed simp

section \<open>Counting\<close>

lemma of_topic_sum:
  assumes "\<forall>m \<in> set ms. k_Topic m \<in> set observation_topics"
  shows "(\<Sum>t \<in> set observation_topics. length (of_topic t ms)) = length ms"
  using assms
proof (induction ms)
  case (Cons m ms)
  have "length (of_topic t (m # ms)) = (if k_Topic m = t then 1 else 0) + length (of_topic t ms)" for t
    by simp
  with Cons show ?case by (simp add: sum.distrib)
qed simp

lemma five_topics: "card (set observation_topics) = 5"
  by code_simp

lemma read_ahead:
  assumes "fan_in_ok s"
  shows "(\<Sum>t \<in> set observation_topics. tr_Next (fi_Reader s t)) \<le> length (fi_Handled s) + length (fi_Chan s) + 5"
proof -
  have "tr_Next (fi_Reader s t) \<le> length (of_topic t (fi_Handled s @ fi_Chan s)) + 1" for t
    using fan_in_ok_order [OF assms, of t] by (simp add: topic_in_order_def Let_def)
  then have "(\<Sum>t \<in> set observation_topics. tr_Next (fi_Reader s t)) \<le>
      (\<Sum>t \<in> set observation_topics. length (of_topic t (fi_Handled s @ fi_Chan s)) + 1)"
    by (rule sum_mono)
  also have "\<dots> = length (fi_Handled s @ fi_Chan s) + 5"
    using of_topic_sum [of "fi_Handled s @ fi_Chan s"] assms
    by (simp only: sum.distrib sum_constant five_topics fan_in_ok_def) simp
  finally show ?thesis by simp
qed

lemma fan_in_steps_ok: "(fan_in_step d parse ok env)\<^sup>*\<^sup>* s s' \<Longrightarrow> fan_in_ok s \<Longrightarrow> fan_in_ok s'"
  by (induction rule: rtranclp_induct) (auto intro: fan_in_step_ok)

text \<open>As long as a message of a topic is not handled, the loop can reach a state in which it has handled one more.\<close>

abbreviation handles_more where
  "handles_more d parse ok env s s' \<equiv> (fan_in_step d parse ok env)\<^sup>*\<^sup>* s s' \<and> \<not> fi_Done s' \<and> fi_Log s' = fi_Log s \<and>
     length (fi_Handled s') = length (fi_Handled s) + 1"

lemma handle_from_channel:
  assumes "fan_in_ok s" and "\<not> fi_Done s" and "fi_Chan s \<noteq> []"
  shows "\<exists>s'. handles_more d parse ok env s s'"
proof -
  from assms(3) obtain m ms where "fi_Chan s = m # ms" by (cases "fi_Chan s") simp
  with assms(1,2) have "fan_in_step d parse ok env s (loop_turn d parse ok m s)"
    by (intro Turn) (simp_all add: fan_in_ok_def)
  with assms(2) show ?thesis by (intro exI [of _ "loop_turn d parse ok m s"]) (simp add: loop_turn_simps r_into_rtranclp)
qed

lemma handles_more_after:
  assumes "fan_in_step d parse ok env s s1" and "fi_Log s1 = fi_Log s" and "fi_Handled s1 = fi_Handled s"
    and "\<exists>s'. handles_more d parse ok env s1 s'"
  shows "\<exists>s'. handles_more d parse ok env s s'"
  using assms by (auto intro: converse_rtranclp_into_rtranclp)

lemma handle_held:
  assumes "fan_in_ok s" and "\<not> fi_Done s" and "t \<in> set observation_topics" and "tr_Held (fi_Reader s t) = Some m"
  shows "\<exists>s'. handles_more d parse ok env s s'"
proof (cases "fi_Chan s = []")
  case True
  let ?s = "set_reader t (forwarded (fi_Reader s t)) (s\<lparr>fi_Chan := fi_Chan s @ [m]\<rparr>)"
  have 1: "fan_in_step d parse ok env s ?s"
    using assms True by (intro Reader [OF assms(3)] Forward) (simp_all add: fan_in_ok_def msgCh_capacity_def)
  have "\<exists>s'. handles_more d parse ok env ?s s'"
    using handle_from_channel [OF fan_in_step_ok [OF 1 assms(1)]] assms(2) by simp
  with handles_more_after [OF 1] show ?thesis by simp
qed (use handle_from_channel assms(1,2) in blast)

lemma handle_fetching:
  assumes "fan_in_ok s" and "\<not> fi_Done s" and "t \<in> set observation_topics" and "of_topic t (fi_Handled s) \<noteq> fi_Log s t"
    and "fi_Chan s = []" and "tr_Held (fi_Reader s t) = None" and "tr_Checked (fi_Reader s t)"
  shows "\<exists>s'. handles_more d parse ok env s s'"
proof -
  let ?r = "fi_Reader s t"
  let ?s = "set_reader t (fetched (fi_Log s t ! tr_Next ?r) ?r) s"
  have "tr_Next ?r < length (fi_Log s t)" "tr_Running ?r"
    using fan_in_ok_order [OF assms(1), of t] assms
    by (auto simp: topic_in_order_def held_def Let_def fan_in_ok_def nat_less_le)
  with assms have 1: "fan_in_step d parse ok env s ?s" by (intro Reader [OF assms(3)] Fetch) simp_all
  have "\<exists>s'. handles_more d parse ok env ?s s'"
    by (rule handle_held [OF fan_in_step_ok [OF 1 assms(1)] _ assms(3)]) (use assms(2) in \<open>simp_all add: fetched_def\<close>)
  with handles_more_after [OF 1] show ?thesis by simp
qed

lemma handle_next:
  assumes "fan_in_ok s" and "\<not> fi_Done s" and "t \<in> set observation_topics" and "of_topic t (fi_Handled s) \<noteq> fi_Log s t"
  shows "\<exists>s'. handles_more d parse ok env s s'"
proof -
  let ?r = "fi_Reader s t"
  consider "fi_Chan s \<noteq> []" | m where "tr_Held ?r = Some m" | "fi_Chan s = []" "tr_Held ?r = None" "tr_Checked ?r"
    | "fi_Chan s = []" "tr_Held ?r = None" "\<not> tr_Checked ?r" by (cases "tr_Held ?r") auto
  then show ?thesis
  proof cases
    case 4
    let ?s = "set_reader t (?r\<lparr>tr_Checked := True\<rparr>) s"
    have 1: "fan_in_step d parse ok env s ?s"
      using assms(1,2) 4 by (intro Reader [OF assms(3)] Check) (simp_all add: fan_in_ok_def)
    have "\<exists>s'. handles_more d parse ok env ?s s'"
      by (rule handle_fetching [OF fan_in_step_ok [OF 1 assms(1)] _ assms(3)]) (use assms(2,4) 4 in simp_all)
    with handles_more_after [OF 1] show ?thesis by simp
  qed (use handle_from_channel [OF assms(1,2)] handle_held [OF assms(1-3)] handle_fetching [OF assms] in auto)
qed

lemma all_handled:
  assumes "fan_in_ok s" and "\<not> fi_Done s"
  shows "\<exists>s'. (fan_in_step d parse ok env)\<^sup>*\<^sup>* s s' \<and> fi_Log s' = fi_Log s \<and>
    (\<forall>t \<in> set observation_topics. of_topic t (fi_Handled s') = fi_Log s t)"
  using assms
proof (induction "(\<Sum>t \<in> set observation_topics. length (fi_Log s t)) - length (fi_Handled s)" arbitrary: s rule: less_induct)
  case less
  show ?case
  proof (cases "\<forall>t \<in> set observation_topics. of_topic t (fi_Handled s) = fi_Log s t")
    case False
    then obtain t where t: "t \<in> set observation_topics" "of_topic t (fi_Handled s) \<noteq> fi_Log s t" by blast
    from handle_next [OF less.prems t] obtain s1 where 1: "handles_more d parse ok env s s1" by blast
    from 1 have ok1: "fan_in_ok s1" using fan_in_steps_ok less.prems(1) by blast
    have "length (fi_Handled s1) \<le> (\<Sum>t \<in> set observation_topics. length (fi_Log s1 t))"
      using of_topic_sum [of "fi_Handled s1"] ok1 handled_length [OF fan_in_ok_order [OF ok1]]
        sum_mono [of "set observation_topics" "\<lambda>t. length (of_topic t (fi_Handled s1))" "\<lambda>t. length (fi_Log s1 t)"]
      by (simp add: fan_in_ok_def)
    with 1 have "(\<Sum>t \<in> set observation_topics. length (fi_Log s1 t)) - length (fi_Handled s1) <
        (\<Sum>t \<in> set observation_topics. length (fi_Log s t)) - length (fi_Handled s)" by simp
    from less.hyps [OF this ok1] 1 show ?thesis by (auto intro: rtranclp_trans)
  qed blast
qed

section \<open>Properties\<close>

text \<open>C30 (readers_refine_loop): if nothing else touches the orchestrator, every run of the concurrent readers
  and the main loop is a run of the sequential \<open>Run_loop\<close> on a sequence of messages that contains the messages
  of each topic in the order the broker serves them, without gaps and starting from the first.  The channel
  never holds more than 1024 messages, the readers are never more than these and one message per topic
  ahead of the loop, and the wait after a failed fetch is between half a second and 16 seconds.\<close>

theorem readers_refine_loop:
  assumes "\<forall>t. served t (broker t)"
    and "(fan_in_step d parse ok (\<lambda>w w'. False))\<^sup>*\<^sup>* (Run_start b broker w pos) s"
  shows "(fi_Orch s, fi_Position s) =
      Run_loop d parse ok (fi_Handled s) w (fold (skip_topic b) observation_topics pos) \<and>
    (\<forall>t. \<exists>k. filter (\<lambda>m. k_Topic m = t) (fi_Handled s) = take k (fi_Log s t)) \<and>
    length (fi_Chan s) \<le> 1024 \<and>
    (\<Sum>t \<in> set observation_topics. tr_Next (fi_Reader s t)) \<le> length (fi_Handled s) + 1024 + 5 \<and>
    (\<forall>t. 500 * Millisecond \<le> tr_Backoff (fi_Reader s t) \<and> tr_Backoff (fi_Reader s t) \<le> 16 * Second)"
proof (intro conjI allI)
  have ok: "fan_in_ok s" using fan_in_reachable_ok [OF assms(2,1)] .
  show "(fi_Orch s, fi_Position s) =
      Run_loop d parse ok (fi_Handled s) w (fold (skip_topic b) observation_topics pos)"
    using fan_in_runs_loop [OF assms(2)] by (simp add: Run_start_def Let_def)
  from ok show c: "length (fi_Chan s) \<le> 1024" by (simp add: fan_in_ok_def msgCh_capacity_def)
  show "(\<Sum>t \<in> set observation_topics. tr_Next (fi_Reader s t)) \<le> length (fi_Handled s) + 1024 + 5"
    using read_ahead [OF ok] c by simp
  fix t
  show "\<exists>k. filter (\<lambda>m. k_Topic m = t) (fi_Handled s) = take k (fi_Log s t)"
    using fan_in_ok_order [OF ok, of t] append_eq_conv_conj [of "of_topic t (fi_Handled s)"]
    by (auto simp: topic_in_order_def Let_def take_take of_topic_def)
  have "(2 :: int) ^ k \<le> 2 ^ 5" if "k \<le> 5" for k :: nat using that by (intro power_increasing) simp_all
  moreover obtain k where "k \<le> 5" "tr_Backoff (fi_Reader s t) = 2 ^ k * initial_backoff"
    using ok by (auto simp: fan_in_ok_def backoff_in_range_def dest!: spec [of _ t])
  ultimately show "500 * Millisecond \<le> tr_Backoff (fi_Reader s t)" "tr_Backoff (fi_Reader s t) \<le> 16 * Second"
    using one_le_power [of "2 :: int" k] by (fastforce simp: initial_backoff_def)+
qed

text \<open>C31 (unhandled_redelivered): however the readers, the loop, the rest of the system and a shutdown
  interleave, a message that the broker serves and the loop has not handled is read again after a restart:
  what waits in the channel or in a reader when the process ends is not lost.\<close>

theorem unhandled_redelivered:
  assumes "\<forall>t. served t (broker t)"
    and "(fan_in_step d parse ok (sys_step d parse))\<^sup>*\<^sup>* (Run_start b broker w pos) s"
    and "m \<in> set (fi_Log s t)" and "m \<notin> set (fi_Handled s)"
  shows "redelivered (fi_Position s) m"
proof -
  from fan_in_reachable_position [OF assms(2,1)] have ok: "fan_in_ok s" and p: "position_behind s" by blast+
  let ?h = "of_topic t (fi_Handled s)"
  have "take (length ?h) (fi_Log s t) = ?h"
    using fan_in_ok_order [OF ok, of t] append_eq_conv_conj [of ?h]
    by (auto simp: topic_in_order_def Let_def take_take min_def)
  then have "set (fi_Log s t) = set ?h \<union> set (unhandled s t)"
    using set_append [of "take (length ?h) (fi_Log s t)" "drop (length ?h) (fi_Log s t)"]
    unfolding append_take_drop_id unhandled_def by simp
  with assms(3,4) have "m \<in> set (unhandled s t)" by (auto simp: of_topic_def)
  with p show ?thesis by (simp add: position_behind_def)
qed

text \<open>C32 (readers_progress): the readers and the loop never block each other: from every state of a run that
  has not been cancelled they can go on, without any new message, until every message the broker serves
  has been handled.\<close>

theorem readers_progress:
  assumes "\<forall>t. served t (broker t)"
    and "(fan_in_step d parse ok env)\<^sup>*\<^sup>* (Run_start b broker w pos) s" and "\<not> fi_Done s"
  shows "\<exists>s'. (fan_in_step d parse ok env)\<^sup>*\<^sup>* s s' \<and> fi_Log s' = fi_Log s \<and>
    (\<forall>t \<in> set observation_topics. filter (\<lambda>m. k_Topic m = t) (fi_Handled s') = fi_Log s t)"
  using all_handled [OF fan_in_reachable_ok [OF assms(2,1)] assms(3)] by (simp add: of_topic_def)

text \<open>Two log observations wait at the broker.  The reader fetches the first one, then the process is stopped.\<close>

definition sample_broker :: "string \<Rightarrow> kafka_Message list" where
  "sample_broker t = (if t = TopicObservationsLog
     then [(sample_message [] 7)\<lparr>k_Topic := t\<rparr>, (sample_message [] 8)\<lparr>k_Topic := t\<rparr>] else [])"

definition sample_backlog :: "string \<Rightarrow> backlog_answers" where
  "sample_backlog t = \<lparr>ba_Metadata = Inr [], ba_Committed = Inr [], ba_Offsets = Inr [], ba_Commits = []\<rparr>"

lemma sample_served: "\<forall>t. served t (sample_broker t)"
  by (simp add: served_def sample_broker_def sample_message_def)

lemma sample_start: "fold (skip_topic sample_backlog) ts pos = pos"
  by (induction ts arbitrary: pos) (simp_all add: skip_topic_def skipBacklogFast_def sample_backlog_def)

abbreviation "sample_fan_in \<equiv> Run_start sample_backlog sample_broker (sample_orch [] []) (\<lambda>p. 7)"

lemma sample_log:
  "fi_Log sample_fan_in TopicObservationsLog =
     [(sample_message [] 7)\<lparr>k_Topic := TopicObservationsLog\<rparr>, (sample_message [] 8)\<lparr>k_Topic := TopicObservationsLog\<rparr>]"
  by (simp add: Run_start_def sample_start sample_broker_def redelivered_def sample_message_def Let_def)

lemma log_topic_observed: "TopicObservationsLog \<in> set observation_topics"
  by (simp add: observation_topics_def)

lemma sample_fetch:
  "\<exists>s. (fan_in_step d parse ok env)\<^sup>*\<^sup>* sample_fan_in s \<and> \<not> fi_Done s \<and> fi_Log s = fi_Log sample_fan_in \<and> fi_Handled s = [] \<and>
    fi_Position s = (\<lambda>p. 7) \<and> held (fi_Reader s TopicObservationsLog) = [(sample_message [] 7)\<lparr>k_Topic := TopicObservationsLog\<rparr>]"
proof -
  let ?r = "fi_Reader sample_fan_in TopicObservationsLog"
  let ?c = "set_reader TopicObservationsLog (?r\<lparr>tr_Checked := True\<rparr>) sample_fan_in"
  let ?q = "fi_Reader ?c TopicObservationsLog"
  let ?s = "set_reader TopicObservationsLog (fetched (fi_Log ?c TopicObservationsLog ! tr_Next ?q) ?q) ?c"
  have r: "?r = new_reader" "fi_Position sample_fan_in = (\<lambda>p. 7)" "fi_Handled sample_fan_in = []" "\<not> fi_Done sample_fan_in"
    by (simp_all add: Run_start_def sample_start Let_def)
  then have 1: "fan_in_step d parse ok env sample_fan_in ?c"
    by (intro Reader [OF log_topic_observed] Check) (simp_all add: new_reader_def)
  have 2: "fan_in_step d parse ok env ?c ?s"
    using r by (intro Reader [OF log_topic_observed] Fetch) (simp_all add: sample_log new_reader_def)
  from 1 2 have "(fan_in_step d parse ok env)\<^sup>*\<^sup>* sample_fan_in ?s" by simp
  with r show ?thesis by (intro exI [of _ ?s]) (simp add: sample_log new_reader_def fetched_def held_def)
qed

theorem readers_refine_loop_witness:
  "\<exists>s. (fan_in_step sample_deps (\<lambda>v. Inl (Sentinel EOF)) (\<lambda>m. True) (\<lambda>w w'. False))\<^sup>*\<^sup>* sample_fan_in s \<and>
    length (fi_Chan s) \<le> 1024 \<and> fi_Log s \<noteq> (\<lambda>t. [])"
proof -
  obtain s where 1: "(fan_in_step sample_deps (\<lambda>v. Inl (Sentinel EOF)) (\<lambda>m. True) (\<lambda>w w'. False))\<^sup>*\<^sup>* sample_fan_in s"
    and 2: "fi_Log s = fi_Log sample_fan_in" using sample_fetch by blast
  from readers_refine_loop [OF sample_served 1] have "length (fi_Chan s) \<le> 1024" by blast
  moreover from 2 sample_log have "fi_Log s \<noteq> (\<lambda>t. [])" by (metis list.distinct(1))
  ultimately show ?thesis using 1 by blast
qed

theorem unhandled_redelivered_witness:
  "\<exists>s. (fan_in_step sample_deps (\<lambda>v. Inl (Sentinel EOF)) (\<lambda>m. True)
       (sys_step sample_deps (\<lambda>v. Inl (Sentinel EOF))))\<^sup>*\<^sup>* sample_fan_in s \<and>
    held (fi_Reader s TopicObservationsLog) = [(sample_message [] 7)\<lparr>k_Topic := TopicObservationsLog\<rparr>] \<and>
    redelivered (fi_Position s) ((sample_message [] 7)\<lparr>k_Topic := TopicObservationsLog\<rparr>)"
proof -
  let ?m = "(sample_message [] 7)\<lparr>k_Topic := TopicObservationsLog\<rparr>"
  obtain s where 1: "(fan_in_step sample_deps (\<lambda>v. Inl (Sentinel EOF)) (\<lambda>m. True)
      (sys_step sample_deps (\<lambda>v. Inl (Sentinel EOF))))\<^sup>*\<^sup>* sample_fan_in s"
    and 2: "fi_Log s = fi_Log sample_fan_in" "fi_Handled s = []" "held (fi_Reader s TopicObservationsLog) = [?m]"
    using sample_fetch by blast
  have "?m \<in> set (fi_Log s TopicObservationsLog)" "?m \<notin> set (fi_Handled s)" by (simp_all add: 2(1,2) sample_log)
  from unhandled_redelivered [OF sample_served 1 this] 2(3) 1
  show ?thesis by blast
qed

theorem readers_progress_witness:
  "\<exists>s'. (fan_in_step sample_deps (\<lambda>v. Inl (Sentinel EOF)) (\<lambda>m. True) (\<lambda>w w'. False))\<^sup>*\<^sup>* sample_fan_in s' \<and>
    filter (\<lambda>m. k_Topic m = TopicObservationsLog) (fi_Handled s') =
      [(sample_message [] 7)\<lparr>k_Topic := TopicObservationsLog\<rparr>, (sample_message [] 8)\<lparr>k_Topic := TopicObservationsLog\<rparr>]"
proof -
  obtain s where 1: "(fan_in_step sample_deps (\<lambda>v. Inl (Sentinel EOF)) (\<lambda>m. True) (\<lambda>w w'. False))\<^sup>*\<^sup>* sample_fan_in s"
    and 2: "fi_Log s = fi_Log sample_fan_in" "\<not> fi_Done s" using sample_fetch by blast
  from readers_progress [OF sample_served 1 2(2)] obtain s'
    where 3: "(fan_in_step sample_deps (\<lambda>v. Inl (Sentinel EOF)) (\<lambda>m. True) (\<lambda>w w'. False))\<^sup>*\<^sup>* s s'"
      and 4: "\<forall>t \<in> set observation_topics. filter (\<lambda>m. k_Topic m = t) (fi_Handled s') = fi_Log s t" by blast
  from 4 log_topic_observed have "filter (\<lambda>m. k_Topic m = TopicObservationsLog) (fi_Handled s') =
      fi_Log s TopicObservationsLog" by blast
  with 2(1) sample_log have "filter (\<lambda>m. k_Topic m = TopicObservationsLog) (fi_Handled s') =
      [(sample_message [] 7)\<lparr>k_Topic := TopicObservationsLog\<rparr>, (sample_message [] 8)\<lparr>k_Topic := TopicObservationsLog\<rparr>]"
    by metis
  moreover from 1 3 have "(fan_in_step sample_deps (\<lambda>v. Inl (Sentinel EOF)) (\<lambda>m. True) (\<lambda>w w'. False))\<^sup>*\<^sup>* sample_fan_in s'"
    by (rule rtranclp_trans)
  ultimately show ?thesis by blast
qed

end
