(* ===== verification/Event_Shutdown.thy ===== *)
theory Event_Shutdown imports Event_Readers begin

text \<open>
  The end of \<open>eventLoop.Run\<close>: once the context is cancelled the loop returns, and the deferred function closes
  the readers and waits for their goroutines.  A measure shows that \<open>Run\<close> ends after a bounded number of its
  own steps, whatever the rest of the system does in between.
\<close>

section \<open>The deferred function\<close>

text \<open>\<open>wg.Wait\<close> returns when no goroutine runs; closing a reader makes its pending \<open>FetchMessage\<close> fail, which
  \<open>Fetch_error\<close> allows at any time.\<close>

definition Run_ended :: "'e fan_in \<Rightarrow> bool" where
  "Run_ended s \<longleftrightarrow> fi_Returned s \<and> (\<forall>t \<in> set observation_topics. \<not> tr_Running (fi_Reader s t))"

section \<open>The measure\<close>

definition reader_work :: "topicReader \<Rightarrow> nat" where
  "reader_work r = (if \<not> tr_Running r then 0 else if tr_Held r \<noteq> None then 3 else if tr_Checked r then 4 else 1)"

definition readers_work :: "'e fan_in \<Rightarrow> nat" where
  "readers_work s = (\<Sum>t \<in> set observation_topics. reader_work (fi_Reader s t))"

definition shutdown_work :: "'e fan_in \<Rightarrow> nat" where
  "shutdown_work s = readers_work s + length (fi_Chan s) + (if fi_Returned s then 0 else 1)"

lemma readers_work_set:
  assumes "t \<in> set observation_topics"
  shows "readers_work (set_reader t r s) + reader_work (fi_Reader s t) = readers_work s + reader_work r"
proof -
  have "(\<Sum>u \<in> set observation_topics - {t}. reader_work (fi_Reader (set_reader t r s) u)) =
      (\<Sum>u \<in> set observation_topics - {t}. reader_work (fi_Reader s u))"
    by (rule sum.cong) auto
  then show ?thesis
    using assms sum.remove [of "set observation_topics" t "\<lambda>u. reader_work (fi_Reader s u)"]
      sum.remove [of "set observation_topics" t "\<lambda>u. reader_work (fi_Reader (set_reader t r s) u)"]
    by (simp add: readers_work_def)
qed

lemma readers_work_bound: "readers_work s \<le> 20"
proof -
  have "readers_work s \<le> (\<Sum>t \<in> set observation_topics. 4)"
    unfolding readers_work_def by (rule sum_mono) (simp add: reader_work_def)
  then show ?thesis by (simp add: five_topics)
qed

lemma shutdown_work_bound: "fan_in_ok s \<Longrightarrow> shutdown_work s \<le> 1045"
  using readers_work_bound [of s] by (simp add: shutdown_work_def fan_in_ok_def msgCh_capacity_def)

lemma reader_step_work:
  assumes "reader_step t s s'" and "t \<in> set observation_topics" and "fi_Done s"
  shows "readers_work s' + length (fi_Chan s') < readers_work s + length (fi_Chan s)"
proof -
  note w = readers_work_set [OF assms(2)]
  have same: "readers_work (u\<lparr>fi_Chan := c\<rparr>) = readers_work u" for u :: "'a fan_in" and c by (simp add: readers_work_def)
  have less: ?thesis if "s' = set_reader t r' s" "reader_work r' < reader_work (fi_Reader s t)" for r'
    using w [of r' s] that by simp
  from assms(1) show ?thesis
  proof cases
    case Check
    with assms(3) show ?thesis by blast
  next
    case (Fetch r)
    then show ?thesis by (intro less) (auto simp: reader_work_def reader_ops)
  next
    case (Fetch_error r)
    then show ?thesis using assms(3) by (intro less) (auto simp: reader_work_def reader_ops)
  next
    case (Stop r)
    then show ?thesis by (intro less) (auto simp: reader_work_def reader_ops)
  next
    case (Forward_cancelled r m)
    then show ?thesis by (intro less) (auto simp: reader_work_def reader_ops)
  next
    case (Forward r m)
    then show ?thesis
      using w [of "forwarded r" "s\<lparr>fi_Chan := fi_Chan s @ [m]\<rparr>"] by (simp add: reader_work_def forwarded_def same)
  qed
qed

lemma Run_step_work:
  assumes "Run_step d parse ok s s'" and "fi_Done s"
  shows "shutdown_work s' < shutdown_work s \<and> fi_Done s'"
  using assms(1)
proof cases
  case (Run_reader t)
  with reader_step_work [OF Run_reader(2,1) assms(2)] reader_step_rest [OF Run_reader(2)] assms(2)
  show ?thesis by (simp add: shutdown_work_def)
next
  case (Run_turn m ms)
  with assms(2) show ?thesis by (simp add: shutdown_work_def readers_work_def loop_turn_simps)
next
  case Run_return
  with assms(2) show ?thesis by (simp add: shutdown_work_def readers_work_def)
qed

lemma outside_steps_work:
  assumes "(outside_step env)\<^sup>*\<^sup>* s s'"
  shows "shutdown_work s' = shutdown_work s \<and> (fi_Done s \<longrightarrow> fi_Done s')"
  using assms
proof (induction rule: rtranclp_induct)
  case (step u v)
  from step.hyps(2) have "shutdown_work v = shutdown_work u \<and> (fi_Done u \<longrightarrow> fi_Done v)"
    by cases (auto simp: shutdown_work_def readers_work_def)
  with step.IH show ?case by simp
qed simp

text \<open>A step of \<open>Run\<close> after any number of steps of the others.\<close>

definition paced_step ::
  "'e deps \<Rightarrow> (string \<Rightarrow> observationPayload result) \<Rightarrow> (kafka_Message \<Rightarrow> bool) \<Rightarrow>
   ('e orch \<Rightarrow> 'e orch \<Rightarrow> bool) \<Rightarrow> 'e fan_in \<Rightarrow> 'e fan_in \<Rightarrow> bool" where
  "paced_step d parse ok env = (outside_step env)\<^sup>*\<^sup>* OO Run_step d parse ok"

lemma paced_steps_work:
  assumes "(paced_step d parse ok env ^^ n) s s'" and "fi_Done s"
  shows "n + shutdown_work s' \<le> shutdown_work s \<and> fi_Done s'"
  using assms(1)
proof (induction n arbitrary: s')
  case (Suc n)
  then obtain u v where "(paced_step d parse ok env ^^ n) s u" "(outside_step env)\<^sup>*\<^sup>* u v" "Run_step d parse ok v s'"
    by (auto simp: paced_step_def)
  with Suc.IH [of u] outside_steps_work [of env u v] Run_step_work [of d parse ok v s'] show ?case by fastforce
qed (simp add: assms(2))

text \<open>While \<open>Run\<close> has not ended, one of its steps is possible.\<close>

lemma Run_can_go_on:
  assumes "fi_Done s" and "\<not> Run_ended s"
  shows "\<exists>s'. Run_step d parse ok s s'"
proof (cases "fi_Returned s")
  case False
  with assms(1) show ?thesis by (blast intro: Run_return)
next
  case True
  with assms(2) obtain t where t: "t \<in> set observation_topics" "tr_Running (fi_Reader s t)"
    by (auto simp: Run_ended_def)
  consider m where "tr_Held (fi_Reader s t) = Some m" | "tr_Held (fi_Reader s t) = None" "tr_Checked (fi_Reader s t)"
    | "tr_Held (fi_Reader s t) = None" "\<not> tr_Checked (fi_Reader s t)" by (cases "tr_Held (fi_Reader s t)") auto
  then show ?thesis
  proof cases
    case 1
    from Run_reader [OF t(1) Forward_cancelled [OF refl t(2) 1 assms(1)]] show ?thesis by blast
  next
    case 2
    from Run_reader [OF t(1) Fetch_error [OF refl t(2) 2]] show ?thesis by blast
  next
    case 3
    from Run_reader [OF t(1) Stop [OF refl t(2) 3 assms(1)]] show ?thesis by blast
  qed
qed

lemma fan_in_outside: "(outside_step env)\<^sup>*\<^sup>* s s' \<Longrightarrow> (fan_in_step d parse ok env)\<^sup>*\<^sup>* s s'"
  by (induction rule: rtranclp_induct) (auto intro: rtranclp.rtrancl_into_rtrancl Outside)

section \<open>Properties\<close>

text \<open>C33 (shutdown_terminates): once the context is cancelled, \<open>Run\<close> makes at most 1045 more steps of its own, those
  of the five readers and of the loop, whatever the broker and the rest of the system do in between; and
  it never gets stuck: it goes on until the loop has returned and no goroutine is left.\<close>

theorem shutdown_terminates:
  assumes "\<forall>t. served t (broker t)"
    and "(fan_in_step d parse ok env)\<^sup>*\<^sup>* (Run_start b broker w pos) s" and "fi_Done s"
    and "(paced_step d parse ok env ^^ n) s s'"
  shows "n \<le> 1045 \<and> (Run_ended s' \<or> (\<exists>s''. Run_step d parse ok s' s''))"
proof -
  have "shutdown_work s \<le> 1045" using shutdown_work_bound fan_in_reachable_ok [OF assms(2,1)] by blast
  with paced_steps_work [OF assms(4,3)] Run_can_go_on show ?thesis by fastforce
qed

text \<open>The context is cancelled before a message is read: the loop returns, the readers are still to stop.\<close>

theorem shutdown_terminates_witness:
  "\<exists>s s'. (fan_in_step sample_deps (\<lambda>v. Inl (Sentinel EOF)) (\<lambda>m. True) (\<lambda>w w'. False))\<^sup>*\<^sup>* sample_fan_in s \<and> fi_Done s \<and>
    paced_step sample_deps (\<lambda>v. Inl (Sentinel EOF)) (\<lambda>m. True) (\<lambda>w w'. False) s s' \<and>
    (Run_ended s' \<or> (\<exists>s''. Run_step sample_deps (\<lambda>v. Inl (Sentinel EOF)) (\<lambda>m. True) s' s''))"
proof -
  let ?d = "sample_deps" and ?p = "\<lambda>v. Inl (Sentinel EOF) :: observationPayload result" and ?ok = "\<lambda>m :: kafka_Message. True"
    and ?env = "\<lambda>w w' :: unit orch. False"
  let ?s = "sample_fan_in\<lparr>fi_Done := True\<rparr>"
  let ?s' = "?s\<lparr>fi_Returned := True\<rparr>"
  have 1: "(fan_in_step ?d ?p ?ok ?env)\<^sup>*\<^sup>* sample_fan_in ?s" by (intro r_into_rtranclp Outside Cancelled)
  have 2: "paced_step ?d ?p ?ok ?env ?s ?s'"
    unfolding paced_step_def
    by (rule relcomppI, rule rtranclp.rtrancl_refl, rule Run_return) (simp_all add: Run_start_def Let_def)
  then have "(paced_step ?d ?p ?ok ?env ^^ 1) ?s ?s'" by (simp only: relpowp_1)
  from shutdown_terminates [OF sample_served 1 _ this] have "Run_ended ?s' \<or> (\<exists>s''. Run_step ?d ?p ?ok ?s' s'')" by simp
  with 1 2 show ?thesis by (intro exI [of _ ?s] exI [of _ ?s']) simp
qed

end
