(* ===== verification/Diagnosis.thy ===== *)
theory Diagnosis imports Event_Spec begin

text \<open>
  The life of a diagnosis: the handlers, the event loop and the sweep timer composed, from the start of a
  session to its end, on a database that answers.
\<close>

section \<open>What the steps of a diagnosis leave alone\<close>

definition calm :: "'a db_scheme \<Rightarrow> 'a db_scheme \<Rightarrow> bool" where
  "calm w w' \<longleftrightarrow> (w_faults w = [] \<longrightarrow> w_faults w' = []) \<and> w_locked w' = w_locked w \<and>
     map s_ID (w_sessions w') = map s_ID (w_sessions w)"

lemma calm_refl [simp]: "calm w w"
  by (simp add: calm_def)

lemma calm_trans: "calm u v \<Longrightarrow> calm v w \<Longrightarrow> calm u w"
  by (simp add: calm_def)

lemma calm_pop [simp]: "calm w (pop_fault w') \<longleftrightarrow> calm w w' \<or> calm w (pop_fault w')"
  by (auto simp: calm_def pop_fault_def)

lemma calm_exec_frame: "exec_frame w w' \<Longrightarrow> calm w w'"
  by (simp add: exec_frame_def calm_def)

lemma calm_env: "call_env f w = (r, w') \<Longrightarrow> calm w w'"
  by (rule calm_exec_frame [OF call_env_frame(1)])

lemma calm_Transition:
  assumes "w_faults w = []"
  shows "calm w (snd (Transition sid ev w))"
  using assms moved_simps(1,2) [where w = w]
  by (auto simp: Transition_no_fault transition_result_def calm_def engine_frame_def status_rows.keys_put
      sleep_def split: option.splits)

lemma calm_fire: "w_faults w = [] \<Longrightarrow> calm w (fire ev i w)"
  unfolding fire_def by (rule calm_Transition)

lemma calm_fold:
  assumes "\<And>x u. w_faults u = [] \<Longrightarrow> calm u (f x u)" and "w_faults w = []"
  shows "calm w (fold f xs w)"
  using assms(2)
proof (induction xs arbitrary: w)
  case (Cons x xs)
  from assms(1) [OF Cons.prems] have 1: "calm w (f x w)" .
  with Cons.prems have "w_faults (f x w) = []" by (simp add: calm_def)
  from Cons.IH [OF this] calm_trans [OF 1] show ?case by simp
qed simp

lemma calm_notify: "calm w (webhook_Notify e w)"
proof -
  obtain rows w1 where 1: "WebhookDAO_ListEnabled w = (rows, w1)" by force
  then have "calm w w1"
    by (auto simp: WebhookDAO_ListEnabled_def query_columns_def missing_column_def calm_def
        split: prod.splits sum.splits if_splits option.splits elim!: db_query_cases)
  with 1 show ?thesis
    by (cases rows) (auto simp: webhook_Notify_def WebhookNotifier_Notify_def calm_def)
qed

lemma calm_publish: "producer_Publish d msg w = (r, w') \<Longrightarrow> calm w w'"
  by (auto simp: producer_Publish_def calm_def split: prod.splits option.splits dest!: calm_env)

lemma calm_dispatch_all: "calm w (dispatch_all d i svc agents w)"
proof (induction agents arbitrary: w)
  case (Cons a agents)
  obtain kind topic where a: "a = (kind, topic)" by force
  obtain r w1 where 1: "producer_Publish d (command_message topic i svc ''collect'' kind) w = (r, w1)" by force
  from calm_trans [OF calm_publish [OF 1] Cons.IH] 1 a show ?case by simp
qed simp

lemma calm_dispatch:
  "DispatchCollect d i svc w = (r, w') \<Longrightarrow> calm w w'" "DispatchAnalyze d i svc w = (r, w') \<Longrightarrow> calm w w'"
  by (auto simp: DispatchCollect_def DispatchAnalyze_def calm_dispatch_all split: if_splits prod.splits option.splits
      dest: calm_publish)

lemma calm_fix_updates:
  "calm w (snd (FixActionDAO_UpdateExecutionStatus i st w))" "calm w (snd (FixActionDAO_UpdateApprovalStatus i st w))"
  "calm w (snd (FixActionDAO_SetTicketID i tk w))"
  by (auto simp: FixActionDAO_UpdateExecutionStatus_def FixActionDAO_UpdateApprovalStatus_def FixActionDAO_SetTicketID_def
      set_fix_def calm_def split: prod.split option.split elim!: db_exec_cases dest!: fitted_ok)

lemma calm_approval_create: "ApprovalDAO_Create a u = (r, a', u') \<Longrightarrow> calm u u'"
  by (auto simp: ApprovalDAO_Create_def uuid_New_def insert_approval_def Let_def calm_def
      split: prod.splits option.splits if_splits elim!: db_exec_cases dest!: fitted_ok)

lemma calm_reads:
  "FixActionDAO_GetBySessionID i u = (q, u') \<Longrightarrow> calm u u'" "SessionDAO_GetByID i u = (q1, u') \<Longrightarrow> calm u u'"
  by (auto simp: FixActionDAO_GetBySessionID_def SessionDAO_GetByID_def calm_def
      split: prod.splits sum.splits option.splits if_splits elim!: db_query_cases db_query_row_cases)

lemma calm_gate_one: "calm w (gate_one d sid fa w)"
proof -
  obtain r w1 where 1: "call_env (d_Request d (approval_request d sid fa) (w_now w)) w = (r, w1)" by force
  note c1 = calm_env [OF 1]
  show ?thesis
    using 1 c1
    by (auto simp: gate_one_def split: sum.split prod.split option.split
        intro: calm_trans [OF c1] calm_trans [OF _ calm_fix_updates(2)] dest!: calm_approval_create)
qed

lemma calm_gate: "TriggerApprovalGate d sid w = (r, w') \<Longrightarrow> w_faults w = [] \<Longrightarrow> calm w w'"
proof -
  assume 1: "TriggerApprovalGate d sid w = (r, w')" and nf: "w_faults w = []"
  have g: "calm w (fold (gate_one d sid) fas w)" for fas
    by (rule calm_fold [OF calm_gate_one nf])
  have "FixActionDAO_GetBySessionID sid w = (Inr (fixes_of sid w), w)" using nf by (simp add: GetByID_no_fault)
  moreover have "SessionDAO_GetByID sid w = (q, u) \<Longrightarrow> u = w" for q u
    using nf by (auto simp: SessionDAO_GetByID_def db_no_fault pop_fault_id split: option.splits sum.splits prod.splits if_splits)
  moreover note 1
  ultimately show "calm w w'"
    by (auto simp: TriggerApprovalGate_def Let_def intro: g calm_trans [OF g calm_notify] split: prod.splits sum.splits if_splits)
qed

lemma calm_execute:
  assumes "w_faults w = []" and "find_session sid w = Some s" and "ExecuteFixActions d sid w = (r, w')"
  shows "calm w w'"
proof -
  let ?w3 = "fold (execute_one d sid s) (fixes_of sid w) w"
  have reads: "FixActionDAO_GetBySessionID sid w = (Inr (fixes_of sid w), w)" "SessionDAO_GetByID sid w = (Inr s, w)"
    using assms(1,2) by (simp_all add: GetByID_no_fault)
  have 3: "calm w ?w3"
    using execute_fold_no_fault [OF assms(1), of d sid s "fixes_of sid w"] calm_exec_frame by blast
  obtain q w4 where 4: "Transition sid EventExecuteComplete ?w3 = (q, w4)" by force
  have "w_faults ?w3 = []" using 3 assms(1) by (simp add: calm_def)
  from calm_Transition [OF this, of sid EventExecuteComplete] 4 3 have c4: "calm w w4"
    using calm_trans by fastforce
  have "w' = w4 \<or> (\<exists>e. w' = webhook_Notify e w4)"
    using assms(3) by (auto simp: ExecuteFixActions_def reads 4 Let_def split: option.splits sum.splits if_splits)
  with c4 calm_trans [OF c4 calm_notify] show ?thesis by blast
qed

section \<open>One tick of the sweep timer\<close>

lemma sweep_fold:
  assumes "w_faults w = []" and "distinct (map s_ID (w_sessions w))"
  shows "let w' = fold (\<lambda>i. fire (ev i) i) (map s_ID (filter P (w_sessions w))) w in
    calm w w' \<and> engine_frame w w' \<and> status_of w' j =
      (case find_session j w of None \<Rightarrow> None | Some s \<Rightarrow> if P s then fired (ev j) w j else Some (s_Status s))"
  using fold_fire [OF assms(1) selected_distinct [OF assms(2)], of ev P j] sweep_loop [OF assms, of ev P j]
    calm_fold [OF calm_fire assms(1)]
  by (simp add: Let_def)

lemma sweeps_no_fault:
  assumes "w_faults w = []"
  shows "snd (Sweep w) = fold (\<lambda>i. fire EventFail i) (map s_ID (filter (\<lambda>s. s_Status s = StatusCollecting \<and>
      s_UpdatedAt s < w_now w + (- 30 * Minute) \<and> s_ID s \<notin> set (w_locked w)) (w_sessions w))) w"
    and "snd (SweepFixProposed w) = fold (\<lambda>i. fire EventFixGenerated i)
      (map s_ID (filter (\<lambda>s. s_Status s = StatusFixProposed) (w_sessions w))) w"
    and "snd (SweepVerifying w) = fold (\<lambda>i. fire (verify_event (fixes_of i w)) i)
      (map s_ID (filter (\<lambda>s. s_Status s = StatusVerifying) (w_sessions w))) w"
  using assms
  by (simp_all add: Sweep_def SweepFixProposed_def SweepVerifying_def db_no_fault pop_fault_id stuck_sessions_def
      sessions_in_def fold_verify_session [of w w])

text \<open>What a tick does to a session that waits for a decision or for its verification.\<close>

lemma tick_status:
  assumes "w_faults w = []" and "distinct (map s_ID (w_sessions w))" and "sid \<notin> set (w_locked w)"
    and "status_of w sid = Some s" and "s = StatusAwaitingApproval \<or> s = StatusVerifying"
  shows "status_of (sweep_tick w) sid = Some (if s = StatusAwaitingApproval then s
    else if fixes_of sid w = [] \<or> (\<exists>fa \<in> set (fixes_of sid w). fa_ExecutionStatus fa = ExecStatusFailed)
    then StatusRolledBack else StatusResolved)"
proof -
  define w1 where "w1 = snd (Sweep w)"
  define w2 where "w2 = snd (SweepFixProposed w1)"
  have st: "\<exists>q. find_session sid u = Some q \<and> s_Status q = s" if "status_of u sid = Some s" for u :: "'a db_scheme"
    using that by (auto simp: status_of_def)
  from st [OF assms(4)] obtain q0 where q0: "find_session sid w = Some q0" "s_Status q0 = s" by blast
  have 1: "calm w w1 \<and> engine_frame w w1 \<and> status_of w1 sid = Some s"
    using sweep_fold [OF assms(1,2), of "\<lambda>i. EventFail" "\<lambda>s. s_Status s = StatusCollecting \<and>
      s_UpdatedAt s < w_now w + (- 30 * Minute) \<and> s_ID s \<notin> set (w_locked w)" sid] q0 assms(5)
    unfolding w1_def sweeps_no_fault(1) [OF assms(1)] by (auto simp: Let_def)
  then obtain q1 where q1: "find_session sid w1 = Some q1" "s_Status q1 = s" using st by blast
  from 1 have nf1: "w_faults w1 = []" and d1: "distinct (map s_ID (w_sessions w1))" using assms(1,2) by (simp_all add: calm_def)
  have 2: "calm w1 w2 \<and> engine_frame w1 w2 \<and> status_of w2 sid = Some s"
    using sweep_fold [OF nf1 d1, of "\<lambda>i. EventFixGenerated" "\<lambda>s. s_Status s = StatusFixProposed" sid] q1 assms(5)
    unfolding w2_def sweeps_no_fault(2) [OF nf1] by (auto simp: Let_def)
  then have nf2: "w_faults w2 = []" and d2: "distinct (map s_ID (w_sessions w2))" using nf1 d1 by (simp_all add: calm_def)
  have f: "fixes_of sid w2 = fixes_of sid w" "sid \<notin> set (w_locked w2)"
    using 1 2 assms(3) by (simp_all add: engine_frame_def fixes_of_def)
  have "status_of (snd (SweepVerifying w2)) sid = (case find_session sid w2 of None \<Rightarrow> None
      | Some q \<Rightarrow> if s_Status q = StatusVerifying then fired (verify_event (fixes_of sid w)) w2 sid else Some (s_Status q))"
    using sweep_fold [OF nf2 d2, of "\<lambda>i. verify_event (fixes_of i w2)" "\<lambda>s. s_Status s = StatusVerifying" sid]
    unfolding sweeps_no_fault(3) [OF nf2] Let_def f(1) by blast
  moreover obtain q where "find_session sid w2 = Some q" "s_Status q = s" using 2 st by blast
  ultimately have "status_of (snd (SweepVerifying w2)) sid =
      (if s = StatusVerifying then fired (verify_event (fixes_of sid w)) w2 sid else Some s)" by simp
  moreover have "sweep_tick w = snd (SweepVerifying w2)" by (simp add: sweep_tick_def w1_def w2_def)
  ultimately show ?thesis
    using assms(5) f(2) 2 by (auto simp: fired_def verify_event_alt next_status_fail)
qed

section \<open>The whole diagnosis\<close>

lemma Transition_calm:
  assumes "w_faults w = []" and "status_of w sid = Some s" and "sid \<notin> set (w_locked w)"
    and "next_status (high_risk_count sid w > 0) s ev = Some n"
  shows "\<exists>w'. Transition sid ev w = (Inr n, w') \<and> calm w w' \<and> w_fix_actions w' = w_fix_actions w \<and>
    status_of w' = (status_of w)(sid \<mapsto> n) \<and> o_executed w' = o_executed w"
proof -
  have T: "Transition sid ev w = (Inr n, moved sid s n w)"
    using assms by (simp add: Transition_no_fault transition_result_def)
  with calm_Transition [OF assms(1), of sid ev] status_of_update [OF moved_simps(1) assms(2)] executed_Transition [OF T]
    moved_simps(2) [of w sid s n]
  show ?thesis by (auto simp: engine_frame_def)
qed

lemma path_to_verifying:
  "next_status h StatusCreated EventStartCollect = Some StatusCollecting"
  "next_status h StatusCollecting EventCollectComplete = Some StatusAnalyzing"
  "next_status h StatusAnalyzing EventAnalysisComplete = Some StatusRCADone"
  "next_status h StatusRCADone EventRCAGenerated = Some StatusFixProposed"
  "next_status h StatusFixSuggested EventExecute = Some StatusFixExecuting"
  by (simp_all add: next_status_def ValidTransitions_def)

text \<open>\<open>step_ok\<close>: a step that answers, moves only this session and touches no fix action.\<close>

definition step_ok :: "uuid \<Rightarrow> string \<Rightarrow> 'e orch \<Rightarrow> 'e orch \<Rightarrow> bool" where
  "step_ok sid n w w' \<longleftrightarrow> calm w w' \<and> w_fix_actions w' = w_fix_actions w \<and> status_of w' = (status_of w)(sid \<mapsto> n) \<and>
     o_executed w' = o_executed w"

lemma step_ok_after:
  "step_ok sid n w w1 \<Longrightarrow> calm w1 w' \<Longrightarrow> w_fix_actions w' = w_fix_actions w1 \<Longrightarrow> status_of w' = status_of w1 \<Longrightarrow>
   o_executed w' = o_executed w1 \<Longrightarrow> step_ok sid n w w'"
  by (auto simp: step_ok_def intro: calm_trans)

lemma publish_frame:
  "producer_Publish d msg w = (r, w') \<Longrightarrow> w_fix_actions w' = w_fix_actions w \<and> w_sessions w' = w_sessions w"
  by (auto simp: producer_Publish_def call_env_def split: prod.splits option.splits)

lemma dispatch_all_frame:
  "w_fix_actions (dispatch_all d i svc agents w) = w_fix_actions w \<and> w_sessions (dispatch_all d i svc agents w) = w_sessions w"
proof (induction agents arbitrary: w)
  case (Cons a agents)
  obtain kind topic where a: "a = (kind, topic)" by force
  obtain r w1 where 1: "producer_Publish d (command_message topic i svc ''collect'' kind) w = (r, w1)" by force
  from Cons.IH [of w1] publish_frame [OF 1] 1 a show ?case by simp
qed simp

lemma dispatch_frame:
  "DispatchCollect d i svc w = (r, w') \<Longrightarrow> w_fix_actions w' = w_fix_actions w \<and> w_sessions w' = w_sessions w"
  "DispatchAnalyze d i svc w = (r, w') \<Longrightarrow> w_fix_actions w' = w_fix_actions w \<and> w_sessions w' = w_sessions w"
  by (auto simp: DispatchCollect_def DispatchAnalyze_def dispatch_all_frame split: if_splits prod.splits option.splits
      dest: publish_frame)

lemma step_ok_dispatch:
  assumes "step_ok sid n w w1"
  shows "DispatchCollect d i svc w1 = (r, w') \<Longrightarrow> step_ok sid n w w'"
    and "DispatchAnalyze d i svc w1 = (r, w') \<Longrightarrow> step_ok sid n w w'"
  using step_ok_after [OF assms] calm_dispatch dispatch_frame executed_dispatch status_of_same by metis+

text \<open>A request starts the session.\<close>

lemma start_step:
  assumes "w_faults w = []" and "status_of w sid = Some StatusCreated" and "sid \<notin> set (w_locked w)"
    and "uuid_Parse (d_uuid d) idStr = Inr sid" and "d_has_producer d" and "StartSession d idStr w = (r, w')"
  shows "(\<exists>b. r = Resp 200 b) \<and> step_ok sid StatusCollecting w w'"
proof -
  obtain w1 where 1: "Transition sid EventStartCollect w = (Inr StatusCollecting, w1)" "step_ok sid StatusCollecting w w1"
    using Transition_calm [OF assms(1-3) path_to_verifying(1)] unfolding step_ok_def by blast
  then have nf: "w_faults w1 = []" using assms(1) by (simp add: step_ok_def calm_def)
  have "status_of w1 sid = Some StatusCollecting" using 1(2) by (simp add: step_ok_def)
  then obtain s where s: "find_session sid w1 = Some s" by (auto simp: status_of_def)
  obtain q w2 where 2: "DispatchCollect d (id_text d sid) (s_TargetService s) w1 = (q, w2)" by force
  then have "q = None" using assms(5) by (simp add: DispatchCollect_def)
  with assms(4,6) 1(1) s 2 have "r = Resp 200 (SessionBody (toSessionProto d s)) \<and> (w' = w1 \<or> w' = w2)"
    by (simp add: StartSession_def with_session_id_def GetByID_no_fault [OF nf] split: if_splits)
  with 1(2) step_ok_dispatch(1) [OF 1(2) 2] show ?thesis by blast
qed

text \<open>The first observation of a collector, and the result of the root cause analysis.\<close>

lemma GetStatus_no_fault:
  "w_faults w = [] \<Longrightarrow> status_of w sid = Some s \<Longrightarrow> GetStatus sid w = (Inr s, w)"
  by (auto simp: GetStatus_def GetByID_no_fault status_of_def)

lemma collect_step:
  assumes "w_faults w = []" and "status_of w sid = Some StatusCollecting" and "sid \<notin> set (w_locked w)"
    and "normalizeType (op_Type ob) \<in> {''LOG'', ''METRIC'', ''TRACE''}" and "handleObservation d sid ob w = (r, w')"
  shows "r = None \<and> step_ok sid StatusAnalyzing w w'"
proof -
  obtain w1 where 1: "Transition sid EventCollectComplete w = (Inr StatusAnalyzing, w1)" "step_ok sid StatusAnalyzing w w1"
    using Transition_calm [OF assms(1-3) path_to_verifying(2)] unfolding step_ok_def by blast
  obtain q w2 where 2: "DispatchAnalyze d (id_text d sid) (op_TargetService ob) w1 = (q, w2)" by force
  from assms(4,5) 1(1) 2 have "r = None \<and> w' = w2"
    by (auto simp: handleObservation_def GetStatus_no_fault [OF assms(1,2)] collect_observation_def Let_def)
  with step_ok_dispatch(2) [OF 1(2) 2] show ?thesis by blast
qed

lemma rca_step:
  assumes "w_faults w = []" and "status_of w sid = Some StatusAnalyzing" and "sid \<notin> set (w_locked w)"
    and "normalizeType (op_Type ob) = ''RCA_RESULT''" and "handleObservation d sid ob w = (r, w')"
  shows "r = None \<and> step_ok sid StatusRCADone w w'"
proof -
  obtain w1 where 1: "Transition sid EventAnalysisComplete w = (Inr StatusRCADone, w1)" "step_ok sid StatusRCADone w w1"
    using Transition_calm [OF assms(1-3) path_to_verifying(3)] unfolding step_ok_def by blast
  from assms(4,5) 1(1) have "r = None \<and> w' = w1"
    by (auto simp: handleObservation_def GetStatus_no_fault [OF assms(1,2)] rca_observation_def Let_def)
  with 1(2) show ?thesis by blast
qed

text \<open>The proposal of fixes; what it does is \<open>fix_pipeline_run\<close>, and it leaves the next steps undisturbed.\<close>

lemma calm_drive:
  assumes "w_faults w = []" and "status_of w sid = Some n" and "sid \<notin> set (w_locked w)"
    and "drive_fix d sid n w = (r, w')"
  shows "calm w w'"
proof (cases "n = StatusAwaitingApproval")
  case True
  with assms(4) have "w' = snd (TriggerApprovalGate d sid w)" by (simp add: drive_fix_def)
  with calm_gate [OF surjective_pairing assms(1)] show ?thesis by simp
next
  case False
  show ?thesis
  proof (cases "n = StatusFixSuggested")
    case True
    obtain w1 where 1: "Transition sid EventExecute w = (Inr StatusFixExecuting, w1)" "calm w w1"
        "status_of w1 = (status_of w)(sid \<mapsto> StatusFixExecuting)"
      using Transition_calm [OF assms(1-3), unfolded True, OF path_to_verifying(5)] by blast
    from 1(3) have "status_of w1 sid = Some StatusFixExecuting" by simp
    then obtain s where s: "find_session sid w1 = Some s" by (auto simp: status_of_def)
    have "w' = snd (ExecuteFixActions d sid w1)" using assms(4) True 1(1) by (simp add: drive_fix_def)
    with calm_execute [OF _ s surjective_pairing] 1(2) assms(1) show ?thesis
      by (auto simp: calm_def)
  next
    case False
    with assms(4) \<open>n \<noteq> StatusAwaitingApproval\<close> show ?thesis by (simp add: drive_fix_def)
  qed
qed

lemma calm_fix_step:
  assumes "w_faults w = []" and "status_of w sid = Some StatusRCADone" and "sid \<notin> set (w_locked w)"
    and "normalizeType (op_Type ob) = ''FIX_ACTION''" and "handleObservation d sid ob w = (r, w')"
  shows "calm w w'"
proof -
  obtain w1 where 1: "Transition sid EventRCAGenerated w = (Inr StatusFixProposed, w1)" "calm w w1"
      "status_of w1 = (status_of w)(sid \<mapsto> StatusFixProposed)"
    using Transition_calm [OF assms(1-3) path_to_verifying(4)] by blast
  then have c1: "w_faults w1 = []" "sid \<notin> set (w_locked w1)" "status_of w1 sid = Some StatusFixProposed"
    using assms(1,3) by (simp_all add: calm_def)
  let ?n = "if high_risk_count sid w1 > 0 then StatusAwaitingApproval else StatusFixSuggested"
  obtain w2 where 2: "Transition sid EventFixGenerated w1 = (Inr ?n, w2)" "calm w1 w2"
      "status_of w2 = (status_of w1)(sid \<mapsto> ?n)"
    using Transition_calm [OF c1(1,3,2) next_status_fail(2)] by blast
  then have c2: "w_faults w2 = []" "sid \<notin> set (w_locked w2)" "status_of w2 sid = Some ?n"
    using c1 by (simp_all add: calm_def)
  have "drive_fix d sid ?n w2 = (r, w')"
    using assms(4,5) 1(1) 2(1) by (simp add: handleObservation_def fix_observation_def GetStatus_no_fault [OF assms(1,2)] Let_def)
  from calm_drive [OF c2(1,3,2) this] 1(2) 2(2) show ?thesis using calm_trans by blast
qed

lemma Transition_rows: "Transition sid ev w = (r, w') \<Longrightarrow> w_fix_actions w' = w_fix_actions w"
  by (erule Transition_cases) (simp_all add: engine_frame_def)

lemma drive_no_rows:
  assumes "w_faults w = []" and "status_of w sid = Some StatusFixSuggested" and "sid \<notin> set (w_locked w)"
    and "fixes_of sid w = []" and "drive_fix d sid StatusFixSuggested w = (r, w')"
  shows "w_fix_actions w' = w_fix_actions w"
proof -
  obtain w1 where 1: "Transition sid EventExecute w = (Inr StatusFixExecuting, w1)" "calm w w1"
      "w_fix_actions w1 = w_fix_actions w" "status_of w1 = (status_of w)(sid \<mapsto> StatusFixExecuting)"
    using Transition_calm [OF assms(1-3) path_to_verifying(5)] by blast
  have nf: "w_faults w1 = []" using 1(2) assms(1) by (simp add: calm_def)
  have no: "fixes_of sid w1 = []" using 1(3) assms(4) by (simp add: fixes_of_def)
  from 1(4) have "status_of w1 sid = Some StatusFixExecuting" by simp
  then obtain s where s: "find_session sid w1 = Some s" by (auto simp: status_of_def)
  obtain q w2 where 2: "Transition sid EventExecuteComplete w1 = (q, w2)" by force
  have "w_fix_actions w2 = w_fix_actions w1" using Transition_rows [OF 2] .
  moreover have "w' = snd (ExecuteFixActions d sid w1)" using assms(5) 1(1) by (simp add: drive_fix_def)
  then have "w' = w2 \<or> (\<exists>e. w' = webhook_Notify e w2)"
    using nf no s 2 by (auto simp: ExecuteFixActions_def GetByID_no_fault Let_def split: option.split sum.split)
  ultimately show ?thesis using notify_frame(1) 1(3) by metis
qed

lemma fix_step_no_rows:
  assumes "w_faults w = []" and "status_of w sid = Some StatusRCADone" and "sid \<notin> set (w_locked w)"
    and "normalizeType (op_Type ob) = ''FIX_ACTION''" and "handleObservation d sid ob w = (r, w')" and "fixes_of sid w = []"
  shows "fixes_of sid w' = []"
proof -
  obtain w1 where 1: "Transition sid EventRCAGenerated w = (Inr StatusFixProposed, w1)" "calm w w1"
      "w_fix_actions w1 = w_fix_actions w" "status_of w1 = (status_of w)(sid \<mapsto> StatusFixProposed)"
    using Transition_calm [OF assms(1-3) path_to_verifying(4)] by blast
  then have c1: "w_faults w1 = []" "sid \<notin> set (w_locked w1)" "status_of w1 sid = Some StatusFixProposed"
    using assms(1,3) by (simp_all add: calm_def)
  have "filter (\<lambda>fa. fa_SessionID fa = sid) (w_fix_actions w) = []"
    using assms(6) unfolding fixes_of_def by (metis set_empty set_sort)
  then have "\<not> high_risk_count sid w1 > 0" by (auto simp: high_risk_count_def 1(3) filter_empty_conv)
  then obtain w2 where 2: "Transition sid EventFixGenerated w1 = (Inr StatusFixSuggested, w2)" "calm w1 w2"
      "w_fix_actions w2 = w_fix_actions w1" "status_of w2 = (status_of w1)(sid \<mapsto> StatusFixSuggested)"
    using Transition_calm [OF c1(1,3,2) next_status_fail(2)] by auto
  then have c2: "w_faults w2 = []" "sid \<notin> set (w_locked w2)" "status_of w2 sid = Some StatusFixSuggested"
    using c1 by (simp_all add: calm_def)
  have "fixes_of sid w2 = []" using 1(3) 2(3) assms(6) by (simp add: fixes_of_def)
  moreover have "drive_fix d sid StatusFixSuggested w2 = (r, w')"
    using assms(4,5) 1(1) 2(1) by (simp add: handleObservation_def fix_observation_def GetStatus_no_fault [OF assms(1,2)] Let_def)
  ultimately have "w_fix_actions w' = w_fix_actions w2" by (rule drive_no_rows [OF c2(1,3,2)])
  with \<open>fixes_of sid w2 = []\<close> show ?thesis by (simp add: fixes_of_def)
qed

text \<open>C17 (diagnosis_lifecycle): a whole diagnosis on a database that answers.  A session is started, and then
  the first observation of a collector, the result of the root cause analysis and a proposal of fixes
  arrive.  It passes COLLECTING, ANALYZING and RCA_DONE.  If one of its HIGH-risk actions is waiting it
  ends in AWAITING_APPROVAL, where the sweep timer leaves it, with nothing executed.  Otherwise every
  action that may execute has been handed to the executor, once and in order, and the next tick of the
  sweep timer ends the session: resolved, or rolled back if an action has failed or if none is stored.\<close>

theorem diagnosis_lifecycle:
  assumes "w_faults w = []" and "distinct (map s_ID (w_sessions w))" and "distinct (map fa_ID (w_fix_actions w))"
    and "status_of w sid = Some StatusCreated" and "sid \<notin> set (w_locked w)"
    and "uuid_Parse (d_uuid d) idStr = Inr sid" and "d_has_producer d"
    and "StartSession d idStr w = (r1, w1)"
    and "normalizeType (op_Type ob2) \<in> {''LOG'', ''METRIC'', ''TRACE''}" and "handleObservation d sid ob2 w1 = (r2, w2)"
    and "normalizeType (op_Type ob3) = ''RCA_RESULT''" and "handleObservation d sid ob3 w2 = (r3, w3)"
    and "normalizeType (op_Type ob4) = ''FIX_ACTION''" and "handleObservation d sid ob4 w3 = (r4, w4)"
  shows "(\<exists>b. r1 = Resp 200 b) \<and> status_of w1 sid = Some StatusCollecting \<and>
    r2 = None \<and> status_of w2 sid = Some StatusAnalyzing \<and> r3 = None \<and> status_of w3 sid = Some StatusRCADone \<and> r4 = None \<and>
    (if \<exists>fa \<in> set (w_fix_actions w). fa_SessionID fa = sid \<and> fa_Risk fa = RiskHigh \<and> fa_ExecutionStatus fa = ExecStatusNotStarted
     then status_of (sweep_tick w4) sid = Some StatusAwaitingApproval \<and> o_executed (sweep_tick w4) = o_executed w
     else status_of w4 sid = Some StatusVerifying \<and>
       o_executed (sweep_tick w4) = o_executed w @ map (exec_action sid) (filter may_execute (fixes_of sid w)) \<and>
       status_of (sweep_tick w4) sid = Some (if fixes_of sid w4 = [] \<or>
         (\<exists>fa \<in> set (fixes_of sid w4). fa_ExecutionStatus fa = ExecStatusFailed) then StatusRolledBack else StatusResolved) \<and>
       (fixes_of sid w = [] \<longrightarrow> status_of (sweep_tick w4) sid = Some StatusRolledBack))"
proof -
  have 1: "(\<exists>b. r1 = Resp 200 b) \<and> step_ok sid StatusCollecting w w1"
    by (rule start_step [OF assms(1,4,5,6,7,8)])
  then have c1: "w_faults w1 = []" "status_of w1 sid = Some StatusCollecting" "sid \<notin> set (w_locked w1)"
    using assms(1,5) by (auto simp: step_ok_def calm_def)
  have 2: "r2 = None \<and> step_ok sid StatusAnalyzing w1 w2" by (rule collect_step [OF c1 assms(9,10)])
  then have c2: "w_faults w2 = []" "status_of w2 sid = Some StatusAnalyzing" "sid \<notin> set (w_locked w2)"
    using c1 by (auto simp: step_ok_def calm_def)
  have 3: "r3 = None \<and> step_ok sid StatusRCADone w2 w3" by (rule rca_step [OF c2 assms(11,12)])
  then have c3: "w_faults w3 = []" "status_of w3 sid = Some StatusRCADone" "sid \<notin> set (w_locked w3)"
    using c2 by (auto simp: step_ok_def calm_def)
  have rows: "w_fix_actions w3 = w_fix_actions w" "o_executed w3 = o_executed w" "fixes_of sid w3 = fixes_of sid w"
    and ids: "map s_ID (w_sessions w3) = map s_ID (w_sessions w)"
    using 1 2 3 by (auto simp: step_ok_def calm_def fixes_of_def)
  have "distinct (map fa_ID (w_fix_actions w3))" using assms(3) rows(1) by simp
  note 4 = fix_pipeline_run [OF c3(1) this c3(2,3) assms(13,14), unfolded rows]
  have "calm w3 w4" by (rule calm_fix_step [OF c3 assms(13,14)])
  then have c4: "w_faults w4 = []" "distinct (map s_ID (w_sessions w4))" "sid \<notin> set (w_locked w4)"
    using c3 ids assms(2) by (simp_all add: calm_def)
  have none: "fixes_of sid w = [] \<Longrightarrow> fixes_of sid w4 = []"
    using fix_step_no_rows [OF c3 assms(13,14)] rows(3) by simp
  have x: "o_executed (sweep_tick w4) = o_executed w4" by (rule executed_tick)
  note T = tick_status [OF c4]
  show ?thesis
  proof (cases "\<exists>fa \<in> set (w_fix_actions w). fa_SessionID fa = sid \<and> fa_Risk fa = RiskHigh \<and> fa_ExecutionStatus fa = ExecStatusNotStarted")
    case True
    with 4 have "r4 = None" "status_of w4 sid = Some StatusAwaitingApproval" "o_executed w4 = o_executed w" by argo+
    with T [OF this(2)] 1 2 3 c1 c2 c3 x True show ?thesis by simp
  next
    case False
    with 4 have f: "r4 = None" "status_of w4 sid = Some StatusVerifying"
      "o_executed w4 = o_executed w @ map (exec_action sid) (filter may_execute (fixes_of sid w))" by argo+
    from T [OF f(2)] have "status_of (sweep_tick w4) sid =
        Some (if fixes_of sid w4 = [] \<or> (\<exists>fa \<in> set (fixes_of sid w4). fa_ExecutionStatus fa = ExecStatusFailed)
          then StatusRolledBack else StatusResolved)" by simp
    with 1 2 3 c1 c2 c3 x f False none show ?thesis by auto
  qed
qed

text \<open>A session without stored actions, as the agents leave it: it ends rolled back.\<close>

theorem diagnosis_lifecycle_witness:
  "let w = sample_orch [sample_session 1 StatusCreated 5] [];
       see = (\<lambda>t w. snd (handleObservation sample_deps 1 (sample_payload 1 t) w)) in
   status_of (sweep_tick (see ''fix_action'' (see ''rca_result'' (see ''log'' (snd (StartSession sample_deps ''i'' w)))))) 1
     = Some StatusRolledBack"
proof -
  let ?w = "sample_orch [sample_session 1 StatusCreated 5] []"
  obtain r1 w1 where 1: "StartSession sample_deps ''i'' ?w = (r1, w1)" by force
  obtain r2 w2 where 2: "handleObservation sample_deps 1 (sample_payload 1 ''log'') w1 = (r2, w2)" by force
  obtain r3 w3 where 3: "handleObservation sample_deps 1 (sample_payload 1 ''rca_result'') w2 = (r3, w3)" by force
  obtain r4 w4 where 4: "handleObservation sample_deps 1 (sample_payload 1 ''fix_action'') w3 = (r4, w4)" by force
  have h: "w_faults ?w = []" "distinct (map s_ID (w_sessions ?w))" "distinct (map fa_ID (w_fix_actions ?w))"
    "status_of ?w 1 = Some StatusCreated" "1 \<notin> set (w_locked ?w)" "uuid_Parse (d_uuid sample_deps) ''i'' = Inr 1"
    "d_has_producer sample_deps" "fixes_of 1 ?w = []"
    by (simp_all add: sample_orch_def sample_session_def status_of_def find_session_def sample_deps_def fixes_of_def)
  have t: "normalizeType (op_Type (sample_payload 1 ''log'')) \<in> {''LOG'', ''METRIC'', ''TRACE''}"
    "normalizeType (op_Type (sample_payload 1 ''rca_result'')) = ''RCA_RESULT''"
    "normalizeType (op_Type (sample_payload 1 ''fix_action'')) = ''FIX_ACTION''" by code_simp+
  have "\<not> (\<exists>fa \<in> set (w_fix_actions ?w). fa_SessionID fa = 1 \<and> fa_Risk fa = RiskHigh \<and> fa_ExecutionStatus fa = ExecStatusNotStarted)"
    by (simp add: sample_orch_def)
  with diagnosis_lifecycle [OF h(1-7) 1 t(1) 2 t(2) 3 t(3) 4] h(8)
  have "status_of (sweep_tick w4) 1 = Some StatusRolledBack" by argo
  with 1 2 3 4 show ?thesis by (simp add: Let_def)
qed

end
