(* ===== verification/Http.thy ===== *)
theory Http imports Handlers_Spec begin

text \<open>
  The HTTP interface (\<open>internal/server/gin.go\<close>): the routes with the handler of each, the answer of each route
  as a type, and what an answer says about the tables.  The router and the decoding of bodies and query
  strings are third-party; a request is what they hand to a handler.
\<close>

section \<open>Routes\<close>

datatype endpoint = EP_Healthz | EP_CreateSession | EP_ListSessions | EP_GetSession | EP_StartSession | EP_RetrySession
  | EP_IgnoreSession | EP_DecisionApproval | EP_GetReport | EP_DownloadReport | EP_ListAgents

definition route_table :: "(string \<times> string \<times> endpoint) list" where
  "route_table =
    [(''GET'', ''/healthz'', EP_Healthz),
     (''POST'', ''/v1/sessions'', EP_CreateSession),
     (''GET'', ''/v1/sessions'', EP_ListSessions),
     (''GET'', ''/v1/sessions/:id'', EP_GetSession),
     (''POST'', ''/v1/sessions/:id/start'', EP_StartSession),
     (''POST'', ''/v1/sessions/:id/retry'', EP_RetrySession),
     (''POST'', ''/v1/sessions/:id/ignore'', EP_IgnoreSession),
     (''POST'', ''/v1/sessions/:id/approvals/:approval_id/decision'', EP_DecisionApproval),
     (''GET'', ''/v1/sessions/:id/report'', EP_GetReport),
     (''GET'', ''/v1/sessions/:id/report/download'', EP_DownloadReport),
     (''GET'', ''/v1/agents'', EP_ListAgents)]"

text \<open>The parameters of the path and of the query, and what the decoding of the body or of the query gave.\<close>

record http_request =
  hr_id :: string
  hr_approval_id :: string
  hr_format :: string
  hr_create :: "string result"
  hr_list :: "ListSessionsRequest result"
  hr_decision :: "DecisionRequest result"

fun serve :: "'e deps \<Rightarrow> endpoint \<Rightarrow> http_request \<Rightarrow> 'e orch \<Rightarrow> response \<times> 'e orch" where
  "serve d EP_Healthz q w = Healthz w"
| "serve d EP_CreateSession q w = CreateSession d (hr_create q) w"
| "serve d EP_ListSessions q w = ListSessions d (hr_list q) w"
| "serve d EP_GetSession q w = GetSession d (hr_id q) w"
| "serve d EP_StartSession q w = StartSession d (hr_id q) w"
| "serve d EP_RetrySession q w = RetrySession d (hr_id q) w"
| "serve d EP_IgnoreSession q w = IgnoreSession d (hr_id q) w"
| "serve d EP_DecisionApproval q w = DecisionApproval d (hr_id q) (hr_approval_id q) (hr_decision q) w"
| "serve d EP_GetReport q w = GetReport d (hr_id q) (hr_format q) w"
| "serve d EP_DownloadReport q w = DownloadReport d (hr_id q) (hr_format q) w"
| "serve d EP_ListAgents q w = ListAgents d w"

text \<open>The plain health server (\<open>health.go\<close>): exact paths, any method; the standard mux answers 404 otherwise.\<close>

definition NewHealth :: "string \<Rightarrow> (nat \<times> string) option" where
  "NewHealth path = (if path = ''/healthz'' then Some (200, ''ok'')
     else if path = ''/readyz'' then Some (200, ''ready'') else None)"

section \<open>Errors (response.go)\<close>

record errorResponse =
  er_Error :: string
  er_Code :: string
  er_Details :: string

text \<open>What \<open>c.JSON\<close> writes: the fields in order, the last two left out when empty.\<close>

definition errorResponse_json :: "errorResponse \<Rightarrow> string" where
  "errorResponse_json r = json_object (filter (\<lambda>(k, v). k = ''error'' \<or> v \<noteq> [])
     [(''error'', er_Error r), (''code'', er_Code r), (''details'', er_Details r)])"

definition jsonError :: "nat \<Rightarrow> string \<Rightarrow> string \<Rightarrow> nat \<times> errorResponse" where
  "jsonError httpStatus errMsg grpcCode =
     (httpStatus, \<lparr>er_Error = errMsg, er_Code = grpcCode, er_Details = []\<rparr>)"

text \<open>\<open>from_error\<close> tells whether \<open>status.FromError\<close> recognises the error as a gRPC status.\<close>

definition toGrpcError :: "(gerror \<Rightarrow> bool) \<Rightarrow> gerror option \<Rightarrow> gerror option" where
  "toGrpcError from_error err = (case err of
       None \<Rightarrow> None
     | Some e \<Rightarrow> if from_error e then err
         else Some (ErrorString (''rpc error: code = Internal desc = '' @ error_text e)))"

text \<open>An error answer carries \<open>jsonError\<close> of its text, its status and the code it is built with.\<close>

fun error_payload :: "response \<Rightarrow> (nat \<times> errorResponse) option" where
  "error_payload (Resp st (ErrorBody m c)) = Some (jsonError st m c)"
| "error_payload r = None"

lemma error_payloads:
  "error_payload (notFound msg) = Some (jsonError 404 msg ''NotFound'')"
  "error_payload (badRequest msg) = Some (jsonError 400 msg ''InvalidArgument'')"
  "error_payload (internalError msg) = Some (jsonError 500 msg ''Internal'')"
  by (simp_all add: notFound_def badRequest_def internalError_def)

lemma jsonError_text:
  "code \<noteq> [] \<Longrightarrow> errorResponse_json (snd (jsonError st msg code)) = json_object [(''error'', msg), (''code'', code)]"
  by (simp add: errorResponse_json_def jsonError_def)

lemma toGrpcError_idem:
  assumes "\<And>t. from_error (ErrorString (''rpc error: code = Internal desc = '' @ t))"
  shows "toGrpcError from_error (toGrpcError from_error e) = toGrpcError from_error e"
  using assms by (cases e) (auto simp: toGrpcError_def)

section \<open>Answers as types\<close>

text \<open>The status codes with the gRPC code that \<open>jsonError\<close> puts into the body.\<close>

definition error_codes :: "(nat \<times> string) list" where
  "error_codes = [(400, ''InvalidArgument''), (404, ''NotFound''), (500, ''Internal'')]"

fun body_type :: "endpoint \<Rightarrow> body \<Rightarrow> bool" where
  "body_type ep (ErrorBody m c) = False"
| "body_type ep (SessionBody s) = (ep \<in> {EP_CreateSession, EP_StartSession, EP_IgnoreSession})"
| "body_type ep (SessionsBody ss n p k) = (ep = EP_ListSessions)"
| "body_type ep (DetailBody s tls fs) = (ep = EP_GetSession)"
| "body_type ep (DecisionBody i st) = (ep = EP_DecisionApproval \<and> st \<in> {ApprovalStatusApproved, ApprovalStatusRejected})"
| "body_type ep (ReportBody m u) = (ep = EP_GetReport)"
| "body_type ep (DataBody c b) = (ep = EP_GetReport)"
| "body_type ep (DownloadBody h c b) = (ep = EP_DownloadReport)"
| "body_type ep (AgentsBody as) = (ep = EP_ListAgents)"
| "body_type ep (StatusBody s) = (ep = EP_Healthz)"

text \<open>An answer is a success with the code and the body of its endpoint, an error with matching codes, or the
  panic after a session that was changed could not be read back.\<close>

definition success_code :: "endpoint \<Rightarrow> nat" where
  "success_code ep = (if ep = EP_CreateSession then 201 else 200)"

fun answer_type :: "endpoint \<Rightarrow> response \<Rightarrow> bool" where
  "answer_type ep Panic = (ep = EP_IgnoreSession)"
| "answer_type ep (Resp c b) = (case b of
     ErrorBody m code \<Rightarrow> map_of error_codes c = Some code \<and> ep \<noteq> EP_Healthz \<and> ep \<noteq> EP_ListAgents
   | _ \<Rightarrow> c = success_code ep \<and> body_type ep b)"

lemma answer_type_errors [simp]:
  "answer_type ep (badRequest m) = (ep \<noteq> EP_Healthz \<and> ep \<noteq> EP_ListAgents)"
  "answer_type ep (notFound m) = (ep \<noteq> EP_Healthz \<and> ep \<noteq> EP_ListAgents)"
  "answer_type ep (internalError m) = (ep \<noteq> EP_Healthz \<and> ep \<noteq> EP_ListAgents)"
  by (simp_all add: badRequest_def notFound_def internalError_def error_codes_def)

lemma answer_type_with_id:
  assumes "with_session_id d idStr k w = (r, w')" and "\<And>i. k i w = (r, w') \<Longrightarrow> answer_type ep r"
    and "ep \<noteq> EP_Healthz" and "ep \<noteq> EP_ListAgents"
  shows "answer_type ep r"
  using assms by (auto simp: with_session_id_def split: sum.splits)

lemma answer_types_sessions:
  "CreateSession d body w = (r, w') \<Longrightarrow> answer_type EP_CreateSession r"
  "ListSessions d query w = (r, w') \<Longrightarrow> answer_type EP_ListSessions r"
  "GetSession d idStr w = (r, w') \<Longrightarrow> answer_type EP_GetSession r"
  "StartSession d idStr w = (r, w') \<Longrightarrow> answer_type EP_StartSession r"
  by (auto simp: CreateSession_def ListSessions_def GetSession_def StartSession_def success_code_def Let_def
      split: sum.splits prod.splits if_splits option.splits elim!: answer_type_with_id)

lemma answer_types_rest:
  "IgnoreSession d idStr w = (r, w') \<Longrightarrow> answer_type EP_IgnoreSession r"
  "DecisionApproval d idStr aid dec w = (r, w') \<Longrightarrow> answer_type EP_DecisionApproval r"
  "GetReport d idStr fmt w = (r, w') \<Longrightarrow> answer_type EP_GetReport r"
  "DownloadReport d idStr fmt w = (r, w') \<Longrightarrow> answer_type EP_DownloadReport r"
  by (auto simp: IgnoreSession_def DecisionApproval_def decide_def GetReport_def DownloadReport_def session_answer_def
      success_code_def Let_def split: sum.splits prod.splits if_splits option.splits elim!: answer_type_with_id)

lemma answer_type_retry: "RetrySession d idStr w = (r, w') \<Longrightarrow> \<exists>m. r \<in> {badRequest m, notFound m, internalError m}"
  by (auto simp: RetrySession_def with_session_id_def split: sum.splits prod.splits if_splits dest!: Transition_retry)

section \<open>What a refusal changes\<close>

text \<open>A request refused as invalid leaves all tables as they were, unless the commit of its transition
  was made although its answer was lost.\<close>

definition same_tables :: "'a db_scheme \<Rightarrow> 'a db_scheme \<Rightarrow> bool" where
  "same_tables w w' \<longleftrightarrow> w_sessions w' = w_sessions w \<and> w_fix_actions w' = w_fix_actions w \<and>
     w_approvals w' = w_approvals w"

definition lost_step :: "string \<Rightarrow> 'a db_scheme \<Rightarrow> 'a db_scheme \<Rightarrow> bool" where
  "lost_step ev w w' \<longleftrightarrow> (\<exists>m. Lost m \<in> set (w_faults w)) \<and> (\<exists>i n. stepped i ev w w' n) \<and>
     w_fix_actions w' = w_fix_actions w \<and> w_approvals w' = w_approvals w"

definition refused :: "response \<Rightarrow> bool" where
  "refused r \<longleftrightarrow> (\<exists>b. r = Resp 400 b)"

lemma refused_simps [simp]:
  "refused (badRequest m)" "\<not> refused (notFound m)" "\<not> refused (internalError m)" "\<not> refused Panic"
  "refused (Resp c b) \<longleftrightarrow> c = 400"
  by (auto simp: refused_def badRequest_def notFound_def internalError_def)

lemma same_tables_refl [simp]: "same_tables w w"
  by (simp add: same_tables_def)

lemma same_tables_Transition:
  assumes "Transition i ev w = (Inl e, w')"
  shows "same_tables w w' \<or> lost_step ev w w'"
  using assms
proof (cases rule: Transition_cases)
  case (lost e s n t)
  have "stepped i ev w w' n" unfolding stepped_def using lost(3-7) by blast
  moreover have "\<exists>m. Lost m \<in> set (w_faults w)" using lost(2) by (auto simp: no_lost_def elim!: is_lost.elims)
  ultimately show ?thesis using lost(8) by (auto simp: lost_step_def engine_frame_def)
qed (simp_all add: engine_frame_def same_tables_def)

lemma same_tables_read: "ApprovalDAO_GetByID i w = (r, w') \<Longrightarrow> same_tables w w'"
  by (auto simp: ApprovalDAO_GetByID_def scan_approval_def same_tables_def split: prod.splits sum.splits if_splits
      elim!: db_query_row_cases)

lemma refused_with_id:
  assumes "with_session_id d idStr k w = (r, w')" and "\<And>i. k i w = (r, w') \<Longrightarrow> same_tables w w' \<or> P"
  shows "same_tables w w' \<or> P"
  using assms by (auto simp: with_session_id_def split: sum.splits)

lemmas refused_with_id' = refused_with_id [where P = False, unfolded simp_thms]

lemma refused_sessions:
  "CreateSession d body w = (r, w') \<Longrightarrow> refused r \<Longrightarrow> same_tables w w'"
  "ListSessions d query w = (r, w') \<Longrightarrow> refused r \<Longrightarrow> same_tables w w'"
  "GetSession d idStr w = (r, w') \<Longrightarrow> refused r \<Longrightarrow> same_tables w w'"
  by (auto simp: CreateSession_def ListSessions_def GetSession_def session_answer_def Let_def
      split: sum.splits prod.splits if_splits option.splits elim!: refused_with_id')

lemma refused_transitions:
  "StartSession d idStr w = (r, w') \<Longrightarrow> refused r \<Longrightarrow> same_tables w w' \<or> lost_step EventStartCollect w w'"
  "IgnoreSession d idStr w = (r, w') \<Longrightarrow> refused r \<Longrightarrow> same_tables w w' \<or> lost_step EventIgnore w w'"
  unfolding StartSession_def IgnoreSession_def session_answer_def Let_def
  by (erule refused_with_id; auto split: sum.splits prod.splits if_splits option.splits dest!: same_tables_Transition)+

lemma refused_rest:
  "DecisionApproval d idStr aid dec w = (r, w') \<Longrightarrow> refused r \<Longrightarrow> same_tables w w'"
  "GetReport d idStr fmt w = (r, w') \<Longrightarrow> refused r \<Longrightarrow> same_tables w w'"
  "DownloadReport d idStr fmt w = (r, w') \<Longrightarrow> refused r \<Longrightarrow> same_tables w w'"
  by (auto simp: DecisionApproval_def decide_def GetReport_def DownloadReport_def Let_def
      split: sum.splits prod.splits if_splits option.splits elim!: refused_with_id' dest!: same_tables_read)

section \<open>Properties\<close>



end
