(* ===== verification/Observation.thy ===== *)
theory Observation imports Store Float64 Bus begin

text \<open>
  The evidence model (\<open>internal/observation\<close>) and its binding to the bus (\<open>bus/observation.go\<close>).  The
  message type is generated from \<open>observation.proto\<close>; its fields are a record here.  The enumerations are
  their wire numbers, the maps are association lists in the order of their keys (empty for a nil map).
  The two encodings of \<open>google.golang.org/protobuf\<close> are parameters.
\<close>

section \<open>The message\<close>

abbreviation EVIDENCE_TYPE_UNSPECIFIED where "EVIDENCE_TYPE_UNSPECIFIED \<equiv> (0 :: int)"
abbreviation EVIDENCE_TYPE_LOG where "EVIDENCE_TYPE_LOG \<equiv> (1 :: int)"
abbreviation EVIDENCE_TYPE_METRIC where "EVIDENCE_TYPE_METRIC \<equiv> (2 :: int)"
abbreviation EVIDENCE_TYPE_TRACE where "EVIDENCE_TYPE_TRACE \<equiv> (3 :: int)"
abbreviation EVIDENCE_TYPE_ALERT where "EVIDENCE_TYPE_ALERT \<equiv> (4 :: int)"
abbreviation EVIDENCE_TYPE_RCA_RESULT where "EVIDENCE_TYPE_RCA_RESULT \<equiv> (5 :: int)"
abbreviation EVIDENCE_TYPE_FIX_ACTION where "EVIDENCE_TYPE_FIX_ACTION \<equiv> (6 :: int)"

abbreviation SEVERITY_UNSPECIFIED where "SEVERITY_UNSPECIFIED \<equiv> (0 :: int)"
abbreviation SEVERITY_DEBUG where "SEVERITY_DEBUG \<equiv> (1 :: int)"
abbreviation SEVERITY_INFO where "SEVERITY_INFO \<equiv> (2 :: int)"
abbreviation SEVERITY_WARN where "SEVERITY_WARN \<equiv> (3 :: int)"
abbreviation SEVERITY_ERROR where "SEVERITY_ERROR \<equiv> (4 :: int)"
abbreviation SEVERITY_FATAL where "SEVERITY_FATAL \<equiv> (5 :: int)"

record Observation =
  ob_Id :: string
  ob_SessionId :: string
  ob_Source :: string
  ob_Type :: int
  ob_SubType :: string
  ob_Confidence :: float64
  ob_Severity :: int
  ob_TargetService :: string
  ob_Correlations :: "(string \<times> string) list"
  ob_DetailJson :: string
  ob_Labels :: "(string \<times> string) list"
  ob_Timestamp :: "time option"
  ob_SchemaVersion :: int

record obs_codec =
  oc_ToJSON :: "Observation \<Rightarrow> string result"
  oc_FromJSON :: "string \<Rightarrow> Observation result"
  oc_Marshal :: "Observation \<Rightarrow> string result"
  oc_Unmarshal :: "string \<Rightarrow> Observation result"

section \<open>Construction and validation (observation.go)\<close>

definition CurrentSchemaVersion :: int where "CurrentSchemaVersion = 1"

definition MinSchemaVersion :: int where "MinSchemaVersion = 1"

definition MaxSchemaVersion :: int where "MaxSchemaVersion = 1"

definition schema_version_error :: "int \<Rightarrow> gerror" where
  "schema_version_error v = Wrapped [] (Sentinel ErrUnsupportedSchemaVersion)
     ('': got '' @ show_int v @ '', supported ['' @ show_int MinSchemaVersion @ '', '' @ show_int MaxSchemaVersion @ '']'')"

definition violations :: "Observation \<Rightarrow> gerror list" where
  "violations ob =
    (if ob_Id ob = [] then [Sentinel ErrEmptyID] else []) @
    (if ob_SessionId ob = [] then [Sentinel ErrEmptySessionID] else []) @
    (if ob_Source ob = [] then [Sentinel ErrEmptySource] else []) @
    (if ob_Type ob = EVIDENCE_TYPE_UNSPECIFIED then [Sentinel ErrUnspecifiedType] else []) @
    (if ob_Severity ob = SEVERITY_UNSPECIFIED then [Sentinel ErrUnspecifiedSeverity] else []) @
    (if f_lt (ob_Confidence ob) (Fin 0) \<or> f_gt (ob_Confidence ob) (Fin 1) \<or> f_isNaN (ob_Confidence ob)
     then [Sentinel ErrConfidenceOutOfRange] else []) @
    (if ob_SchemaVersion ob < MinSchemaVersion \<or> ob_SchemaVersion ob > MaxSchemaVersion
     then [schema_version_error (ob_SchemaVersion ob)] else [])"

definition Observation_Validate :: "Observation option \<Rightarrow> gerror option" where
  "Observation_Validate o0 = (case o0 of
     None \<Rightarrow> Some (Sentinel ErrNilObservation)
   | Some ob \<Rightarrow> errors_Join (violations ob))"

text \<open>\<open>uuid.NewString\<close> and the clock come from the state of the process.  The caller's message is filled
  in place also when the validation fails, but no caller looks at it then.\<close>

definition fill_system_fields :: "uuid_lib \<Rightarrow> Observation \<Rightarrow> 'a db_scheme \<Rightarrow> Observation \<times> 'a db_scheme" where
  "fill_system_fields lib ob w =
    (let (ob1, w1) = (if ob_Id ob = [] then (case uuid_New w of (i, w1) \<Rightarrow> (ob\<lparr>ob_Id := uuid_String lib i\<rparr>, w1))
                      else (ob, w));
         ob2 = (if ob_Timestamp ob1 = None then ob1\<lparr>ob_Timestamp := Some (w_now w1)\<rparr> else ob1)
     in (ob2\<lparr>ob_SchemaVersion := CurrentSchemaVersion\<rparr>, w1))"

definition Observation_New :: "uuid_lib \<Rightarrow> Observation option \<Rightarrow> 'a db_scheme \<Rightarrow> Observation result \<times> 'a db_scheme" where
  "Observation_New lib o0 w = (case o0 of
     None \<Rightarrow> (Inl (Sentinel ErrNilObservation), w)
   | Some ob \<Rightarrow> (case fill_system_fields lib ob w of (ob1, w1) \<Rightarrow>
       (case Observation_Validate (Some ob1) of Some e \<Rightarrow> (Inl e, w1) | None \<Rightarrow> (Inr ob1, w1))))"

definition ToJSON :: "obs_codec \<Rightarrow> Observation option \<Rightarrow> string result" where
  "ToJSON oc o0 = (case o0 of None \<Rightarrow> Inl (Sentinel ErrNilObservation) | Some ob \<Rightarrow> oc_ToJSON oc ob)"

definition FromJSON :: "obs_codec \<Rightarrow> string \<Rightarrow> Observation result" where
  "FromJSON oc data = (case oc_FromJSON oc data of
     Inl e \<Rightarrow> Inl (wrap ''observation: unmarshal json: '' e)
   | Inr ob \<Rightarrow> (case Observation_Validate (Some ob) of Some e \<Rightarrow> Inl e | None \<Rightarrow> Inr ob))"

section \<open>Observations on the bus (bus/observation.go)\<close>

abbreviation HeaderContentType where "HeaderContentType \<equiv> ''content-type''"
abbreviation HeaderSource where "HeaderSource \<equiv> ''mfdh-source''"
abbreviation HeaderSessionID where "HeaderSessionID \<equiv> ''mfdh-session-id''"
abbreviation HeaderSchemaVersion where "HeaderSchemaVersion \<equiv> ''mfdh-schema-version''"

definition observation_headers :: "Observation \<Rightarrow> string \<rightharpoonup> string" where
  "observation_headers ob = [HeaderContentType \<mapsto> ''application/x-protobuf'', HeaderSource \<mapsto> ob_Source ob,
     HeaderSessionID \<mapsto> ob_SessionId ob, HeaderSchemaVersion \<mapsto> show_int (ob_SchemaVersion ob)]"

definition ObservationMessage :: "obs_codec \<Rightarrow> Observation option \<Rightarrow> Message result" where
  "ObservationMessage oc o0 = (case Observation_Validate o0 of
     Some e \<Rightarrow> Inl e
   | None \<Rightarrow> (let ob = the o0 in case oc_Marshal oc ob of
       Inl e \<Rightarrow> Inl (wrap ''bus: marshal observation: '' e)
     | Inr payload \<Rightarrow> Inr \<lparr>m_Topic = [], m_Partition = 0, m_Offset = 0, m_Key = ob_SessionId ob, m_Value = payload,
         m_Headers = observation_headers ob, m_Time = (case ob_Timestamp ob of None \<Rightarrow> 0 | Some t \<Rightarrow> t)\<rparr>))"

definition DecodeObservation :: "obs_codec \<Rightarrow> Message \<Rightarrow> Observation result" where
  "DecodeObservation oc m = (case oc_Unmarshal oc (m_Value m) of
     Inl e \<Rightarrow> Inl (wrap ''bus: unmarshal observation: '' e)
   | Inr ob \<Rightarrow> (case Observation_Validate (Some ob) of Some e \<Rightarrow> Inl e | None \<Rightarrow> Inr ob))"

section \<open>Valid observations\<close>

definition valid_observation :: "Observation \<Rightarrow> bool" where
  "valid_observation ob \<longleftrightarrow> ob_Id ob \<noteq> [] \<and> ob_SessionId ob \<noteq> [] \<and> ob_Source ob \<noteq> [] \<and>
     ob_Type ob \<noteq> EVIDENCE_TYPE_UNSPECIFIED \<and> ob_Severity ob \<noteq> SEVERITY_UNSPECIFIED \<and>
     in_unit (ob_Confidence ob) \<and> ob_SchemaVersion ob = 1"

lemma violations_Nil: "violations ob = [] \<longleftrightarrow> valid_observation ob"
  by (auto simp: violations_def valid_observation_def not_in_unit MinSchemaVersion_def MaxSchemaVersion_def)

lemma Validate_None: "Observation_Validate o0 = None \<longleftrightarrow> (\<exists>ob. o0 = Some ob \<and> valid_observation ob)"
  by (auto simp: Observation_Validate_def errors_Join_def violations_Nil split: option.split)

lemma Validate_valid: "Observation_Validate (Some ob) = None \<longleftrightarrow> valid_observation ob"
  by (simp add: Validate_None)

text \<open>What the fill leaves alone.\<close>

lemma fill_frame:
  assumes "fill_system_fields lib ob w = (ob1, w1)"
  shows "ob_SessionId ob1 = ob_SessionId ob" "ob_Source ob1 = ob_Source ob" "ob_Type ob1 = ob_Type ob"
    "ob_SubType ob1 = ob_SubType ob" "ob_Confidence ob1 = ob_Confidence ob" "ob_Severity ob1 = ob_Severity ob"
    "ob_TargetService ob1 = ob_TargetService ob" "ob_Correlations ob1 = ob_Correlations ob"
    "ob_DetailJson ob1 = ob_DetailJson ob" "ob_Labels ob1 = ob_Labels ob"
    "ob_SchemaVersion ob1 = 1" "ob_Timestamp ob1 \<noteq> None"
  using assms by (auto simp: fill_system_fields_def CurrentSchemaVersion_def Let_def split: prod.splits if_splits)

lemma fill_state:
  assumes "fill_system_fields lib ob w = (ob1, w1)"
  shows "w1 = w \<or> w1 = snd (uuid_New w)"
  using assms by (auto simp: fill_system_fields_def Let_def split: prod.splits if_splits)

lemma fill_id:
  assumes "fill_system_fields lib ob w = (ob1, w1)" and "\<And>i. uuid_String lib i \<noteq> []"
  shows "ob_Id ob1 \<noteq> []"
  using assms by (auto simp: fill_system_fields_def Let_def split: prod.splits if_splits)

text \<open>The result of \<open>New\<close> on a message whose business fields are acceptable.\<close>

definition acceptable :: "Observation \<Rightarrow> bool" where
  "acceptable ob \<longleftrightarrow> ob_SessionId ob \<noteq> [] \<and> ob_Source ob \<noteq> [] \<and> ob_Type ob \<noteq> EVIDENCE_TYPE_UNSPECIFIED \<and>
     ob_Severity ob \<noteq> SEVERITY_UNSPECIFIED \<and> in_unit (ob_Confidence ob)"

lemma New_ok:
  assumes "acceptable ob" and "\<And>i. uuid_String lib i \<noteq> []"
  shows "Observation_New lib (Some ob) w = (case fill_system_fields lib ob w of (ob1, w1) \<Rightarrow> (Inr ob1, w1))"
proof -
  obtain ob1 w1 where 1: "fill_system_fields lib ob w = (ob1, w1)" by force
  have "valid_observation ob1"
    using assms(1) fill_frame [OF 1] fill_id [OF 1 assms(2)] by (simp add: valid_observation_def acceptable_def)
  then have "Observation_Validate (Some ob1) = None" by (simp add: Validate_valid)
  with 1 show ?thesis by (simp add: Observation_New_def)
qed

lemma New_Inr:
  assumes "Observation_New lib (Some ob) w = (Inr ob1, w1)"
  shows "valid_observation ob1" "fill_system_fields lib ob w = (ob1, w1)"
  using assms by (auto simp: Observation_New_def Validate_valid split: prod.splits option.splits)

lemma New_state:
  assumes "Observation_New lib (Some ob) w = (r, w1)"
  shows "w1 = w \<or> w1 = snd (uuid_New w)"
  using assms fill_state by (fastforce simp: Observation_New_def split: prod.splits option.splits)


section \<open>Properties\<close>

text \<open>\<open>Validate\<close> accepts exactly the observations with an id, a session, a source, a
  type, a severity, a confidence in the unit interval (so neither NaN nor infinite) and schema version 1;
  otherwise its error is, in the sense of \<open>errors.Is\<close>, exactly the sentinels of the rules that are broken,
  all of them and no other.\<close>

theorem Validate_spec:
  "(Observation_Validate (Some ob) = None \<longleftrightarrow> ob_Id ob \<noteq> [] \<and> ob_SessionId ob \<noteq> [] \<and> ob_Source ob \<noteq> [] \<and>
      ob_Type ob \<noteq> 0 \<and> ob_Severity ob \<noteq> 0 \<and> in_unit (ob_Confidence ob) \<and> ob_SchemaVersion ob = 1) \<and>
   {s. \<exists>e. Observation_Validate (Some ob) = Some e \<and> errors_is e s} =
     (if ob_Id ob = [] then {ErrEmptyID} else {}) \<union> (if ob_SessionId ob = [] then {ErrEmptySessionID} else {}) \<union>
     (if ob_Source ob = [] then {ErrEmptySource} else {}) \<union> (if ob_Type ob = 0 then {ErrUnspecifiedType} else {}) \<union>
     (if ob_Severity ob = 0 then {ErrUnspecifiedSeverity} else {}) \<union>
     (if in_unit (ob_Confidence ob) then {} else {ErrConfidenceOutOfRange}) \<union>
     (if ob_SchemaVersion ob = 1 then {} else {ErrUnsupportedSchemaVersion})"
proof -
  have "{s. \<exists>e. Observation_Validate (Some ob) = Some e \<and> errors_is e s} = {s. \<exists>e \<in> set (violations ob). errors_is e s}"
    by (auto simp: Observation_Validate_def errors_Join_def)
  also have "\<dots> = (if ob_Id ob = [] then {ErrEmptyID} else {}) \<union> (if ob_SessionId ob = [] then {ErrEmptySessionID} else {}) \<union>
     (if ob_Source ob = [] then {ErrEmptySource} else {}) \<union> (if ob_Type ob = 0 then {ErrUnspecifiedType} else {}) \<union>
     (if ob_Severity ob = 0 then {ErrUnspecifiedSeverity} else {}) \<union>
     (if in_unit (ob_Confidence ob) then {} else {ErrConfidenceOutOfRange}) \<union>
     (if ob_SchemaVersion ob = 1 then {} else {ErrUnsupportedSchemaVersion})"
    unfolding violations_def not_in_unit schema_version_error_def
    by (auto simp: MinSchemaVersion_def MaxSchemaVersion_def)
  finally show ?thesis by (simp add: Validate_valid valid_observation_def)
qed

definition sample_observation :: "string \<Rightarrow> int \<Rightarrow> Observation" where
  "sample_observation src ty = \<lparr>ob_Id = ''o-1'', ob_SessionId = ''s-1'', ob_Source = src, ob_Type = ty, ob_SubType = [],
     ob_Confidence = Fin (1 / 2), ob_Severity = SEVERITY_ERROR, ob_TargetService = ''cart'', ob_Correlations = [],
     ob_DetailJson = ''{}'', ob_Labels = [], ob_Timestamp = Some 5, ob_SchemaVersion = 1\<rparr>"

text \<open>C27 (observation_bus_roundtrip): only a valid observation becomes a message, and it arrives as it was sent:
  with a binary encoding that decodes what it encodes, \<open>DecodeObservation\<close> returns it from the message
  that comes out of Kafka, whatever topic, partition and offset that message got.  The message is keyed by
  the session, so the observations of a session stay in order, and its headers carry source and session.\<close>

theorem observation_bus_roundtrip:
  assumes "\<And>ob b. oc_Marshal oc ob = Inr b \<Longrightarrow> oc_Unmarshal oc b = Inr ob"
    and "ObservationMessage oc (Some ob) = Inr m"
  shows "DecodeObservation oc (fromKafkaMessage ((toKafkaMessage enum (m\<lparr>m_Topic := t\<rparr>))\<lparr>k_Partition := p, k_Offset := n\<rparr>)) = Inr ob \<and>
    Observation_Validate (Some ob) = None \<and> m_Key m = ob_SessionId ob \<and>
    m_Headers m HeaderSource = Some (ob_Source ob) \<and> m_Headers m HeaderSessionID = Some (ob_SessionId ob)"
proof -
  from assms(2) have v: "Observation_Validate (Some ob) = None"
    by (auto simp: ObservationMessage_def split: option.splits)
  with assms(2) obtain b where b: "oc_Marshal oc ob = Inr b"
    and m: "m_Value m = b" "m_Key m = ob_SessionId ob" "m_Headers m = observation_headers ob"
    by (auto simp: ObservationMessage_def Let_def split: sum.splits)
  from assms(1) [OF b] v show ?thesis
    by (simp add: DecodeObservation_def fromKafkaMessage_def toKafkaMessage_def m observation_headers_def)
qed

theorem observation_bus_roundtrip_witness:
  "let oc = \<lparr>oc_ToJSON = (\<lambda>ob. Inr []), oc_FromJSON = (\<lambda>s. Inl (ErrorString s)),
       oc_Marshal = (\<lambda>ob. if ob = sample_observation ''agent-log'' 1 then Inr ''x'' else Inl (ErrorString [])),
       oc_Unmarshal = (\<lambda>b. Inr (sample_observation ''agent-log'' 1))\<rparr>
   in \<exists>m. ObservationMessage oc (Some (sample_observation ''agent-log'' 1)) = Inr m \<and>
     DecodeObservation oc (fromKafkaMessage ((toKafkaMessage (\<lambda>h. []) (m\<lparr>m_Topic := ''t''\<rparr>))\<lparr>k_Partition := 1, k_Offset := 2\<rparr>)) =
       Inr (sample_observation ''agent-log'' 1)"
proof -
  let ?ob = "sample_observation ''agent-log'' 1"
  let ?oc = "\<lparr>oc_ToJSON = (\<lambda>ob. Inr []), oc_FromJSON = (\<lambda>s. Inl (ErrorString s)),
       oc_Marshal = (\<lambda>ob. if ob = ?ob then Inr ''x'' else Inl (ErrorString [])), oc_Unmarshal = (\<lambda>b. Inr ?ob)\<rparr>"
  have "valid_observation ?ob" by (simp add: valid_observation_def sample_observation_def in_unit_def)
  then have "Observation_Validate (Some ?ob) = None" by (simp add: Validate_valid)
  then obtain m where m: "ObservationMessage ?oc (Some ?ob) = Inr m"
    by (simp add: ObservationMessage_def Let_def)
  have "oc_Unmarshal ?oc b = Inr ob" if "oc_Marshal ?oc ob = Inr b" for ob b using that by (simp split: if_splits)
  from observation_bus_roundtrip [OF this m] m show ?thesis by (auto simp: Let_def)
qed

end
