(* ===== verification/Agent_Base.thy ===== *)
theory Agent_Base imports Observation Json_Value begin

text \<open>
  What the agents share (\<open>internal/agent/interfaces.go\<close>): the interface with its contract, the libraries,
  the reply to a collect command and the emission of a list of findings.  An agent works on the state of
  its process, a database with clock and identifier source, of which only the fix agent uses the tables.
\<close>

section \<open>The interface\<close>

record 's Agent =
  ag_Name :: string
  ag_InputTopic :: string
  ag_OutputTopic :: string
  ag_Handle :: "string \<Rightarrow> Observation list \<Rightarrow> 's \<Rightarrow> Observation list result \<times> 's"

text \<open>\<open>al_Format\<close> formats a time by the layout of the log agent, \<open>al_Percent0\<close> and \<open>al_Percent2\<close> are \<open>%.0f\<close>
  and \<open>%.2f\<close>, \<open>al_Order\<close> is the order in which a Go map with the given keys is enumerated.\<close>

record agent_lib =
  al_uuid :: uuid_lib
  al_json :: json_lib
  al_Format :: "time \<Rightarrow> string"
  al_Percent0 :: "float64 \<Rightarrow> string"
  al_Percent2 :: "float64 \<Rightarrow> string"
  al_Order :: "string list \<Rightarrow> string list"

text \<open>What is used of the libraries: identifiers have a text, and a literal that is in range is finite.\<close>

definition lib_ok :: "agent_lib \<Rightarrow> bool" where
  "lib_ok lib \<longleftrightarrow> (\<forall>i. uuid_String (al_uuid lib) i \<noteq> []) \<and>
     (\<forall>s x. jl_ParseFloat (al_json lib) s = Some x \<longrightarrow> (\<exists>q. x = Fin q))"

text \<open>The contract of an agent: from a session it was given, whatever the inputs and the state, it emits valid
  observations of this session, of its own name and of its own type.\<close>

locale agent =
  fixes name :: string and ty :: int
    and handle :: "string \<Rightarrow> Observation list \<Rightarrow> 's \<Rightarrow> Observation list result \<times> 's"
  assumes emits: "sid \<noteq> [] \<Longrightarrow> handle sid inputs w = (Inr obs, w') \<Longrightarrow> ob \<in> set obs \<Longrightarrow>
      valid_observation ob \<and> ob_Source ob = name \<and> ob_Type ob = ty \<and> ob_SessionId ob = sid"
begin

lemma stamped: "sid \<noteq> [] \<Longrightarrow> handle sid inputs w = (Inr obs, w') \<Longrightarrow>
    map (\<lambda>ob. ob\<lparr>ob_SessionId := sid\<rparr>) obs = obs"
  by (rule map_idI) (auto dest!: emits)

lemma not_own: "sid \<noteq> [] \<Longrightarrow> handle sid inputs w = (Inr obs, w') \<Longrightarrow> other \<noteq> name \<Longrightarrow>
    \<forall>ob \<in> set obs. ob_Source ob \<noteq> other"
  by (auto dest!: emits)

end

section \<open>Enumerations as text\<close>

text \<open>The generated \<open>String\<close> methods: the name, or the number of an unknown value.\<close>

definition EvidenceType_String :: "int \<Rightarrow> string" where
  "EvidenceType_String t = (case map_of [(0, ''EVIDENCE_TYPE_UNSPECIFIED''), (1, ''EVIDENCE_TYPE_LOG''),
     (2, ''EVIDENCE_TYPE_METRIC''), (3, ''EVIDENCE_TYPE_TRACE''), (4, ''EVIDENCE_TYPE_ALERT''),
     (5, ''EVIDENCE_TYPE_RCA_RESULT''), (6, ''EVIDENCE_TYPE_FIX_ACTION'')] t of Some s \<Rightarrow> s | None \<Rightarrow> show_int t)"

definition Severity_String :: "int \<Rightarrow> string" where
  "Severity_String t = (case map_of [(0, ''SEVERITY_UNSPECIFIED''), (1, ''SEVERITY_DEBUG''), (2, ''SEVERITY_INFO''),
     (3, ''SEVERITY_WARN''), (4, ''SEVERITY_ERROR''), (5, ''SEVERITY_FATAL'')] t of Some s \<Rightarrow> s | None \<Rightarrow> show_int t)"

section \<open>Numbers\<close>

text \<open>The constants of the source as the nearest \<open>float64\<close>.\<close>

definition f030 :: float64 where "f030 = Fin (5404319552844595 / 2 ^ 54)"

definition f065 :: float64 where "f065 = Fin (5854679515581645 / 2 ^ 53)"

definition f070 :: float64 where "f070 = Fin (3152519739159347 / 2 ^ 52)"

definition f075 :: float64 where "f075 = Fin (3 / 4)"

definition f080 :: float64 where "f080 = Fin (3602879701896397 / 2 ^ 52)"

definition f085 :: float64 where "f085 = Fin (7656119366529843 / 2 ^ 53)"

definition f095 :: float64 where "f095 = Fin (4278419646001971 / 2 ^ 52)"

lemma in_unit_constants [simp]:
  "in_unit f030" "in_unit f065" "in_unit f070" "in_unit f075" "in_unit f080" "in_unit f085" "in_unit f095"
  by (simp_all add: in_unit_def f030_def f065_def f070_def f075_def f080_def f085_def f095_def)

text \<open>The product with a positive constant, and the comparison with a constant.\<close>

fun f_scale :: "json_lib \<Rightarrow> rat \<Rightarrow> float64 \<Rightarrow> float64" where
  "f_scale lib k (Fin q) = jl_Round lib (k * q)"
| "f_scale lib k x = x"

fun f_eq :: "float64 \<Rightarrow> float64 \<Rightarrow> bool" where
  "f_eq NaN y = False"
| "f_eq x y = (x = y)"

text \<open>\<open>x <= y\<close>.\<close>

definition f_le :: "float64 \<Rightarrow> float64 \<Rightarrow> bool" where
  "f_le x y \<longleftrightarrow> f_lt x y \<or> f_eq x y"

text \<open>\<open>math.Min(math.Max(x, 0), 1)\<close>.\<close>

fun clamp_unit :: "float64 \<Rightarrow> float64" where
  "clamp_unit NaN = NaN"
| "clamp_unit PosInf = Fin 1"
| "clamp_unit NegInf = Fin 0"
| "clamp_unit (Fin q) = Fin (min (max q 0) 1)"

lemma in_unit_clamp: "x \<noteq> NaN \<Longrightarrow> in_unit (clamp_unit x)"
  by (cases x) (auto simp: in_unit_def)

section \<open>Encoding of maps and numbers\<close>

definition json_made_map :: "(string \<times> string) list \<Rightarrow> json" where
  "json_made_map m = JObject (map (\<lambda>(k, v). (k, JString v)) m)"

text \<open>A nil map is written as \<open>null\<close>.\<close>

definition json_map :: "(string \<times> string) list \<Rightarrow> json" where
  "json_map m = (if m = [] then JNull else json_made_map m)"

definition json_int :: "int \<Rightarrow> json" where
  "json_int i = JNumber (show_int i)"

definition json_float :: "json_lib \<Rightarrow> float64 \<Rightarrow> json" where
  "json_float lib x = JNumber (jl_FormatFloat lib x)"

section \<open>Emission\<close>

definition draft_observation :: "string \<Rightarrow> string \<Rightarrow> int \<Rightarrow> string \<Rightarrow> float64 \<Rightarrow> int \<Rightarrow> string \<Rightarrow> (string \<times> string) list \<Rightarrow>
    json \<Rightarrow> (string \<times> string) list \<Rightarrow> Observation" where
  "draft_observation sid src ty sub conf sev target corr detail labels =
    \<lparr>ob_Id = [], ob_SessionId = sid, ob_Source = src, ob_Type = ty, ob_SubType = sub, ob_Confidence = conf,
     ob_Severity = sev, ob_TargetService = target, ob_Correlations = corr, ob_DetailJson = json_text detail,
     ob_Labels = labels, ob_Timestamp = None, ob_SchemaVersion = 0\<rparr>"

definition is_collect_command :: "Observation \<Rightarrow> bool" where
  "is_collect_command ob \<longleftrightarrow> ob_Type ob = EVIDENCE_TYPE_ALERT \<and> ob_SubType ob = ''collect_command''"

text \<open>The first collect command for which the synthetic observation is valid is answered with it.\<close>

fun collect_reply :: "agent_lib \<Rightarrow> (Observation \<Rightarrow> Observation) \<Rightarrow> Observation list \<Rightarrow> 'a db_scheme \<Rightarrow>
    Observation option \<times> 'a db_scheme" where
  "collect_reply lib synth [] w = (None, w)"
| "collect_reply lib synth (ob # obs) w =
    (if is_collect_command ob
     then (case Observation_New (al_uuid lib) (Some (synth ob)) w of
         (Inl e, w1) \<Rightarrow> collect_reply lib synth obs w1
       | (Inr ob1, w1) \<Rightarrow> (Some ob1, w1))
     else collect_reply lib synth obs w)"

text \<open>The loop over findings: one observation each, a finding that \<open>New\<close> rejects is skipped.\<close>

fun emit_all :: "agent_lib \<Rightarrow> ('p \<Rightarrow> Observation) \<Rightarrow> 'p list \<Rightarrow> 'a db_scheme \<Rightarrow> Observation list \<times> 'a db_scheme" where
  "emit_all lib f [] w = ([], w)"
| "emit_all lib f (p # ps) w = (case Observation_New (al_uuid lib) (Some (f p)) w of
     (Inl e, w1) \<Rightarrow> emit_all lib f ps w1
   | (Inr ob, w1) \<Rightarrow> (case emit_all lib f ps w1 of (obs, w2) \<Rightarrow> (ob # obs, w2)))"

section \<open>What is emitted\<close>

text \<open>\<open>emitted sid src ty ob\<close>: the contract of the interface for one observation.\<close>

definition emitted :: "string \<Rightarrow> string \<Rightarrow> int \<Rightarrow> Observation \<Rightarrow> bool" where
  "emitted sid src ty ob \<longleftrightarrow> valid_observation ob \<and> ob_Source ob = src \<and> ob_Type ob = ty \<and> ob_SessionId ob = sid"

lemma emitted_New:
  assumes "Observation_New lib (Some (draft_observation sid src ty sub conf sev target corr detail labels)) w = (Inr ob, w1)"
  shows "emitted sid src ty ob"
  using New_Inr [OF assms] fill_frame [OF New_Inr(2) [OF assms]] by (simp add: emitted_def draft_observation_def)

lemma collect_reply_emitted:
  assumes "collect_reply lib synth inputs w = (Some ob, w1)"
    and "\<And>i. \<exists>sub conf sev target corr detail labels. synth i = draft_observation sid src ty sub conf sev target corr detail labels"
  shows "emitted sid src ty ob"
  using assms(1)
proof (induction inputs arbitrary: w)
  case (Cons i inputs)
  obtain sub conf sev target corr detail labels
    where s: "synth i = draft_observation sid src ty sub conf sev target corr detail labels" using assms(2) by blast
  from Cons show ?case using emitted_New [where src = src and sid = sid and ty = ty]
    by (auto simp: s split: if_splits prod.splits sum.splits)
qed simp

lemma emit_all_emitted:
  assumes "emit_all lib f ps w = (obs, w1)" and "ob \<in> set obs"
    and "\<And>p. \<exists>sub conf sev target corr detail labels. f p = draft_observation sid src ty sub conf sev target corr detail labels"
  shows "emitted sid src ty ob"
  using assms(1,2)
proof (induction ps arbitrary: w obs)
  case (Cons p ps)
  obtain sub conf sev target corr detail labels
    where s: "f p = draft_observation sid src ty sub conf sev target corr detail labels" using assms(3) by blast
  from Cons show ?case using emitted_New [where src = src and sid = sid and ty = ty]
    by (auto simp: s split: prod.splits sum.splits)
qed simp

text \<open>When every finding is acceptable, each gives its observation, in order.\<close>

lemma emit_all_complete:
  assumes "emit_all lib f ps w = (obs, w1)" and "\<forall>p \<in> set ps. acceptable (f p)" and "lib_ok lib"
  shows "map (\<lambda>ob. (ob_SubType ob, ob_Confidence ob, ob_Severity ob, ob_TargetService ob, ob_DetailJson ob)) obs =
    map (\<lambda>p. (ob_SubType (f p), ob_Confidence (f p), ob_Severity (f p), ob_TargetService (f p), ob_DetailJson (f p))) ps"
  using assms(1,2)
proof (induction ps arbitrary: w obs)
  case (Cons p ps)
  obtain ob1 w2 where 1: "fill_system_fields (al_uuid lib) (f p) w = (ob1, w2)" by force
  have "\<And>i. uuid_String (al_uuid lib) i \<noteq> []" using assms(3) by (simp add: lib_ok_def)
  with Cons.prems(2) 1 have N: "Observation_New (al_uuid lib) (Some (f p)) w = (Inr ob1, w2)"
    by (simp add: New_ok)
  obtain obs2 w3 where 2: "emit_all lib f ps w2 = (obs2, w3)" by force
  with N Cons.prems(1) have o: "obs = ob1 # obs2" "w3 = w1" by simp_all
  from Cons.IH [OF 2 [unfolded o(2)]] Cons.prems(2) fill_frame [OF 1] show ?case by (simp add: o(1))
qed simp


section \<open>Commands\<close>

text \<open>\<open>json.Unmarshal\<close> of a \<open>bus.CommandMessage\<close>.\<close>

definition empty_command :: CommandMessage where
  "empty_command = \<lparr>cm_SessionID = [], cm_TargetService = [], cm_Command = [], cm_AgentKind = []\<rparr>"

definition dec_command :: "CommandMessage decoder" where
  "dec_command = dec_struct ''bus.CommandMessage''
    [(''session_id'', field dec_string cm_SessionID (\<lambda>x. cm_SessionID_update (\<lambda>_. x))),
     (''target_service'', field dec_string cm_TargetService (\<lambda>x. cm_TargetService_update (\<lambda>_. x))),
     (''command'', field dec_string cm_Command (\<lambda>x. cm_Command_update (\<lambda>_. x))),
     (''agent_kind'', field dec_string cm_AgentKind (\<lambda>x. cm_AgentKind_update (\<lambda>_. x)))]"

definition command_json :: "CommandMessage \<Rightarrow> json" where
  "command_json c = JObject [(''session_id'', JString (cm_SessionID c)), (''target_service'', JString (cm_TargetService c)),
     (''command'', JString (cm_Command c)), (''agent_kind'', JString (cm_AgentKind c))]"

lemma dec_command_json: "dec_command (command_json c) empty_command = Inr c"
  by (simp add: dec_command_def command_json_def json_simps empty_command_def)

lemma marshal_command_json: "marshal_command c = json_text (command_json c)"
  by (simp add: marshal_command_def command_json_def json_object_def)


section \<open>Sample libraries\<close>

definition sample_agent_lib :: "(string \<Rightarrow> json result) \<Rightarrow> agent_lib" where
  "sample_agent_lib parse = \<lparr>al_uuid = \<lparr>uuid_Parse = (\<lambda>s. if s = [] then Inl (ErrorString ''invalid UUID length: 0'')
       else Inr (of_nat (length s))), uuid_String = (\<lambda>u. ''u'')\<rparr>,
     al_json = \<lparr>jl_Parse = parse, jl_ParseFloat = (\<lambda>s. Some (Fin (of_nat (length s)))), jl_FormatFloat = (\<lambda>x. ''1''),
       jl_Round = Fin\<rparr>,
     al_Format = (\<lambda>t. []), al_Percent0 = (\<lambda>x. []), al_Percent2 = (\<lambda>x. []), al_Order = (\<lambda>ks. ks)\<rparr>"

lemma sample_agent_lib_ok: "lib_ok (sample_agent_lib parse)"
  by (auto simp: lib_ok_def sample_agent_lib_def)

end
