(* ===== verification/Agent_Rca.thy ===== *)
theory Agent_Rca imports Agent_Base begin

text \<open>
  The root cause agent (\<open>internal/agent/rca.go\<close>): the question to the language model, the check of its answer
  and the heuristics that stand in for it.  The model is an optional function on the state of the process.
\<close>

section \<open>Output\<close>

record RCAOutput =
  ro_RootCause :: string
  ro_RootCausePattern :: string
  ro_Confidence :: float64
  ro_EvidenceSummary :: string

definition empty_rca_output :: RCAOutput where
  "empty_rca_output = \<lparr>ro_RootCause = [], ro_RootCausePattern = [], ro_Confidence = Fin 0, ro_EvidenceSummary = []\<rparr>"

definition dec_rca_output :: "json_lib \<Rightarrow> RCAOutput decoder" where
  "dec_rca_output lib = dec_struct ''agent.RCAOutput''
    [(''root_cause'', field dec_string ro_RootCause (\<lambda>x. ro_RootCause_update (\<lambda>_. x))),
     (''root_cause_pattern'', field dec_string ro_RootCausePattern (\<lambda>x. ro_RootCausePattern_update (\<lambda>_. x))),
     (''confidence'', field (dec_float lib) ro_Confidence (\<lambda>x. ro_Confidence_update (\<lambda>_. x))),
     (''evidence_summary'', field dec_string ro_EvidenceSummary (\<lambda>x. ro_EvidenceSummary_update (\<lambda>_. x)))]"

definition rca_output_json :: "json_lib \<Rightarrow> RCAOutput \<Rightarrow> json" where
  "rca_output_json lib r = JObject [(''root_cause'', JString (ro_RootCause r)),
     (''root_cause_pattern'', JString (ro_RootCausePattern r)), (''confidence'', json_float lib (ro_Confidence r)),
     (''evidence_summary'', JString (ro_EvidenceSummary r))]"

lemma dec_rca_output_json:
  assumes "jl_ParseFloat lib (jl_FormatFloat lib (ro_Confidence r)) = Some (ro_Confidence r)"
  shows "dec_rca_output lib (rca_output_json lib r) empty_rca_output = Inr r"
  using assms by (simp add: dec_rca_output_def rca_output_json_def json_float_def json_simps empty_rca_output_def)

section \<open>Heuristics\<close>

definition heuristicRFACall :: "string \<Rightarrow> RCAOutput" where
  "heuristicRFACall targetService = \<lparr>ro_RootCause = ''Analysis triggered for '' @ targetService @ '' (heuristic mode, no LLM)'',
     ro_RootCausePattern = ''unknown'', ro_Confidence = f030,
     ro_EvidenceSummary = ''No LLM configured; using heuristic fallback''\<rparr>"

definition slow_span :: "agent_lib \<Rightarrow> Observation \<Rightarrow> string option" where
  "slow_span lib ob =
    (if ob_Type ob \<noteq> EVIDENCE_TYPE_TRACE then None
     else (case jl_Parse (al_json lib) (ob_DetailJson ob) of
         Inl e \<Rightarrow> None
       | Inr j \<Rightarrow> (case dec_map (al_json lib) j of
           Inl e \<Rightarrow> None
         | Inr payload \<Rightarrow> (case payload ''duration_ms'' of
             Some (JNumber s) \<Rightarrow> (case jl_ParseFloat (al_json lib) s of
                 Some d \<Rightarrow> (if f_gt d (Fin 5000) then Some (''span>5s:'' @ al_Percent0 lib d @ ''ms'') else None)
               | None \<Rightarrow> None)
           | _ \<Rightarrow> None))))"

definition slow_spans :: "agent_lib \<Rightarrow> Observation list \<Rightarrow> string list" where
  "slow_spans lib inputs = concat (map (\<lambda>ob. case slow_span lib ob of Some s \<Rightarrow> [s] | None \<Rightarrow> []) inputs)"

definition heuristicRCA :: "agent_lib \<Rightarrow> Observation list \<Rightarrow> RCAOutput" where
  "heuristicRCA lib inputs =
    (let errCount = length (filter (\<lambda>ob. ob_Severity ob = SEVERITY_ERROR \<or> ob_Severity ob = SEVERITY_FATAL) inputs);
         warnCount = length (filter (\<lambda>ob. ob_Severity ob = SEVERITY_WARN) inputs);
         slow = slow_spans lib inputs;
         d = (\<lambda>n. show_int (int n))
     in if errCount > 5 \<and> length slow > 0
        then \<lparr>ro_RootCause = ''Cascading timeout triggered by slow downstream service'', ro_RootCausePattern = ''timeout_cascade'',
          ro_Confidence = f080, ro_EvidenceSummary = d errCount @ '' errors, '' @ d (length slow) @ '' slow spans including '' @ hd slow\<rparr>
        else if errCount > 10
        then \<lparr>ro_RootCause = ''Database connection pool exhaustion causing repeated failures'',
          ro_RootCausePattern = ''database_connection_pool_exhaustion'', ro_Confidence = f075,
          ro_EvidenceSummary = d errCount @ '' errors within the same service''\<rparr>
        else if length slow > 3
        then \<lparr>ro_RootCause = ''N+1 query pattern causing increased latency'', ro_RootCausePattern = ''n_plus_one_query'',
          ro_Confidence = f070, ro_EvidenceSummary = d (length slow) @ '' slow spans detected''\<rparr>
        else if warnCount > 20
        then \<lparr>ro_RootCause = ''Memory or goroutine leak causing gradual degradation'', ro_RootCausePattern = ''resource_leak'',
          ro_Confidence = f065, ro_EvidenceSummary = d warnCount @ '' warnings indicating resource pressure''\<rparr>
        else \<lparr>ro_RootCause = ''Unknown root cause, more evidence needed'', ro_RootCausePattern = ''unknown'',
          ro_Confidence = f030, ro_EvidenceSummary = d errCount @ '' errors, '' @ d warnCount @ '' warnings''\<rparr>)"

section \<open>The language model\<close>

definition rca_system_prompt :: string where
  "rca_system_prompt = concat (map (\<lambda>l. l @ [CHR 0x0A])
    [''You are a microservice diagnostics expert. Based on the evidence provided, perform root cause analysis.'',
     ''Return a JSON object with these fields:'',
     ''- root_cause: a concise description of the root cause (1-2 sentences)'',
     ''- root_cause_pattern: a searchable pattern tag (e.g. '' @ json_quote ''database_connection_pool_exhaustion'' @ '', '' @
       json_quote ''n_plus_one_query'' @ '', '' @ json_quote ''memory_leak'' @ '', '' @ json_quote ''timeout_cascade'' @ '')'',
     ''- confidence: a number between 0.0 and 1.0 indicating your confidence in this analysis'',
     ''- evidence_summary: a 1-sentence summary of the key supporting evidence'']) @
     ''Only return valid JSON. No markdown or additional text.''"

definition evidence_line :: "Observation \<Rightarrow> string" where
  "evidence_line ob = [CHR 0x0A] @ ''['' @ EvidenceType_String (ob_Type ob) @ ''] '' @ ob_SubType ob @ '' | severity='' @
     Severity_String (ob_Severity ob) @ '' | service='' @ ob_TargetService ob @ '' | detail='' @ ob_DetailJson ob"

definition buildEvidenceSummary :: "Observation list \<Rightarrow> string" where
  "buildEvidenceSummary inputs = concat (map evidence_line (take 20 inputs)) @
     (if length inputs > 20 then [CHR 0x0A] @ ''... and '' @ show_int (int (length inputs) - 20) @ '' more observations'' else [])"

type_synonym 's chat = "(string \<Rightarrow> string \<Rightarrow> 's \<Rightarrow> string result \<times> 's) option"

definition rca_fallback :: "agent_lib \<Rightarrow> string \<Rightarrow> Observation list \<Rightarrow> RCAOutput" where
  "rca_fallback lib targetService inputs =
     (if length inputs > 0 then heuristicRCA lib inputs else heuristicRFACall targetService)"

text \<open>The answer of the model counts when it parses and names cause and pattern; its confidence is clamped.\<close>

definition llm_rca :: "agent_lib \<Rightarrow> string result \<Rightarrow> RCAOutput option" where
  "llm_rca lib answer = (case answer of
     Inl e \<Rightarrow> None
   | Inr text \<Rightarrow> (case Unmarshal (al_json lib) (dec_rca_output (al_json lib)) text empty_rca_output of
       Inl e \<Rightarrow> None
     | Inr r \<Rightarrow> (if ro_RootCause r = [] \<or> ro_RootCausePattern r = [] then None
         else Some (r\<lparr>ro_Confidence := clamp_unit (ro_Confidence r)\<rparr>))))"

definition runRCA :: "agent_lib \<Rightarrow> 's chat \<Rightarrow> string \<Rightarrow> string \<Rightarrow> Observation list \<Rightarrow> 's \<Rightarrow> RCAOutput \<times> 's" where
  "runRCA lib chat targetService evidenceSummary inputs w = (case chat of
     None \<Rightarrow> (rca_fallback lib targetService inputs, w)
   | Some ask \<Rightarrow> (case ask rca_system_prompt evidenceSummary w of (answer, w1) \<Rightarrow>
       (case llm_rca lib answer of
          Some r \<Rightarrow> (r, w1)
        | None \<Rightarrow> (rca_fallback lib targetService inputs, w1))))"

section \<open>The handler\<close>

definition rca_observation_of :: "agent_lib \<Rightarrow> string \<Rightarrow> RCAOutput \<Rightarrow> int \<Rightarrow> string \<Rightarrow> (string \<times> string) list \<Rightarrow> Observation" where
  "rca_observation_of lib sid r severity targetService labels =
     draft_observation sid ''agent-rca'' EVIDENCE_TYPE_RCA_RESULT ''rca_result'' (ro_Confidence r) severity targetService []
       (rca_output_json (al_json lib) r) labels"

definition emit_rca :: "agent_lib \<Rightarrow> Observation \<Rightarrow> 'a db_scheme \<Rightarrow> Observation list result \<times> 'a db_scheme" where
  "emit_rca lib ob w = (case Observation_New (al_uuid lib) (Some ob) w of
     (Inl e, w1) \<Rightarrow> (Inl (wrap ''rca agent: create observation: '' e), w1)
   | (Inr ob1, w1) \<Rightarrow> (Inr [ob1], w1))"

text \<open>An analyze command: the only input is an alert whose detail is a command \<open>analyze\<close>.\<close>

definition analyze_command :: "agent_lib \<Rightarrow> Observation list \<Rightarrow> CommandMessage option" where
  "analyze_command lib inputs =
    (if length inputs = 1 \<and> ob_Type (hd inputs) = EVIDENCE_TYPE_ALERT
     then (case Unmarshal (al_json lib) dec_command (ob_DetailJson (hd inputs)) empty_command of
         Inr cmd \<Rightarrow> (if cm_Command cmd = ''analyze'' then Some cmd else None)
       | Inl e \<Rightarrow> None)
     else None)"

definition max_severity :: "Observation list \<Rightarrow> int" where
  "max_severity inputs = fold (\<lambda>ob s. if ob_Severity ob > s then ob_Severity ob else s) inputs SEVERITY_INFO"

definition RCAgent_Handle :: "agent_lib \<Rightarrow> 'a db_scheme chat \<Rightarrow> string \<Rightarrow> Observation list \<Rightarrow> 'a db_scheme \<Rightarrow>
    Observation list result \<times> 'a db_scheme" where
  "RCAgent_Handle lib chat sid inputs w =
    (if inputs = [] then (Inr [], w)
     else (case analyze_command lib inputs of
         Some cmd \<Rightarrow>
          (case runRCA lib chat (cm_TargetService cmd)
             (''Analyze requested for session '' @ sid @ '', target '' @ cm_TargetService cmd) [] w of
             (r, w1) \<Rightarrow> emit_rca lib (rca_observation_of lib sid r SEVERITY_INFO (cm_TargetService cmd) (ob_Labels (hd inputs))) w1)
       | None \<Rightarrow>
          (let targetService = ob_TargetService (hd inputs) in
           case runRCA lib chat targetService (buildEvidenceSummary inputs) inputs w of
             (r, w1) \<Rightarrow> emit_rca lib (rca_observation_of lib sid r (max_severity inputs) targetService (ob_Labels (hd inputs))) w1)))"

section \<open>The contract\<close>

lemma emit_rca_emitted:
  assumes "emit_rca lib (rca_observation_of lib sid r sev target labels) w = (Inr obs, w1)" and "ob \<in> set obs"
  shows "emitted sid ''agent-rca'' EVIDENCE_TYPE_RCA_RESULT ob"
  using assms emitted_New unfolding emit_rca_def rca_observation_of_def
  by (fastforce split: prod.splits sum.splits)

interpretation rca_agent: agent "''agent-rca''" EVIDENCE_TYPE_RCA_RESULT "RCAgent_Handle lib chat" for lib chat
  using emit_rca_emitted
  by unfold_locales (fastforce simp: RCAgent_Handle_def emitted_def Let_def split: if_splits option.splits prod.splits)

section \<open>The agent always answers\<close>

lemma max_severity_positive: "2 \<le> max_severity inputs"
proof -
  have "s \<le> fold (\<lambda>ob s. if ob_Severity ob > s then ob_Severity ob else s) inputs s" for s
    by (induction inputs arbitrary: s) (auto intro: order_trans [OF less_imp_le])
  then show ?thesis unfolding max_severity_def .
qed

lemma rca_fallback_confidence: "in_unit (ro_Confidence (rca_fallback lib t inputs))"
  by (simp add: rca_fallback_def heuristicRCA_def heuristicRFACall_def Let_def)

lemma dec_float_NaN: "lib_ok lib \<Longrightarrow> dec_float (al_json lib) j x = Inr NaN \<Longrightarrow> x = NaN"
  by (cases j) (auto simp: lib_ok_def split: option.splits)

lemma dec_rca_output_NaN:
  assumes "lib_ok lib" and "dec_rca_output (al_json lib) j r = Inr r1" and "ro_Confidence r \<noteq> NaN"
  shows "ro_Confidence r1 \<noteq> NaN"
  using assms(2) [unfolded dec_rca_output_def] assms(3)
  by (rule dec_struct_inv [where P = "\<lambda>r. ro_Confidence r \<noteq> NaN"])
    (use dec_float_NaN [OF assms(1)] in \<open>auto simp: field_def split: sum.splits\<close>)

lemma llm_rca_answer:
  assumes "lib_ok lib" and "llm_rca lib answer = Some r"
  shows "in_unit (ro_Confidence r) \<and> ro_RootCause r \<noteq> [] \<and> ro_RootCausePattern r \<noteq> []"
proof -
  from assms(2) obtain ans j q where q: "answer = Inr ans" "jl_Parse (al_json lib) ans = Inr j"
    "dec_rca_output (al_json lib) j empty_rca_output = Inr q" "ro_RootCause q \<noteq> []" "ro_RootCausePattern q \<noteq> []"
    and r: "r = q\<lparr>ro_Confidence := clamp_unit (ro_Confidence q)\<rparr>"
    by (auto simp: llm_rca_def Unmarshal_def split: sum.splits if_splits)
  have "ro_Confidence q \<noteq> NaN" using dec_rca_output_NaN [OF assms(1) q(3)] by (simp add: empty_rca_output_def)
  with q r show ?thesis by (simp add: in_unit_clamp)
qed

lemma rca_fallback_pattern: "ro_RootCause (rca_fallback lib t inputs) \<noteq> [] \<and> ro_RootCausePattern (rca_fallback lib t inputs) \<noteq> []"
  by (simp add: rca_fallback_def heuristicRCA_def heuristicRFACall_def Let_def)

lemma runRCA_answer:
  assumes "lib_ok lib" and "runRCA lib chat t s inputs w = (r, w1)"
  shows "in_unit (ro_Confidence r) \<and> ro_RootCause r \<noteq> [] \<and> ro_RootCausePattern r \<noteq> []"
  using assms(2) llm_rca_answer [OF assms(1)] rca_fallback_confidence rca_fallback_pattern
  by (auto simp: runRCA_def split: option.splits prod.splits)

lemma emit_rca_ok:
  assumes "lib_ok lib" and "sid \<noteq> []" and "in_unit (ro_Confidence r)" and "sev \<noteq> SEVERITY_UNSPECIFIED"
  shows "\<exists>ob w1. emit_rca lib (rca_observation_of lib sid r sev target labels) w = (Inr [ob], w1) \<and>
    ob_DetailJson ob = json_text (rca_output_json (al_json lib) r) \<and> ob_Confidence ob = ro_Confidence r \<and>
    ob_TargetService ob = target"
proof -
  let ?ob = "rca_observation_of lib sid r sev target labels"
  obtain ob1 w1 where 1: "fill_system_fields (al_uuid lib) ?ob w = (ob1, w1)" by force
  have "acceptable ?ob" using assms(2-4) by (simp add: acceptable_def rca_observation_of_def draft_observation_def)
  with 1 assms(1) have "Observation_New (al_uuid lib) (Some ?ob) w = (Inr ob1, w1)" by (simp add: New_ok lib_ok_def)
  with fill_frame [OF 1] show ?thesis
    by (auto simp: emit_rca_def rca_observation_of_def draft_observation_def)
qed

text \<open>Given any evidence, the root cause agent emits exactly one observation, whatever
  the language model answers, with or without a model: a valid RCA_RESULT of the session for the service of
  the analyze command or of the first evidence, with a confidence in the unit interval, whose detail names a
  root cause and a pattern.  So the session in ANALYZING always gets the result it waits for.\<close>

theorem rca_always_answers:
  assumes "lib_ok lib" and "sid \<noteq> []" and "inputs \<noteq> []"
  shows "\<exists>ob w'. RCAgent_Handle lib chat sid inputs w = (Inr [ob], w') \<and> Observation_Validate (Some ob) = None \<and>
    ob_Type ob = EVIDENCE_TYPE_RCA_RESULT \<and> ob_SessionId ob = sid \<and> ob_Source ob = ''agent-rca'' \<and>
    ob_TargetService ob = (case analyze_command lib inputs of Some cmd \<Rightarrow> cm_TargetService cmd
      | None \<Rightarrow> ob_TargetService (hd inputs)) \<and>
    (\<exists>r. ob_DetailJson ob = json_text (rca_output_json (al_json lib) r) \<and> ob_Confidence ob = ro_Confidence r \<and>
       ro_RootCause r \<noteq> [] \<and> ro_RootCausePattern r \<noteq> [])"
proof -
  have sev: "max_severity inputs \<noteq> SEVERITY_UNSPECIFIED" using max_severity_positive [of inputs] by linarith
  have "\<exists>ob w' r. RCAgent_Handle lib chat sid inputs w = (Inr [ob], w') \<and>
      ob_TargetService ob = (case analyze_command lib inputs of Some cmd \<Rightarrow> cm_TargetService cmd
        | None \<Rightarrow> ob_TargetService (hd inputs)) \<and>
      ob_DetailJson ob = json_text (rca_output_json (al_json lib) r) \<and> ob_Confidence ob = ro_Confidence r \<and>
      ro_RootCause r \<noteq> [] \<and> ro_RootCausePattern r \<noteq> []"
  proof (cases "analyze_command lib inputs")
    case None
    obtain r w1 where 1: "runRCA lib chat (ob_TargetService (hd inputs)) (buildEvidenceSummary inputs) inputs w = (r, w1)" by force
    note r = runRCA_answer [OF assms(1) 1]
    from emit_rca_ok [OF assms(1,2) conjunct1 [OF r] sev] 1 None assms(3) r show ?thesis
      by (fastforce simp: RCAgent_Handle_def Let_def)
  next
    case (Some cmd)
    obtain r w1 where 1: "runRCA lib chat (cm_TargetService cmd)
        (''Analyze requested for session '' @ sid @ '', target '' @ cm_TargetService cmd) [] w = (r, w1)" by force
    note r = runRCA_answer [OF assms(1) 1]
    have "SEVERITY_INFO \<noteq> SEVERITY_UNSPECIFIED" by simp
    from emit_rca_ok [OF assms(1,2) conjunct1 [OF r] this] 1 Some assms(3) r show ?thesis
      by (fastforce simp: RCAgent_Handle_def Let_def)
  qed
  then obtain ob w' r where *: "RCAgent_Handle lib chat sid inputs w = (Inr [ob], w')"
    "ob_TargetService ob = (case analyze_command lib inputs of Some cmd \<Rightarrow> cm_TargetService cmd
        | None \<Rightarrow> ob_TargetService (hd inputs))"
    "ob_DetailJson ob = json_text (rca_output_json (al_json lib) r)" "ob_Confidence ob = ro_Confidence r"
    "ro_RootCause r \<noteq> []" "ro_RootCausePattern r \<noteq> []" by blast
  from rca_agent.emits [OF assms(2) *(1)] have "valid_observation ob \<and> ob_Source ob = ''agent-rca'' \<and>
    ob_Type ob = EVIDENCE_TYPE_RCA_RESULT \<and> ob_SessionId ob = sid" by simp
  with * show ?thesis unfolding Validate_valid by blast
qed


theorem rca_always_answers_witness:
  "\<forall>w :: db. \<exists>ob w'. RCAgent_Handle (sample_agent_lib (\<lambda>s. Inl (ErrorString s))) None ''s''
     [sample_observation ''agent-log'' EVIDENCE_TYPE_LOG] w = (Inr [ob], w') \<and> ob_Type ob = EVIDENCE_TYPE_RCA_RESULT"
proof
  fix w :: db
  let ?lib = "sample_agent_lib (\<lambda>s. Inl (ErrorString s))"
  have "\<exists>ob w'. RCAgent_Handle ?lib None ''s'' [sample_observation ''agent-log'' EVIDENCE_TYPE_LOG] w = (Inr [ob], w') \<and>
      Observation_Validate (Some ob) = None \<and> ob_Type ob = EVIDENCE_TYPE_RCA_RESULT"
    using rca_always_answers [OF sample_agent_lib_ok, of "''s''" "[sample_observation ''agent-log'' EVIDENCE_TYPE_LOG]"
      "\<lambda>s. Inl (ErrorString s)" None w] by blast
  then show "\<exists>ob w'. RCAgent_Handle ?lib None ''s'' [sample_observation ''agent-log'' EVIDENCE_TYPE_LOG] w = (Inr [ob], w') \<and>
      ob_Type ob = EVIDENCE_TYPE_RCA_RESULT" by blast
qed

end
