(* ===== verification/Agent_Fix.thy ===== *)
theory Agent_Fix imports Agent_Rca Store_Approval "HOL-Library.Sublist" begin

text \<open>
  The fix agent (\<open>internal/agent/fix.go\<close>): the search of the knowledge base, the question to the language model,
  the default plans, the risk table, and the rows and observations of a plan.  \<open>fx_pool\<close> says whether the
  agent has a database connection.
\<close>

section \<open>Steps and candidates (interfaces.go)\<close>

record FixStep =
  fxs_Seq :: int
  fxs_ActionType :: string
  fxs_Target :: string
  fxs_Risk :: string
  fxs_RollbackPlan :: string
  fxs_Description :: string

record FixCandidate =
  fc_ID :: string
  fc_RootCausePattern :: string
  fc_Steps :: "FixStep list"
  fc_Risk :: string
  fc_RollbackPlan :: string
  fc_TimesUsed :: int
  fc_SuccessRate :: rat

definition empty_step :: FixStep where
  "empty_step = \<lparr>fxs_Seq = 0, fxs_ActionType = [], fxs_Target = [], fxs_Risk = [], fxs_RollbackPlan = [], fxs_Description = []\<rparr>"

text \<open>The struct has no json tags: its fields are matched by their Go names.\<close>

definition step_fields :: "(string \<times> FixStep decoder) list" where
  "step_fields =
    [(''Seq'', field dec_int fxs_Seq (\<lambda>x. fxs_Seq_update (\<lambda>_. x))),
     (''ActionType'', field dec_string fxs_ActionType (\<lambda>x. fxs_ActionType_update (\<lambda>_. x))),
     (''Target'', field dec_string fxs_Target (\<lambda>x. fxs_Target_update (\<lambda>_. x))),
     (''Risk'', field dec_string fxs_Risk (\<lambda>x. fxs_Risk_update (\<lambda>_. x))),
     (''RollbackPlan'', field dec_string fxs_RollbackPlan (\<lambda>x. fxs_RollbackPlan_update (\<lambda>_. x))),
     (''Description'', field dec_string fxs_Description (\<lambda>x. fxs_Description_update (\<lambda>_. x)))]"

definition dec_step :: "FixStep decoder" where
  "dec_step = dec_struct ''agent.FixStep'' step_fields"

definition dec_steps :: "FixStep list decoder" where
  "dec_steps = dec_slice ''[]agent.FixStep'' dec_step empty_step"

definition step_json :: "FixStep \<Rightarrow> json" where
  "step_json s = JObject [(''Seq'', json_int (fxs_Seq s)), (''ActionType'', JString (fxs_ActionType s)),
     (''Target'', JString (fxs_Target s)), (''Risk'', JString (fxs_Risk s)), (''RollbackPlan'', JString (fxs_RollbackPlan s)),
     (''Description'', JString (fxs_Description s))]"

definition default_step :: "string \<Rightarrow> string \<Rightarrow> string \<Rightarrow> string \<Rightarrow> FixStep" where
  "default_step actionType target description rollback = empty_step\<lparr>fxs_ActionType := actionType, fxs_Target := target,
     fxs_Description := description, fxs_RollbackPlan := rollback\<rparr>"

section \<open>The agent\<close>

record 's FixAgent =
  fx_pool :: bool
  fx_llm :: "'s chat"

definition NewFixAgent :: "bool \<Rightarrow> 's chat \<Rightarrow> 's FixAgent" where
  "NewFixAgent pool llm = \<lparr>fx_pool = pool, fx_llm = llm\<rparr>"

text \<open>An entry whose steps do not parse is skipped.\<close>

definition candidate_of :: "agent_lib \<Rightarrow> FixKnowledge \<Rightarrow> FixCandidate option" where
  "candidate_of lib e = (case Unmarshal (al_json lib) dec_steps (kb_FixSteps e) [] of
     Inl err \<Rightarrow> None
   | Inr steps \<Rightarrow> Some \<lparr>fc_ID = uuid_String (al_uuid lib) (kb_ID e), fc_RootCausePattern = kb_RootCausePattern e,
       fc_Steps = steps, fc_Risk = kb_Risk e, fc_RollbackPlan = kb_RollbackPlan e, fc_TimesUsed = kb_TimesUsed e,
       fc_SuccessRate = kb_SuccessRate e\<rparr>)"

definition searchKnowledgeBase :: "agent_lib \<Rightarrow> 's FixAgent \<Rightarrow> string \<Rightarrow> 'a db_scheme \<Rightarrow> FixCandidate list result \<times> 'a db_scheme" where
  "searchKnowledgeBase lib a pattern w =
    (if \<not> fx_pool a then (Inl (ErrorString ''no database connection (kbDAO is nil)''), w)
     else (case KnowledgeBaseDAO_SearchByRootCause pattern w of
         (Inl e, w1) \<Rightarrow> (Inl e, w1)
       | (Inr entries, w1) \<Rightarrow>
           (Inr (concat (map (\<lambda>e. case candidate_of lib e of Some c \<Rightarrow> [c] | None \<Rightarrow> []) entries)), w1)))"

definition fix_system_prompt :: string where
  "fix_system_prompt = concat (map (\<lambda>l. l @ [CHR 0x0A])
    [''You are a microservice reliability engineer. Given the root cause analysis, generate a fix action plan.'',
     ''Return a JSON array of fix steps. Each step is an object with:'',
     ''- action_type: one of restart_pod, scale_up, scale_down, switch_master, config_change, rollback_deploy, circuit_break, rate_limit, gc_tune, connection_pool_tune'',
     ''- target: the specific target (pod name pattern, service name, config key, etc.)'',
     ''- description: human-readable description of the action'',
     ''- rollback_plan: how to rollback this action if it fails'']) @
     ''Only return the JSON array. No markdown or additional text.''"

definition fix_user_prompt :: "agent_lib \<Rightarrow> RCAOutput \<Rightarrow> string \<Rightarrow> string" where
  "fix_user_prompt lib r targetService = ''Root cause pattern: '' @ ro_RootCausePattern r @ [CHR 0x0A] @
     ''Root cause: '' @ ro_RootCause r @ [CHR 0x0A] @ ''Confidence: '' @ al_Percent2 lib (ro_Confidence r) @ [CHR 0x0A] @
     ''Target service: '' @ targetService @ [CHR 0x0A] @ ''Evidence: '' @ ro_EvidenceSummary r"

definition generateFixStepsWithLLM :: "agent_lib \<Rightarrow> 's FixAgent \<Rightarrow> Observation \<Rightarrow> 's \<Rightarrow> FixStep list result \<times> 's" where
  "generateFixStepsWithLLM lib a rca w = (case fx_llm a of
     None \<Rightarrow> (Inl (ErrorString ''no LLM client configured''), w)
   | Some ask \<Rightarrow> (case Unmarshal (al_json lib) (dec_rca_output (al_json lib)) (ob_DetailJson rca) empty_rca_output of
       Inl e \<Rightarrow> (Inl e, w)
     | Inr r \<Rightarrow> (case ask fix_system_prompt (fix_user_prompt lib r (ob_TargetService rca)) w of
         (Inl e, w1) \<Rightarrow> (Inl e, w1)
       | (Inr answer, w1) \<Rightarrow> (case Unmarshal (al_json lib) dec_steps answer [] of
           Inl e \<Rightarrow> (Inl (wrap ''parse LLM steps: '' e), w1)
         | Inr steps \<Rightarrow> (Inr steps, w1)))))"

definition defaultFixSteps :: "string \<Rightarrow> FixStep list" where
  "defaultFixSteps pattern =
    (if pattern = ''database_connection_pool_exhaustion'' then
       [default_step ''scale_up'' ''replicas=+2'' ''Temporarily scale up to handle connection pressure'' ''Scale back to original replicas'',
        default_step ''config_change'' ''max_connections'' ''Increase database max connections config'' ''Restore original max_connections value'']
     else if pattern = ''timeout_cascade'' then
       [default_step ''circuit_break'' ''downstream-service'' ''Enable circuit breaker for downstream service'' ''Disable circuit breaker'',
        default_step ''scale_up'' ''replicas=+1'' ''Add capacity to downstream service'' ''Scale back to original replicas'']
     else if pattern = ''n_plus_one_query'' then
       [default_step ''config_change'' ''db.pool.size'' ''Increase DB pool size to absorb query burst'' ''Restore original pool size'',
        default_step ''restart_pod'' ''api-gateway'' ''Restart API gateway to clear stale connections'' ''Manual restart if needed'']
     else if pattern = ''resource_leak'' then
       [default_step ''restart_pod'' ''*'' ''Restart affected pods to free leaked resources'' ''No automatic rollback, monitor after restart'',
        default_step ''config_change'' ''gc_percent'' ''Tune Go GC percent to run more frequently'' ''Restore original GC percent'']
     else
       [default_step ''restart_pod'' ''*'' ''Restart target service as fallback mitigation'' ''Monitor service health after restart''])"

text \<open>The rule table: risk and rollback plan of an action type.\<close>

definition assessRisk :: "FixStep \<Rightarrow> string \<times> string" where
  "assessRisk step =
    (let t = fxs_ActionType step in
     if t = ''restart_pod'' then (RiskLow, ''Pod will be automatically restarted by Kubernetes if health check fails'')
     else if t = ''scale_up'' then (RiskLow, ''Scale back to original replica count'')
     else if t = ''scale_down'' then (RiskMedium, ''Scale back to original replica count'')
     else if t = ''switch_master'' then (RiskHigh, ''Switch back to the original master node or database'')
     else if t = ''data_migration'' then (RiskHigh, ''Halt migration and restore from backup if possible'')
     else if t = ''config_change'' then (RiskMedium, ''Restore original configuration values'')
     else if t = ''rollback_deploy'' then (RiskHigh, ''Redeploy the previous known-good revision'')
     else if t = ''circuit_break'' \<or> t = ''rate_limit'' then (RiskMedium, ''Disable the circuit breaker or rate limit rule'')
     else if t = ''gc_tune'' \<or> t = ''connection_pool_tune'' then (RiskMedium, ''Restore original tuning parameters'')
     else (RiskHigh, ''Unknown action type; manual intervention required for rollback''))"

section \<open>Rows and observations of a plan\<close>

definition step_rollback :: "FixStep \<Rightarrow> string" where
  "step_rollback step = (let rollback = snd (assessRisk step) in if rollback = [] then fxs_RollbackPlan step else rollback)"

definition step_action :: "uuid \<Rightarrow> nat \<Rightarrow> FixStep \<Rightarrow> FixAction" where
  "step_action sid i step = \<lparr>fa_ID = uuid_Nil, fa_SessionID = sid, fa_Seq = int i + 1, fa_ActionType = fxs_ActionType step,
     fa_Target = fxs_Target step, fa_Risk = fst (assessRisk step), fa_RollbackPlan = step_rollback step,
     fa_RequiresApproval = (fst (assessRisk step) = RiskHigh), fa_ApprovalStatus = ApprovalStatusNone,
     fa_ExecutionStatus = ExecStatusNotStarted, fa_TicketID = None, fa_CreatedAt = 0, fa_UpdatedAt = 0\<rparr>"

text \<open>\<open>db_persist_error\<close> is omitted when empty.\<close>

definition fix_detail_json :: "FixStep \<Rightarrow> string \<Rightarrow> json" where
  "fix_detail_json step dbError = JObject ([(''step'', step_json step), (''risk'', JString (fst (assessRisk step))),
     (''rollback_plan'', JString (step_rollback step)), (''requires_approval'', JBool (fst (assessRisk step) = RiskHigh))] @
     (if dbError = [] then [] else [(''db_persist_error'', JString dbError)]))"

definition fix_draft :: "agent_lib \<Rightarrow> string \<Rightarrow> Observation \<Rightarrow> FixStep \<Rightarrow> uuid \<Rightarrow> string \<Rightarrow> Observation" where
  "fix_draft lib sid rca step fixID dbError = draft_observation sid ''agent-fix'' EVIDENCE_TYPE_FIX_ACTION
     (fxs_ActionType step) (ob_Confidence rca) (ob_Severity rca) (ob_TargetService rca)
     [(''fix_action_id'', uuid_String (al_uuid lib) fixID)] (fix_detail_json step dbError) (ob_Labels rca)"

definition persist_step :: "'s FixAgent \<Rightarrow> FixAction \<Rightarrow> 'a db_scheme \<Rightarrow> uuid \<times> string \<times> 'a db_scheme" where
  "persist_step a fa w =
    (if fx_pool a then (case FixActionDAO_Create fa w of
         (Some e, fa1, w1) \<Rightarrow> (fa_ID fa1, error_text e, w1)
       | (None, fa1, w1) \<Rightarrow> (fa_ID fa1, [], w1))
     else (fa_ID fa, [], w))"

fun emit_steps :: "agent_lib \<Rightarrow> 's FixAgent \<Rightarrow> string \<Rightarrow> uuid \<Rightarrow> Observation \<Rightarrow> nat \<Rightarrow> FixStep list \<Rightarrow> 'a db_scheme \<Rightarrow>
    Observation list \<times> 'a db_scheme" where
  "emit_steps lib a sid u rca i [] w = ([], w)"
| "emit_steps lib a sid u rca i (step # steps) w =
    (case persist_step a (step_action u i step) w of (fixID, dbError, w1) \<Rightarrow>
    (case Observation_New (al_uuid lib) (Some (fix_draft lib sid rca step fixID dbError)) w1 of
       (Inl e, w2) \<Rightarrow> emit_steps lib a sid u rca (Suc i) steps w2
     | (Inr ob, w2) \<Rightarrow> (case emit_steps lib a sid u rca (Suc i) steps w2 of (obs, w3) \<Rightarrow> (ob # obs, w3))))"

section \<open>The handler\<close>

text \<open>The plan: of the first candidate, else of the model, else the default of the pattern.\<close>

definition plan_steps :: "agent_lib \<Rightarrow> 'a db_scheme FixAgent \<Rightarrow> Observation \<Rightarrow> RCAOutput \<Rightarrow> 'a db_scheme \<Rightarrow> FixStep list \<times> 'a db_scheme" where
  "plan_steps lib a rca r w =
    (case searchKnowledgeBase lib a (ro_RootCausePattern r) w of (cands, w1) \<Rightarrow>
     (case cands of
        Inr (c # cs) \<Rightarrow> (fc_Steps c, w1)
      | _ \<Rightarrow> (case generateFixStepsWithLLM lib a rca w1 of
          (Inl e, w2) \<Rightarrow> (defaultFixSteps (ro_RootCausePattern r), w2)
        | (Inr steps, w2) \<Rightarrow> (steps, w2))))"

definition FixAgent_Handle :: "agent_lib \<Rightarrow> 'a db_scheme FixAgent \<Rightarrow> string \<Rightarrow> Observation list \<Rightarrow> 'a db_scheme \<Rightarrow>
    Observation list result \<times> 'a db_scheme" where
  "FixAgent_Handle lib a sid inputs w =
    (case List.find (\<lambda>ob. ob_Type ob = EVIDENCE_TYPE_RCA_RESULT) inputs of
       None \<Rightarrow> (Inr [], w)
     | Some rca \<Rightarrow> (case uuid_Parse (al_uuid lib) sid of
         Inl e \<Rightarrow> (Inl (wrap ''fix agent: invalid session id: '' e), w)
       | Inr u \<Rightarrow> (case Unmarshal (al_json lib) (dec_rca_output (al_json lib)) (ob_DetailJson rca) empty_rca_output of
           Inl e \<Rightarrow> (Inl (wrap ''fix agent: parse rca result: '' e), w)
         | Inr r \<Rightarrow> (case plan_steps lib a rca r w of (steps, w1) \<Rightarrow>
             (case emit_steps lib a sid u rca 0 steps w1 of (obs, w2) \<Rightarrow> (Inr obs, w2))))))"

section \<open>The contract\<close>

lemma emit_steps_emitted:
  assumes "emit_steps lib a sid u rca i steps w = (obs, w1)" and "ob \<in> set obs"
  shows "emitted sid ''agent-fix'' EVIDENCE_TYPE_FIX_ACTION ob"
  using assms
proof (induction steps arbitrary: i w obs)
  case (Cons step steps)
  then show ?case using emitted_New [where src = "''agent-fix''" and ty = EVIDENCE_TYPE_FIX_ACTION]
    by (auto simp: fix_draft_def split: prod.splits sum.splits)
qed simp

interpretation fix_agent: agent "''agent-fix''" EVIDENCE_TYPE_FIX_ACTION "FixAgent_Handle lib a" for lib a
  using emit_steps_emitted
  by unfold_locales (fastforce simp: FixAgent_Handle_def emitted_def split: option.splits sum.splits prod.splits)

section \<open>Rows of a plan\<close>

text \<open>The columns the agent decides; the database adds the identifier and the times.\<close>

definition plan_columns :: "FixAction \<Rightarrow> uuid \<times> int \<times> string \<times> string \<times> string \<times> string \<times> bool \<times> string \<times> string \<times> string option" where
  "plan_columns fa = (fa_SessionID fa, fa_Seq fa, fa_ActionType fa, fa_Target fa, fa_Risk fa, fa_RollbackPlan fa,
     fa_RequiresApproval fa, fa_ApprovalStatus fa, fa_ExecutionStatus fa, fa_TicketID fa)"

definition plan_rows :: "uuid \<Rightarrow> nat \<Rightarrow> FixStep list \<Rightarrow> FixAction list" where
  "plan_rows u i steps = map (\<lambda>(j, s). step_action u j s) (enumerate i steps)"

lemma plan_rows_simps [simp]:
  "plan_rows u i [] = []" "plan_rows u i (s # ss) = step_action u i s # plan_rows u (Suc i) ss"
  by (simp_all add: plan_rows_def)

text \<open>What the table stores of a step: an action type of more than 64 characters or a target of more
  than 128 makes the \<open>INSERT\<close> fail.\<close>

definition stored_step :: "FixStep \<Rightarrow> (string \<times> string) option" where
  "stored_step step = (case (varchar 64 (fxs_ActionType step), varchar 128 (fxs_Target step)) of
       (Some t, Some g) \<Rightarrow> Some (t, g)
     | _ \<Rightarrow> None)"

definition stored_rows :: "uuid \<Rightarrow> nat \<Rightarrow> FixStep list \<Rightarrow> FixAction list" where
  "stored_rows u i steps = List.map_filter fit_fix (plan_rows u i steps)"

lemma stored_rows_simps [simp]:
  "stored_rows u i [] = []"
  "stored_rows u i (s # ss) = (case fit_fix (step_action u i s) of None \<Rightarrow> [] | Some r \<Rightarrow> [r]) @ stored_rows u (Suc i) ss"
  by (simp_all add: stored_rows_def map_filter_simps split: option.split)

lemma assessRisk_cases: "fst (assessRisk s) \<in> {RiskLow, RiskMedium, RiskHigh}"
  by (simp add: assessRisk_def Let_def)

lemma step_rollback_text: "text_column (step_rollback s) = Some (step_rollback s)"
  by (simp add: text_column_def step_rollback_def assessRisk_def Let_def)

lemma fit_step_action:
  "fit_fix (step_action u i s) = (case stored_step s of None \<Rightarrow> None
     | Some (t, g) \<Rightarrow> Some ((step_action u i s)\<lparr>fa_ActionType := t, fa_Target := g\<rparr>))"
proof -
  have "varchar 8 (fst (assessRisk s)) = Some (fst (assessRisk s))"
    using assessRisk_cases [of s] by auto
  then show ?thesis
    by (simp add: fit_fix_def step_action_def stored_step_def step_rollback_text opt_column_def
        split: option.split)
qed

text \<open>The struct as \<open>Create\<close> fills it.\<close>

definition filled :: "FixAction \<Rightarrow> 'a db_scheme \<Rightarrow> FixAction" where
  "filled fa w = fa\<lparr>fa_ID := fst (uuid_New w), fa_CreatedAt := (if fa_CreatedAt fa = 0 then w_now w else fa_CreatedAt fa),
     fa_UpdatedAt := (if fa_UpdatedAt fa = 0 then w_now w else fa_UpdatedAt fa)\<rparr>"

lemma filled_simps [simp]:
  "fa_ID (filled fa w) = w_fresh w (w_ctr w)" "fa_SessionID (filled fa w) = fa_SessionID fa"
  "fa_Seq (filled fa w) = fa_Seq fa" "plan_columns (filled fa w) = plan_columns fa"
  by (simp_all add: filled_def uuid_New_def plan_columns_def)

lemma New_state_simps [simp]:
  "w_fix_actions (snd (uuid_New w)) = w_fix_actions w" "w_faults (snd (uuid_New w)) = w_faults w"
  "w_sessions (snd (uuid_New w)) = w_sessions w" "w_locked (snd (uuid_New w)) = w_locked w"
  by (simp_all add: uuid_New_def)

lemma fit_filled:
  "fit_fix (filled fa w) = (case fit_fix fa of None \<Rightarrow> None | Some row \<Rightarrow> Some (filled row w))"
  by (cases fa) (auto simp: fit_fix_def filled_def split: option.split)

lemma Create_filled:
  assumes "fa_ID fa = uuid_Nil"
  shows "FixActionDAO_Create fa w = (case db_exec (fitted fit_fix insert_fix (filled fa w)) (snd (uuid_New w)) of
     (Some e, w2) \<Rightarrow> (Some (wrap ''fix_action create: '' e), filled fa w, w2)
   | (None, w2) \<Rightarrow> (None, filled fa w, w2))"
  using assms by (simp add: FixActionDAO_Create_def filled_def uuid_New_def Let_def split: prod.split option.split)

text \<open>The row that the columns make of it, which is stored when the insert succeeds and may be stored
  when its answer is an error.\<close>

lemma Create_rows:
  assumes "FixActionDAO_Create fa w = (r, fa1, w1)" and "fa_ID fa = uuid_Nil"
  shows "\<exists>new. w_fix_actions w1 = w_fix_actions w @ new \<and> (r = None \<longrightarrow> new \<noteq> []) \<and>
    subseq (map plan_columns new) (map plan_columns (case fit_fix fa of None \<Rightarrow> [] | Some row \<Rightarrow> [row]))"
proof -
  let ?f = "fitted fit_fix insert_fix (filled fa w)"
  obtain e w2 where 1: "db_exec ?f (snd (uuid_New w)) = (e, w2)" by force
  with assms have r: "w1 = w2" "r = None \<longleftrightarrow> e = None" by (auto simp: Create_filled split: option.splits)
  have ins: "\<exists>row. fit_fix fa = Some row \<and> w_fix_actions v = w_fix_actions u @ [filled row w]"
    if "?f u = Inr v" for u v :: "'a db_scheme"
    using fitted_ok [OF that] by (auto simp: fit_filled insert_fix_def split: option.splits if_splits)
  from 1 show ?thesis
  proof (cases rule: db_exec_cases)
    case (err x)
    with r show ?thesis by (intro exI [of _ "[]"]) simp
  next
    case ok
    from ins [OF ok(2)] r show ?thesis by auto
  next
    case (lost m)
    from ins [OF lost(3)] r show ?thesis by auto
  qed
qed

lemma persist_rows:
  assumes "persist_step a fa w = (i, err, w1)" and "fa_ID fa = uuid_Nil"
  shows "\<exists>new. w_fix_actions w1 = w_fix_actions w @ new \<and> (\<not> fx_pool a \<longrightarrow> new = []) \<and>
    subseq (map plan_columns new) (map plan_columns (case fit_fix fa of None \<Rightarrow> [] | Some row \<Rightarrow> [row]))"
proof (cases "fx_pool a")
  case True
  obtain r fa1 w2 where 1: "FixActionDAO_Create fa w = (r, fa1, w2)" using prod_cases3 by blast
  with assms(1) True have "w1 = w2" by (auto simp: persist_step_def split: option.splits)
  with Create_rows [OF 1 assms(2)] True show ?thesis by blast
qed (use assms in \<open>auto simp: persist_step_def intro: exI [of _ "[]"]\<close>)

lemma New_rows: "Observation_New lib (Some ob) w = (r, w1) \<Longrightarrow> w_fix_actions w1 = w_fix_actions w"
  by (auto dest: New_state simp: uuid_New_def)

lemma emit_steps_rows:
  assumes "emit_steps lib a sid u rca i steps w = (obs, w1)"
  shows "\<exists>new. w_fix_actions w1 = w_fix_actions w @ new \<and>
    subseq (map plan_columns new) (map plan_columns (stored_rows u i steps)) \<and> (\<not> fx_pool a \<longrightarrow> new = [])"
  using assms
proof (induction steps arbitrary: i w obs)
  case (Cons step steps)
  obtain fid err w2 where 1: "persist_step a (step_action u i step) w = (fid, err, w2)" using prod_cases3 by blast
  obtain q w3 where 2: "Observation_New (al_uuid lib) (Some (fix_draft lib sid rca step fid err)) w2 = (q, w3)" by force
  obtain obs2 w4 where 3: "emit_steps lib a sid u rca (Suc i) steps w3 = (obs2, w4)" by force
  from Cons.prems 1 2 3 have "w4 = w1" by (cases q) auto
  from Cons.IH [OF 3 [unfolded this]] obtain new2 where n2: "w_fix_actions w1 = w_fix_actions w3 @ new2"
    "subseq (map plan_columns new2) (map plan_columns (stored_rows u (Suc i) steps))" "\<not> fx_pool a \<longrightarrow> new2 = []" by blast
  have "fa_ID (step_action u i step) = uuid_Nil" by (simp add: step_action_def)
  from persist_rows [OF 1 this] obtain new1 where n1: "w_fix_actions w2 = w_fix_actions w @ new1"
    "subseq (map plan_columns new1) (map plan_columns (case fit_fix (step_action u i step) of None \<Rightarrow> [] | Some row \<Rightarrow> [row]))"
    "\<not> fx_pool a \<longrightarrow> new1 = []" by blast
  have "subseq (map plan_columns (new1 @ new2)) (map plan_columns (stored_rows u i (step # steps)))"
    using list_emb_append_mono [OF n1(2) n2(2)] by simp
  moreover have "w_fix_actions w1 = w_fix_actions w @ new1 @ new2" using n1(1) n2(1) New_rows [OF 2] by simp
  ultimately show ?case using n1(3) n2(3) by blast
qed auto

section \<open>On a database that answers\<close>

text \<open>The next \<open>n\<close> identifiers that the process will draw are new.\<close>

definition fresh_ids :: "nat \<Rightarrow> 'a db_scheme \<Rightarrow> bool" where
  "fresh_ids n w \<longleftrightarrow> inj_on (w_fresh w) {w_ctr w ..< w_ctr w + n} \<and>
     (\<forall>k \<in> {w_ctr w ..< w_ctr w + n}. \<forall>fa \<in> set (w_fix_actions w). fa_ID fa \<noteq> w_fresh w k)"

lemma fresh_ids_less: "fresh_ids n w \<Longrightarrow> m \<le> n \<Longrightarrow> fresh_ids m w"
  by (auto simp: fresh_ids_def intro: inj_on_subset)

lemma fresh_ids_draw: "fresh_ids (Suc n) w \<Longrightarrow> fresh_ids n (snd (uuid_New w))"
  by (auto simp: fresh_ids_def uuid_New_def intro: inj_on_subset)

lemma fresh_ids_New: "fresh_ids (Suc n) w \<Longrightarrow> Observation_New lib (Some ob) w = (r, w1) \<Longrightarrow> fresh_ids n w1"
  using New_state [of lib ob w r w1] fresh_ids_draw [of n w] fresh_ids_less [of "Suc n" w n] by auto

lemma Create_ok:
  assumes "w_faults w = []" and "fa_ID fa = uuid_Nil" and "find_session (fa_SessionID fa) w \<noteq> None" and "fresh_ids (Suc n) w"
    and "\<forall>r \<in> set (w_fix_actions w). \<not> (fa_SessionID r = fa_SessionID fa \<and> fa_Seq r = fa_Seq fa)"
  shows "\<exists>r fa1 w1 new. FixActionDAO_Create fa w = (r, fa1, w1) \<and> w_fix_actions w1 = w_fix_actions w @ new \<and>
    map plan_columns new = map plan_columns (case fit_fix fa of None \<Rightarrow> [] | Some row \<Rightarrow> [row]) \<and>
    (\<forall>row \<in> set new. fa_ID row = fa_ID fa1) \<and> fa_ID fa1 \<notin> fa_ID ` set (w_fix_actions w) \<and> fresh_ids n w1 \<and>
    w_faults w1 = [] \<and> find_session (fa_SessionID fa) w1 \<noteq> None \<and> status_of w1 = status_of w \<and> w_locked w1 = w_locked w"
proof -
  let ?w1 = "snd (uuid_New w)"
  have p: "pop_fault ?w1 = ?w1" "next_fault ?w1 = None" using assms(1) by (simp_all add: uuid_New_def pop_fault_def next_fault_def)
  have new: "w_fresh w (w_ctr w) \<noteq> w_fresh w k" if "k \<in> {Suc (w_ctr w) ..< Suc (w_ctr w) + n}" for k
    using assms(4) that by (auto simp: fresh_ids_def dest!: inj_onD [where x = "w_ctr w" and y = k])
  have id: "w_fresh w (w_ctr w) \<notin> fa_ID ` set (w_fix_actions w)"
    using assms(4) by (force simp: fresh_ids_def)
  show ?thesis
  proof (cases "fit_fix fa")
    case None
    then have "FixActionDAO_Create fa w = (Some (wrap ''fix_action create: '' too_long), filled fa w, ?w1)"
      by (simp add: Create_filled assms(2) db_exec_def p fit_filled)
    moreover note fresh_ids_draw [OF assms(4)]
    ultimately show ?thesis
      using None assms(1,3) id
      by (intro exI [of _ "Some (wrap ''fix_action create: '' too_long)"] exI [of _ "filled fa w"] exI [of _ ?w1] exI [of _ "[]"])
         (simp add: uuid_New_def find_session_def status_of_def fun_eq_iff)
  next
    case (Some row)
    let ?w2 = "?w1\<lparr>w_fix_actions := w_fix_actions w @ [filled row w]\<rparr>"
    have "find_fix (fa_ID (filled row w)) ?w1 = None"
      using assms(4) by (auto simp: find_fix_def tbl_find_None_iff fresh_ids_def)
    then have "insert_fix (filled row w) ?w1 = Inr ?w2"
      using assms(3,5) fit_fix_keys [OF Some] by (auto simp: insert_fix_def find_session_def)
    then have "FixActionDAO_Create fa w = (None, filled fa w, ?w2)"
      by (simp add: Create_filled assms(2) db_exec_def p fit_filled Some)
    moreover from new fresh_ids_draw [OF assms(4)] have "fresh_ids n ?w2"
      by (auto simp: fresh_ids_def uuid_New_def)
    ultimately show ?thesis
      using Some assms(1,3) id
      by (intro exI [of _ None] exI [of _ "filled fa w"] exI [of _ ?w2] exI [of _ "[filled row w]"])
         (simp add: uuid_New_def find_session_def status_of_def fun_eq_iff)
  qed
qed


lemma New_frame:
  assumes "Observation_New lib (Some ob) w = (r, w1)"
  shows "w_faults w1 = w_faults w" "status_of w1 = status_of w" "w_locked w1 = w_locked w" "w_sessions w1 = w_sessions w"
  using New_state [OF assms] by (auto simp: uuid_New_def status_of_def find_session_def fun_eq_iff)

lemma stored_seq:
  assumes "map plan_columns new = map plan_columns (case fit_fix fa of None \<Rightarrow> [] | Some row \<Rightarrow> [row])" and "row \<in> set new"
  shows "fa_Seq row = fa_Seq fa \<and> fa_SessionID row = fa_SessionID fa"
proof (cases "fit_fix fa")
  case (Some row')
  with assms fit_fix_keys [OF Some] show ?thesis by (auto simp: plan_columns_def)
qed (use assms in simp)

lemma distinct_short: "length xs \<le> 1 \<Longrightarrow> distinct (map f xs)"
  by (cases xs) auto

text \<open>What every emission of a plan keeps, and the row and the observation of each step.\<close>

lemma emit_steps_ok:
  assumes "emit_steps lib a sid u rca i steps w = (obs, w1)" and "fx_pool a" and "lib_ok lib" and "sid \<noteq> []"
    and "ob_Severity rca \<noteq> SEVERITY_UNSPECIFIED" and "in_unit (ob_Confidence rca)"
    and "w_faults w = []" and "find_session u w \<noteq> None" and "fresh_ids (2 * length steps) w" and "distinct (map fa_ID (w_fix_actions w))"
    and "\<forall>r \<in> set (w_fix_actions w). fa_SessionID r = u \<longrightarrow> fa_Seq r \<le> int i"
  shows "(\<exists>new. w_fix_actions w1 = w_fix_actions w @ new \<and> map plan_columns new = map plan_columns (stored_rows u i steps) \<and>
      map ob_SubType obs = map fxs_ActionType steps \<and>
      subseq (map (\<lambda>fa. [(''fix_action_id'', uuid_String (al_uuid lib) (fa_ID fa))]) new) (map ob_Correlations obs)) \<and>
    w_faults w1 = [] \<and> distinct (map fa_ID (w_fix_actions w1)) \<and> status_of w1 = status_of w \<and> w_locked w1 = w_locked w"
  using assms(1,7-)
proof (induction steps arbitrary: i w obs)
  case (Cons step steps)
  let ?fa = "step_action u i step"
  let ?corr = "\<lambda>fa. [(''fix_action_id'', uuid_String (al_uuid lib) (fa_ID fa))]"
  have fa: "fa_ID ?fa = uuid_Nil" "fa_SessionID ?fa = u" "fa_Seq ?fa = int i + 1" by (simp_all add: step_action_def)
  have nodup: "\<forall>r \<in> set (w_fix_actions w). \<not> (fa_SessionID r = fa_SessionID ?fa \<and> fa_Seq r = fa_Seq ?fa)"
    using Cons.prems(6) unfolding fa by force
  from Cons.prems(4) have "fresh_ids (Suc (Suc (2 * length steps))) w" by simp
  from Create_ok [OF Cons.prems(2) fa(1) _ this nodup] Cons.prems(3) fa(2) obtain q fa1 w2 new1
    where 1: "FixActionDAO_Create ?fa w = (q, fa1, w2)" and r2: "w_fix_actions w2 = w_fix_actions w @ new1"
      "map plan_columns new1 = map plan_columns (case fit_fix ?fa of None \<Rightarrow> [] | Some row \<Rightarrow> [row])"
      "\<forall>row \<in> set new1. fa_ID row = fa_ID fa1" "fa_ID fa1 \<notin> fa_ID ` set (w_fix_actions w)"
      "fresh_ids (Suc (2 * length steps)) w2" "w_faults w2 = []"
      "find_session u w2 \<noteq> None" "status_of w2 = status_of w" "w_locked w2 = w_locked w" by auto
  have one: "length new1 \<le> 1" using arg_cong [OF r2(2), of length] by (auto split: option.splits)
  obtain er where P: "persist_step a ?fa w = (fa_ID fa1, er, w2)"
    using 1 assms(2) by (cases q) (auto simp: persist_step_def)
  let ?d = "fix_draft lib sid rca step (fa_ID fa1) er"
  obtain ob1 w3 where f: "fill_system_fields (al_uuid lib) ?d w2 = (ob1, w3)" by force
  have "acceptable ?d" using assms(4-6) by (simp add: acceptable_def fix_draft_def draft_observation_def)
  with f assms(3) have 2: "Observation_New (al_uuid lib) (Some ?d) w2 = (Inr ob1, w3)" by (simp add: New_ok lib_ok_def)
  note fr = New_frame [OF 2]
  obtain obs2 w4 where 3: "emit_steps lib a sid u rca (Suc i) steps w3 = (obs2, w4)" by force
  from Cons.prems(1) P 2 3 have o: "obs = ob1 # obs2" "w4 = w1" by simp_all
  have seq1: "fa_Seq row = int i + 1 \<and> fa_SessionID row = u" if "row \<in> set new1" for row
    using stored_seq [OF r2(2) that] fa by simp
  have rows3: "w_fix_actions w3 = w_fix_actions w @ new1" using New_rows [OF 2] r2(1) by simp
  have p: "w_faults w3 = []" "find_session u w3 \<noteq> None" "fresh_ids (2 * length steps) w3"
    using r2(6,7) fr(1,4) fresh_ids_New [OF r2(5) 2] by (simp_all add: find_session_def)
  have q: "distinct (map fa_ID (w_fix_actions w3))"
  proof -
    have "fa_ID x \<noteq> fa_ID row" if "x \<in> set (w_fix_actions w)" "row \<in> set new1" for x row
      using r2(3,4) that by (metis imageI)
    then have "fa_ID ` set (w_fix_actions w) \<inter> fa_ID ` set new1 = {}" by fast
    then show ?thesis using Cons.prems(5) distinct_short [OF one, of fa_ID] by (simp add: rows3)
  qed
  have q2: "\<forall>r \<in> set (w_fix_actions w3). fa_SessionID r = u \<longrightarrow> fa_Seq r \<le> int (Suc i)"
  proof (intro ballI impI)
    fix x assume x: "x \<in> set (w_fix_actions w3)" "fa_SessionID x = u"
    show "fa_Seq x \<le> int (Suc i)"
    proof (cases "x \<in> set new1")
      case True
      with seq1 [of x] show ?thesis by simp
    next
      case False
      with x have "x \<in> set (w_fix_actions w)" by (simp add: rows3)
      with Cons.prems(6) x(2) have "fa_Seq x \<le> int i" by blast
      then show ?thesis by simp
    qed
  qed
  from Cons.IH [OF 3 [unfolded o(2)] p q q2] obtain new where n: "w_fix_actions w1 = w_fix_actions w3 @ new"
    "map plan_columns new = map plan_columns (stored_rows u (Suc i) steps)" "map ob_SubType obs2 = map fxs_ActionType steps"
    "subseq (map ?corr new) (map ob_Correlations obs2)"
    "w_faults w1 = []" "distinct (map fa_ID (w_fix_actions w1))" "status_of w1 = status_of w3" "w_locked w1 = w_locked w3"
    by blast
  have ob1: "ob_SubType ob1 = fxs_ActionType step"
    "ob_Correlations ob1 = [(''fix_action_id'', uuid_String (al_uuid lib) (fa_ID fa1))]"
    using fill_frame [OF f] by (simp_all add: fix_draft_def draft_observation_def)
  have "subseq (map ?corr new1) [ob_Correlations ob1]"
    using one r2(3) ob1(2) by (cases new1) (auto simp: length_Suc_conv)
  from list_emb_append_mono [OF this n(4)] have "subseq (map ?corr (new1 @ new)) (map ob_Correlations obs)"
    by (simp add: o(1))
  moreover have "w_fix_actions w1 = w_fix_actions w @ new1 @ new" using n(1) New_rows [OF 2] r2(1) by simp
  moreover have "map plan_columns (new1 @ new) = map plan_columns (stored_rows u i (step # steps))"
    using n(2) r2(2) by simp
  moreover have "map ob_SubType obs = map fxs_ActionType (step # steps)" using n(3) o(1) ob1(1) by simp
  ultimately show ?case using n r2 fr by (intro conjI exI [where x = "new1 @ new"]) simp_all
qed simp

end
