(* ===== verification/Agent_Collect.thy ===== *)
theory Agent_Collect imports Agent_Base begin

text \<open>
  The three collecting agents: \<open>internal/agent/log.go\<close>, \<open>metric.go\<close> and \<open>trace.go\<close>.  Each answers a collect
  command with one synthetic observation, and otherwise analyses the inputs of its own type.
\<close>

section \<open>The common shape of the handlers\<close>

definition collector_Handle :: "agent_lib \<Rightarrow> (Observation \<Rightarrow> Observation) \<Rightarrow> int \<Rightarrow> (Observation list \<Rightarrow> 'p list) \<Rightarrow>
    ('p \<Rightarrow> Observation) \<Rightarrow> Observation list \<Rightarrow> 'a db_scheme \<Rightarrow> Observation list result \<times> 'a db_scheme" where
  "collector_Handle lib synth ty detect draft inputs w =
    (case collect_reply lib synth inputs w of
       (Some ob, w1) \<Rightarrow> (Inr [ob], w1)
     | (None, w1) \<Rightarrow>
        (let own = filter (\<lambda>ob. ob_Type ob = ty) inputs in
         if own = [] then (Inr [], w1)
         else (case emit_all lib draft (detect own) w1 of (obs, w2) \<Rightarrow> (Inr obs, w2))))"

section \<open>Logs (log.go)\<close>

record logPattern =
  lp_Pattern :: string
  lp_Count :: int
  lp_FirstSeen :: string
  lp_LastSeen :: string
  lp_Confidence :: float64
  lp_Severity :: int
  lp_TargetService :: string
  lp_Correlations :: "(string \<times> string) list"
  lp_Labels :: "(string \<times> string) list"

definition log_pattern_json :: "agent_lib \<Rightarrow> logPattern \<Rightarrow> json" where
  "log_pattern_json lib p = JObject [(''pattern'', JString (lp_Pattern p)), (''count'', json_int (lp_Count p)),
     (''first_seen'', JString (lp_FirstSeen p)), (''last_seen'', JString (lp_LastSeen p)),
     (''confidence'', json_float (al_json lib) (lp_Confidence p)), (''severity'', json_int (lp_Severity p)),
     (''target_service'', JString (lp_TargetService p)), (''correlations'', json_made_map (lp_Correlations p)),
     (''labels'', json_map (lp_Labels p))]"

definition log_observation :: "agent_lib \<Rightarrow> string \<Rightarrow> logPattern \<Rightarrow> Observation" where
  "log_observation lib sid p = draft_observation sid ''agent-log'' EVIDENCE_TYPE_LOG ''log_pattern'' (lp_Confidence p)
     (lp_Severity p) (lp_TargetService p) (lp_Correlations p) (log_pattern_json lib p) (lp_Labels p)"

definition log_synthetic :: "agent_lib \<Rightarrow> string \<Rightarrow> Observation \<Rightarrow> Observation" where
  "log_synthetic lib sid ob = log_observation lib sid \<lparr>lp_Pattern = ''slow_query_detected'', lp_Count = 10,
     lp_FirstSeen = ''2026-08-17T10:00:00Z'', lp_LastSeen = ''2026-08-17T10:30:00Z'', lp_Confidence = f075,
     lp_Severity = SEVERITY_ERROR, lp_TargetService = ob_TargetService ob, lp_Correlations = [], lp_Labels = ob_Labels ob\<rparr>"

definition log_key :: "Observation \<Rightarrow> string" where
  "log_key ob = ob_TargetService ob @ '':'' @ Severity_String (ob_Severity ob)"

definition is_error_log :: "Observation \<Rightarrow> bool" where
  "is_error_log ob \<longleftrightarrow> ob_Severity ob = SEVERITY_ERROR \<or> ob_Severity ob = SEVERITY_FATAL"

definition log_group_pattern :: "agent_lib \<Rightarrow> Observation list \<Rightarrow> logPattern option" where
  "log_group_pattern lib grp =
    (let errCount = length (filter is_error_log grp);
         latestTS = fold (\<lambda>l ts. case ob_Timestamp l of Some t \<Rightarrow> al_Format lib t | None \<Rightarrow> ts) grp [];
         traced = filter (\<lambda>l. map_of (ob_Correlations l) ''trace_id'' \<noteq> None) grp
     in if grp = [] \<or> errCount = 0 then None
        else Some \<lparr>lp_Pattern = ''error_count='' @ show_int (int errCount), lp_Count = int errCount,
          lp_FirstSeen = latestTS, lp_LastSeen = latestTS, lp_Confidence = f070,
          lp_Severity = (if errCount > 5 then SEVERITY_FATAL else SEVERITY_ERROR),
          lp_TargetService = ob_TargetService (hd grp),
          lp_Correlations = (case traced of [] \<Rightarrow> [] | l # ls \<Rightarrow> [(''trace_id'', the (map_of (ob_Correlations l) ''trace_id''))]),
          lp_Labels = ob_Labels (hd grp)\<rparr>)"

definition detectLogPatterns :: "agent_lib \<Rightarrow> Observation list \<Rightarrow> logPattern list" where
  "detectLogPatterns lib logs =
     concat (map (\<lambda>k. case log_group_pattern lib (filter (\<lambda>l. log_key l = k) logs) of Some p \<Rightarrow> [p] | None \<Rightarrow> [])
       (al_Order lib (remdups (map log_key logs))))"

definition LogAgent_Handle :: "agent_lib \<Rightarrow> string \<Rightarrow> Observation list \<Rightarrow> 'a db_scheme \<Rightarrow> Observation list result \<times> 'a db_scheme" where
  "LogAgent_Handle lib sid = collector_Handle lib (log_synthetic lib sid) EVIDENCE_TYPE_LOG (detectLogPatterns lib)
     (log_observation lib sid)"

section \<open>Metrics (metric.go)\<close>

record metricAnomaly =
  ma_MetricName :: string
  ma_Value :: float64
  ma_Threshold :: float64
  ma_Relation :: string
  ma_AnomalyType :: string
  ma_Confidence :: float64
  ma_Severity :: int
  ma_TargetService :: string
  ma_Correlations :: "(string \<times> string) list"
  ma_Labels :: "(string \<times> string) list"

definition metric_anomaly_json :: "agent_lib \<Rightarrow> json \<Rightarrow> metricAnomaly \<Rightarrow> json" where
  "metric_anomaly_json lib correlations a = JObject [(''metric_name'', JString (ma_MetricName a)),
     (''value'', json_float (al_json lib) (ma_Value a)), (''threshold'', json_float (al_json lib) (ma_Threshold a)),
     (''relation'', JString (ma_Relation a)), (''anomaly_type'', JString (ma_AnomalyType a)),
     (''confidence'', json_float (al_json lib) (ma_Confidence a)), (''severity'', json_int (ma_Severity a)),
     (''target_service'', JString (ma_TargetService a)), (''correlations'', correlations),
     (''labels'', json_map (ma_Labels a))]"

definition metric_observation :: "agent_lib \<Rightarrow> string \<Rightarrow> json \<Rightarrow> metricAnomaly \<Rightarrow> Observation" where
  "metric_observation lib sid correlations a = draft_observation sid ''agent-metric'' EVIDENCE_TYPE_METRIC ''metric_anomaly''
     (ma_Confidence a) (ma_Severity a) (ma_TargetService a) (ma_Correlations a) (metric_anomaly_json lib correlations a) (ma_Labels a)"

definition metric_synthetic :: "agent_lib \<Rightarrow> string \<Rightarrow> Observation \<Rightarrow> Observation" where
  "metric_synthetic lib sid ob = metric_observation lib sid (json_made_map []) \<lparr>ma_MetricName = ''http_request_duration_ms'',
     ma_Value = Fin 150, ma_Threshold = Fin 100, ma_Relation = ''gt'', ma_AnomalyType = ''latency_breach'',
     ma_Confidence = f080, ma_Severity = SEVERITY_ERROR, ma_TargetService = ob_TargetService ob, ma_Correlations = [],
     ma_Labels = ob_Labels ob\<rparr>"

record metric_payload =
  mp_MetricName :: string
  mp_Value :: float64
  mp_Threshold :: float64
  mp_Relation :: string

definition dec_metric_payload :: "json_lib \<Rightarrow> metric_payload decoder" where
  "dec_metric_payload lib = dec_struct ''struct''
    [(''metric_name'', field dec_string mp_MetricName (\<lambda>x. mp_MetricName_update (\<lambda>_. x))),
     (''value'', field (dec_float lib) mp_Value (\<lambda>x. mp_Value_update (\<lambda>_. x))),
     (''threshold'', field (dec_float lib) mp_Threshold (\<lambda>x. mp_Threshold_update (\<lambda>_. x))),
     (''relation'', field dec_string mp_Relation (\<lambda>x. mp_Relation_update (\<lambda>_. x)))]"

definition empty_metric_payload :: metric_payload where
  "empty_metric_payload = \<lparr>mp_MetricName = [], mp_Value = Fin 0, mp_Threshold = Fin 0, mp_Relation = []\<rparr>"

definition breaches :: "metric_payload \<Rightarrow> bool" where
  "breaches p = (if mp_Relation p = ''gt'' then f_gt (mp_Value p) (mp_Threshold p)
     else if mp_Relation p = ''lt'' then f_lt (mp_Value p) (mp_Threshold p)
     else if mp_Relation p = ''eq'' then f_eq (mp_Value p) (mp_Threshold p)
     else False)"

text \<open>Severity and confidence by the factor \<open>k1\<close>, \<open>k2\<close> of the threshold that the value exceeds.\<close>

definition grade :: "json_lib \<Rightarrow> rat \<Rightarrow> rat \<Rightarrow> float64 \<Rightarrow> float64 \<Rightarrow> int \<times> float64" where
  "grade lib k1 k2 value threshold =
    (let g1 = (if f_gt value (f_scale lib k1 threshold) then (SEVERITY_ERROR, f085) else (SEVERITY_WARN, f075))
     in if f_gt value (f_scale lib k2 threshold) then (SEVERITY_FATAL, f095) else g1)"

definition metric_anomaly :: "agent_lib \<Rightarrow> Observation \<Rightarrow> metricAnomaly option" where
  "metric_anomaly lib m = (case Unmarshal (al_json lib) (dec_metric_payload (al_json lib)) (ob_DetailJson m) empty_metric_payload of
     Inl e \<Rightarrow> None
   | Inr p \<Rightarrow> (if mp_MetricName p = [] \<or> f_eq (mp_Threshold p) (Fin 0) then None
       else if \<not> breaches p then None
       else (case grade (al_json lib) 2 5 (mp_Value p) (mp_Threshold p) of (sev, conf) \<Rightarrow>
         Some \<lparr>ma_MetricName = mp_MetricName p, ma_Value = mp_Value p, ma_Threshold = mp_Threshold p,
           ma_Relation = mp_Relation p, ma_AnomalyType = ''threshold_breach'', ma_Confidence = conf, ma_Severity = sev,
           ma_TargetService = ob_TargetService m, ma_Correlations = ob_Correlations m, ma_Labels = ob_Labels m\<rparr>)))"

definition detectMetricAnomalies :: "agent_lib \<Rightarrow> Observation list \<Rightarrow> metricAnomaly list" where
  "detectMetricAnomalies lib ms = concat (map (\<lambda>m. case metric_anomaly lib m of Some a \<Rightarrow> [a] | None \<Rightarrow> []) ms)"

definition MetricAgent_Handle :: "agent_lib \<Rightarrow> string \<Rightarrow> Observation list \<Rightarrow> 'a db_scheme \<Rightarrow> Observation list result \<times> 'a db_scheme" where
  "MetricAgent_Handle lib sid = collector_Handle lib (metric_synthetic lib sid) EVIDENCE_TYPE_METRIC (detectMetricAnomalies lib)
     (\<lambda>a. metric_observation lib sid (json_map (ma_Correlations a)) a)"

section \<open>Traces (trace.go)\<close>

record traceBottleneck =
  tb_SpanID :: string
  tb_TraceID :: string
  tb_ServiceName :: string
  tb_OperationName :: string
  tb_DurationMs :: float64
  tb_P99Ms :: float64
  tb_Severity :: int
  tb_Confidence :: float64
  tb_TargetService :: string
  tb_Correlations :: "(string \<times> string) list"
  tb_Labels :: "(string \<times> string) list"

definition trace_bottleneck_json :: "agent_lib \<Rightarrow> traceBottleneck \<Rightarrow> json" where
  "trace_bottleneck_json lib b = JObject [(''span_id'', JString (tb_SpanID b)), (''trace_id'', JString (tb_TraceID b)),
     (''service_name'', JString (tb_ServiceName b)), (''operation_name'', JString (tb_OperationName b)),
     (''duration_ms'', json_float (al_json lib) (tb_DurationMs b)), (''p99_ms'', json_float (al_json lib) (tb_P99Ms b)),
     (''severity'', json_int (tb_Severity b)), (''confidence'', json_float (al_json lib) (tb_Confidence b)),
     (''target_service'', JString (tb_TargetService b)), (''correlations'', json_made_map (tb_Correlations b)),
     (''labels'', json_map (tb_Labels b))]"

definition trace_observation :: "agent_lib \<Rightarrow> string \<Rightarrow> traceBottleneck \<Rightarrow> Observation" where
  "trace_observation lib sid b = draft_observation sid ''agent-trace'' EVIDENCE_TYPE_TRACE ''trace_bottleneck''
     (tb_Confidence b) (tb_Severity b) (tb_TargetService b) (tb_Correlations b) (trace_bottleneck_json lib b) (tb_Labels b)"

definition trace_synthetic :: "agent_lib \<Rightarrow> string \<Rightarrow> Observation \<Rightarrow> Observation" where
  "trace_synthetic lib sid ob = trace_observation lib sid \<lparr>tb_SpanID = ''span-001'', tb_TraceID = ''trace-abc123'',
     tb_ServiceName = ob_TargetService ob, tb_OperationName = ''/orders'', tb_DurationMs = Fin 1200, tb_P99Ms = Fin 500,
     tb_Severity = SEVERITY_ERROR, tb_Confidence = f080, tb_TargetService = ob_TargetService ob,
     tb_Correlations = [(''span_id'', ''span-001''), (''trace_id'', ''trace-abc123'')], tb_Labels = ob_Labels ob\<rparr>"

record trace_payload =
  tp_SpanID :: string
  tp_TraceID :: string
  tp_ServiceName :: string
  tp_OperationName :: string
  tp_DurationMs :: float64
  tp_P99Ms :: float64

definition dec_trace_payload :: "json_lib \<Rightarrow> trace_payload decoder" where
  "dec_trace_payload lib = dec_struct ''struct''
    [(''span_id'', field dec_string tp_SpanID (\<lambda>x. tp_SpanID_update (\<lambda>_. x))),
     (''trace_id'', field dec_string tp_TraceID (\<lambda>x. tp_TraceID_update (\<lambda>_. x))),
     (''service_name'', field dec_string tp_ServiceName (\<lambda>x. tp_ServiceName_update (\<lambda>_. x))),
     (''operation_name'', field dec_string tp_OperationName (\<lambda>x. tp_OperationName_update (\<lambda>_. x))),
     (''duration_ms'', field (dec_float lib) tp_DurationMs (\<lambda>x. tp_DurationMs_update (\<lambda>_. x))),
     (''p99_ms'', field (dec_float lib) tp_P99Ms (\<lambda>x. tp_P99Ms_update (\<lambda>_. x)))]"

definition empty_trace_payload :: trace_payload where
  "empty_trace_payload = \<lparr>tp_SpanID = [], tp_TraceID = [], tp_ServiceName = [], tp_OperationName = [],
     tp_DurationMs = Fin 0, tp_P99Ms = Fin 0\<rparr>"

definition trace_threshold :: "json_lib \<Rightarrow> trace_payload \<Rightarrow> float64" where
  "trace_threshold lib p = (let threshold = f_scale lib 2 (tp_P99Ms p) in
     if f_eq threshold (Fin 0) then Fin 1000 else threshold)"

definition trace_bottleneck :: "agent_lib \<Rightarrow> Observation \<Rightarrow> traceBottleneck option" where
  "trace_bottleneck lib t = (case Unmarshal (al_json lib) (dec_trace_payload (al_json lib)) (ob_DetailJson t) empty_trace_payload of
     Inl e \<Rightarrow> None
   | Inr p \<Rightarrow> (if tp_SpanID p = [] \<or> f_eq (tp_DurationMs p) (Fin 0) then None
       else let threshold = trace_threshold (al_json lib) p in
         if f_le (tp_DurationMs p) threshold then None
         else (case grade (al_json lib) 3 5 (tp_DurationMs p) threshold of (sev, conf) \<Rightarrow>
           Some \<lparr>tb_SpanID = tp_SpanID p, tb_TraceID = tp_TraceID p, tb_ServiceName = tp_ServiceName p,
             tb_OperationName = tp_OperationName p, tb_DurationMs = tp_DurationMs p, tb_P99Ms = tp_P99Ms p,
             tb_Severity = sev, tb_Confidence = conf, tb_TargetService = ob_TargetService t,
             tb_Correlations = (''span_id'', tp_SpanID p) # (if tp_TraceID p \<noteq> [] then [(''trace_id'', tp_TraceID p)] else []),
             tb_Labels = ob_Labels t\<rparr>)))"

definition detectTraceBottlenecks :: "agent_lib \<Rightarrow> Observation list \<Rightarrow> traceBottleneck list" where
  "detectTraceBottlenecks lib ts = concat (map (\<lambda>t. case trace_bottleneck lib t of Some b \<Rightarrow> [b] | None \<Rightarrow> []) ts)"

definition TraceAgent_Handle :: "agent_lib \<Rightarrow> string \<Rightarrow> Observation list \<Rightarrow> 'a db_scheme \<Rightarrow> Observation list result \<times> 'a db_scheme" where
  "TraceAgent_Handle lib sid = collector_Handle lib (trace_synthetic lib sid) EVIDENCE_TYPE_TRACE (detectTraceBottlenecks lib)
     (trace_observation lib sid)"

section \<open>The contract\<close>

lemma collector_emitted:
  assumes "collector_Handle lib synth own detect draft inputs w = (Inr obs, w1)" and "ob \<in> set obs"
    and "\<And>i. \<exists>sub conf sev target corr detail labels. synth i = draft_observation sid src ty sub conf sev target corr detail labels"
    and "\<And>p. \<exists>sub conf sev target corr detail labels. draft p = draft_observation sid src ty sub conf sev target corr detail labels"
  shows "emitted sid src ty ob"
proof -
  obtain r w2 where 1: "collect_reply lib synth inputs w = (r, w2)" by force
  show ?thesis
  proof (cases r)
    case (Some ob1)
    with assms(1,2) 1 have "ob = ob1" by (auto simp: collector_Handle_def)
    with collect_reply_emitted [OF 1 [unfolded Some] assms(3)] show ?thesis by simp
  next
    case None
    then show ?thesis using assms(1,2) 1 emit_all_emitted [OF _ _ assms(4)]
      by (auto simp: collector_Handle_def Let_def split: if_splits prod.splits)
  qed
qed

interpretation log_agent: agent "''agent-log''" EVIDENCE_TYPE_LOG "LogAgent_Handle lib" for lib
  using collector_emitted [where src = "''agent-log''" and ty = EVIDENCE_TYPE_LOG]
  by unfold_locales (fastforce simp: LogAgent_Handle_def log_synthetic_def log_observation_def emitted_def)

interpretation metric_agent: agent "''agent-metric''" EVIDENCE_TYPE_METRIC "MetricAgent_Handle lib" for lib
  using collector_emitted [where src = "''agent-metric''" and ty = EVIDENCE_TYPE_METRIC]
  by unfold_locales (fastforce simp: MetricAgent_Handle_def metric_synthetic_def metric_observation_def emitted_def)

interpretation trace_agent: agent "''agent-trace''" EVIDENCE_TYPE_TRACE "TraceAgent_Handle lib" for lib
  using collector_emitted [where src = "''agent-trace''" and ty = EVIDENCE_TYPE_TRACE]
  by unfold_locales (fastforce simp: TraceAgent_Handle_def trace_synthetic_def trace_observation_def emitted_def)

end
