(* ===== verification/Agent_Spec.thy ===== *)
theory Agent_Spec imports Agent_Fix Agent_Collect Event_Spec begin

text \<open>What the agents promise to each other and to the orchestrator: what they emit, which rows the fix agent
  writes, and the way from a root cause through the fix agent and the approval gate to the executor.\<close>

lemma subseq_set: "subseq xs ys \<Longrightarrow> set xs \<subseteq> set ys"
  by (auto dest: list_emb_set)

lemma sorted_wrt_subseq: "subseq xs ys \<Longrightarrow> sorted_wrt P ys \<Longrightarrow> sorted_wrt P xs"
  by (induction rule: list_emb.induct) (auto dest: subseq_set)

section \<open>The agents by name (agent_run.go)\<close>

text \<open>\<open>Run\<close> builds the agents without a language model and without a database.\<close>

definition agent_of :: "agent_lib \<Rightarrow> string \<Rightarrow> 'a db_scheme Agent option" where
  "agent_of lib agentName =
    (if agentName = ''agent-log'' then Some \<lparr>ag_Name = ''agent-log'', ag_InputTopic = TopicCommandsLog,
       ag_OutputTopic = TopicObservationsLog, ag_Handle = LogAgent_Handle lib\<rparr>
     else if agentName = ''agent-metric'' then Some \<lparr>ag_Name = ''agent-metric'', ag_InputTopic = TopicCommandsMetric,
       ag_OutputTopic = TopicObservationsMetric, ag_Handle = MetricAgent_Handle lib\<rparr>
     else if agentName = ''agent-trace'' then Some \<lparr>ag_Name = ''agent-trace'', ag_InputTopic = TopicCommandsTrace,
       ag_OutputTopic = TopicObservationsTrace, ag_Handle = TraceAgent_Handle lib\<rparr>
     else if agentName = ''agent-rca'' then Some \<lparr>ag_Name = ''agent-rca'', ag_InputTopic = TopicCommandsRCA,
       ag_OutputTopic = TopicObservationsRCA, ag_Handle = RCAgent_Handle lib None\<rparr>
     else if agentName = ''agent-fix'' then Some \<lparr>ag_Name = ''agent-fix'', ag_InputTopic = TopicObservationsRCA,
       ag_OutputTopic = TopicObservationsFix, ag_Handle = FixAgent_Handle lib (NewFixAgent False None)\<rparr>
     else None)"

section \<open>What the agents emit\<close>

text \<open>The interpretations of the interface in one place.\<close>

lemma agent_emits:
  assumes "(name, ty, handle) \<in> {(''agent-log'', EVIDENCE_TYPE_LOG, LogAgent_Handle lib),
      (''agent-metric'', EVIDENCE_TYPE_METRIC, MetricAgent_Handle lib), (''agent-trace'', EVIDENCE_TYPE_TRACE, TraceAgent_Handle lib),
      (''agent-rca'', EVIDENCE_TYPE_RCA_RESULT, RCAgent_Handle lib chat), (''agent-fix'', EVIDENCE_TYPE_FIX_ACTION, FixAgent_Handle lib a)}"
    and "sid \<noteq> []" and "handle sid inputs w = (Inr obs, w')" and "ob \<in> set obs"
  shows "valid_observation ob \<and> ob_Source ob = name \<and> ob_Type ob = ty \<and> ob_SessionId ob = sid"
proof -
  from assms(1) show ?thesis unfolding insert_iff empty_iff prod.inject simp_thms
  proof (elim disjE conjE)
    assume h: "name = ''agent-log''" "ty = EVIDENCE_TYPE_LOG" "handle = LogAgent_Handle lib"
    from log_agent.emits [OF assms(2) assms(3) [unfolded h(3)] assms(4)] show ?thesis unfolding h(1,2) .
  next
    assume h: "name = ''agent-metric''" "ty = EVIDENCE_TYPE_METRIC" "handle = MetricAgent_Handle lib"
    from metric_agent.emits [OF assms(2) assms(3) [unfolded h(3)] assms(4)] show ?thesis unfolding h(1,2) .
  next
    assume h: "name = ''agent-trace''" "ty = EVIDENCE_TYPE_TRACE" "handle = TraceAgent_Handle lib"
    from trace_agent.emits [OF assms(2) assms(3) [unfolded h(3)] assms(4)] show ?thesis unfolding h(1,2) .
  next
    assume h: "name = ''agent-rca''" "ty = EVIDENCE_TYPE_RCA_RESULT" "handle = RCAgent_Handle lib chat"
    from rca_agent.emits [OF assms(2) assms(3) [unfolded h(3)] assms(4)] show ?thesis unfolding h(1,2) .
  next
    assume h: "name = ''agent-fix''" "ty = EVIDENCE_TYPE_FIX_ACTION" "handle = FixAgent_Handle lib a"
    from fix_agent.emits [OF assms(2) assms(3) [unfolded h(3)] assms(4)] show ?thesis unfolding h(1,2) .
  qed
qed

text \<open>C23 (agents_emit_valid): whatever an agent is given (any evidence, any answer of the language model, any
  behaviour of the database), every observation it emits passes the validation, carries the name of the agent
  and its evidence type, and belongs to the session.\<close>

theorem agents_emit_valid:
  assumes "(name, ty, handle) \<in> {(''agent-log'', EVIDENCE_TYPE_LOG, LogAgent_Handle lib),
      (''agent-metric'', EVIDENCE_TYPE_METRIC, MetricAgent_Handle lib), (''agent-trace'', EVIDENCE_TYPE_TRACE, TraceAgent_Handle lib),
      (''agent-rca'', EVIDENCE_TYPE_RCA_RESULT, RCAgent_Handle lib chat), (''agent-fix'', EVIDENCE_TYPE_FIX_ACTION, FixAgent_Handle lib a)}"
    and "sid \<noteq> []" and "handle sid inputs w = (Inr obs, w')" and "ob \<in> set obs"
  shows "Observation_Validate (Some ob) = None \<and> ob_Source ob = name \<and> ob_Type ob = ty \<and> ob_SessionId ob = sid"
  unfolding Validate_valid by (rule agent_emits [OF assms])

definition sample_command :: Observation where
  "sample_command = (sample_observation ''orchestrator'' EVIDENCE_TYPE_ALERT)\<lparr>ob_SubType := ''collect_command''\<rparr>"

lemma sample_log_emits:
  "\<exists>ob w'. LogAgent_Handle (sample_agent_lib parse) ''s'' [sample_command] (w :: 'a db_scheme) = (Inr [ob], w')"
proof -
  let ?lib = "sample_agent_lib parse"
  let ?d = "log_synthetic ?lib ''s'' sample_command"
  obtain ob w' where f: "fill_system_fields (al_uuid ?lib) ?d w = (ob, w')" by force
  have "acceptable ?d" "is_collect_command sample_command"
    by (simp_all add: acceptable_def log_synthetic_def log_observation_def draft_observation_def sample_command_def sample_observation_def is_collect_command_def)
  moreover from this f sample_agent_lib_ok have "Observation_New (al_uuid ?lib) (Some ?d) w = (Inr ob, w')" by (simp add: New_ok lib_ok_def)
  ultimately show ?thesis by (simp add: LogAgent_Handle_def collector_Handle_def)
qed

theorem agents_emit_valid_witness:
  "\<forall>w :: db. \<exists>ob w'. LogAgent_Handle (sample_agent_lib (\<lambda>s. Inl (ErrorString s))) ''s'' [sample_command] w = (Inr [ob], w') \<and>
     Observation_Validate (Some ob) = None \<and> ob_Type ob = EVIDENCE_TYPE_LOG"
proof
  fix w :: db
  let ?lib = "sample_agent_lib (\<lambda>s. Inl (ErrorString s))"
  obtain ob w' where 1: "LogAgent_Handle ?lib ''s'' [sample_command] w = (Inr [ob], w')" using sample_log_emits by blast
  from agents_emit_valid [of "''agent-log''" EVIDENCE_TYPE_LOG "LogAgent_Handle ?lib" ?lib None undefined, OF _ _ 1] 1
  show "\<exists>ob w'. LogAgent_Handle ?lib ''s'' [sample_command] w = (Inr [ob], w') \<and>
     Observation_Validate (Some ob) = None \<and> ob_Type ob = EVIDENCE_TYPE_LOG" by simp
qed

section \<open>The rows of the fix agent\<close>

text \<open>Asking the language model does not write fix actions.\<close>

definition chat_keeps_rows :: "'a db_scheme FixAgent \<Rightarrow> bool" where
  "chat_keeps_rows a \<longleftrightarrow> (\<forall>ask s u v. fx_llm a = Some ask \<longrightarrow> w_fix_actions (snd (ask s u v)) = w_fix_actions v)"

lemma plan_steps_rows:
  assumes "plan_steps lib a rca r w = (steps, w1)" and "chat_keeps_rows a"
  shows "w_fix_actions w1 = w_fix_actions w"
proof -
  obtain c w0 where 1: "searchKnowledgeBase lib a (ro_RootCausePattern r) w = (c, w0)" by force
  then have s: "w_fix_actions w0 = w_fix_actions w"
    by (auto simp: searchKnowledgeBase_def KnowledgeBaseDAO_SearchByRootCause_def db_query_def Let_def
        split: if_splits prod.splits sum.splits option.splits)
  obtain g w2 where 2: "generateFixStepsWithLLM lib a rca w0 = (g, w2)" by force
  then have "w_fix_actions w2 = w_fix_actions w0" using assms(2)
    unfolding chat_keeps_rows_def
    by (auto simp: generateFixStepsWithLLM_def split: option.splits sum.splits prod.splits) (metis snd_conv)+
  with assms(1) 1 2 s show ?thesis
    by (auto simp: plan_steps_def split: sum.splits list.splits)
qed

text \<open>The rows that the agent adds are some of those of its plan, in the order of the plan.\<close>

lemma fix_agent_inserts:
  assumes "FixAgent_Handle lib a sid inputs w = (res, w')" and "uuid_Parse (al_uuid lib) sid = Inr u"
    and "chat_keeps_rows a"
  shows "\<exists>steps new. w_fix_actions w' = w_fix_actions w @ new \<and>
    subseq (map plan_columns new) (map plan_columns (stored_rows u 0 steps))"
proof -
  have "\<exists>steps w1 obs. w_fix_actions w1 = w_fix_actions w \<and> emit_steps lib a sid u rca 0 steps w1 = (obs, w')"
    if "List.find (\<lambda>ob. ob_Type ob = EVIDENCE_TYPE_RCA_RESULT) inputs = Some rca"
      "Unmarshal (al_json lib) (dec_rca_output (al_json lib)) (ob_DetailJson rca) empty_rca_output = Inr r" for rca r
  proof -
    obtain steps w1 where 1: "plan_steps lib a rca r w = (steps, w1)" by force
    obtain obs w2 where 2: "emit_steps lib a sid u rca 0 steps w1 = (obs, w2)" by force
    with assms(1,2) that 1 have "w2 = w'" by (simp add: FixAgent_Handle_def)
    with 2 plan_steps_rows [OF 1 assms(3)] show ?thesis by blast
  qed
  then consider "w' = w" | rca steps w1 obs where "w_fix_actions w1 = w_fix_actions w" "emit_steps lib a sid u rca 0 steps w1 = (obs, w')"
    using assms(1,2) by (fastforce simp: FixAgent_Handle_def split: option.splits sum.splits)
  then show ?thesis
  proof cases
    case 1
    then show ?thesis by (intro exI [of _ "[]"]) simp
  next
    case 2
    with emit_steps_rows [OF 2(2)] show ?thesis by metis
  qed
qed

lemma stored_rows_seq: "subseq (map fa_Seq (stored_rows u i steps)) (map fa_Seq (plan_rows u i steps))"
proof (induction steps arbitrary: i)
  case (Cons s steps)
  then show ?case
    by (cases "fit_fix (step_action u i s)") (auto dest: fit_fix_keys)
qed simp

lemma plan_rows_sorted:
  assumes "subseq (map plan_columns new) (map plan_columns (stored_rows u 0 steps))"
  shows "sorted_wrt (<) (map fa_Seq new)"
proof -
  have seqs: "map fa_Seq xs = map (fst \<circ> snd) (map plan_columns xs)" for xs by (simp add: plan_columns_def)
  have "map fa_Seq (plan_rows u i ss) = map (\<lambda>j. int j + 1) [i ..< i + length ss]" for i ss
    by (induction ss arbitrary: i) (auto simp: step_action_def upt_rec)
  then have q: "map fa_Seq (plan_rows u 0 steps) = map (\<lambda>j. int j + 1) [0 ..< length steps]" by simp
  have "sorted_wrt (\<lambda>i j. int i + 1 < int j + 1) [0 ..< length steps]"
    by (rule sorted_wrt_mono_rel [OF _ sorted_wrt_upt]) simp
  then have "sorted_wrt (<) (map fa_Seq (plan_rows u 0 steps))" unfolding q sorted_wrt_map .
  moreover have "subseq (map fa_Seq new) (map fa_Seq (stored_rows u 0 steps))"
    unfolding seqs [of new] seqs [of "stored_rows u 0 steps"] by (rule subseq_map) (rule assms)
  then have "subseq (map fa_Seq new) (map fa_Seq (plan_rows u 0 steps))"
    by (rule subseq_order.trans) (rule stored_rows_seq)
  ultimately show ?thesis using sorted_wrt_subseq by blast
qed

text \<open>The column cannot turn an action type into one of another risk: a type that it shortens is longer than
  all the names of the table, and so is what is left of it.\<close>

lemma varchar_cut: "varchar n s = Some t \<Longrightarrow> t = s \<or> n \<le> length t \<and> length t < length s"
proof (induction s arbitrary: n t)
  case (Cons c s)
  from Cons.prems show ?case
    by (auto simp: varchar.simps split: if_splits dest!: Cons.IH)
qed simp

lemma long_type_high: "30 \<le> length (fxs_ActionType s) \<Longrightarrow> fst (assessRisk s) = RiskHigh"
  by (auto simp: assessRisk_def Let_def)

lemma stored_risk:
  assumes "stored_step s = Some (t, g)"
  shows "fst (assessRisk (default_step t [] [] [])) = fst (assessRisk s)"
proof -
  have "varchar 64 (fxs_ActionType s) = Some t" using assms by (auto simp: stored_step_def split: option.splits)
  from varchar_cut [OF this] show ?thesis
  proof
    assume "t = fxs_ActionType s"
    then show ?thesis by (simp add: assessRisk_def default_step_def)
  next
    assume "64 \<le> length t \<and> length t < length (fxs_ActionType s)"
    then show ?thesis using long_type_high [of s] long_type_high [of "default_step t [] [] []"] by (simp add: default_step_def)
  qed
qed

lemma stored_row_ok:
  assumes "fa \<in> set (stored_rows u i steps)"
  shows "fa_SessionID fa = u \<and> fa_Risk fa = fst (assessRisk (default_step (fa_ActionType fa) [] [] [])) \<and>
      (fa_RequiresApproval fa \<longleftrightarrow> fa_Risk fa = RiskHigh) \<and> fa_ApprovalStatus fa = ApprovalStatusNone \<and>
      fa_ExecutionStatus fa = ExecStatusNotStarted"
  using assms
proof (induction steps arbitrary: i)
  case (Cons s steps)
  show ?case
  proof (cases "stored_step s")
    case None
    then show ?thesis using Cons by (simp add: fit_step_action)
  next
    case (Some tg)
    obtain t g where "tg = (t, g)" by force
    with Some have f: "fit_fix (step_action u i s) = Some ((step_action u i s)\<lparr>fa_ActionType := t, fa_Target := g\<rparr>)"
      by (simp add: fit_step_action)
    from Cons.prems f consider "fa = (step_action u i s)\<lparr>fa_ActionType := t, fa_Target := g\<rparr>" | "fa \<in> set (stored_rows u (Suc i) steps)"
      by auto
    then show ?thesis
    proof cases
      case 1
      with stored_risk [of s t g] Some \<open>tg = (t, g)\<close> show ?thesis by (simp add: step_action_def)
    qed (rule Cons.IH)
  qed
qed simp


text \<open>The plan of the default for an unknown cause, on a database without faults.\<close>

definition sample_rca_json :: "string \<Rightarrow> json result" where
  "sample_rca_json s = Inr (JObject [(''root_cause_pattern'', JString s)])"

definition sample_rca :: "string \<Rightarrow> Observation" where
  "sample_rca pattern = (sample_observation ''agent-rca'' EVIDENCE_TYPE_RCA_RESULT)\<lparr>ob_SessionId := ''i'', ob_DetailJson := pattern\<rparr>"


section \<open>Steps from the language model\<close>

lemma fold_step_keys:
  "fold_name ''Seq'' = ''SEQ''" "fold_name ''ActionType'' = ''ACTIONTYPE''" "fold_name ''Target'' = ''TARGET''"
  "fold_name ''Risk'' = ''RISK''" "fold_name ''RollbackPlan'' = ''ROLLBACKPLAN''" "fold_name ''Description'' = ''DESCRIPTION''"
  "fold_name ''action_type'' = ''ACTION_TYPE''" "fold_name ''target'' = ''TARGET''"
  "fold_name ''rollback_plan'' = ''ROLLBACK_PLAN''" "fold_name ''description'' = ''DESCRIPTION''"
  by code_simp+

text \<open>C20 (llm_steps_high): the prompt asks the model for objects with the keys \<open>action_type\<close>, \<open>target\<close>,
  \<open>description\<close> and \<open>rollback_plan\<close>, but \<open>FixStep\<close> has no json tags and no key that folds to
  \<open>ActionType\<close> is asked for.  So every step of an answer in the requested form (or of a knowledge base entry
  with these keys) is decoded without an action type: it is of HIGH risk and requires approval, whatever
  the model proposed.\<close>

theorem llm_steps_high:
  assumes "jl_Parse (al_json lib) answer = Inr (JArray (map JObject objs))"
    and "\<And>kvs k v. kvs \<in> set objs \<Longrightarrow> (k, v) \<in> set kvs \<Longrightarrow> k \<in> {''action_type'', ''target'', ''description'', ''rollback_plan''}"
    and "Unmarshal (al_json lib) dec_steps answer [] = Inr steps"
  shows "length steps = length objs \<and> (\<forall>step \<in> set steps. fxs_ActionType step = [] \<and> fxs_RollbackPlan step = [] \<and>
    fst (assessRisk step) = RiskHigh \<and> fa_RequiresApproval (step_action u i step))"
proof -
  have D: "dec_elements dec_step empty_step (map JObject objs) = Inr steps"
    using assms(1,3) by (simp add: Unmarshal_def dec_steps_def)
  have keep: "fxs_ActionType q = [] \<and> fxs_RollbackPlan q = []" if "kvs \<in> set objs" and "dec_step (JObject kvs) empty_step = Inr q" for kvs q
  proof -
    have fold: "find_field step_fields ''action_type'' = None" "find_field step_fields ''rollback_plan'' = None"
      "find_field step_fields ''target'' = Some (field dec_string fxs_Target (\<lambda>x. fxs_Target_update (\<lambda>_. x)))"
      "find_field step_fields ''description'' = Some (field dec_string fxs_Description (\<lambda>x. fxs_Description_update (\<lambda>_. x)))"
      by (simp_all add: find_field_def step_fields_def fold_step_keys del: fold_name.simps)
    have "dec_members step_fields xs p = Inr q1 \<Longrightarrow> \<forall>(k, v) \<in> set xs. k \<in> {''action_type'', ''target'', ''description'', ''rollback_plan''} \<Longrightarrow>
        fxs_ActionType p = [] \<and> fxs_RollbackPlan p = [] \<Longrightarrow> fxs_ActionType q1 = [] \<and> fxs_RollbackPlan q1 = []" for xs p q1
    proof (induction xs arbitrary: p)
      case (Cons x xs)
      obtain k v where x: "x = (k, v)" by force
      from Cons.prems(2) have "k \<in> {''action_type'', ''target'', ''description'', ''rollback_plan''}" by (simp add: x)
      then consider "find_field step_fields k = None"
        | s where "find_field step_fields k = Some (field dec_string fxs_Target (\<lambda>x. fxs_Target_update (\<lambda>_. x)))"
        | s where "find_field step_fields k = Some (field dec_string fxs_Description (\<lambda>x. fxs_Description_update (\<lambda>_. x)))"
        using fold by auto
      then show ?case using Cons by cases (auto simp: x field_def split: sum.splits)
    qed simp
    from this [of kvs empty_step q] that assms(2) show ?thesis by (auto simp: dec_step_def empty_step_def)
  qed
  have "fxs_ActionType step = [] \<and> fxs_RollbackPlan step = []" if "step \<in> set steps" for step
  proof -
    from that dec_elements_length [OF D] obtain j where j: "j < length objs" "step = steps ! j"
      by (auto simp: in_set_conv_nth)
    with dec_elements_nth [OF D, of j] have "dec_step (JObject (objs ! j)) empty_step = Inr step" by simp
    with keep j show ?thesis by (meson nth_mem)
  qed
  with dec_elements_length [OF D] show ?thesis by (simp add: assessRisk_def step_action_def)
qed

theorem llm_steps_high_witness:
  "\<exists>step. Unmarshal (al_json (sample_agent_lib (\<lambda>s. Inr (JArray (map JObject [[(''action_type'', JString ''restart_pod''), (''target'', JString ''*'')]])))))
      dec_steps ''x'' [] = Inr [step] \<and> fxs_Target step = ''*'' \<and> fst (assessRisk step) = RiskHigh"
proof -
  let ?objs = "[[(''action_type'', JString ''restart_pod''), (''target'', JString ''*'')]]"
  let ?lib = "sample_agent_lib (\<lambda>s. Inr (JArray (map JObject ?objs)))"
  let ?step = "empty_step\<lparr>fxs_Target := ''*''\<rparr>"
  have p: "jl_Parse (al_json ?lib) ''x'' = Inr (JArray (map JObject ?objs))" by (simp add: sample_agent_lib_def)
  have u: "Unmarshal (al_json ?lib) dec_steps ''x'' [] = Inr [?step]"
    unfolding Unmarshal_def p by (simp add: dec_steps_def dec_step_def step_fields_def json_simps fold_step_keys del: fold_name.simps)
  from llm_steps_high [OF p _ u] have "fst (assessRisk ?step) = RiskHigh" by auto
  with u show ?thesis by (intro exI [where x = ?step]) simp
qed

section \<open>From the root cause to the executor\<close>

lemma more_New: "Observation_New lib (Some ob) w = (r, w1) \<Longrightarrow> db.more w1 = db.more w"
  by (auto dest: New_state simp: uuid_New_def)

lemma more_persist: "persist_step a fa w = (i, err, w1) \<Longrightarrow> fa_ID fa = uuid_Nil \<Longrightarrow> db.more w1 = db.more w"
  by (auto simp: persist_step_def Create_filled insert_fix_def pop_fault_def uuid_New_def
      split: if_splits prod.splits option.splits elim!: db_exec_cases dest!: fitted_ok)

lemma more_emit_steps: "emit_steps lib a sid u rca i steps w = (obs, w1) \<Longrightarrow> db.more w1 = db.more w"
proof (induction steps arbitrary: i w obs)
  case (Cons step steps)
  have "fa_ID (step_action u i step) = uuid_Nil" by (simp add: step_action_def)
  with Cons show ?case by (auto split: prod.splits sum.splits dest!: more_persist more_New)
qed simp

lemma executed_more: "db.more w1 = db.more (w :: 'e orch) \<Longrightarrow> o_executed w1 = o_executed w"
  by (cases w; cases w1) simp

lemma New_frames:
  "Observation_New lib (Some ob) w = (r, w1) \<Longrightarrow> w_fix_actions w1 = w_fix_actions w \<and> w_faults w1 = w_faults w \<and>
     status_of w1 = status_of w \<and> w_locked w1 = w_locked w"
  using New_rows New_frame(1-3) by metis

lemma emit_steps_unwired:
  assumes "emit_steps lib a sid u rca i steps w = (obs, w1)" and "\<not> fx_pool a"
  shows "w_fix_actions w1 = w_fix_actions w \<and> w_faults w1 = w_faults w \<and> status_of w1 = status_of w \<and> w_locked w1 = w_locked w"
  using assms
proof (induction steps arbitrary: i w obs)
  case (Cons step steps)
  then show ?case
    by (auto simp: persist_step_def split: prod.splits sum.splits dest!: New_frames)
qed simp

lemma FixAgent_Handle_plan:
  assumes "ob_Type rca = EVIDENCE_TYPE_RCA_RESULT" and "uuid_Parse (al_uuid lib) sid = Inr u"
    and "Unmarshal (al_json lib) (dec_rca_output (al_json lib)) (ob_DetailJson rca) empty_rca_output = Inr r"
    and "plan_steps lib a rca r w = (steps, w0)" and "FixAgent_Handle lib a sid [rca] w = (res, w1)"
  shows "\<exists>obs. res = Inr obs \<and> emit_steps lib a sid u rca 0 steps w0 = (obs, w1)"
  using assms by (auto simp: FixAgent_Handle_def split: prod.splits)

text \<open>The steps of a plan that the table can hold, each with the action type and the target stored.\<close>

definition stored_plan :: "FixStep list \<Rightarrow> (FixStep \<times> string \<times> string) list" where
  "stored_plan steps = List.map_filter (\<lambda>s. map_option (Pair s) (stored_step s)) steps"

lemma stored_plan_simps [simp]:
  "stored_plan [] = []"
  "stored_plan (s # ss) = (case stored_step s of None \<Rightarrow> stored_plan ss | Some tg \<Rightarrow> (s, tg) # stored_plan ss)"
  by (simp_all add: stored_plan_def map_filter_simps split: option.split)

lemma stored_rows_columns:
  "map plan_columns new = map plan_columns (stored_rows u i steps) \<Longrightarrow>
    (\<forall>fa \<in> set new. fa_SessionID fa = u \<and> fa_ExecutionStatus fa = ExecStatusNotStarted \<and>
      (fa_RequiresApproval fa \<longleftrightarrow> fa_Risk fa = RiskHigh) \<and> int i < fa_Seq fa) \<and>
    map fa_Risk new = map (\<lambda>(s, tg). fst (assessRisk s)) (stored_plan steps) \<and>
    map (\<lambda>fa. (fa_ActionType fa, fa_Target fa)) new = map snd (stored_plan steps) \<and>
    sorted (map fa_Seq new)"
proof (induction steps arbitrary: i new)
  case (Cons s steps)
  show ?case
  proof (cases "stored_step s")
    case None
    with Cons.prems have "map plan_columns new = map plan_columns (stored_rows u (Suc i) steps)" by (simp add: fit_step_action)
    from Cons.IH [OF this] None show ?thesis by auto
  next
    case (Some tg)
    obtain t g where tg: "tg = (t, g)" by force
    let ?row = "(step_action u i s)\<lparr>fa_ActionType := t, fa_Target := g\<rparr>"
    from Cons.prems obtain x xs where new: "new = x # xs" by (cases new) (auto simp: fit_step_action Some tg)
    with Cons.prems have x: "plan_columns x = plan_columns ?row"
      and xs: "map plan_columns xs = map plan_columns (stored_rows u (Suc i) steps)" by (simp_all add: fit_step_action Some tg)
    from Cons.IH [OF xs] x show ?thesis by (fastforce simp: new plan_columns_def step_action_def Some tg)
  qed
qed simp

text \<open>The rows that the orchestrator finds after the agent has handled a root cause.\<close>

lemma agent_rows:
  assumes "emit_steps lib a sid u rca 0 steps w = (obs, w1)" and "lib_ok lib" and "sid \<noteq> []"
    and "ob_Severity rca \<noteq> SEVERITY_UNSPECIFIED" and "in_unit (ob_Confidence rca)" and "w_faults w = []"
    and "status_of w u = Some s" and "fresh_ids (2 * length steps) w" and "distinct (map fa_ID (w_fix_actions w))"
    and "\<forall>fa \<in> set (w_fix_actions w). fa_SessionID fa \<noteq> u"
  shows "w_faults w1 = [] \<and> distinct (map fa_ID (w_fix_actions w1)) \<and> status_of w1 = status_of w \<and> w_locked w1 = w_locked w \<and>
    (\<exists>new. fixes_of u w1 = new \<and> filter (\<lambda>fa. fa_SessionID fa = u) (w_fix_actions w1) = new \<and>
      map fa_Risk new = (if fx_pool a then map (\<lambda>(s, tg). fst (assessRisk s)) (stored_plan steps) else []) \<and>
      map (\<lambda>fa. (fa_ActionType fa, fa_Target fa)) new = (if fx_pool a then map snd (stored_plan steps) else []) \<and>
      (\<forall>fa \<in> set new. fa_ExecutionStatus fa = ExecStatusNotStarted \<and> (fa_RequiresApproval fa \<longleftrightarrow> fa_Risk fa = RiskHigh)))"
proof (cases "fx_pool a")
  case True
  have "find_session u w \<noteq> None" "\<forall>r \<in> set (w_fix_actions w). fa_SessionID r = u \<longrightarrow> fa_Seq r \<le> int 0"
    using assms(7,10) by (auto simp: status_of_def split: option.splits)
  from emit_steps_ok [OF assms(1) True assms(2-6) this(1) assms(8,9) this(2)] obtain new where
    new: "w_fix_actions w1 = w_fix_actions w @ new" "map plan_columns new = map plan_columns (stored_rows u 0 steps)"
    and frame: "w_faults w1 = []" "distinct (map fa_ID (w_fix_actions w1))" "status_of w1 = status_of w" "w_locked w1 = w_locked w"
    by blast
  note cols = stored_rows_columns [OF new(2)]
  have f: "filter (\<lambda>fa. fa_SessionID fa = u) (w_fix_actions w1) = new"
    using assms(10) cols unfolding new(1) by (auto simp: filter_empty_conv intro: filter_True)
  moreover have "fixes_of u w1 = new"
    using cols unfolding fixes_of_def f by (simp add: sort_key_id_if_sorted)
  ultimately show ?thesis using frame cols True by auto
next
  case False
  from emit_steps_unwired [OF assms(1) False] assms(6,9,10) False show ?thesis
    by (auto simp: fixes_of_def filter_empty_conv)
qed

text \<open>What the orchestrator makes of these rows.\<close>

lemma rows_run:
  assumes "w_faults w1 = []" and "distinct (map fa_ID (w_fix_actions w1))" and "status_of w1 u = Some StatusRCADone"
    and "u \<notin> set (w_locked w1)" and "op_Type ob = EvidenceType_String EVIDENCE_TYPE_FIX_ACTION"
    and "handleObservation d u ob w1 = (e, w2)"
    and rows: "fixes_of u w1 = new" "filter (\<lambda>fa. fa_SessionID fa = u) (w_fix_actions w1) = new"
      "\<forall>fa \<in> set new. fa_ExecutionStatus fa = ExecStatusNotStarted \<and> (fa_RequiresApproval fa \<longleftrightarrow> fa_Risk fa = RiskHigh)"
  shows "e = None \<and>
    (if RiskHigh \<in> set (map fa_Risk new)
     then status_of w2 u = Some StatusAwaitingApproval \<and> o_executed w2 = o_executed w1
     else status_of w2 u = Some StatusVerifying \<and> o_executed w2 = o_executed w1 @ map (exec_action u) new)"
proof -
  have ty: "normalizeType (op_Type ob) = ''FIX_ACTION''" unfolding assms(5) by code_simp
  have "set new = {fa \<in> set (w_fix_actions w1). fa_SessionID fa = u}" using arg_cong [OF rows(2), of set] by simp
  then have high: "(\<exists>fa \<in> set (w_fix_actions w1). fa_SessionID fa = u \<and> fa_Risk fa = RiskHigh \<and> fa_ExecutionStatus fa = ExecStatusNotStarted)
      \<longleftrightarrow> RiskHigh \<in> set (map fa_Risk new)" using rows(3) by force
  note run = fix_pipeline_run [OF assms(1-4) ty assms(6), unfolded high rows(1)]
  show ?thesis
  proof (cases "RiskHigh \<in> set (map fa_Risk new)")
    case True
    with run show ?thesis by simp
  next
    case False
    then have "\<forall>fa \<in> set new. fa_Risk fa \<noteq> RiskHigh" by force
    then have "filter may_execute new = new" using rows(3) by (intro filter_True) (auto simp: may_execute_def)
    with run False show ?thesis by simp
  qed
qed



end
