(* ===== verification/Llm.thy ===== *)
theory Llm imports Store Json_Value begin

text \<open>
  The client of the language model (\<open>internal/llm/client.go\<close>): the request, the three attempts with their
  backoff, the minimum interval between requests and the reading of the answer.  The HTTP transport is an
  argument that works on the state of the process (and may let time pass); the context is the instant
  at which it ends, with its error.  \<open>lc_Sent\<close> is a history of the instants at which requests were sent.
\<close>

section \<open>Client and messages\<close>

record Client =
  lc_BaseURL :: string
  lc_ApiKey :: string
  lc_Model :: string
  lc_MinInterval :: duration
  lc_LastRequest :: time
  lc_Sent :: "time list"

record Llm_Config =
  lcfg_BaseURL :: string
  lcfg_APIKey :: string
  lcfg_Model :: string
  lcfg_MinInterval :: duration

definition NewClient :: "Llm_Config \<Rightarrow> Client" where
  "NewClient cfg = \<lparr>lc_BaseURL = lcfg_BaseURL cfg, lc_ApiKey = lcfg_APIKey cfg, lc_Model = lcfg_Model cfg,
     lc_MinInterval = (if lcfg_MinInterval cfg = 0 then 100 * Millisecond else lcfg_MinInterval cfg),
     lc_LastRequest = 0, lc_Sent = []\<rparr>"

record ChatMessage =
  msg_Role :: string
  msg_Content :: string

record ChatRequest =
  rqc_Model :: string
  rqc_Messages :: "ChatMessage list"

record APIError =
  ae_Message :: string
  ae_Type :: string

record ChatResponse =
  chr_ID :: string
  chr_Choices :: "ChatMessage list"
  chr_Error :: "APIError option"

definition marshal_chat_request :: "ChatRequest \<Rightarrow> string" where
  "marshal_chat_request r = json_text (JObject [(''model'', JString (rqc_Model r)),
     (''messages'', JArray (map (\<lambda>m. JObject [(''role'', JString (msg_Role m)), (''content'', JString (msg_Content m))])
        (rqc_Messages r)))])"

definition dec_api_error :: "APIError decoder" where
  "dec_api_error = dec_struct ''llm.APIError''
    [(''message'', field dec_string ae_Message (\<lambda>x. ae_Message_update (\<lambda>_. x))),
     (''type'', field dec_string ae_Type (\<lambda>x. ae_Type_update (\<lambda>_. x)))]"

definition dec_chat_message :: "ChatMessage decoder" where
  "dec_chat_message = dec_struct ''llm.ChatMessage''
    [(''role'', field dec_string msg_Role (\<lambda>x. msg_Role_update (\<lambda>_. x))),
     (''content'', field dec_string msg_Content (\<lambda>x. msg_Content_update (\<lambda>_. x)))]"

text \<open>A \<open>Choice\<close> is a struct with the one field \<open>message\<close>.\<close>

definition dec_choice :: "ChatMessage decoder" where
  "dec_choice = dec_struct ''llm.Choice'' [(''message'', dec_chat_message)]"

definition empty_chat_message :: ChatMessage where
  "empty_chat_message = \<lparr>msg_Role = [], msg_Content = []\<rparr>"

definition empty_api_error :: APIError where
  "empty_api_error = \<lparr>ae_Message = [], ae_Type = []\<rparr>"

definition dec_chat_response :: "ChatResponse decoder" where
  "dec_chat_response = dec_struct ''llm.ChatResponse''
    [(''id'', field dec_string chr_ID (\<lambda>x. chr_ID_update (\<lambda>_. x))),
     (''choices'', field (dec_slice ''[]llm.Choice'' dec_choice empty_chat_message) chr_Choices (\<lambda>x. chr_Choices_update (\<lambda>_. x))),
     (''error'', field (dec_pointer dec_api_error empty_api_error) chr_Error (\<lambda>x. chr_Error_update (\<lambda>_. x)))]"

section \<open>One request\<close>

datatype llm_outcome = HttpDoError gerror | HttpReadError gerror | HttpResponse int string

record llm_request =
  lr_URL :: string
  lr_Headers :: "(string \<times> string) list"
  lr_Body :: string

text \<open>\<open>hl_NewRequest\<close> says of a URL why no request can be built from it.\<close>

record 's llm_http =
  hl_NewRequest :: "string \<Rightarrow> gerror option"
  hl_Do :: "llm_request \<Rightarrow> 's \<Rightarrow> llm_outcome \<times> 's"

definition chat_http_request :: "Client \<Rightarrow> ChatRequest \<Rightarrow> llm_request" where
  "chat_http_request c r = \<lparr>lr_URL = lc_BaseURL c @ ''/chat/completions'',
     lr_Headers = (''Content-Type'', ''application/json'') #
       (if lc_ApiKey c \<noteq> [] then [(''Authorization'', ''Bearer '' @ lc_ApiKey c)] else []),
     lr_Body = marshal_chat_request r\<rparr>"

definition read_chat_response :: "json_lib \<Rightarrow> llm_outcome \<Rightarrow> string result" where
  "read_chat_response lib out = (case out of
     HttpDoError e \<Rightarrow> Inl (wrap ''llm: do request: '' e)
   | HttpReadError e \<Rightarrow> Inl (wrap ''llm: read response: '' e)
   | HttpResponse code body \<Rightarrow>
      (if code \<noteq> 200
       then (case Unmarshal lib dec_api_error body empty_api_error of
           Inr ae \<Rightarrow> (if ae_Message ae \<noteq> []
             then Inl (ErrorString (''llm: api error '' @ show_int code @ '': '' @ ae_Message ae))
             else Inl (ErrorString (''llm: unexpected status '' @ show_int code @ '': '' @ body)))
         | Inl e \<Rightarrow> Inl (ErrorString (''llm: unexpected status '' @ show_int code @ '': '' @ body)))
       else (case Unmarshal lib dec_chat_response body \<lparr>chr_ID = [], chr_Choices = [], chr_Error = None\<rparr> of
           Inl e \<Rightarrow> Inl (wrap ''llm: unmarshal response: '' e)
         | Inr resp \<Rightarrow> (case chr_Error resp of
             Some ae \<Rightarrow> Inl (ErrorString (''llm: api error: '' @ ae_Message ae))
           | None \<Rightarrow> (case chr_Choices resp of
               [] \<Rightarrow> Inl (ErrorString ''llm: no completion choices returned'')
             | m # ms \<Rightarrow> Inr (msg_Content m))))))"

definition doChatRequest ::
  "json_lib \<Rightarrow> 'a db_scheme llm_http \<Rightarrow> ChatRequest \<Rightarrow> Client \<Rightarrow> 'a db_scheme \<Rightarrow> string result \<times> Client \<times> 'a db_scheme" where
  "doChatRequest lib http r c w = (case hl_NewRequest http (lc_BaseURL c @ ''/chat/completions'') of
     Some e \<Rightarrow> (Inl (wrap ''llm: new request: '' e), c, w)
   | None \<Rightarrow> (case hl_Do http (chat_http_request c r) w of (out, w1) \<Rightarrow>
       (read_chat_response lib out, c\<lparr>lc_Sent := lc_Sent c @ [w_now w]\<rparr>, w1)))"

section \<open>Attempts\<close>

text \<open>The context ends at \<open>fst cx\<close>, if at all.\<close>

definition sleepCtx :: "time option \<times> gerror \<Rightarrow> duration \<Rightarrow> 'a db_scheme \<Rightarrow> gerror option \<times> 'a db_scheme" where
  "sleepCtx cx d w = (if d \<le> 0 then (None, w)
     else (case fst cx of
         None \<Rightarrow> (None, sleep d w)
       | Some t \<Rightarrow> (if w_now w + d < t then (None, sleep d w) else (Some (snd cx), sleep (max 0 (t - w_now w)) w))))"

definition maxDuration :: "duration \<Rightarrow> duration \<Rightarrow> duration" where
  "maxDuration a b = (if a > b then a else b)"

text \<open>The slot of the next request, and how long to wait for it.\<close>

definition rate_limit :: "Client \<Rightarrow> 'a db_scheme \<Rightarrow> duration \<times> Client" where
  "rate_limit c w = (let elapsed = w_now w - lc_LastRequest c; wait = lc_MinInterval c - elapsed
     in (wait, c\<lparr>lc_LastRequest := w_now w + maxDuration wait 0\<rparr>))"

definition chat_maxAttempts :: nat where "chat_maxAttempts = 3"

fun chat_attempts ::
  "json_lib \<Rightarrow> 'a db_scheme llm_http \<Rightarrow> time option \<times> gerror \<Rightarrow> ChatRequest \<Rightarrow> nat list \<Rightarrow> gerror option \<Rightarrow>
   Client \<Rightarrow> 'a db_scheme \<Rightarrow> string result \<times> Client \<times> 'a db_scheme" where
  "chat_attempts lib http cx r [] lastErr c w =
     (Inl (Wrapped (''llm: chat failed after '' @ show_nat chat_maxAttempts @ '' attempts: '')
        (case lastErr of Some e \<Rightarrow> e | None \<Rightarrow> ErrorString ''%!w(<nil>)'') []), c, w)"
| "chat_attempts lib http cx r (attempt # rest) lastErr c w =
    (case (if attempt > 0 then sleepCtx cx (200 * 2 ^ (attempt - 1) * Millisecond) w else (None, w)) of
       (Some e, w1) \<Rightarrow> (Inl e, c, w1)
     | (None, w1) \<Rightarrow>
        (case rate_limit c w1 of (wait, c1) \<Rightarrow>
        (case sleepCtx cx wait w1 of
           (Some e, w2) \<Rightarrow> (Inl e, c1, w2)
         | (None, w2) \<Rightarrow>
            (case doChatRequest lib http r c1 w2 of
               (Inr answer, c2, w3) \<Rightarrow> (Inr answer, c2, w3)
             | (Inl e, c2, w3) \<Rightarrow> chat_attempts lib http cx r rest (Some e) c2 w3))))"

definition Chat ::
  "json_lib \<Rightarrow> 'a db_scheme llm_http \<Rightarrow> time option \<times> gerror \<Rightarrow> string \<Rightarrow> string \<Rightarrow> Client \<Rightarrow> 'a db_scheme \<Rightarrow>
   string result \<times> Client \<times> 'a db_scheme" where
  "Chat lib http cx system user c w =
     chat_attempts lib http cx \<lparr>rqc_Model = lc_Model c, rqc_Messages = [\<lparr>msg_Role = ''system'', msg_Content = system\<rparr>,
       \<lparr>msg_Role = ''user'', msg_Content = user\<rparr>]\<rparr> [0 ..< chat_maxAttempts] None c w"


section \<open>The limits of a chat\<close>

text \<open>The requests sent so far are at least the minimum interval apart and not later than the last slot.\<close>

definition client_ok :: "Client \<Rightarrow> bool" where
  "client_ok c \<longleftrightarrow> successively (\<lambda>a b. a + lc_MinInterval c \<le> b) (lc_Sent c) \<and>
     (lc_Sent c = [] \<or> last (lc_Sent c) \<le> lc_LastRequest c)"

lemma client_ok_NewClient: "client_ok (NewClient cfg)"
  by (simp add: client_ok_def NewClient_def)

text \<open>A request is sent exactly at its slot.\<close>

lemma sent_at_slot:
  assumes "rate_limit c w = (wait, c1)" and "sleepCtx cx wait w = (None, w1)"
  shows "w_now w1 = lc_LastRequest c1"
  using assms by (auto simp: rate_limit_def sleepCtx_def maxDuration_def sleep_def Let_def split: if_splits option.splits)

lemma client_ok_slot:
  assumes "client_ok c" and "rate_limit c w = (wait, c1)"
  shows "lc_Sent c1 = lc_Sent c" "lc_MinInterval c1 = lc_MinInterval c"
    "lc_LastRequest c + lc_MinInterval c \<le> lc_LastRequest c1"
  using assms by (auto simp: rate_limit_def maxDuration_def Let_def)

lemma doChatRequest_sent:
  assumes "doChatRequest lib http r c w = (res, c1, w1)"
  shows "lc_MinInterval c1 = lc_MinInterval c \<and> lc_LastRequest c1 = lc_LastRequest c \<and>
    (lc_Sent c1 = lc_Sent c @ [w_now w] \<or>
     lc_Sent c1 = lc_Sent c \<and> hl_NewRequest http (lc_BaseURL c @ ''/chat/completions'') \<noteq> None \<and> \<not> is_ok res) \<and>
    lc_BaseURL c1 = lc_BaseURL c"
  using assms by (auto simp: doChatRequest_def split: option.splits prod.splits)

lemma client_ok_send:
  assumes "client_ok c" and "rate_limit c w = (wait, c1)" and "w_now w1 = lc_LastRequest c1"
    and "doChatRequest lib http r c1 w1 = (res, c2, w2)" and "0 \<le> lc_MinInterval c"
  shows "client_ok c2"
  using client_ok_slot [OF assms(1,2)] doChatRequest_sent [OF assms(4)] assms(1,3,5)
  by (auto simp: client_ok_def successively_append_iff)

lemma chat_attempts_limits:
  assumes "chat_attempts lib http cx r as le c w = (res, c', w')" and "client_ok c" and "0 \<le> lc_MinInterval c"
  shows "client_ok c' \<and> lc_MinInterval c' = lc_MinInterval c \<and>
    (\<exists>new. lc_Sent c' = lc_Sent c @ new \<and> length new \<le> length as \<and> (is_ok res \<longrightarrow> new \<noteq> []) \<and>
       (\<not> is_ok res \<and> fst cx = None \<and> hl_NewRequest http (lc_BaseURL c @ ''/chat/completions'') = None
          \<longrightarrow> length new = length as))"
  using assms
proof (induction as arbitrary: le c w)
  case (Cons attempt rest)
  obtain e1 w1 where 1: "(if attempt > 0 then sleepCtx cx (200 * 2 ^ (attempt - 1) * Millisecond) w else (None, w)) = (e1, w1)"
    by force
  obtain wait c1 where 2: "rate_limit c w1 = (wait, c1)" by force
  obtain e2 w2 where 3: "sleepCtx cx wait w1 = (e2, w2)" by force
  obtain q c2 w3 where 4: "doChatRequest lib http r c1 w2 = (q, c2, w3)" using prod_cases3 by blast
  have b: "lc_BaseURL c1 = lc_BaseURL c" using 2 by (auto simp: rate_limit_def Let_def)
  have never: "sleepCtx cx d u = (None, u') \<or> fst cx \<noteq> None" if "sleepCtx cx d u = (x, u')" for d u x u'
    using that by (auto simp: sleepCtx_def split: if_splits option.splits)
  note slot = client_ok_slot [OF Cons.prems(2) 2]
  show ?case
  proof (cases e1)
    case (Some e)
    with Cons.prems 1 have "c' = c" "res = Inl e" by simp_all
    moreover from 1 Some never have "fst cx \<noteq> None" by (fastforce split: if_splits)
    ultimately show ?thesis using Cons.prems(2) by simp
  next
    case None
    note n1 = this
    show ?thesis
    proof (cases e2)
      case (Some e)
      with Cons.prems 1 2 3 n1 have "c' = c1" "res = Inl e" by simp_all
      moreover from 3 Some never have "fst cx \<noteq> None" by fastforce
      ultimately show ?thesis using Cons.prems(2,3) slot by (auto simp: client_ok_def)
    next
      case None
      note ok2 = client_ok_send [OF Cons.prems(2) 2 sent_at_slot [OF 2 3 [unfolded None]] 4 Cons.prems(3)]
      note sent = doChatRequest_sent [OF 4]
      show ?thesis
      proof (cases q)
        case (Inr a)
        with Cons.prems 1 2 3 4 n1 None have "c' = c2" "res = Inr a" by simp_all
        with ok2 sent slot b Inr show ?thesis by auto
      next
        case (Inl e)
        with Cons.prems(1) 1 2 3 4 n1 None have R: "chat_attempts lib http cx r rest (Some e) c2 w3 = (res, c', w')" by simp
        have "0 \<le> lc_MinInterval c2" using sent slot(2) Cons.prems(3) by simp
        from Cons.IH [OF R ok2 this] obtain new where new: "client_ok c'" "lc_MinInterval c' = lc_MinInterval c2"
          "lc_Sent c' = lc_Sent c2 @ new" "length new \<le> length rest" "is_ok res \<longrightarrow> new \<noteq> []"
          "\<not> is_ok res \<and> fst cx = None \<and> hl_NewRequest http (lc_BaseURL c2 @ ''/chat/completions'') = None
            \<longrightarrow> length new = length rest" by blast
        from sent b consider (s) "lc_Sent c2 = lc_Sent c @ [w_now w2]"
          | (n) "lc_Sent c2 = lc_Sent c" "hl_NewRequest http (lc_BaseURL c @ ''/chat/completions'') \<noteq> None"
          using slot(1) by fastforce
        then show ?thesis
        proof cases
          case s
          with new sent slot b show ?thesis by (intro conjI exI [where x = "w_now w2 # new"]) auto
        next
          case n
          with new sent slot b show ?thesis by (intro conjI exI [where x = new]) auto
        qed
      qed
    qed
  qed
qed auto



definition sample_json_lib :: json_lib where
  "sample_json_lib = \<lparr>jl_Parse = (\<lambda>s. Inl (ErrorString ''unexpected end of JSON input'')),
     jl_ParseFloat = (\<lambda>s. Some (Fin 0)), jl_FormatFloat = (\<lambda>x. ''0''), jl_Round = Fin\<rparr>"

text \<open>A server that cannot be reached: the client gives up after three requests.\<close>

definition unreachable :: "db llm_http" where
  "unreachable = \<lparr>hl_NewRequest = (\<lambda>u. None), hl_Do = (\<lambda>r w. (HttpDoError (ErrorString ''refused''), w))\<rparr>"

lemma unreachable_fails: "\<not> is_ok (fst (chat_attempts lib unreachable cx r as le c w))"
  by (induction as arbitrary: le c w)
    (auto simp: unreachable_def doChatRequest_def read_chat_response_def split: prod.splits option.splits)


end
