(* ===== verification/Runner.thy ===== *)
theory Runner imports Agent_Spec Llm begin

text \<open>
  The loop of an agent process (\<open>internal/agent/runner.go\<close>): waiting for the channel, the handling of one
  message, and publication with retries.  The producer is an argument that works on the state of the process;
  \<open>run_log\<close> records the calls of \<open>MarkAsProcessed\<close> and every attempt to publish with its outcome.
\<close>

section \<open>State\<close>

record run_log =
  rl_processed :: "Message list"
  rl_attempts :: "(Message \<times> gerror option) list"

definition MarkAsProcessed :: "Message \<Rightarrow> run_log \<Rightarrow> run_log" where
  "MarkAsProcessed msg l = l\<lparr>rl_processed := rl_processed l @ [msg]\<rparr>"

definition attempted :: "Message \<Rightarrow> gerror option \<Rightarrow> run_log \<Rightarrow> run_log" where
  "attempted msg e l = l\<lparr>rl_attempts := rl_attempts l @ [(msg, e)]\<rparr>"

text \<open>\<open>rt_Publish\<close> is \<open>Producer.Publish\<close>; \<open>rt_ctx\<close> is the context, the instant at which it ends with its error.\<close>

record 's runtime =
  rt_lib :: agent_lib
  rt_codec :: obs_codec
  rt_Publish :: "Message \<Rightarrow> 's \<Rightarrow> gerror option \<times> 's"
  rt_ctx :: "time option \<times> gerror"

section \<open>Publication\<close>

fun publish_attempts :: "'a db_scheme runtime \<Rightarrow> Message \<Rightarrow> nat list \<Rightarrow> gerror option \<Rightarrow> 'a db_scheme \<Rightarrow> run_log \<Rightarrow>
    gerror option \<times> 'a db_scheme \<times> run_log" where
  "publish_attempts rt msg [] lastErr w l = (lastErr, w, l)"
| "publish_attempts rt msg (attempt # rest) lastErr w l =
    (case (if attempt > 0 then sleepCtx (rt_ctx rt) (500 * Millisecond) w else (None, w)) of
       (Some e, w1) \<Rightarrow> (Some e, w1, l)
     | (None, w1) \<Rightarrow> (case rt_Publish rt msg w1 of
         (Some e, w2) \<Rightarrow> publish_attempts rt msg rest (Some e) w2 (attempted msg (Some e) l)
       | (None, w2) \<Rightarrow> (None, w2, attempted msg None l)))"

definition publishWithRetry :: "'a db_scheme runtime \<Rightarrow> Message \<Rightarrow> 'a db_scheme \<Rightarrow> run_log \<Rightarrow>
    gerror option \<times> 'a db_scheme \<times> run_log" where
  "publishWithRetry rt msg w l = publish_attempts rt msg [0 ..< 3] None w l"

definition mustMarshal :: "obs_codec \<Rightarrow> Observation \<Rightarrow> string" where
  "mustMarshal oc ob = (case ToJSON oc (Some ob) of Inr b \<Rightarrow> b | Inl e \<Rightarrow> [])"

definition output_message :: "obs_codec \<Rightarrow> string \<Rightarrow> string \<Rightarrow> Observation \<Rightarrow> Message" where
  "output_message oc topic sid ob = \<lparr>m_Topic = topic, m_Partition = 0, m_Offset = 0, m_Key = sid,
     m_Value = mustMarshal oc (ob\<lparr>ob_SessionId := sid\<rparr>), m_Headers = (\<lambda>k. None), m_Time = 0\<rparr>"

text \<open>An output that cannot be published is logged and the loop goes on.\<close>

fun publish_outputs :: "'a db_scheme runtime \<Rightarrow> string \<Rightarrow> string \<Rightarrow> Observation list \<Rightarrow> 'a db_scheme \<Rightarrow> run_log \<Rightarrow>
    'a db_scheme \<times> run_log" where
  "publish_outputs rt topic sid [] w l = (w, l)"
| "publish_outputs rt topic sid (ob # obs) w l =
    (case publishWithRetry rt (output_message (rt_codec rt) topic sid ob) w l of
       (e, w1, l1) \<Rightarrow> publish_outputs rt topic sid obs w1 l1)"

section \<open>One message\<close>

text \<open>A command names a session and what to do; anything else falls through to the observations.\<close>

definition command_of :: "agent_lib \<Rightarrow> string \<Rightarrow> CommandMessage option" where
  "command_of lib data = (case Unmarshal (al_json lib) dec_command data empty_command of
     Inl e \<Rightarrow> None
   | Inr cmd \<Rightarrow> (if cm_SessionID cmd \<noteq> [] \<and> cm_Command cmd \<noteq> [] then Some cmd else None))"

definition trigger_observation :: "CommandMessage \<Rightarrow> Observation" where
  "trigger_observation cmd = draft_observation (cm_SessionID cmd) ''orchestrator'' EVIDENCE_TYPE_ALERT ''collect_command''
     (Fin 1) SEVERITY_INFO (cm_TargetService cmd) [] (command_json cmd) []"

text \<open>What is handed to the agent: a session and a batch, or nothing for a message that is skipped.\<close>

definition work_of :: "agent_lib \<Rightarrow> obs_codec \<Rightarrow> string \<Rightarrow> Message \<Rightarrow> (string \<times> Observation list) option" where
  "work_of lib oc name msg = (case command_of lib (m_Value msg) of
     Some cmd \<Rightarrow>
       (if cm_AgentKind cmd \<noteq> [] \<and> cm_AgentKind cmd \<noteq> name then None
        else Some (cm_SessionID cmd, [trigger_observation cmd]))
   | None \<Rightarrow> (case oc_FromJSON oc (m_Value msg) of
       Inl e \<Rightarrow> None
     | Inr ob \<Rightarrow>
        (if ob_Source ob = name then None
         else if ob_SessionId ob = [] then None
         else Some (ob_SessionId ob, [ob]))))"

definition Runner_processMessage :: "'a db_scheme runtime \<Rightarrow> 'a db_scheme Agent \<Rightarrow> Message \<Rightarrow> 'a db_scheme \<Rightarrow> run_log \<Rightarrow>
    'a db_scheme \<times> run_log" where
  "Runner_processMessage rt ag msg w l =
    (case work_of (rt_lib rt) (rt_codec rt) (ag_Name ag) msg of
       None \<Rightarrow> (w, MarkAsProcessed msg l)
     | Some (sid, batch) \<Rightarrow> (case ag_Handle ag sid batch w of
         (Inl e, w1) \<Rightarrow> (w1, MarkAsProcessed msg l)
       | (Inr outputs, w1) \<Rightarrow> (case publish_outputs rt (ag_OutputTopic ag) sid outputs w1 l of
           (w2, l2) \<Rightarrow> (w2, MarkAsProcessed msg l2))))"

section \<open>The loop\<close>

text \<open>An iteration first polls for the channel, at most ten times with a pause that the context may cut short,
  then waits for the context or the channel.  The loop is described on the outcomes of its iterations.\<close>

datatype poll = NoChannel | PauseCancelled | HasChannel

datatype select = CtxDone | ChannelClosed | Received Message

record iteration =
  it_polls :: "poll list"
  it_select :: select

fun await_channel :: "nat \<Rightarrow> poll list \<Rightarrow> bool" where
  "await_channel (Suc n) (HasChannel # ps) = True"
| "await_channel (Suc n) (NoChannel # ps) = await_channel n ps"
| "await_channel n ps = False"

fun Runner_loop :: "'a db_scheme runtime \<Rightarrow> 'a db_scheme Agent \<Rightarrow> iteration list \<Rightarrow> 'a db_scheme \<Rightarrow> run_log \<Rightarrow>
    'a db_scheme \<times> run_log" where
  "Runner_loop rt ag [] w l = (w, l)"
| "Runner_loop rt ag (it # its) w l =
    (if \<not> await_channel 10 (it_polls it) then (w, l)
     else (case it_select it of
         CtxDone \<Rightarrow> (w, l)
       | ChannelClosed \<Rightarrow> (w, l)
       | Received msg \<Rightarrow> (case Runner_processMessage rt ag msg w l of (w1, l1) \<Rightarrow> Runner_loop rt ag its w1 l1)))"

definition Runner_Run :: "'a db_scheme runtime \<Rightarrow> 'a db_scheme Agent \<Rightarrow> (string \<Rightarrow> string \<Rightarrow> gerror option) \<Rightarrow> iteration list \<Rightarrow>
    'a db_scheme \<Rightarrow> run_log \<Rightarrow> gerror option \<times> 'a db_scheme \<times> run_log" where
  "Runner_Run rt ag subscribe its w l = (case subscribe (ag_InputTopic ag) (ag_Name ag) of
     Some e \<Rightarrow> (Some (wrap (''agent '' @ ag_Name ag @ '': subscribe to '' @ ag_InputTopic ag @ '': '') e), w, l)
   | None \<Rightarrow> (None, Runner_loop rt ag its w l))"

section \<open>Attempts to publish\<close>

text \<open>The attempts for one message: one to three, all but the last failed, and with a context that does not end
  the last one succeeded or there were three.\<close>

definition attempts_for :: "time option \<times> gerror \<Rightarrow> Message \<Rightarrow> (Message \<times> gerror option) list \<Rightarrow> bool" where
  "attempts_for cx msg as \<longleftrightarrow> 1 \<le> length as \<and> length as \<le> 3 \<and> map fst as = replicate (length as) msg \<and>
     None \<notin> snd ` set (butlast as) \<and> (fst cx = None \<longrightarrow> snd (last as) = None \<or> length as = 3)"

lemma attempted_attempts [simp]:
  "rl_attempts (attempted msg e l) = rl_attempts l @ [(msg, e)]" "rl_processed (attempted msg e l) = rl_processed l"
  by (simp_all add: attempted_def)

lemma publish_attempts_tail:
  assumes "publish_attempts rt msg ns le w l = (e, w1, l1)"
  shows "\<exists>as. rl_attempts l1 = rl_attempts l @ as \<and> rl_processed l1 = rl_processed l \<and> length as \<le> length ns \<and>
    map fst as = replicate (length as) msg \<and> None \<notin> snd ` set (butlast as) \<and>
    (fst (rt_ctx rt) = None \<longrightarrow> (as \<noteq> [] \<and> snd (last as) = None) \<or> length as = length ns)"
  using assms
proof (induction ns arbitrary: le w l)
  case (Cons n ns)
  obtain e1 w2 where 1: "(if n > 0 then sleepCtx (rt_ctx rt) (500 * Millisecond) w else (None, w)) = (e1, w2)" by force
  show ?case
  proof (cases e1)
    case (Some x)
    moreover from this 1 have "fst (rt_ctx rt) \<noteq> None" by (auto simp: sleepCtx_def split: if_splits option.splits)
    ultimately show ?thesis using Cons.prems 1 by (intro exI [of _ "[]"]) simp
  next
    case None
    note n1 = this
    obtain e2 w3 where 2: "rt_Publish rt msg w2 = (e2, w3)" by force
    show ?thesis
    proof (cases e2)
      case None
      with Cons.prems 1 2 n1 show ?thesis by (intro exI [of _ "[(msg, None)]"]) auto
    next
      case (Some x)
      with Cons.prems 1 2 n1 have "publish_attempts rt msg ns (Some x) w3 (attempted msg (Some x) l) = (e, w1, l1)" by simp
      from Cons.IH [OF this] obtain as where "rl_attempts l1 = rl_attempts l @ (msg, Some x) # as" "rl_processed l1 = rl_processed l"
        "length as \<le> length ns" "map fst as = replicate (length as) msg" "None \<notin> snd ` set (butlast as)"
        "fst (rt_ctx rt) = None \<longrightarrow> (as \<noteq> [] \<and> snd (last as) = None) \<or> length as = length ns" by auto
      then show ?thesis by (intro exI [of _ "(msg, Some x) # as"]) auto
    qed
  qed
qed simp

lemma publishWithRetry_attempts:
  assumes "publishWithRetry rt msg w l = (e, w1, l1)"
  shows "\<exists>as. rl_attempts l1 = rl_attempts l @ as \<and> rl_processed l1 = rl_processed l \<and> attempts_for (rt_ctx rt) msg as"
proof -
  obtain e0 w0 where 0: "rt_Publish rt msg w = (e0, w0)" by force
  have upt: "[0 ..< 3] = 0 # [1 ..< 3 :: nat]" by (simp add: upt_conv_Cons)
  show ?thesis
  proof (cases e0)
    case None
    with assms 0 show ?thesis unfolding publishWithRetry_def upt
      by (intro exI [of _ "[(msg, None)]"]) (auto simp: attempts_for_def)
  next
    case (Some x)
    with assms 0 have "publish_attempts rt msg [1 ..< 3] (Some x) w0 (attempted msg (Some x) l) = (e, w1, l1)"
      unfolding publishWithRetry_def upt by simp
    from publish_attempts_tail [OF this] obtain as where "rl_attempts l1 = rl_attempts l @ (msg, Some x) # as"
      "rl_processed l1 = rl_processed l" "length as \<le> 2" "map fst as = replicate (length as) msg" "None \<notin> snd ` set (butlast as)"
      "fst (rt_ctx rt) = None \<longrightarrow> (as \<noteq> [] \<and> snd (last as) = None) \<or> length as = 2" by auto
    then show ?thesis by (intro exI [of _ "(msg, Some x) # as"]) (auto simp: attempts_for_def)
  qed
qed

lemma publish_outputs_attempts:
  assumes "publish_outputs rt topic sid obs w l = (w1, l1)"
  shows "\<exists>ass. rl_attempts l1 = rl_attempts l @ concat ass \<and> rl_processed l1 = rl_processed l \<and>
    list_all2 (\<lambda>ob. attempts_for (rt_ctx rt) (output_message (rt_codec rt) topic sid ob)) obs ass"
  using assms
proof (induction obs arbitrary: w l)
  case (Cons ob obs)
  obtain e w2 l2 where 1: "publishWithRetry rt (output_message (rt_codec rt) topic sid ob) w l = (e, w2, l2)"
    using prod_cases3 by blast
  with Cons.prems have 2: "publish_outputs rt topic sid obs w2 l2 = (w1, l1)" by simp
  from publishWithRetry_attempts [OF 1] obtain as where as: "rl_attempts l2 = rl_attempts l @ as"
    "rl_processed l2 = rl_processed l" "attempts_for (rt_ctx rt) (output_message (rt_codec rt) topic sid ob) as" by blast
  from Cons.IH [OF 2] obtain ass where "rl_attempts l1 = rl_attempts l2 @ concat ass" "rl_processed l1 = rl_processed l2"
    "list_all2 (\<lambda>ob. attempts_for (rt_ctx rt) (output_message (rt_codec rt) topic sid ob)) obs ass" by blast
  with as show ?case by (intro exI [of _ "as # ass"]) simp
qed simp

section \<open>Properties\<close>

lemma Mark_log [simp]:
  "rl_attempts (MarkAsProcessed msg l) = rl_attempts l" "rl_processed (MarkAsProcessed msg l) = rl_processed l @ [msg]"
  by (simp_all add: MarkAsProcessed_def)

lemma processMessage_log:
  assumes "Runner_processMessage rt ag msg w l = (w', l')"
  shows "rl_processed l' = rl_processed l @ [msg] \<and>
    (case work_of (rt_lib rt) (rt_codec rt) (ag_Name ag) msg of
       None \<Rightarrow> w' = w \<and> rl_attempts l' = rl_attempts l
     | Some (sid, batch) \<Rightarrow> (case fst (ag_Handle ag sid batch w) of
         Inl e \<Rightarrow> rl_attempts l' = rl_attempts l
       | Inr obs \<Rightarrow> \<exists>ass. rl_attempts l' = rl_attempts l @ concat ass \<and>
           list_all2 (\<lambda>ob. attempts_for (rt_ctx rt) (output_message (rt_codec rt) (ag_OutputTopic ag) sid ob)) obs ass))"
proof (cases "work_of (rt_lib rt) (rt_codec rt) (ag_Name ag) msg")
  case None
  with assms show ?thesis by (auto simp: Runner_processMessage_def)
next
  case (Some p)
  obtain sid batch where p: "p = (sid, batch)" by force
  obtain r w1 where 1: "ag_Handle ag sid batch w = (r, w1)" by force
  show ?thesis
  proof (cases r)
    case (Inl e)
    with assms Some p 1 show ?thesis by (auto simp: Runner_processMessage_def)
  next
    case (Inr obs)
    obtain w2 l2 where 2: "publish_outputs rt (ag_OutputTopic ag) sid obs w1 l = (w2, l2)" by force
    with assms Some p 1 Inr have "l' = MarkAsProcessed msg l2" by (simp add: Runner_processMessage_def)
    with publish_outputs_attempts [OF 2] Some p 1 Inr show ?thesis by auto
  qed
qed

text \<open>The messages received before the loop ends.\<close>

fun received :: "iteration list \<Rightarrow> Message list" where
  "received [] = []"
| "received (it # its) = (if \<not> await_channel 10 (it_polls it) then []
     else (case it_select it of Received msg \<Rightarrow> msg # received its | _ \<Rightarrow> []))"

lemma loop_received:
  assumes "Runner_loop rt ag its w l = (w', l')"
  shows "rl_processed l' = rl_processed l @ received its"
  using assms
proof (induction its arbitrary: w l)
  case (Cons it its)
  show ?case
  proof (cases "await_channel 10 (it_polls it)")
    case True
    show ?thesis
    proof (cases "it_select it")
      case (Received msg)
      obtain w1 l1 where 1: "Runner_processMessage rt ag msg w l = (w1, l1)" by force
      with Cons.prems True Received have "Runner_loop rt ag its w1 l1 = (w', l')" by simp
      from Cons.IH [OF this] processMessage_log [OF 1] True Received show ?thesis by simp
    qed (use Cons.prems True in simp_all)
  qed (use Cons.prems in simp)
qed simp

text \<open>C22 (runner_spec): the runner marks every message it receives as processed, once and in order, also when it
  skips it, when the agent fails or when nothing could be published.  A skipped message has no effect.  The
  outputs of the agent are published in order under the session of the message; each is attempted
  once to three times, again only after a failure, and given up only after three failures or when the context ends.\<close>

theorem runner_spec:
  assumes "Runner_Run rt ag subscribe its w l = (None, w', l')"
    and "Runner_processMessage rt ag msg w l = (w1, l1)"
  shows "rl_processed l' = rl_processed l @ received its \<and> rl_processed l1 = rl_processed l @ [msg] \<and>
    (case work_of (rt_lib rt) (rt_codec rt) (ag_Name ag) msg of
       None \<Rightarrow> w1 = w \<and> rl_attempts l1 = rl_attempts l
     | Some (sid, batch) \<Rightarrow> (case fst (ag_Handle ag sid batch w) of
         Inl e \<Rightarrow> rl_attempts l1 = rl_attempts l
       | Inr obs \<Rightarrow> \<exists>ass. rl_attempts l1 = rl_attempts l @ concat ass \<and>
           list_all2 (\<lambda>ob. attempts_for (rt_ctx rt) (output_message (rt_codec rt) (ag_OutputTopic ag) sid ob)) obs ass))"
  using assms(1) loop_received processMessage_log [OF assms(2)]
  by (auto simp: Runner_Run_def split: option.splits)

definition sample_message :: "string \<Rightarrow> Message" where
  "sample_message v = \<lparr>m_Topic = TopicCommandsRCA, m_Partition = 0, m_Offset = 7, m_Key = ''k'', m_Value = v,
     m_Headers = (\<lambda>k. None), m_Time = 0\<rparr>"

text \<open>A producer that fails, and a codec that rejects everything.\<close>

definition sample_runtime :: "(string \<Rightarrow> json result) \<Rightarrow> (string \<Rightarrow> Observation result) \<Rightarrow> 'a db_scheme runtime" where
  "sample_runtime parse from = \<lparr>rt_lib = sample_agent_lib parse,
     rt_codec = \<lparr>oc_ToJSON = (\<lambda>ob. Inr ''o''), oc_FromJSON = from, oc_Marshal = (\<lambda>ob. Inr ''o''), oc_Unmarshal = from\<rparr>,
     rt_Publish = (\<lambda>m w. (Some (ErrorString ''down''), w)), rt_ctx = (None, Sentinel CtxCanceled)\<rparr>"

theorem runner_spec_witness:
  "\<forall>w :: db. \<exists>ag w' l'. agent_of (sample_agent_lib (\<lambda>s. Inl (ErrorString s))) ''agent-log'' = Some ag \<and>
     Runner_Run (sample_runtime (\<lambda>s. Inl (ErrorString s)) (\<lambda>s. Inl (ErrorString s))) ag (\<lambda>t g. None)
       [\<lparr>it_polls = [NoChannel, HasChannel], it_select = Received (sample_message ''garbage'')\<rparr>] w
       \<lparr>rl_processed = [], rl_attempts = []\<rparr> = (None, w', l') \<and> rl_processed l' = [sample_message ''garbage'']"
proof
  fix w :: db
  let ?p = "\<lambda>s. Inl (ErrorString s)"
  let ?rt = "sample_runtime ?p ?p :: db runtime"
  let ?msg = "sample_message ''garbage''"
  let ?its = "[\<lparr>it_polls = [NoChannel, HasChannel], it_select = Received ?msg\<rparr>]"
  let ?l = "\<lparr>rl_processed = [], rl_attempts = []\<rparr>"
  obtain ag where ag: "agent_of (sample_agent_lib ?p) ''agent-log'' = Some (ag :: db Agent)" by (simp add: agent_of_def)
  obtain w' l' where 1: "Runner_Run ?rt ag (\<lambda>t g. None) ?its w ?l = (None, w', l')" by (simp add: Runner_Run_def) (metis surj_pair)
  obtain w1 l1 where 2: "Runner_processMessage ?rt ag ?msg w ?l = (w1, l1)" by force
  have "received ?its = [?msg]" by (simp add: eval_nat_numeral)
  with runner_spec [OF 1 2] have "rl_processed l' = [?msg]" by simp
  with ag 1 show "\<exists>ag w' l'. agent_of (sample_agent_lib ?p) ''agent-log'' = Some ag \<and>
     Runner_Run (sample_runtime ?p ?p) ag (\<lambda>t g. None) ?its w ?l = (None, w', l') \<and> rl_processed l' = [?msg]" by blast
qed

section \<open>Agents that read each other\<close>

lemma stamped_same: "ob_SessionId ob = sid \<Longrightarrow> ob\<lparr>ob_SessionId := sid\<rparr> = ob"
  by simp

lemma output_message_value:
  "ob_SessionId ob = sid \<Longrightarrow> oc_ToJSON oc ob = Inr t \<Longrightarrow> m_Value (output_message oc topic sid ob) = t"
  by (simp add: output_message_def mustMarshal_def ToJSON_def stamped_same)

text \<open>What an agent publishes is work for every other agent that reads it, as this one
  observation and under its session, and never work for the agent itself, whose name it carries: an agent that
  reads its own output topic does not loop.  The codec is assumed to be faithful on the observation and its
  text not to be a command.\<close>

theorem outputs_reach_others:
  assumes "(name, ty, handle) \<in> {(''agent-log'', EVIDENCE_TYPE_LOG, LogAgent_Handle lib),
      (''agent-metric'', EVIDENCE_TYPE_METRIC, MetricAgent_Handle lib), (''agent-trace'', EVIDENCE_TYPE_TRACE, TraceAgent_Handle lib),
      (''agent-rca'', EVIDENCE_TYPE_RCA_RESULT, RCAgent_Handle lib chat), (''agent-fix'', EVIDENCE_TYPE_FIX_ACTION, FixAgent_Handle lib a)}"
    and "sid \<noteq> []" and "handle sid inputs w = (Inr obs, w')" and "ob \<in> set obs"
    and "oc_ToJSON oc ob = Inr t" and "oc_FromJSON oc t = Inr ob" and "command_of lib t = None"
    and "m_Value msg = m_Value (output_message oc topic sid ob)"
  shows "work_of lib oc reader msg = (if reader = name then None else Some (sid, [ob]))"
proof -
  have e: "ob_Source ob = name \<and> ob_SessionId ob = sid" using agent_emits [OF assms(1-4)] by blast
  then have "m_Value msg = t" using output_message_value assms(5,8) by metis
  with e assms(2,6,7) show ?thesis by (auto simp: work_of_def)
qed

theorem outputs_reach_others_witness:
  "\<forall>w :: db. \<exists>ob w'. let lib = sample_agent_lib (\<lambda>s. Inl (ErrorString s)); oc = rt_codec (sample_runtime (\<lambda>s. Inl (ErrorString s)) (\<lambda>s. Inr ob) :: db runtime)
     in LogAgent_Handle lib ''s'' [sample_command] w = (Inr [ob], w') \<and>
       work_of lib oc ''agent-log'' (output_message oc TopicObservationsLog ''s'' ob) = None \<and>
       work_of lib oc ''agent-rca'' (output_message oc TopicObservationsLog ''s'' ob) = Some (''s'', [ob])"
proof
  fix w :: db
  let ?lib = "sample_agent_lib (\<lambda>s. Inl (ErrorString s))"
  obtain ob w' where 1: "LogAgent_Handle ?lib ''s'' [sample_command] w = (Inr [ob], w')" using sample_log_emits by blast
  let ?oc = "rt_codec (sample_runtime (\<lambda>s. Inl (ErrorString s)) (\<lambda>s. Inr ob) :: db runtime)"
  have c: "oc_ToJSON ?oc ob = Inr ''o''" "oc_FromJSON ?oc ''o'' = Inr ob" "command_of ?lib ''o'' = None"
    by (simp_all add: sample_runtime_def command_of_def Unmarshal_def sample_agent_lib_def)
  note * = outputs_reach_others [of "''agent-log''" EVIDENCE_TYPE_LOG "LogAgent_Handle ?lib" ?lib None undefined, OF _ _ 1 _ c refl]
  have "work_of ?lib ?oc ''agent-log'' (output_message ?oc TopicObservationsLog ''s'' ob) = None"
    "work_of ?lib ?oc ''agent-rca'' (output_message ?oc TopicObservationsLog ''s'' ob) = Some (''s'', [ob])"
    by (simp_all add: *)
  with 1 show "\<exists>ob w'. let lib = ?lib; oc = rt_codec (sample_runtime (\<lambda>s. Inl (ErrorString s)) (\<lambda>s. Inr ob) :: db runtime)
     in LogAgent_Handle lib ''s'' [sample_command] w = (Inr [ob], w') \<and>
       work_of lib oc ''agent-log'' (output_message oc TopicObservationsLog ''s'' ob) = None \<and>
       work_of lib oc ''agent-rca'' (output_message oc TopicObservationsLog ''s'' ob) = Some (''s'', [ob])" unfolding Let_def by blast
qed

section \<open>From an analyze command to a fix\<close>

lemma command_json_inj: "command_of lib t = Some cmd \<Longrightarrow> cm_SessionID cmd \<noteq> [] \<and> cm_Command cmd \<noteq> []"
  by (auto simp: command_of_def split: sum.splits if_splits)

lemma trigger_analyze:
  assumes "jl_Parse (al_json lib) (json_text (command_json cmd)) = Inr (command_json cmd)" and "cm_Command cmd = ''analyze''"
  shows "analyze_command lib [trigger_observation cmd] = Some cmd"
  using assms by (simp add: analyze_command_def trigger_observation_def draft_observation_def Unmarshal_def dec_command_json)

text \<open>The root cause agent without a language model answers the command with the placeholder result.\<close>

lemma analyze_answer:
  assumes "lib_ok lib" and "analyze_command lib [i] = Some cmd" and "sid \<noteq> []"
  shows "\<exists>ob w1. RCAgent_Handle lib None sid [i] w = (Inr [ob], w1) \<and> ob_Type ob = EVIDENCE_TYPE_RCA_RESULT \<and>
    ob_Source ob = ''agent-rca'' \<and> ob_SessionId ob = sid \<and> ob_Severity ob \<noteq> SEVERITY_UNSPECIFIED \<and> in_unit (ob_Confidence ob) \<and>
    ob_DetailJson ob = json_text (rca_output_json (al_json lib) (heuristicRFACall (cm_TargetService cmd))) \<and>
    ob_TargetService ob = cm_TargetService cmd"
proof -
  let ?r = "heuristicRFACall (cm_TargetService cmd)"
  have r: "in_unit (ro_Confidence ?r)" "SEVERITY_INFO \<noteq> SEVERITY_UNSPECIFIED" by (simp_all add: heuristicRFACall_def)
  obtain ob w1 where 1: "emit_rca lib (rca_observation_of lib sid ?r SEVERITY_INFO (cm_TargetService cmd) (ob_Labels i)) w = (Inr [ob], w1)"
    "ob_DetailJson ob = json_text (rca_output_json (al_json lib) ?r)" "ob_TargetService ob = cm_TargetService cmd"
    using emit_rca_ok [OF assms(1,3) r] by blast
  then have 2: "RCAgent_Handle lib None sid [i] w = (Inr [ob], w1)"
    using assms(2) by (simp add: RCAgent_Handle_def runRCA_def rca_fallback_def)
  have "valid_observation ob \<and> ob_Source ob = ''agent-rca'' \<and> ob_Type ob = EVIDENCE_TYPE_RCA_RESULT \<and> ob_SessionId ob = sid"
    using rca_agent.emits [OF assms(3) 2] by simp
  with 1 2 show ?thesis by (auto simp: valid_observation_def)
qed

text \<open>The fix agent as \<open>Run\<close> builds it answers any root cause of an unknown pattern with a restart of all pods.\<close>

definition restart_all_pods :: FixStep where
  "restart_all_pods = default_step ''restart_pod'' ''*'' ''Restart target service as fallback mitigation''
     ''Monitor service health after restart''"

text \<open>What the fix process proposes for a session and a service.\<close>

definition proposes_restart :: "string \<Rightarrow> string \<Rightarrow> Observation \<Rightarrow> bool" where
  "proposes_restart sid svc fo \<longleftrightarrow> ob_Type fo = EVIDENCE_TYPE_FIX_ACTION \<and> ob_Source fo = ''agent-fix'' \<and>
     ob_SessionId fo = sid \<and> ob_SubType fo = ''restart_pod'' \<and> ob_TargetService fo = svc \<and>
     ob_DetailJson fo = json_text (fix_detail_json restart_all_pods [])"

text \<open>What the root cause process publishes for an analyze command: the result that it knows nothing.\<close>

definition unknown_cause :: "agent_lib \<Rightarrow> CommandMessage \<Rightarrow> Observation \<Rightarrow> bool" where
  "unknown_cause lib cmd ob \<longleftrightarrow> ob_Type ob = EVIDENCE_TYPE_RCA_RESULT \<and> ob_Source ob = ''agent-rca'' \<and>
     ob_SessionId ob = cm_SessionID cmd \<and> ob_TargetService ob = cm_TargetService cmd \<and>
     (\<exists>r. Unmarshal (al_json lib) (dec_rca_output (al_json lib)) (ob_DetailJson ob) empty_rca_output = Inr r \<and>
       ro_RootCausePattern r = ''unknown'' \<and> ro_Confidence r = f030)"

lemma unknown_answer:
  assumes "lib_ok lib" and "uuid_Parse (al_uuid lib) sid = Inr u" and "sid \<noteq> []" and "ob_Type rca = EVIDENCE_TYPE_RCA_RESULT"
    and "ob_Severity rca \<noteq> SEVERITY_UNSPECIFIED" and "in_unit (ob_Confidence rca)"
    and "Unmarshal (al_json lib) (dec_rca_output (al_json lib)) (ob_DetailJson rca) empty_rca_output = Inr r"
    and "ro_RootCausePattern r = ''unknown''"
  shows "\<exists>fo w1. FixAgent_Handle lib (NewFixAgent False None) sid [rca] w = (Inr [fo], w1) \<and>
    proposes_restart sid (ob_TargetService rca) fo"
proof -
  let ?a = "NewFixAgent False None :: 'a db_scheme FixAgent"
  let ?s = restart_all_pods
  let ?d = "fix_draft lib sid rca ?s uuid_Nil []"
  have p: "plan_steps lib ?a rca r w = ([?s], w)"
    using assms(8) by (simp add: plan_steps_def searchKnowledgeBase_def generateFixStepsWithLLM_def NewFixAgent_def defaultFixSteps_def
        restart_all_pods_def)
  have ps: "persist_step ?a (step_action u 0 ?s) w = (uuid_Nil, [], w)" by (simp add: persist_step_def NewFixAgent_def step_action_def)
  obtain fo w1 where f: "fill_system_fields (al_uuid lib) ?d w = (fo, w1)" by force
  have "acceptable ?d" using assms(3,5,6) by (simp add: acceptable_def fix_draft_def draft_observation_def)
  with f assms(1) have n: "Observation_New (al_uuid lib) (Some ?d) w = (Inr fo, w1)" by (simp add: New_ok lib_ok_def)
  have "FixAgent_Handle lib ?a sid [rca] w = (Inr [fo], w1)"
    using assms(2,4,7) p ps n by (simp add: FixAgent_Handle_def)
  moreover have "proposes_restart sid (ob_TargetService rca) fo"
    using fill_frame [OF f]
    by (simp add: proposes_restart_def fix_draft_def draft_observation_def restart_all_pods_def default_step_def)
  ultimately show ?thesis by blast
qed

lemma processMessage_single:
  assumes "Runner_processMessage rt ag msg w l = (w', l')"
    and "work_of (rt_lib rt) (rt_codec rt) (ag_Name ag) msg = Some (sid, batch)" and "ag_Handle ag sid batch w = (Inr [ob], w1)"
  shows "\<exists>as. rl_attempts l' = rl_attempts l @ as \<and> attempts_for (rt_ctx rt) (output_message (rt_codec rt) (ag_OutputTopic ag) sid ob) as"
  using processMessage_log [OF assms(1)] assms(2,3) by (auto simp: list_all2_Cons1)

text \<open>C21 (analysis_reaches_fix): the agent processes as \<open>Run\<close> wires them, without language model and database.
  An analyze command makes the root cause process publish one observation on its topic, which is the input
  topic of the fix process: an RCA_RESULT of the session and the service of the command, whose root cause has
  the pattern \<open>unknown\<close> and the confidence 0.3.  Whenever the fix process receives that observation, it
  publishes one FIX_ACTION of the session and the service on the topic of fixes, which proposes to restart the
  pods \<open>*\<close>, that is all of them.  Each publication takes one to three attempts with the same message.\<close>

theorem analysis_reaches_fix:
  assumes "lib_ok lib" and "rt_lib rt = lib" and "agent_of lib ''agent-rca'' = Some rca" and "agent_of lib ''agent-fix'' = Some fixer"
    and "command_of lib (m_Value msg) = Some cmd" and "cm_Command cmd = ''analyze''" and "cm_AgentKind cmd = ''agent-rca''"
    and "uuid_Parse (al_uuid lib) (cm_SessionID cmd) = Inr u"
    and "jl_Parse (al_json lib) (json_text (command_json cmd)) = Inr (command_json cmd)"
    and "r = heuristicRFACall (cm_TargetService cmd)"
    and "jl_Parse (al_json lib) (json_text (rca_output_json (al_json lib) r)) = Inr (rca_output_json (al_json lib) r)"
    and "jl_ParseFloat (al_json lib) (jl_FormatFloat (al_json lib) (ro_Confidence r)) = Some (ro_Confidence r)"
    and "Runner_processMessage rt rca msg w l = (w1, l1)"
  shows "ag_OutputTopic rca = ag_InputTopic fixer \<and>
    (\<exists>ob as. unknown_cause lib cmd ob \<and> rl_attempts l1 = rl_attempts l @ as \<and>
       attempts_for (rt_ctx rt) (output_message (rt_codec rt) (ag_InputTopic fixer) (cm_SessionID cmd) ob) as \<and>
       (\<forall>m w2 l2 w3 l3. command_of lib (m_Value m) = None \<and> oc_FromJSON (rt_codec rt) (m_Value m) = Inr ob \<and>
          Runner_processMessage rt fixer m w2 l2 = (w3, l3) \<longrightarrow>
          (\<exists>fo fas. proposes_restart (cm_SessionID cmd) (cm_TargetService cmd) fo \<and> rl_attempts l3 = rl_attempts l2 @ fas \<and>
             attempts_for (rt_ctx rt) (output_message (rt_codec rt) TopicObservationsFix (cm_SessionID cmd) fo) fas)))"
proof -
  let ?sid = "cm_SessionID cmd"
  have sid: "?sid \<noteq> []" using command_json_inj [OF assms(5)] by blast
  have rca: "ag_Name rca = ''agent-rca''" "ag_OutputTopic rca = TopicObservationsRCA" "ag_Handle rca = RCAgent_Handle lib None"
    using assms(3) by (auto simp: agent_of_def)
  have fixer: "ag_Name fixer = ''agent-fix''" "ag_InputTopic fixer = TopicObservationsRCA" "ag_OutputTopic fixer = TopicObservationsFix"
    "ag_Handle fixer = FixAgent_Handle lib (NewFixAgent False None)" using assms(4) by (auto simp: agent_of_def)
  obtain ob wr where ob: "RCAgent_Handle lib None ?sid [trigger_observation cmd] w = (Inr [ob], wr)"
    "ob_Type ob = EVIDENCE_TYPE_RCA_RESULT" "ob_Source ob = ''agent-rca''" "ob_SessionId ob = ?sid"
    "ob_Severity ob \<noteq> SEVERITY_UNSPECIFIED" "in_unit (ob_Confidence ob)" "ob_DetailJson ob = json_text (rca_output_json (al_json lib) r)"
    "ob_TargetService ob = cm_TargetService cmd"
    using analyze_answer [OF assms(1) trigger_analyze [OF assms(9,6)] sid] unfolding assms(10) [symmetric] by blast
  have "work_of (rt_lib rt) (rt_codec rt) (ag_Name rca) msg = Some (?sid, [trigger_observation cmd])"
    using assms(2,5,7) rca(1) by (simp add: work_of_def)
  from processMessage_single [OF assms(13) this] ob(1) rca(3) obtain as where
    as: "rl_attempts l1 = rl_attempts l @ as" "attempts_for (rt_ctx rt) (output_message (rt_codec rt) (ag_OutputTopic rca) ?sid ob) as" by metis
  have dec: "Unmarshal (al_json lib) (dec_rca_output (al_json lib)) (ob_DetailJson ob) empty_rca_output = Inr r"
    using assms(11) dec_rca_output_json [OF assms(12)] by (simp add: ob(7) Unmarshal_def)
  have unk: "ro_RootCausePattern r = ''unknown''" "ro_Confidence r = f030" by (simp_all add: assms(10) heuristicRFACall_def)
  have cause: "unknown_cause lib cmd ob" using ob(2-4,8) dec unk by (simp add: unknown_cause_def)
  have "\<exists>fo fas. proposes_restart ?sid (cm_TargetService cmd) fo \<and> rl_attempts l3 = rl_attempts l2 @ fas \<and>
      attempts_for (rt_ctx rt) (output_message (rt_codec rt) TopicObservationsFix ?sid fo) fas"
    if m: "command_of lib (m_Value m) = None" "oc_FromJSON (rt_codec rt) (m_Value m) = Inr ob"
      and p: "Runner_processMessage rt fixer m w2 l2 = (w3, l3)" for m w2 l2 w3 l3
  proof -
    have wk: "work_of (rt_lib rt) (rt_codec rt) (ag_Name fixer) m = Some (?sid, [ob])"
      using m assms(2) ob(3,4) sid fixer(1) by (simp add: work_of_def)
    obtain fo w4 where f: "FixAgent_Handle lib (NewFixAgent False None) ?sid [ob] w2 = (Inr [fo], w4)"
      "proposes_restart ?sid (cm_TargetService cmd) fo"
      using unknown_answer [OF assms(1,8) sid ob(2,5,6) dec unk(1), of w2] unfolding ob(8) by blast
    from processMessage_single [OF p wk f(1) [folded fixer(4)]] f(2) show ?thesis unfolding fixer(3) by blast
  qed
  with as rca fixer cause show ?thesis by auto
qed

definition sample_analyze :: CommandMessage where
  "sample_analyze = \<lparr>cm_SessionID = ''i'', cm_TargetService = ''svc'', cm_Command = ''analyze'', cm_AgentKind = ''agent-rca''\<rparr>"

definition sample_rca_output_json :: json where
  "sample_rca_output_json = JObject [(''root_cause'', JString ''Analysis triggered for svc (heuristic mode, no LLM)''),
     (''root_cause_pattern'', JString ''unknown''), (''confidence'', JNumber ''1''),
     (''evidence_summary'', JString ''No LLM configured; using heuristic fallback'')]"

text \<open>A parser that knows the texts of the run.\<close>

definition sample_parse :: "string \<Rightarrow> json result" where
  "sample_parse s = (if s = ''cmd'' \<or> s = json_text (command_json sample_analyze) then Inr (command_json sample_analyze)
     else if s = json_text sample_rca_output_json then Inr sample_rca_output_json else Inl (ErrorString ''not json''))"

lemma sample_texts:
  "json_text sample_rca_output_json \<noteq> ''cmd''" "json_text sample_rca_output_json \<noteq> json_text (command_json sample_analyze)"
  by code_simp+

definition sample_analysis_lib :: agent_lib where
  "sample_analysis_lib = (sample_agent_lib sample_parse)\<lparr>al_json := (al_json (sample_agent_lib sample_parse))
     \<lparr>jl_ParseFloat := (\<lambda>s. Some f030)\<rparr>\<rparr>"

definition sample_analysis_runtime :: "'a db_scheme runtime" where
  "sample_analysis_runtime = (sample_runtime sample_parse (\<lambda>s. Inl (ErrorString s)))\<lparr>rt_lib := sample_analysis_lib\<rparr>"

theorem analysis_reaches_fix_witness:
  "\<forall>w :: db. \<exists>rca ob as w1 l1. let rt = sample_analysis_runtime in agent_of sample_analysis_lib ''agent-rca'' = Some rca \<and>
     unknown_cause sample_analysis_lib sample_analyze ob \<and>
     Runner_processMessage rt rca (sample_message ''cmd'') w \<lparr>rl_processed = [], rl_attempts = []\<rparr> = (w1, l1) \<and>
     rl_attempts l1 = as \<and> 1 \<le> length as \<and> map fst as = replicate (length as) (output_message (rt_codec rt) TopicObservationsRCA ''i'' ob)"
proof
  fix w :: db
  let ?lib = sample_analysis_lib
  let ?rt = "sample_analysis_runtime :: db runtime"
  let ?r = "heuristicRFACall (cm_TargetService sample_analyze)"
  let ?l = "\<lparr>rl_processed = [], rl_attempts = []\<rparr>"
  obtain rca where rca: "agent_of ?lib ''agent-rca'' = Some (rca :: db Agent)" by (simp add: agent_of_def)
  obtain fixer where fixer: "agent_of ?lib ''agent-fix'' = Some (fixer :: db Agent)" by (simp add: agent_of_def)
  have "\<exists>q. f030 = Fin q" unfolding f030_def by blast
  then have ok: "lib_ok ?lib" by (simp add: lib_ok_def sample_analysis_lib_def sample_agent_lib_def)
  have rt: "rt_lib ?rt = ?lib" by (simp add: sample_analysis_runtime_def)
  have c: "command_of ?lib (m_Value (sample_message ''cmd'')) = Some sample_analyze"
    by (simp add: command_of_def Unmarshal_def sample_message_def sample_analysis_lib_def sample_agent_lib_def sample_parse_def
        dec_command_json, simp add: sample_analyze_def)
  have k: "cm_Command sample_analyze = ''analyze''" "cm_AgentKind sample_analyze = ''agent-rca''"
    "uuid_Parse (al_uuid ?lib) (cm_SessionID sample_analyze) = Inr 1"
    by (simp_all add: sample_analysis_lib_def sample_agent_lib_def sample_analyze_def)
  have p: "jl_Parse (al_json ?lib) (json_text (command_json sample_analyze)) = Inr (command_json sample_analyze)"
    by (simp add: sample_analysis_lib_def sample_agent_lib_def sample_parse_def)
  have "rca_output_json (al_json ?lib) ?r = sample_rca_output_json"
    by (simp add: sample_analysis_lib_def sample_agent_lib_def rca_output_json_def sample_rca_output_json_def
        sample_analyze_def heuristicRFACall_def json_float_def)
  then have o: "jl_Parse (al_json ?lib) (json_text (rca_output_json (al_json ?lib) ?r)) = Inr (rca_output_json (al_json ?lib) ?r)"
    using sample_texts by (simp add: sample_analysis_lib_def sample_agent_lib_def sample_parse_def)
  have f: "jl_ParseFloat (al_json ?lib) (jl_FormatFloat (al_json ?lib) (ro_Confidence ?r)) = Some (ro_Confidence ?r)"
    by (simp add: sample_analysis_lib_def heuristicRFACall_def)
  obtain w1 l1 where 1: "Runner_processMessage ?rt rca (sample_message ''cmd'') w ?l = (w1, l1)" by force
  from analysis_reaches_fix [OF ok rt rca fixer c k p refl o f 1] obtain ob as where
    cause: "unknown_cause ?lib sample_analyze ob" and
    as: "rl_attempts l1 = as" "attempts_for (rt_ctx ?rt) (output_message (rt_codec ?rt) (ag_InputTopic fixer) (cm_SessionID sample_analyze) ob) as"
    by auto
  moreover have "ag_InputTopic fixer = TopicObservationsRCA" using fixer by (auto simp: agent_of_def)
  moreover have "cm_SessionID sample_analyze = ''i''" by (simp add: sample_analyze_def)
  ultimately have "attempts_for (rt_ctx ?rt) (output_message (rt_codec ?rt) TopicObservationsRCA ''i'' ob) as" by simp
  with as(1) 1 rca cause show "\<exists>rca ob as w1 l1. let rt = ?rt in agent_of ?lib ''agent-rca'' = Some rca \<and>
     unknown_cause ?lib sample_analyze ob \<and>
     Runner_processMessage rt rca (sample_message ''cmd'') w ?l = (w1, l1) \<and>
     rl_attempts l1 = as \<and> 1 \<le> length as \<and> map fst as = replicate (length as) (output_message (rt_codec rt) TopicObservationsRCA ''i'' ob)"
    unfolding attempts_for_def Let_def by blast
qed

end
