(* ===== verification/Channel.thy ===== *)
theory Channel imports Bus begin

text \<open>
  The channel consumer of the agents (\<open>internal/bus/consumer_channel.go\<close>): a goroutine runs the consumer loop
  with a handler that sends each message into a buffered channel, from which the runner receives.  The two
  run concurrently, so the model is a step relation.  There is one topic, as in the agents; messages
  are named by their offsets.  \<open>ch_Run\<close>, \<open>ch_Received\<close>, \<open>ch_Lost\<close> and \<open>ch_Restarts\<close> are history: what the
  current and all runs received, what was in the buffer when a process ended, and how many have ended.
\<close>

section \<open>State\<close>

text \<open>The handler is not running, sends a message, or has sent one whose offset is not committed yet.\<close>

datatype forwarding = Idle | Sending nat | Accepted nat

record ConsumerChannel =
  ch_Buffer :: "nat list"
  ch_Subscribed :: bool
  ch_Running :: bool
  ch_Forwarding :: forwarding
  ch_Backoff :: duration
  ch_CtxDone :: bool
  ch_SvcDone :: bool
  ch_ReaderClosed :: bool
  ch_Position :: nat
  ch_Committed :: nat
  ch_Start :: nat
  ch_Run :: "nat list"
  ch_Received :: "nat list"
  ch_Lost :: "nat set"
  ch_Restarts :: nat

definition NewConsumerChannel :: "(duration \<Rightarrow> string) \<Rightarrow> Config \<Rightarrow> ConsumerConfig \<Rightarrow> ReaderConfig result" where
  "NewConsumerChannel dur cfg cc = NewConsumer dur cfg cc"

definition channel_capacity :: nat where
  "channel_capacity = 100"

text \<open>\<open>Subscribe\<close> makes the channel and starts the goroutine; the reader starts at the committed offset.\<close>

definition Channel_Subscribe :: "ConsumerChannel \<Rightarrow> ConsumerChannel" where
  "Channel_Subscribe s = s\<lparr>ch_Buffer := [], ch_Subscribed := True, ch_Running := True, ch_Forwarding := Idle,
     ch_Backoff := 500 * Millisecond, ch_CtxDone := False, ch_SvcDone := False, ch_ReaderClosed := False, ch_Position := ch_Committed s,
     ch_Start := ch_Committed s, ch_Run := []\<rparr>"

definition first_run :: "nat \<Rightarrow> ConsumerChannel" where
  "first_run n = Channel_Subscribe \<lparr>ch_Buffer = [], ch_Subscribed = False, ch_Running = False, ch_Forwarding = Idle,
     ch_Backoff = 0, ch_CtxDone = False, ch_SvcDone = False, ch_ReaderClosed = False, ch_Position = 0, ch_Committed = n, ch_Start = 0,
     ch_Run = [], ch_Received = [], ch_Lost = {}, ch_Restarts = 0\<rparr>"

section \<open>Operations\<close>

text \<open>The end of the goroutine: the channel is closed and the subscription removed; what is buffered can still be received.\<close>

definition forwarder_exit :: "ConsumerChannel \<Rightarrow> ConsumerChannel" where
  "forwarder_exit s = s\<lparr>ch_Running := False, ch_Forwarding := Idle, ch_Subscribed := False\<rparr>"

definition next_backoff :: "duration \<Rightarrow> duration" where
  "next_backoff b = (if b < 10 * Second then b * 2 else b)"

text \<open>After an error of \<open>Consume\<close> that is neither a removed subscription nor a cancellation: wait and consume again.\<close>

definition consume_failed :: "ConsumerChannel \<Rightarrow> ConsumerChannel" where
  "consume_failed s = (if ch_CtxDone s \<or> ch_SvcDone s then forwarder_exit s
     else s\<lparr>ch_Forwarding := Idle, ch_Backoff := next_backoff (ch_Backoff s)\<rparr>)"

definition Messages :: "ConsumerChannel \<Rightarrow> nat list option" where
  "Messages s = (if ch_Subscribed s then Some (ch_Buffer s) else None)"

text \<open>\<open>Close\<close> cancels the service context if there is a subscription, and then closes the reader.\<close>

definition close_service :: "ConsumerChannel \<Rightarrow> ConsumerChannel" where
  "close_service s = (if ch_Subscribed s then s\<lparr>ch_SvcDone := True\<rparr> else s)"

definition close_reader :: "ConsumerChannel \<Rightarrow> ConsumerChannel" where
  "close_reader s = s\<lparr>ch_ReaderClosed := True\<rparr>"

definition Channel_Close :: "ConsumerChannel \<Rightarrow> ConsumerChannel" where
  "Channel_Close s = close_reader (close_service s)"

definition Channel_MarkAsProcessed :: "nat \<Rightarrow> ConsumerChannel \<Rightarrow> ConsumerChannel" where
  "Channel_MarkAsProcessed n s = s"

text \<open>The process ends and is started again: the buffer is gone.\<close>

definition restart :: "ConsumerChannel \<Rightarrow> ConsumerChannel" where
  "restart s = Channel_Subscribe (s\<lparr>ch_Lost := ch_Lost s \<union> set (ch_Buffer s), ch_Restarts := ch_Restarts s + 1\<rparr>)"

section \<open>Steps\<close>

inductive forwarder_step :: "ConsumerChannel \<Rightarrow> ConsumerChannel \<Rightarrow> bool" where
  Fetch: "ch_Running s \<Longrightarrow> ch_Forwarding s = Idle \<Longrightarrow> \<not> ch_ReaderClosed s \<Longrightarrow>
    forwarder_step s (s\<lparr>ch_Forwarding := Sending (ch_Position s), ch_Position := ch_Position s + 1\<rparr>)"
| Fetch_fails: "ch_Running s \<Longrightarrow> ch_Forwarding s = Idle \<Longrightarrow> forwarder_step s (consume_failed s)"
| Fetch_cancelled: "ch_Running s \<Longrightarrow> ch_Forwarding s = Idle \<Longrightarrow> ch_CtxDone s \<Longrightarrow> forwarder_step s (forwarder_exit s)"
| Removed: "ch_Running s \<Longrightarrow> ch_Forwarding s = Sending n \<Longrightarrow> \<not> ch_Subscribed s \<Longrightarrow> forwarder_step s (forwarder_exit s)"
| Send: "ch_Running s \<Longrightarrow> ch_Forwarding s = Sending n \<Longrightarrow> ch_Subscribed s \<Longrightarrow> length (ch_Buffer s) < channel_capacity \<Longrightarrow>
    forwarder_step s (s\<lparr>ch_Buffer := ch_Buffer s @ [n], ch_Forwarding := Accepted n\<rparr>)"
| Send_cancelled: "ch_Running s \<Longrightarrow> ch_Forwarding s = Sending n \<Longrightarrow> ch_Subscribed s \<Longrightarrow> ch_CtxDone s \<Longrightarrow>
    forwarder_step s (forwarder_exit s)"
| Commit: "ch_Running s \<Longrightarrow> ch_Forwarding s = Accepted n \<Longrightarrow>
    forwarder_step s (s\<lparr>ch_Forwarding := Idle, ch_Committed := n + 1\<rparr>)"
| Commit_fails: "ch_Running s \<Longrightarrow> ch_Forwarding s = Accepted n \<Longrightarrow> forwarder_step s (consume_failed s)"

inductive channel_step :: "ConsumerChannel \<Rightarrow> ConsumerChannel \<Rightarrow> bool" where
  Forward: "forwarder_step s t \<Longrightarrow> channel_step s t"
| Receive: "ch_Buffer s = n # ns \<Longrightarrow>
    channel_step s (s\<lparr>ch_Buffer := ns, ch_Run := ch_Run s @ [n], ch_Received := ch_Received s @ [n]\<rparr>)"
| Mark: "channel_step s (Channel_MarkAsProcessed n s)"
| Cancel: "channel_step s (s\<lparr>ch_CtxDone := True\<rparr>)"
| Close_service: "channel_step s (close_service s)"
| Close_reader: "channel_step s (close_reader s)"
| Restart: "channel_step s (restart s)"

definition channel_reachable :: "nat \<Rightarrow> ConsumerChannel \<Rightarrow> bool" where
  "channel_reachable n s \<longleftrightarrow> channel_step\<^sup>*\<^sup>* (first_run n) s"

inductive_cases forwarder_stepE: "forwarder_step s t"
inductive_cases channel_stepE: "channel_step s t"

lemmas channel_ops = Channel_Subscribe_def forwarder_exit_def consume_failed_def close_service_def close_reader_def
  Channel_MarkAsProcessed_def restart_def next_backoff_def

section \<open>Invariants\<close>

text \<open>What the current run has received and buffered are consecutive messages from where it started; the one being
  sent is next, and nothing that has not been sent is committed.\<close>

definition forwarding_at :: "nat \<Rightarrow> bool \<Rightarrow> forwarding \<Rightarrow> nat \<Rightarrow> bool" where
  "forwarding_at k running fw pos \<longleftrightarrow> (running \<longrightarrow> (case fw of Sending n \<Rightarrow> n = k \<and> pos = k + 1
     | Accepted n \<Rightarrow> n + 1 = k \<and> pos = k | Idle \<Rightarrow> pos = k))"

lemma forwarding_at_simps [simp]:
  "forwarding_at k False fw pos" "forwarding_at k True Idle pos \<longleftrightarrow> pos = k"
  "forwarding_at k True (Sending n) pos \<longleftrightarrow> n = k \<and> pos = k + 1" "forwarding_at k True (Accepted n) pos \<longleftrightarrow> n + 1 = k \<and> pos = k"
  by (simp_all add: forwarding_at_def)

definition run_consecutive :: "ConsumerChannel \<Rightarrow> bool" where
  "run_consecutive s \<longleftrightarrow> (\<exists>k. ch_Start s \<le> ch_Committed s \<and> ch_Committed s \<le> k \<and> ch_Run s @ ch_Buffer s = [ch_Start s ..< k] \<and>
     forwarding_at k (ch_Running s) (ch_Forwarding s) (ch_Position s))"

definition backoff_ok :: "duration \<Rightarrow> bool" where
  "backoff_ok b \<longleftrightarrow> b \<in> {500 * Millisecond, 1 * Second, 2 * Second, 4 * Second, 8 * Second, 16 * Second}"

definition accounted :: "nat \<Rightarrow> ConsumerChannel \<Rightarrow> bool" where
  "accounted m s \<longleftrightarrow> set (ch_Run s) \<subseteq> set (ch_Received s) \<and> m \<le> ch_Start s \<and>
     {m ..< ch_Start s} \<subseteq> set (ch_Received s) \<union> ch_Lost s \<and>
     finite (ch_Lost s) \<and> card (ch_Lost s) \<le> channel_capacity * ch_Restarts s"

definition channel_inv :: "nat \<Rightarrow> ConsumerChannel \<Rightarrow> bool" where
  "channel_inv m s \<longleftrightarrow> run_consecutive s \<and> length (ch_Buffer s) \<le> channel_capacity \<and> backoff_ok (ch_Backoff s) \<and> accounted m s"

lemma backoff_ok_next: "backoff_ok b \<Longrightarrow> backoff_ok (next_backoff b)"
  by (auto simp: backoff_ok_def next_backoff_def)

lemma inv_first: "channel_inv m (first_run m)"
  by (auto simp: channel_inv_def run_consecutive_def accounted_def backoff_ok_def first_run_def Channel_Subscribe_def)

lemma inv_exit: "channel_inv m s \<Longrightarrow> channel_inv m (forwarder_exit s)"
  by (auto simp: channel_inv_def run_consecutive_def accounted_def forwarder_exit_def)

lemma forwarding_at_idle:
  "forwarding_at k r fw pos \<Longrightarrow> fw = Idle \<or> fw = Accepted n \<Longrightarrow> forwarding_at k r Idle pos"
  by (auto simp: forwarding_at_def)

lemma inv_failed:
  assumes "channel_inv m s" and "ch_Forwarding s = Idle \<or> ch_Forwarding s = Accepted n"
  shows "channel_inv m (consume_failed s)"
proof (cases "ch_CtxDone s \<or> ch_SvcDone s")
  case True
  with inv_exit [OF assms(1)] show ?thesis by (simp add: consume_failed_def)
next
  case False
  with assms(1) forwarding_at_idle [OF _ assms(2)] show ?thesis
    by (auto simp: consume_failed_def channel_inv_def run_consecutive_def accounted_def backoff_ok_next)
qed

lemma inv_forwarder: "forwarder_step s t \<Longrightarrow> channel_inv m s \<Longrightarrow> channel_inv m t"
proof (induction rule: forwarder_step.induct)
  case (Send s n)
  then obtain k where "ch_Run s @ ch_Buffer s = [ch_Start s ..< k]" "n = k" "ch_Committed s \<le> k" "ch_Start s \<le> ch_Committed s"
    "ch_Position s = k + 1" by (auto simp: channel_inv_def run_consecutive_def)
  then have "ch_Run s @ ch_Buffer s @ [n] = [ch_Start s ..< k + 1]" by simp
  with Send \<open>ch_Committed s \<le> k\<close> \<open>ch_Start s \<le> ch_Committed s\<close> \<open>ch_Position s = k + 1\<close> \<open>n = k\<close> show ?case
    by (auto simp: channel_inv_def run_consecutive_def accounted_def intro!: exI [of _ "k + 1"])
qed (auto simp: inv_exit inv_failed, auto simp: channel_inv_def run_consecutive_def accounted_def)

lemma run_receive:
  assumes "ch_Buffer s = n # ns" and "run_consecutive s"
  shows "run_consecutive (s\<lparr>ch_Buffer := ns, ch_Run := ch_Run s @ [n], ch_Received := ch_Received s @ [n]\<rparr>)"
  using assms by (simp add: run_consecutive_def)

lemma inv_restart: "channel_inv m s \<Longrightarrow> channel_inv m (restart s)"
proof -
  assume inv: "channel_inv m s"
  then obtain k where k: "ch_Start s \<le> ch_Committed s" "ch_Committed s \<le> k" "ch_Run s @ ch_Buffer s = [ch_Start s ..< k]"
    by (auto simp: channel_inv_def run_consecutive_def)
  from inv have a: "set (ch_Run s) \<subseteq> set (ch_Received s)" "m \<le> ch_Start s" "{m ..< ch_Start s} \<subseteq> set (ch_Received s) \<union> ch_Lost s"
    "finite (ch_Lost s)" "card (ch_Lost s) \<le> channel_capacity * ch_Restarts s" "length (ch_Buffer s) \<le> channel_capacity"
    by (simp_all add: channel_inv_def accounted_def)
  have "{ch_Start s ..< k} = set (ch_Run s) \<union> set (ch_Buffer s)" using arg_cong [OF k(3), of set] by simp
  then have "{ch_Start s ..< ch_Committed s} \<subseteq> set (ch_Received s) \<union> set (ch_Buffer s)" using a(1) k(2) by fastforce
  moreover have "{m ..< ch_Committed s} = {m ..< ch_Start s} \<union> {ch_Start s ..< ch_Committed s}"
    using a(2) k(1) by (simp add: ivl_disj_un)
  ultimately have "{m ..< ch_Committed s} \<subseteq> set (ch_Received s) \<union> (ch_Lost s \<union> set (ch_Buffer s))" using a(3) by blast
  moreover have "card (ch_Lost s \<union> set (ch_Buffer s)) \<le> channel_capacity * (ch_Restarts s + 1)"
    using card_Un_le [of "ch_Lost s" "set (ch_Buffer s)"] card_length [of "ch_Buffer s"] a(5,6) by (simp add: algebra_simps)
  ultimately show ?thesis using a k
    by (auto simp: channel_inv_def run_consecutive_def accounted_def backoff_ok_def restart_def Channel_Subscribe_def)
qed

lemma inv_step: "channel_step s t \<Longrightarrow> channel_inv m s \<Longrightarrow> channel_inv m t"
proof (induction rule: channel_step.induct)
  case (Receive s n ns)
  with run_receive [OF Receive.hyps] show ?case by (auto simp: channel_inv_def accounted_def)
qed (auto simp: inv_forwarder inv_restart, auto simp: channel_ops channel_inv_def run_consecutive_def accounted_def)

lemma inv_reachable: "channel_reachable m s \<Longrightarrow> channel_inv m s"
  unfolding channel_reachable_def by (induction rule: rtranclp_induct) (auto simp: inv_first inv_step)

section \<open>Delivery\<close>


lemma reachable_first: "channel_reachable m (first_run m)"
  by (simp add: channel_reachable_def)

lemma reachable_step: "channel_reachable m s \<Longrightarrow> channel_step s t \<Longrightarrow> channel_reachable m t"
  unfolding channel_reachable_def by (rule rtranclp.rtrancl_into_rtrancl)


text \<open>A message below the start of a run that has not been received is never received.\<close>

definition skipped :: "nat \<Rightarrow> ConsumerChannel \<Rightarrow> bool" where
  "skipped n s \<longleftrightarrow> channel_inv 0 s \<and> n < ch_Start s \<and> n \<notin> set (ch_Received s)"

lemma skipped_step:
  assumes "channel_step s t" and "skipped n s"
  shows "skipped n t"
proof -
  have inv: "channel_inv 0 t" using inv_step [OF assms(1)] assms(2) by (simp add: skipped_def)
  from assms(2) obtain k where k: "ch_Start s \<le> ch_Committed s" "ch_Run s @ ch_Buffer s = [ch_Start s ..< k]" "n < ch_Start s"
    by (auto simp: skipped_def channel_inv_def run_consecutive_def)
  have "set (ch_Buffer s) \<subseteq> {ch_Start s ..< k}" using arg_cong [OF k(2), of set] by auto
  then have "n \<notin> set (ch_Buffer s)" using k(3) by auto
  moreover have "ch_Start t \<ge> ch_Start s \<and> set (ch_Received t) \<subseteq> set (ch_Received s) \<union> set (ch_Buffer s)"
    using assms(1) k(1) by (elim channel_stepE; (elim forwarder_stepE)?) (auto simp: channel_ops)
  ultimately show ?thesis using assms(2) inv k(3) by (auto simp: skipped_def)
qed

lemma skipped_steps: "channel_step\<^sup>*\<^sup>* s t \<Longrightarrow> skipped n s \<Longrightarrow> skipped n t"
  by (induction rule: rtranclp_induct) (auto simp: skipped_step)

text \<open>The offset of a message is committed when the message is in the buffer, not
  when it has been handled.  There is a run after which a message is committed and no process will ever
  receive it: the process ended between the commit and the receipt.  So delivery is not at least once.\<close>

theorem committed_unreceived:
  "\<exists>s. channel_reachable 0 s \<and> 0 < ch_Committed s \<and> {t. channel_step\<^sup>*\<^sup>* s t \<and> 0 \<in> set (ch_Received t)} = {}"
proof -
  let ?a = "first_run 0"
  let ?b = "?a\<lparr>ch_Forwarding := Sending 0, ch_Position := 1\<rparr>"
  let ?c = "?b\<lparr>ch_Buffer := [0], ch_Forwarding := Accepted 0\<rparr>"
  let ?d = "?c\<lparr>ch_Forwarding := Idle, ch_Committed := 1\<rparr>"
  have 1: "channel_step ?a ?b" using Forward [OF Fetch [of ?a]] by (simp add: first_run_def Channel_Subscribe_def)
  have 2: "channel_step ?b ?c" using Forward [OF Send [of ?b 0]] by (simp add: first_run_def Channel_Subscribe_def channel_capacity_def)
  have 3: "channel_step ?c ?d" using Forward [OF Commit [of ?c 0]] by (simp add: first_run_def Channel_Subscribe_def)
  have "channel_reachable 0 ?d" by (rule reachable_step [OF reachable_step [OF reachable_step [OF reachable_first 1] 2] 3])
  then have r: "channel_reachable 0 (restart ?d)" by (rule reachable_step) (rule Restart)
  have "skipped 0 (restart ?d)" using inv_reachable [OF r] by (simp add: skipped_def restart_def Channel_Subscribe_def first_run_def)
  then have "{t. channel_step\<^sup>*\<^sup>* (restart ?d) t \<and> 0 \<in> set (ch_Received t)} = {}"
    using skipped_steps by (fastforce simp: skipped_def)
  moreover have "0 < ch_Committed (restart ?d)" by (simp add: restart_def Channel_Subscribe_def)
  ultimately show ?thesis using r by blast
qed

text \<open>The handler selects on the context of \<open>Subscribe\<close>, not on the service context: while the buffer is full,
  \<open>Close\<close> does not free the goroutine.\<close>

lemma close_leaves_sender_blocked:
  assumes "ch_Forwarding s = Sending n" and "length (ch_Buffer s) = channel_capacity" and "ch_Subscribed s" and "\<not> ch_CtxDone s"
  shows "\<not> forwarder_step (Channel_Close s) t"
  using assms by (auto simp: Channel_Close_def close_service_def close_reader_def elim!: forwarder_stepE)

end
