(* ===== verification/Bus_Spec.thy ===== *)
theory Bus_Spec imports Bus begin

text \<open>
  Properties of the bus: topic names, the message envelope, which configurations build a producer, and
  the at-least-once delivery of the consumer loop.
\<close>

section \<open>Topics and messages\<close>

text \<open>\<open>Topic\<close> puts a name into the namespace of the system and leaves one that is
  already there alone, and a consumer group does not depend on which of the two forms was given.\<close>

theorem Topic_spec:
  "has_prefix (Topic base) (TopicPrefix @ ''.'') \<and> Topic (Topic base) = Topic base \<and>
   GroupID service (Topic base) = GroupID service base"
proof (cases "has_prefix base (TopicPrefix @ ''.'')")
  case True
  then show ?thesis by (simp add: Topic_def)
next
  case False
  have T: "Topic base = (TopicPrefix @ ''.'') @ base" using False by (simp add: Topic_def)
  have "trim_prefix base (TopicPrefix @ ''.'') = base" using False by (simp add: trim_prefix_def)
  moreover have "trim_prefix (Topic base) (TopicPrefix @ ''.'') = base"
    unfolding T by (rule trim_prefix_append)
  moreover have "has_prefix (Topic base) (TopicPrefix @ ''.'')"
    unfolding T by (rule has_prefix_append)
  ultimately show ?thesis by (simp add: GroupID_def Topic_def)
qed

lemma headers_of_map: "distinct (map fst kvs) \<Longrightarrow> headers_of kvs h = h ++ map_of kvs"
proof (induction kvs arbitrary: h)
  case (Cons kv kvs)
  then have "map_of kvs (fst kv) = None" by (simp add: map_of_eq_None_iff)
  with Cons show ?case by (cases kv) (auto simp: fun_eq_iff map_add_def split: option.split)
qed simp

text \<open>A message that goes through Kafka's type comes back with its topic, key,
  value, time and headers, provided the map of headers is enumerated faithfully; the broker's partition
  and offset are not taken from the sender.\<close>

theorem message_roundtrip:
  assumes "distinct (map fst (enum (m_Headers m)))" and "map_of (enum (m_Headers m)) = m_Headers m"
  shows "fromKafkaMessage ((toKafkaMessage enum m)\<lparr>k_Partition := p, k_Offset := n\<rparr>) =
    m\<lparr>m_Partition := p, m_Offset := n\<rparr>"
  using assms by (simp add: fromKafkaMessage_def toKafkaMessage_def headers_of_map)

theorem message_roundtrip_witness:
  "let m = \<lparr>m_Topic = ''t'', m_Partition = 4, m_Offset = 5, m_Key = ''k'', m_Value = ''v'',
     m_Headers = [''a'' \<mapsto> ''1''], m_Time = 9\<rparr>
   in fromKafkaMessage ((toKafkaMessage (\<lambda>h. [(''a'', ''1'')]) m)\<lparr>k_Partition := 0, k_Offset := 1\<rparr>) =
      m\<lparr>m_Partition := 0, m_Offset := 1\<rparr>"
  unfolding Let_def by (rule message_roundtrip) simp_all

section \<open>Configuration\<close>

lemma first_error_None: "first_error cs = None \<longleftrightarrow> (\<forall>(bad, e) \<in> set cs. \<not> bad)"
  by (induction cs rule: first_error.induct) auto

lemma default_to_pos: "0 < d \<Longrightarrow> 0 < default_to d x"
  by (simp add: default_to_def)

text \<open>The defaults make every omitted number valid, so a producer is built exactly
  if there is a broker, no broker is blank, the required acknowledgements are none, one, all or omitted,
  and the two orders between limits hold after the defaults.\<close>

theorem NewProducer_iff:
  "is_ok (NewProducer dur c) \<longleftrightarrow> c_Brokers c \<noteq> [] \<and> [] \<notin> trim_space ` set (c_Brokers c) \<and>
     (c_RequiredAcks c = [] \<or> to_lower (trim_space (c_RequiredAcks c)) \<in> {''none'', ''one'', ''all''}) \<and>
     default_to 1 (c_MinBytes c) \<le> default_to (2 ^ 20) (c_MaxBytes c) \<and>
     default_to (3 * Second) (c_HeartbeatInterval c) \<le> default_to (30 * Second) (c_SessionTimeout c)"
proof -
  let ?c = "withDefaults c"
  have pos: "0 < c_DialTimeout ?c" "0 < c_WriteTimeout ?c" "0 < c_BatchSize ?c" "0 < c_BatchBytes ?c"
    "0 < c_BatchTimeout ?c" "0 < c_MinBytes ?c" "0 < c_MaxWait ?c" "0 < c_ReplayIdle ?c"
    "0 < c_HeartbeatInterval ?c" "0 < c_RebalanceTimeout ?c" "0 < c_JoinGroupBackoff ?c"
    by (simp_all add: withDefaults_def default_to_pos)
  have "is_ok (NewProducer dur c) \<longleftrightarrow> Config_Validate dur ?c = None \<and> is_ok (requiredAcks ?c)"
    by (auto simp: NewProducer_def Let_def split: option.split sum.split)
  also have "\<dots> \<longleftrightarrow> c_Brokers ?c \<noteq> [] \<and> (\<forall>b \<in> set (c_Brokers ?c). trim_space b \<noteq> []) \<and> is_ok (requiredAcks ?c) \<and>
      c_MinBytes ?c \<le> c_MaxBytes ?c \<and> c_HeartbeatInterval ?c \<le> c_SessionTimeout ?c"
    using pos by (cases "requiredAcks ?c") (auto simp: Config_Validate_def first_error_None not_positive_def)
  also have "is_ok (requiredAcks ?c) \<longleftrightarrow>
      c_RequiredAcks c = [] \<or> to_lower (trim_space (c_RequiredAcks c)) \<in> {''none'', ''one'', ''all''}"
  proof (cases "c_RequiredAcks c = []")
    case True
    moreover have "to_lower (trim_space ''all'') = ''all''" by code_simp
    ultimately show ?thesis by (simp add: requiredAcks_def withDefaults_def Let_def)
  qed (simp add: requiredAcks_def withDefaults_def Let_def)
  also have "(\<forall>b \<in> set (c_Brokers ?c). trim_space b \<noteq> []) \<longleftrightarrow> [] \<notin> trim_space ` set (c_Brokers c)"
    by (force simp: withDefaults_def)
  finally show ?thesis by (simp add: withDefaults_def)
qed

section \<open>Delivery\<close>

text \<open>The messages of the partition that are left, consecutive from the committed offset.\<close>

definition consecutive :: "int \<Rightarrow> kafka_Message list \<Rightarrow> bool" where
  "consecutive n ms \<longleftrightarrow> map k_Offset ms = map (\<lambda>i. n + int i) [0 ..< length ms]"

lemma consecutive_Cons: "consecutive n (m # ms) \<longleftrightarrow> k_Offset m = n \<and> consecutive (n + 1) ms"
  unfolding consecutive_def
  by (simp add: upt_conv_Cons map_Suc_upt [symmetric] comp_def add.assoc del: upt_Suc)

text \<open>C28 (consumer_at_least_once): the consumer never commits past a message it has not handled.  From
  consecutive messages it handles a prefix in order, each once, and commits all of that prefix, or all but
  the last when the commit of that one fails; without an error it handles and commits everything.  When the
  handler fails, the failing message is the next one to be delivered.\<close>

theorem consumer_at_least_once:
  assumes "consecutive (g_committed g) ms" and "Consume handler commit (map Fetched ms) s g = (r, s', g')"
  shows "\<exists>n \<le> length ms. g_handled g' = g_handled g @ map k_Offset (take n ms) \<and>
    (case r of
       None \<Rightarrow> n = length ms \<and> g_committed g' = g_committed g + int n
     | Some e \<Rightarrow>
        (n < length ms \<and> g_committed g' = g_committed g + int n \<and> g_committed g' = k_Offset (ms ! n) \<and>
           (\<exists>s1 s2 e'. handler (fromKafkaMessage (ms ! n)) s1 = (Some e', s2)))
        \<or> (0 < n \<and> g_committed g' = g_committed g + int (n - 1) \<and> commit (ms ! (n - 1)) \<noteq> None))"
  using assms
proof (induction ms arbitrary: s g)
  case (Cons m ms)
  from Cons.prems(1) have m: "k_Offset m = g_committed g" "consecutive (g_committed g + 1) ms"
    by (simp_all add: consecutive_Cons)
  obtain q s1 where 1: "handler (fromKafkaMessage m) s = (q, s1)" by force
  show ?case
  proof (cases q)
    case (Some e)
    with Cons.prems(2) 1 m show ?thesis by (intro exI [of _ 0]) (auto simp: Let_def; blast)
  next
    case None
    let ?g1 = "g\<lparr>g_handled := g_handled g @ [k_Offset m]\<rparr>"
    have off: "m_Offset (fromKafkaMessage m) = k_Offset m" by (simp add: fromKafkaMessage_def)
    show ?thesis
    proof (cases "commit m")
      case (Some e)
      with Cons.prems(2) 1 None off show ?thesis by (intro exI [of _ 1]) (auto simp: Let_def)
    next
      case None
      let ?g2 = "commit_offset m ?g1"
      have g2: "g_committed ?g2 = g_committed g + 1" "g_handled ?g2 = g_handled g @ [k_Offset m]"
        by (simp_all add: commit_offset_def m(1))
      have "Consume handler commit (map Fetched ms) s1 ?g2 = (r, s', g')"
        using Cons.prems(2) 1 \<open>q = None\<close> None off by (simp add: Let_def)
      from Cons.IH [OF _ this] m(2) g2(1) obtain n where n: "n \<le> length ms"
        "g_handled g' = g_handled ?g2 @ map k_Offset (take n ms)"
        "case r of
           None \<Rightarrow> n = length ms \<and> g_committed g' = g_committed ?g2 + int n
         | Some e \<Rightarrow>
            (n < length ms \<and> g_committed g' = g_committed ?g2 + int n \<and> g_committed g' = k_Offset (ms ! n) \<and>
               (\<exists>s1 s2 e'. handler (fromKafkaMessage (ms ! n)) s1 = (Some e', s2)))
            \<or> (0 < n \<and> g_committed g' = g_committed ?g2 + int (n - 1) \<and> commit (ms ! (n - 1)) \<noteq> None)" by auto
      then show ?thesis
        by (intro exI [of _ "Suc n"]) (auto simp: g2 split: option.splits)
    qed
  qed
qed simp

definition sample_kafka :: "int \<Rightarrow> string \<Rightarrow> kafka_Message" where
  "sample_kafka n v = \<lparr>k_Topic = ''t'', k_Partition = 0, k_Offset = n, k_Key = [], k_Value = v, k_Headers = [], k_Time = 0\<rparr>"

theorem consumer_at_least_once_witness:
  "\<exists>r g'. Consume (\<lambda>msg s. (if m_Value msg = ''bad'' then Some (ErrorString ''boom'') else None, s)) (\<lambda>m. None)
      (map Fetched [sample_kafka 3 ''bad'']) () \<lparr>g_committed = 3, g_handled = []\<rparr> = (r, (), g') \<and> g_committed g' = 3"
proof -
  let ?h = "\<lambda>msg s. (if m_Value msg = ''bad'' then Some (ErrorString ''boom'') else None, s)"
  let ?ms = "[sample_kafka 3 ''bad'']"
  let ?g = "\<lparr>g_committed = 3, g_handled = []\<rparr>"
  obtain r u g' where 1: "Consume ?h (\<lambda>m. None) (map Fetched ?ms) () ?g = (r, u, g')" by (rule prod_cases3)
  have "r \<noteq> None" using 1 by (auto simp: fromKafkaMessage_def sample_kafka_def Let_def)
  then obtain e where r: "r = Some e" by blast
  have "consecutive (g_committed ?g) ?ms" by (simp add: consecutive_def sample_kafka_def)
  from consumer_at_least_once [OF this 1] obtain n where "n \<le> 1" "n < 1 \<and> g_committed g' = 3 + int n \<or>
      0 < n \<and> g_committed g' = 3 + int (n - 1)" unfolding r by auto
  then have "g_committed g' = 3" by auto
  with 1 show ?thesis by auto
qed

end
