(* ===== verification/Replay.thy ===== *)
theory Replay imports Bus begin

text \<open>
  Replay of a topic (\<open>internal/bus/replay.go\<close>).  The broker is a record of functions: the metadata of a topic,
  whether the leader of a partition can be dialled and positioned, and the batches that the reads then return.
\<close>

section \<open>Options and results\<close>

record ReplayOptions =
  rpo_Topic :: string
  rpo_From :: int

record ReplayResult =
  rpr_Topic :: string
  rpr_Partition :: int
  rpr_From :: int
  rpr_LastOffset :: int
  rpr_Count :: int

section \<open>The broker\<close>

record partition_meta =
  pm_ID :: int
  pm_Error :: "gerror option"

record topic_meta =
  tm_Name :: string
  tm_Error :: "gerror option"
  tm_Partitions :: "partition_meta list"

text \<open>A batch: setting the read deadline, the messages, the error that ends the reading, and the closing.\<close>

record batch =
  bt_Deadline :: "gerror option"
  bt_Messages :: "kafka_Message list"
  bt_End :: gerror
  bt_Close :: "gerror option"

text \<open>\<open>rb_Batches topic partition from\<close>: the batches of consecutive reads; every later read is empty.\<close>

record replay_broker =
  rb_Metadata :: "string \<Rightarrow> topic_meta list result"
  rb_Dial :: "string \<Rightarrow> string \<Rightarrow> int \<Rightarrow> gerror option"
  rb_Seek :: "string \<Rightarrow> int \<Rightarrow> int \<Rightarrow> gerror option"
  rb_Batches :: "string \<Rightarrow> int \<Rightarrow> int \<Rightarrow> batch list"

section \<open>Partitions\<close>

definition describe_topic :: "string \<Rightarrow> string" where
  "describe_topic topic = ''bus: describe topic '' @ quoted topic"

fun partition_ids :: "string \<Rightarrow> partition_meta list \<Rightarrow> int list result" where
  "partition_ids topic [] = Inr []"
| "partition_ids topic (p # ps) = (case pm_Error p of
     Some e \<Rightarrow> Inl (wrap (describe_topic topic @ '' partition '' @ show_int (pm_ID p) @ '': '') e)
   | None \<Rightarrow> (case partition_ids topic ps of Inl e \<Rightarrow> Inl e | Inr ids \<Rightarrow> Inr (pm_ID p # ids)))"

definition replay_partitions :: "replay_broker \<Rightarrow> string \<Rightarrow> int list result" where
  "replay_partitions br topic = (case rb_Metadata br topic of
     Inl e \<Rightarrow> Inl (wrap (describe_topic topic @ '': '') e)
   | Inr topics \<Rightarrow> (case List.find (\<lambda>t. tm_Name t = topic) topics of
       None \<Rightarrow> Inl (Wrapped [] (Sentinel ErrTopicNotFound) ('': '' @ topic))
     | Some t \<Rightarrow> (case tm_Error t of
         Some e \<Rightarrow> Inl (wrap (describe_topic topic @ '': '') e)
       | None \<Rightarrow> partition_ids topic (tm_Partitions t))))"

section \<open>One partition\<close>

text \<open>The brokers are tried in order; the last error is reported.\<close>

fun dial_leader :: "(string \<Rightarrow> gerror option) \<Rightarrow> string list \<Rightarrow> gerror option \<Rightarrow> gerror option" where
  "dial_leader dial [] lastErr = lastErr"
| "dial_leader dial (b # bs) lastErr = (case dial b of None \<Rightarrow> None | Some e \<Rightarrow> dial_leader dial bs (Some e))"

definition slashed :: "string \<Rightarrow> int \<Rightarrow> string" where
  "slashed topic p = topic @ ''/'' @ show_int p"

definition replay_handler_error :: "Message \<Rightarrow> gerror \<Rightarrow> gerror" where
  "replay_handler_error msg e = wrap (''bus: replay handler failed at topic='' @ quoted (m_Topic msg) @ '' partition='' @
     show_int (m_Partition msg) @ '' offset='' @ show_int (m_Offset msg) @ '': '') e"

definition end_of_batch :: "gerror \<Rightarrow> bool" where
  "end_of_batch e \<longleftrightarrow> errors_is e EOF \<or> errors_is e RequestTimedOut"

text \<open>The inner loop: the error, the result so far and the state of the handler.\<close>

fun read_messages :: "(Message \<Rightarrow> 's \<Rightarrow> gerror option \<times> 's) \<Rightarrow> gerror \<Rightarrow> kafka_Message list \<Rightarrow> ReplayResult \<Rightarrow> 's \<Rightarrow>
    gerror option \<times> ReplayResult \<times> 's" where
  "read_messages handler ending [] res s =
     (if end_of_batch ending then (None, res, s)
      else (Some (wrap (''bus: replay read '' @ slashed (rpr_Topic res) (rpr_Partition res) @ '': '') ending), res, s))"
| "read_messages handler ending (m # ms) res s =
     (let msg = fromKafkaMessage m in
      case handler msg s of
        (Some e, s1) \<Rightarrow> (Some (replay_handler_error msg e), res, s1)
      | (None, s1) \<Rightarrow> read_messages handler ending ms
          (res\<lparr>rpr_Count := rpr_Count res + 1, rpr_LastOffset := k_Offset m\<rparr>) s1)"

fun read_batches :: "(Message \<Rightarrow> 's \<Rightarrow> gerror option \<times> 's) \<Rightarrow> batch list \<Rightarrow> ReplayResult \<Rightarrow> 's \<Rightarrow>
    gerror option \<times> ReplayResult \<times> 's" where
  "read_batches handler [] res s = (None, res, s)"
| "read_batches handler (b # bs) res s = (case bt_Deadline b of
     Some e \<Rightarrow> (Some (wrap ''bus: set read deadline: '' e), res, s)
   | None \<Rightarrow> (case read_messages handler (bt_End b) (bt_Messages b) res s of
       (Some e, res1, s1) \<Rightarrow> (Some e, res1, s1)
     | (None, res1, s1) \<Rightarrow>
        (if bt_Messages b = [] then (None, res1, s1)
         else (case bt_Close b of
             Some e \<Rightarrow> (if errors_is e RequestTimedOut then read_batches handler bs res1 s1
               else (Some (wrap ''bus: close read batch: '' e), res1, s1))
           | None \<Rightarrow> read_batches handler bs res1 s1))))"

definition invalid_start :: "int \<Rightarrow> gerror" where
  "invalid_start from = ErrorString (''bus: replay start offset '' @ show_int from @ '' is invalid: use '' @
     show_int FirstOffset @ '' (FirstOffset) or a non-negative offset'')"

definition replayPartition :: "replay_broker \<Rightarrow> string list \<Rightarrow> ReplayOptions \<Rightarrow> (Message \<Rightarrow> 's \<Rightarrow> gerror option \<times> 's) \<Rightarrow>
    int \<Rightarrow> 's \<Rightarrow> gerror option \<times> ReplayResult \<times> 's" where
  "replayPartition br brokers opts handler p s =
    (let topic = rpo_Topic opts; from = rpo_From opts;
         res = \<lparr>rpr_Topic = topic, rpr_Partition = p, rpr_From = from, rpr_LastOffset = 0, rpr_Count = 0\<rparr>
     in case dial_leader (\<lambda>b. rb_Dial br b topic p) brokers (Some (ErrorString ''%!w(<nil>)'')) of
          Some e \<Rightarrow> (Some (wrap (''bus: dial leader for '' @ slashed topic p @ '': '') e), res, s)
        | None \<Rightarrow>
           (if from \<ge> 0 \<or> from = FirstOffset then
              (case rb_Seek br topic p from of
                 Some e \<Rightarrow> (Some (wrap (''bus: seek '' @ slashed topic p @
                   (if from \<ge> 0 then '' to offset '' @ show_int from @ '': '' else '' to first offset: '')) e), res, s)
               | None \<Rightarrow> read_batches handler (rb_Batches br topic p from) res s)
            else (Some (invalid_start from), res, s)))"

section \<open>The topic\<close>

fun replay_all :: "(int \<Rightarrow> 's \<Rightarrow> gerror option \<times> ReplayResult \<times> 's) \<Rightarrow> int list \<Rightarrow> 's \<Rightarrow>
    gerror option \<times> ReplayResult list \<times> 's" where
  "replay_all part [] s = (None, [], s)"
| "replay_all part (p # ps) s = (case part p s of
     (Some e, res, s1) \<Rightarrow> (Some e, [], s1)
   | (None, res, s1) \<Rightarrow> (case replay_all part ps s1 of (e, results, s2) \<Rightarrow> (e, res # results, s2)))"

text \<open>\<open>NewReplayer\<close> validates the configuration as the producer does; \<open>handler\<close> is \<open>None\<close> for a nil handler.\<close>

definition NewReplayer :: "(duration \<Rightarrow> string) \<Rightarrow> Config \<Rightarrow> Config result" where
  "NewReplayer dur cfg0 = (let cfg = withDefaults cfg0 in
     case Config_Validate dur cfg of Some e \<Rightarrow> Inl e | None \<Rightarrow> Inr cfg)"

definition Replay :: "replay_broker \<Rightarrow> Config \<Rightarrow> ReplayOptions \<Rightarrow> (Message \<Rightarrow> 's \<Rightarrow> gerror option \<times> 's) option \<Rightarrow> 's \<Rightarrow>
    gerror option \<times> ReplayResult list \<times> 's" where
  "Replay br cfg opts handler s =
    (if rpo_Topic opts = [] then (Some (Sentinel ErrEmptyTopic), [], s)
     else (case handler of
         None \<Rightarrow> (Some (Sentinel ErrNilHandler), [], s)
       | Some h \<Rightarrow>
          (if rpo_From opts < 0 \<and> rpo_From opts \<noteq> FirstOffset then (Some (invalid_start (rpo_From opts)), [], s)
           else (case replay_partitions br (rpo_Topic opts) of
               Inl e \<Rightarrow> (Some e, [], s)
             | Inr ps \<Rightarrow> replay_all (replayPartition br (c_Brokers cfg) opts h) (sort ps) s))))"

section \<open>Properties\<close>

text \<open>The messages that the reads return up to the first empty batch, and the handler run over messages.\<close>

definition log_of :: "replay_broker \<Rightarrow> string \<Rightarrow> int \<Rightarrow> int \<Rightarrow> kafka_Message list" where
  "log_of br topic from p = concat (map bt_Messages (takeWhile (\<lambda>b. bt_Messages b \<noteq> []) (rb_Batches br topic p from)))"

definition handle_all :: "(Message \<Rightarrow> 's \<Rightarrow> gerror option \<times> 's) \<Rightarrow> kafka_Message list \<Rightarrow> 's \<Rightarrow> 's" where
  "handle_all h ms s = fold (\<lambda>m s. snd (h (fromKafkaMessage m) s)) ms s"

lemma handle_all_simps [simp]:
  "handle_all h [] s = s" "handle_all h (m # ms) s = handle_all h ms (snd (h (fromKafkaMessage m) s))"
  "handle_all h (ms @ ns) s = handle_all h ns (handle_all h ms s)"
  by (simp_all add: handle_all_def)

definition counted :: "kafka_Message list \<Rightarrow> ReplayResult \<Rightarrow> ReplayResult" where
  "counted ms res = (if ms = [] then res
     else res\<lparr>rpr_Count := rpr_Count res + int (length ms), rpr_LastOffset := k_Offset (last ms)\<rparr>)"

lemma counted_append: "counted (ms @ ns) res = counted ns (counted ms res)"
  by (auto simp: counted_def)

lemma read_messages_prefix:
  assumes "read_messages h ending ms res s = (e, res', s')"
  shows "\<exists>k \<le> length ms. s' = handle_all h (take k ms) s \<and> (e = None \<longrightarrow> k = length ms \<and> res' = counted ms res)"
  using assms
proof (induction ms arbitrary: res s)
  case (Cons m ms)
  obtain q s1 where 1: "h (fromKafkaMessage m) s = (q, s1)" by force
  show ?case
  proof (cases q)
    case (Some x)
    with Cons.prems 1 show ?thesis by (intro exI [of _ 1]) (auto simp: Let_def)
  next
    case None
    let ?res = "res\<lparr>rpr_Count := rpr_Count res + 1, rpr_LastOffset := k_Offset m\<rparr>"
    from None Cons.prems 1 have "read_messages h ending ms ?res s1 = (e, res', s')" by (simp add: Let_def)
    from Cons.IH [OF this] obtain k where "k \<le> length ms" "s' = handle_all h (take k ms) s1"
      "e = None \<longrightarrow> k = length ms \<and> res' = counted ms ?res" by blast
    then show ?thesis using 1 by (intro exI [of _ "Suc k"]) (auto simp: counted_def)
  qed
qed (auto split: if_splits simp: counted_def)

lemma read_batches_prefix:
  assumes "read_batches h bs res s = (e, res', s')"
  shows "\<exists>k. let ms = concat (map bt_Messages (takeWhile (\<lambda>b. bt_Messages b \<noteq> []) bs)) in k \<le> length ms \<and>
    s' = handle_all h (take k ms) s \<and> (e = None \<longrightarrow> k = length ms \<and> res' = counted ms res)"
  using assms
proof (induction bs arbitrary: res s)
  case (Cons b bs)
  let ?rest = "concat (map bt_Messages (takeWhile (\<lambda>b. bt_Messages b \<noteq> []) bs))"
  show ?case
  proof (cases "bt_Deadline b")
    case None
    obtain e1 res1 s1 where 1: "read_messages h (bt_End b) (bt_Messages b) res s = (e1, res1, s1)" using prod_cases3 by blast
    from read_messages_prefix [OF 1] obtain k where k: "k \<le> length (bt_Messages b)" "s1 = handle_all h (take k (bt_Messages b)) s"
      "e1 = None \<longrightarrow> k = length (bt_Messages b) \<and> res1 = counted (bt_Messages b) res" by blast
    show ?thesis
    proof (cases "e1 = None \<and> bt_Messages b \<noteq> [] \<and> (\<forall>x. bt_Close b = Some x \<longrightarrow> errors_is x RequestTimedOut)")
      case True
      with Cons.prems 1 None have "read_batches h bs res1 s1 = (e, res', s')" by (auto split: option.splits)
      from Cons.IH [OF this] obtain n where "n \<le> length ?rest" "s' = handle_all h (take n ?rest) s1"
        "e = None \<longrightarrow> n = length ?rest \<and> res' = counted ?rest res1" by (auto simp: Let_def)
      with True k show ?thesis
        by (intro exI [of _ "length (bt_Messages b) + n"]) (auto simp: Let_def counted_append)
    next
      case False
      with Cons.prems 1 None have "s' = s1 \<and> (e = None \<longrightarrow> e1 = None \<and> bt_Messages b = [] \<and> res' = res1)"
        by (auto split: option.splits if_splits)
      with k show ?thesis by (intro exI [of _ k]) (auto simp: Let_def counted_def)
    qed
  qed (use Cons.prems in auto)
qed (simp add: counted_def)

lemma replayPartition_prefix:
  assumes "replayPartition br brokers opts h p s = (e, res, s')"
  shows "\<exists>k. let ms = log_of br (rpo_Topic opts) (rpo_From opts) p in k \<le> length ms \<and> s' = handle_all h (take k ms) s \<and>
    (e = None \<longrightarrow> k = length ms \<and> res = counted ms \<lparr>rpr_Topic = rpo_Topic opts, rpr_Partition = p, rpr_From = rpo_From opts,
       rpr_LastOffset = 0, rpr_Count = 0\<rparr>)"
  using assms read_batches_prefix unfolding log_of_def
  by (auto simp: replayPartition_def Let_def split: option.splits if_splits intro: exI [of _ "0 :: nat"])

lemma replay_all_prefix:
  assumes "replay_all part ps s = (e, results, s')"
    and "\<And>p s e res s'. part p s = (e, res, s') \<Longrightarrow> \<exists>k \<le> length (logs p). s' = handle_all h (take k (logs p)) s \<and>
      (e = None \<longrightarrow> k = length (logs p) \<and> res = result p)"
  shows "\<exists>k \<le> length (concat (map logs ps)). s' = handle_all h (take k (concat (map logs ps))) s \<and>
    results = map result (take (length results) ps) \<and>
    (e = None \<longrightarrow> k = length (concat (map logs ps)) \<and> length results = length ps)"
  using assms(1)
proof (induction ps arbitrary: s results)
  case (Cons p ps)
  obtain e1 res s1 where 1: "part p s = (e1, res, s1)" using prod_cases3 by blast
  from assms(2) [OF 1] obtain k where k: "k \<le> length (logs p)" "s1 = handle_all h (take k (logs p)) s"
    "e1 = None \<longrightarrow> k = length (logs p) \<and> res = result p" by blast
  show ?case
  proof (cases e1)
    case (Some x)
    with Cons.prems 1 k show ?thesis by (intro exI [of _ k]) auto
  next
    case None
    obtain e2 rs s2 where 2: "replay_all part ps s1 = (e2, rs, s2)" using prod_cases3 by blast
    have "e2 = e \<and> s2 = s'" using Cons.prems 1 2 None by auto
    with Cons.IH 2 obtain n where "n \<le> length (concat (map logs ps))" "s2 = handle_all h (take n (concat (map logs ps))) s1"
      "rs = map result (take (length rs) ps)"
      "e2 = None \<longrightarrow> n = length (concat (map logs ps)) \<and> length rs = length ps"
      unfolding \<open>e2 = e \<and> s2 = s'\<close> [THEN conjunct1] \<open>e2 = e \<and> s2 = s'\<close> [THEN conjunct2] by blast
    with Cons.prems 1 2 None k show ?thesis by (intro exI [of _ "length (logs p) + n"]) auto
  qed
qed simp

text \<open>C25 (replay_spec): once the partitions are known, a replay delivers the messages of the partitions in increasing
  partition order, each partition up to its first empty read, in order and each message once: whatever fails,
  the handler has been called on a prefix of that sequence, and the results are those of the partitions
  completed so far.  Without an error it is the whole sequence, and each result has the number of messages and the last offset.\<close>

theorem replay_spec:
  assumes "rpo_Topic opts \<noteq> []" and "0 \<le> rpo_From opts \<or> rpo_From opts = FirstOffset"
    and "replay_partitions br (rpo_Topic opts) = Inr ps"
    and "Replay br cfg opts (Some h) s = (e, results, s')"
  shows "let logs = log_of br (rpo_Topic opts) (rpo_From opts); msgs = concat (map logs (sort ps)) in
    (\<exists>k \<le> length msgs. s' = fold (\<lambda>m s. snd (h (fromKafkaMessage m) s)) (take k msgs) s \<and> (e = None \<longrightarrow> k = length msgs)) \<and>
    results = map (\<lambda>p. \<lparr>rpr_Topic = rpo_Topic opts, rpr_Partition = p, rpr_From = rpo_From opts,
      rpr_LastOffset = (if logs p = [] then 0 else k_Offset (last (logs p))), rpr_Count = int (length (logs p))\<rparr>)
      (take (length results) (sort ps)) \<and>
    (e = None \<longrightarrow> length results = length ps)"
proof -
  let ?logs = "log_of br (rpo_Topic opts) (rpo_From opts)"
  let ?r0 = "\<lambda>p. \<lparr>rpr_Topic = rpo_Topic opts, rpr_Partition = p, rpr_From = rpo_From opts, rpr_LastOffset = 0, rpr_Count = 0\<rparr>"
  have c: "counted (?logs p) (?r0 p) = \<lparr>rpr_Topic = rpo_Topic opts, rpr_Partition = p, rpr_From = rpo_From opts,
      rpr_LastOffset = (if ?logs p = [] then 0 else k_Offset (last (?logs p))), rpr_Count = int (length (?logs p))\<rparr>" for p
    by (simp add: counted_def)
  have R: "replay_all (replayPartition br (c_Brokers cfg) opts h) (sort ps) s = (e, results, s')"
    using assms by (auto simp: Replay_def)
  have P: "\<exists>k \<le> length (?logs p). s1 = handle_all h (take k (?logs p)) s0 \<and>
      (e1 = None \<longrightarrow> k = length (?logs p) \<and> res = counted (?logs p) (?r0 p))"
    if "replayPartition br (c_Brokers cfg) opts h p s0 = (e1, res, s1)" for p s0 e1 res s1
    using replayPartition_prefix [OF that] unfolding Let_def by blast
  note * = replay_all_prefix [OF R, where logs = ?logs and h = h and result = "\<lambda>p. counted (?logs p) (?r0 p)", OF P]
  obtain k where k: "k \<le> length (concat (map ?logs (sort ps)))"
    "s' = handle_all h (take k (concat (map ?logs (sort ps)))) s"
    "results = map (\<lambda>p. counted (?logs p) (?r0 p)) (take (length results) (sort ps))"
    "e = None \<longrightarrow> k = length (concat (map ?logs (sort ps))) \<and> length results = length (sort ps)" using * by auto
  have "\<exists>k \<le> length (concat (map ?logs (sort ps))).
      s' = fold (\<lambda>m s. snd (h (fromKafkaMessage m) s)) (take k (concat (map ?logs (sort ps)))) s \<and>
      (e = None \<longrightarrow> k = length (concat (map ?logs (sort ps))))"
    using k(1,2,4) unfolding handle_all_def by blast
  with k(3,4) show ?thesis unfolding Let_def c length_sort by blast
qed

definition sample_broker :: replay_broker where
  "sample_broker = \<lparr>rb_Metadata = (\<lambda>t. Inr [\<lparr>tm_Name = t, tm_Error = None,
       tm_Partitions = [\<lparr>pm_ID = 1, pm_Error = None\<rparr>, \<lparr>pm_ID = 0, pm_Error = None\<rparr>]\<rparr>]),
     rb_Dial = (\<lambda>b t p. None), rb_Seek = (\<lambda>t p from. None),
     rb_Batches = (\<lambda>t p from. if p = 0
       then [\<lparr>bt_Deadline = None, bt_Messages = [\<lparr>k_Topic = t, k_Partition = 0, k_Offset = 4, k_Key = [], k_Value = ''v'', k_Headers = [], k_Time = 0\<rparr>],
         bt_End = Sentinel EOF, bt_Close = None\<rparr>] else [])\<rparr>"

definition sample_config :: Config where
  "sample_config = \<lparr>c_Brokers = [''b''], c_DialTimeout = 0, c_WriteTimeout = 0, c_BatchSize = 0, c_BatchBytes = 0,
     c_BatchTimeout = 0, c_RequiredAcks = [], c_MinBytes = 0, c_MaxBytes = 0, c_MaxWait = 0, c_ReplayIdle = 0,
     c_HeartbeatInterval = 0, c_SessionTimeout = 0, c_RebalanceTimeout = 0, c_JoinGroupBackoff = 0\<rparr>"

theorem replay_spec_witness:
  "\<exists>results. Replay sample_broker sample_config \<lparr>rpo_Topic = ''t'', rpo_From = FirstOffset\<rparr> (Some (\<lambda>m n. (None, n + 1 :: nat))) 0
     = (None, results, 1) \<and> map rpr_Count results = [1, 0]"
proof -
  let ?opts = "\<lparr>rpo_Topic = ''t'', rpo_From = FirstOffset\<rparr>"
  let ?h = "\<lambda>m n. (None, n + 1 :: nat)"
  have p: "replay_partitions sample_broker (rpo_Topic ?opts) = Inr [1, 0]"
    by (simp add: replay_partitions_def sample_broker_def)
  obtain e results n where 1: "Replay sample_broker sample_config ?opts (Some ?h) 0 = (e, results, n)" using prod_cases3 by blast
  then have e: "e = None \<and> n = 1"
    using p by (auto simp: Replay_def replayPartition_def sample_broker_def sample_config_def FirstOffset_def end_of_batch_def Let_def)
  have srt: "sort [1, 0 :: int] = [0, 1]" by simp
  have l: "length (log_of sample_broker ''t'' FirstOffset 0) = 1" "log_of sample_broker ''t'' FirstOffset 1 = []"
    by (simp_all add: log_of_def sample_broker_def)
  have t: "rpo_Topic ?opts \<noteq> []" "0 \<le> rpo_From ?opts \<or> rpo_From ?opts = FirstOffset" by simp_all
  from replay_spec [OF t p 1, unfolded srt Let_def] have r: "results = map (\<lambda>p. \<lparr>rpr_Topic = ''t'', rpr_Partition = p, rpr_From = FirstOffset,
      rpr_LastOffset = (if log_of sample_broker ''t'' FirstOffset p = [] then 0 else k_Offset (last (log_of sample_broker ''t'' FirstOffset p))),
      rpr_Count = int (length (log_of sample_broker ''t'' FirstOffset p))\<rparr>) (take (length results) [0, 1])"
    and "length results = length [1, 0 :: int]"
    using e unfolding ReplayOptions.select_convs by blast+
  then have r2: "length results = 2" by simp
  have "map rpr_Count results = map (\<lambda>p. int (length (log_of sample_broker ''t'' FirstOffset p))) [0, 1]"
    by (subst r) (simp add: r2)
  with l have "map rpr_Count results = [1, 0]" by simp
  with 1 e show ?thesis by (intro exI [of _ results]) simp
qed

end
