(* ===== verification/Genproto.thy ===== *)
theory Genproto imports Prelude "HOL-Library.Sublist" begin

text \<open>
  The contract generation tool (\<open>cmd/genproto/main.go\<close>): it bootstraps \<open>protoc\<close> and the Go plugins into
  \<open>bin\<close> and generates code from the contracts.  The file system is a map from cleaned absolute paths to
  directories and files; every system call first draws from \<open>gp_faults\<close>.  Downloads, the zip format,
  \<open>go install\<close> and \<open>protoc\<close> are parameters.
\<close>

section \<open>Paths\<close>

type_synonym path = "string list"

fun split_slash :: "string \<Rightarrow> string list" where
  "split_slash [] = [[]]"
| "split_slash (c # cs) = (if c = CHR ''/'' then [] # split_slash cs
     else (case split_slash cs of [] \<Rightarrow> [[c]] | x # xs \<Rightarrow> (c # x) # xs))"

text \<open>\<open>filepath.Join\<close> onto a rooted path cleans: empty and dot components vanish, dot-dot removes one.\<close>

fun clean_onto :: "path \<Rightarrow> string list \<Rightarrow> path" where
  "clean_onto acc [] = acc"
| "clean_onto acc (c # cs) = (if c = [] \<or> c = ''.'' then clean_onto acc cs
     else if c = ''..'' then clean_onto (butlast acc) cs else clean_onto (acc @ [c]) cs)"

definition filepath_Join :: "path \<Rightarrow> string \<Rightarrow> path" where
  "filepath_Join dir name = clean_onto dir (split_slash name)"

record platform =
  GOOS :: string
  GOARCH :: string

definition path_text :: "platform \<Rightarrow> path \<Rightarrow> string" where
  "path_text pf p = concat (map (\<lambda>c. (if GOOS pf = ''windows'' then CHR 0x5C else CHR ''/'') # c) p)"

section \<open>State\<close>

datatype node = Dir | File string

record zip_entry =
  ze_Name :: string
  ze_IsDir :: bool
  ze_Open :: "gerror option"
  ze_Content :: string
  ze_Copy :: "gerror option"

record http_answer =
  ha_StatusCode :: int
  ha_Status :: string
  ha_Body :: string
  ha_Copy :: "gerror option"

text \<open>\<open>gp_Runs\<close> lists the commands that have been run and the downloads.\<close>

record toolchain =
  gp_Files :: "path \<Rightarrow> node option"
  gp_Faults :: "gerror option list"
  gp_Runs :: "string list list"

record tools =
  tl_Platform :: platform
  tl_Get :: "string \<Rightarrow> http_answer result"
  tl_Zip :: "string \<Rightarrow> zip_entry list result"
  tl_Install :: "string \<Rightarrow> path \<Rightarrow> (path \<Rightarrow> node option) \<Rightarrow> gerror option \<times> (path \<Rightarrow> node option)"
  tl_Protoc :: "path \<Rightarrow> string list \<Rightarrow> (path \<Rightarrow> node option) \<Rightarrow> gerror option \<times> (path \<Rightarrow> node option)"
  tl_Walk :: "path \<Rightarrow> (path \<Rightarrow> node option) \<Rightarrow> gerror option"

type_synonym action = "toolchain \<Rightarrow> gerror option \<times> toolchain"

text \<open>A call, and then the rest if it has not failed.\<close>

definition or_return :: "action \<Rightarrow> action \<Rightarrow> action" where
  "or_return a b w = (case a w of (Some e, w1) \<Rightarrow> (Some e, w1) | (None, w1) \<Rightarrow> b w1)"

definition wrapped :: "string \<Rightarrow> action \<Rightarrow> action" where
  "wrapped pre a w = (case a w of (Some e, w1) \<Rightarrow> (Some (wrap pre e), w1) | (None, w1) \<Rightarrow> (None, w1))"

definition syscall :: "action \<Rightarrow> action" where
  "syscall a w = (case gp_Faults w of
       Some e # fs \<Rightarrow> (Some e, w\<lparr>gp_Faults := fs\<rparr>)
     | fs \<Rightarrow> a (w\<lparr>gp_Faults := tl fs\<rparr>))"

definition put_node :: "path \<Rightarrow> node option \<Rightarrow> toolchain \<Rightarrow> toolchain" where
  "put_node p n w = w\<lparr>gp_Files := (gp_Files w)(p := n)\<rparr>"

section \<open>System calls\<close>

text \<open>\<open>os.MkdirAll\<close> fails where a file is in the way.\<close>

definition os_MkdirAll :: "path \<Rightarrow> action" where
  "os_MkdirAll p = syscall (\<lambda>w. if \<exists>q \<in> set (prefixes p). (case gp_Files w q of Some (File c) \<Rightarrow> True | _ \<Rightarrow> False)
     then (Some (ErrorString ''not a directory''), w)
     else (None, w\<lparr>gp_Files := (\<lambda>q. if q \<in> set (prefixes p) then Some Dir else gp_Files w q)\<rparr>))"

text \<open>\<open>os.Create\<close> and \<open>os.WriteFile\<close> truncate a file or make it in an existing directory.\<close>

definition os_Create :: "path \<Rightarrow> action" where
  "os_Create p = syscall (\<lambda>w. if gp_Files w (butlast p) \<noteq> Some Dir \<or> gp_Files w p = Some Dir
     then (Some (ErrorString ''open: no such file or directory''), w)
     else (None, put_node p (Some (File [])) w))"

definition os_WriteFile :: "path \<Rightarrow> string \<Rightarrow> action" where
  "os_WriteFile p content = or_return (os_Create p) (\<lambda>w. (None, put_node p (Some (File content)) w))"

text \<open>\<open>io.Copy\<close> writes what it gets, also before an error.\<close>

definition io_Copy :: "path \<Rightarrow> string \<Rightarrow> gerror option \<Rightarrow> action" where
  "io_Copy p content err w = (err, put_node p (Some (File content)) w)"

definition os_Remove :: "path \<Rightarrow> action" where
  "os_Remove p = syscall (\<lambda>w. if gp_Files w p = None then (Some (ErrorString ''remove: no such file''), w)
     else (None, put_node p None w))"

definition os_Chmod :: "path \<Rightarrow> action" where
  "os_Chmod p = syscall (\<lambda>w. if gp_Files w p = None then (Some (ErrorString ''chmod: no such file''), w) else (None, w))"

definition fileExists :: "path \<Rightarrow> toolchain \<Rightarrow> bool" where
  "fileExists p w \<longleftrightarrow> gp_Files w p \<noteq> None"

definition readFileTrim :: "path \<Rightarrow> toolchain \<Rightarrow> string" where
  "readFileTrim p w = (case gp_Files w p of Some (File c) \<Rightarrow> trim_space c | _ \<Rightarrow> [])"

section \<open>The repository root\<close>

text \<open>From the current directory upwards; the recursion is on the length of the path.\<close>

function repoRoot :: "(path \<Rightarrow> node option) \<Rightarrow> path \<Rightarrow> path result" where
  "repoRoot fs dir = (if fs (dir @ [''go.mod'']) \<noteq> None then Inr dir
     else if dir = [] then Inl (ErrorString ''go.mod not found above /'') else repoRoot fs (butlast dir))"
  by pat_completeness auto
termination by (relation "measure (\<lambda>(fs, dir). length dir)") auto

declare repoRoot.simps [simp del]

section \<open>Bootstrap\<close>

definition modulePath :: string where
  "modulePath = ''github.com/NicoYazawa/microservice_diagnosis''"

definition protocVersion :: string where
  "protocVersion = ''35.1''"

record pluginDef =
  pd_name :: string
  pd_pkg :: string
  pd_version :: string

definition pluginDefs :: "pluginDef list" where
  "pluginDefs =
    [\<lparr>pd_name = ''protoc-gen-go'', pd_pkg = ''google.golang.org/protobuf/cmd/protoc-gen-go'', pd_version = ''v1.36.12''\<rparr>,
     \<lparr>pd_name = ''protoc-gen-go-grpc'', pd_pkg = ''google.golang.org/grpc/cmd/protoc-gen-go-grpc'', pd_version = ''v1.6.2''\<rparr>,
     \<lparr>pd_name = ''protoc-gen-grpc-gateway'',
      pd_pkg = ''github.com/grpc-ecosystem/grpc-gateway/v2/protoc-gen-grpc-gateway'', pd_version = ''v2.30.0''\<rparr>,
     \<lparr>pd_name = ''protoc-gen-openapiv2'',
      pd_pkg = ''github.com/grpc-ecosystem/grpc-gateway/v2/protoc-gen-openapiv2'', pd_version = ''v2.30.0''\<rparr>]"

definition exeSuffix :: "platform \<Rightarrow> string" where
  "exeSuffix pf = (if GOOS pf = ''windows'' then ''.exe'' else [])"

definition protocPlatform :: "platform \<Rightarrow> string" where
  "protocPlatform pf =
    (let arch = (if GOARCH pf = ''amd64'' then ''x86_64'' else if GOARCH pf = ''arm64'' then ''aarch_64'' else GOARCH pf) in
     if GOOS pf = ''windows'' then (if arch = ''x86_64'' then ''win64'' else ''win32'')
     else if GOOS pf = ''darwin'' then ''osx-'' @ arch
     else GOOS pf @ ''-'' @ arch)"

definition protocDir_of :: "path \<Rightarrow> path" where
  "protocDir_of binDir = binDir @ [''protoc-'' @ protocVersion]"

definition protocExe_of :: "platform \<Rightarrow> path \<Rightarrow> path" where
  "protocExe_of pf binDir = protocDir_of binDir @ [''bin'', ''protoc'' @ exeSuffix pf]"

definition download :: "tools \<Rightarrow> string \<Rightarrow> path \<Rightarrow> action" where
  "download tc url dest w = (let w1 = w\<lparr>gp_Runs := gp_Runs w @ [[''GET'', url]]\<rparr> in
     case tl_Get tc url of
       Inl e \<Rightarrow> (Some e, w1)
     | Inr resp \<Rightarrow>
        (if ha_StatusCode resp \<noteq> 200 then (Some (ErrorString (''GET '' @ url @ '': status '' @ ha_Status resp)), w1)
         else or_return (os_Create dest) (io_Copy dest (ha_Body resp) (ha_Copy resp)) w1))"

fun unzip_files :: "path \<Rightarrow> zip_entry list \<Rightarrow> action" where
  "unzip_files dest [] w = (None, w)"
| "unzip_files dest (f # fs) w = (let target = filepath_Join dest (ze_Name f) in
     if ze_IsDir f then or_return (os_MkdirAll target) (unzip_files dest fs) w
     else or_return (os_MkdirAll (butlast target)) (\<lambda>w1. case ze_Open f of
         Some e \<Rightarrow> (Some e, w1)
       | None \<Rightarrow> or_return (os_Create target) (or_return (io_Copy target (ze_Content f) (ze_Copy f)) (unzip_files dest fs)) w1) w)"

definition unzip :: "tools \<Rightarrow> path \<Rightarrow> path \<Rightarrow> action" where
  "unzip tc src dest w = (case gp_Files w src of
       Some (File c) \<Rightarrow> (case tl_Zip tc c of
           Inl e \<Rightarrow> (Some e, w)
         | Inr entries \<Rightarrow> unzip_files dest entries w)
     | _ \<Rightarrow> (Some (ErrorString ''open: no such file''), w))"

definition protoc_url :: "platform \<Rightarrow> string" where
  "protoc_url pf = ''https://github.com/protocolbuffers/protobuf/releases/download/v'' @ protocVersion @ ''/protoc-'' @
     protocVersion @ ''-'' @ protocPlatform pf @ ''.zip''"

definition protoc_zip :: "platform \<Rightarrow> path \<Rightarrow> path" where
  "protoc_zip pf binDir = binDir @ [''protoc-'' @ protocVersion @ ''-'' @ protocPlatform pf @ ''.zip'']"

definition ensureProtoc :: "tools \<Rightarrow> path \<Rightarrow> action" where
  "ensureProtoc tc binDir w = (let pf = tl_Platform tc; exe = protocExe_of pf binDir in
     if fileExists exe w then (None, w)
     else or_return (os_MkdirAll binDir)
       (or_return (download tc (protoc_url pf) (protoc_zip pf binDir))
       (or_return (unzip tc (protoc_zip pf binDir) (protocDir_of binDir))
       (or_return (os_Remove (protoc_zip pf binDir))
       (\<lambda>w1. if GOOS pf \<noteq> ''windows'' then os_Chmod exe w1 else (None, w1))))) w)"

definition plugin_exe :: "platform \<Rightarrow> path \<Rightarrow> pluginDef \<Rightarrow> path" where
  "plugin_exe pf binDir p = binDir @ [pd_name p @ exeSuffix pf]"

definition plugin_marker :: "path \<Rightarrow> pluginDef \<Rightarrow> path" where
  "plugin_marker binDir p = binDir @ [pd_name p @ ''.version'']"

definition go_install :: "tools \<Rightarrow> path \<Rightarrow> pluginDef \<Rightarrow> action" where
  "go_install tc binDir p w = (let w1 = w\<lparr>gp_Runs := gp_Runs w @ [[''go'', ''install'', pd_pkg p @ ''@'' @ pd_version p]]\<rparr> in
     case tl_Install tc (pd_pkg p @ ''@'' @ pd_version p) binDir (gp_Files w1) of (e, fs) \<Rightarrow> (e, w1\<lparr>gp_Files := fs\<rparr>))"

fun install_plugins :: "tools \<Rightarrow> path \<Rightarrow> pluginDef list \<Rightarrow> action" where
  "install_plugins tc binDir [] w = (None, w)"
| "install_plugins tc binDir (p # ps) w =
     (if fileExists (plugin_exe (tl_Platform tc) binDir p) w \<and> readFileTrim (plugin_marker binDir p) w = pd_version p
      then install_plugins tc binDir ps w
      else or_return (wrapped (''go install '' @ pd_pkg p @ '': '') (go_install tc binDir p))
        (or_return (os_WriteFile (plugin_marker binDir p) (pd_version p)) (install_plugins tc binDir ps)) w)"

definition ensurePlugins :: "tools \<Rightarrow> path \<Rightarrow> action" where
  "ensurePlugins tc binDir = or_return (os_MkdirAll binDir) (install_plugins tc binDir pluginDefs)"

definition verifyToolchain :: "tools \<Rightarrow> path \<Rightarrow> toolchain \<Rightarrow> gerror option" where
  "verifyToolchain tc binDir w =
    (if \<not> fileExists (protocExe_of (tl_Platform tc) binDir) w
     then Some (ErrorString ''protoc missing: run once without -skip-bootstrap first'')
     else (case List.find (\<lambda>p. \<not> fileExists (plugin_exe (tl_Platform tc) binDir p) w) pluginDefs of
         Some p \<Rightarrow> Some (ErrorString (''plugin '' @ pd_name p @ '' missing: run once without -skip-bootstrap first''))
       | None \<Rightarrow> None))"

section \<open>Generation and the command\<close>

definition protoc_args :: "platform \<Rightarrow> path \<Rightarrow> path \<Rightarrow> string list" where
  "protoc_args pf repo binDir = (let t = path_text pf; out = t (repo @ [''api'', ''gen'', ''openapi'']) in
     [''-I'', t (repo @ [''api'', ''proto'']), ''-I'', t (repo @ [''third_party'']),
      ''--go_out='' @ t repo, ''--go_opt=module='' @ modulePath,
      ''--go-grpc_out='' @ t repo, ''--go-grpc_opt=module='' @ modulePath,
      ''--grpc-gateway_out='' @ t repo, ''--grpc-gateway_opt=module='' @ modulePath,
      ''--openapiv2_out='' @ out, ''--openapiv2_opt=allow_merge=true'', ''--openapiv2_opt=merge_file_name=mfdh''] @
     map (\<lambda>p. ''--plugin='' @ pd_name p @ ''='' @ t (plugin_exe pf binDir p)) pluginDefs @
     [''v1/observation.proto'', ''v1/orchestrator.proto'', ''v1/agent.proto''])"

definition run_protoc :: "tools \<Rightarrow> path \<Rightarrow> path \<Rightarrow> action" where
  "run_protoc tc repo binDir w = (let args = protoc_args (tl_Platform tc) repo binDir;
       exe = protocExe_of (tl_Platform tc) binDir;
       w1 = w\<lparr>gp_Runs := gp_Runs w @ [path_text (tl_Platform tc) exe # args]\<rparr> in
     case tl_Protoc tc exe args (gp_Files w1) of (e, fs) \<Rightarrow> (e, w1\<lparr>gp_Files := fs\<rparr>))"

definition generate :: "tools \<Rightarrow> path \<Rightarrow> path \<Rightarrow> action" where
  "generate tc repo binDir = or_return (os_MkdirAll (repo @ [''api'', ''gen'', ''openapi'']))
     (or_return (wrapped ''protoc: '' (run_protoc tc repo binDir))
     (\<lambda>w. (tl_Walk tc (repo @ [''api'', ''gen'']) (gp_Files w), w)))"

text \<open>\<open>cwd\<close> is the current directory; an error is printed and the exit code is 1.\<close>

definition genproto_main :: "tools \<Rightarrow> bool \<Rightarrow> bool \<Rightarrow> path result \<Rightarrow> action" where
  "genproto_main tc skipBootstrap onlyBootstrap cwd w =
    (case (case cwd of Inl e \<Rightarrow> Inl e | Inr dir \<Rightarrow> repoRoot (gp_Files w) dir) of
       Inl e \<Rightarrow> (Some (wrap ''locate repo root: '' e), w)
     | Inr repo \<Rightarrow> (let binDir = repo @ [''bin''] in
         or_return (if \<not> skipBootstrap
            then or_return (wrapped ''bootstrap protoc: '' (ensureProtoc tc binDir)) (wrapped ''bootstrap plugins: '' (ensurePlugins tc binDir))
            else (\<lambda>w. (verifyToolchain tc binDir w, w)))
           (if onlyBootstrap then (\<lambda>w. (None, w)) else generate tc repo binDir) w))"

section \<open>Calls in sequence\<close>

lemma or_return_None: "or_return a b w = (None, w') \<longleftrightarrow> (\<exists>w1. a w = (None, w1) \<and> b w1 = (None, w'))"
  by (auto simp: or_return_def split: prod.splits option.splits)

lemma wrapped_None: "wrapped pre a w = (None, w') \<longleftrightarrow> a w = (None, w')"
  by (auto simp: wrapped_def split: prod.splits option.splits)

lemma syscall_cases:
  assumes "syscall a w = (r, w')"
  obtains e where "r = Some e" "gp_Files w' = gp_Files w"
  | u where "gp_Files u = gp_Files w" "a u = (r, w')"
proof (cases "gp_Faults w")
  case Nil
  with assms that(2) [of "w\<lparr>gp_Faults := []\<rparr>"] show thesis by (simp add: syscall_def)
next
  case (Cons f fs)
  with assms that(1) that(2) [of "w\<lparr>gp_Faults := fs\<rparr>"] show thesis by (cases f) (auto simp: syscall_def)
qed

lemma MkdirAll_files:
  assumes "os_MkdirAll p w = (r, w')"
  shows "gp_Files w' = gp_Files w \<or> gp_Files w' = (\<lambda>q. if q \<in> set (prefixes p) then Some Dir else gp_Files w q)"
    and "r = None \<Longrightarrow> gp_Files w' = (\<lambda>q. if q \<in> set (prefixes p) then Some Dir else gp_Files w q)"
  using assms unfolding os_MkdirAll_def by (auto elim!: syscall_cases split: if_splits cong: if_cong)

lemma Create_files:
  assumes "os_Create p w = (r, w')"
  shows "gp_Files w' = gp_Files w \<or> gp_Files w' = (gp_Files w)(p \<mapsto> File [])"
  using assms unfolding os_Create_def by (auto elim!: syscall_cases split: if_splits simp: put_node_def)

lemma WriteFile_files:
  assumes "os_WriteFile p c w = (None, w')"
  shows "gp_Files w' = (gp_Files w)(p \<mapsto> File c)"
proof -
  from assms obtain w1 where "os_Create p w = (None, w1)" "w' = put_node p (Some (File c)) w1"
    by (auto simp: os_WriteFile_def or_return_None)
  with Create_files [of p w None w1] show ?thesis by (auto simp: put_node_def)
qed

section \<open>The bootstrap\<close>

text \<open>What the tool relies on of \<open>go install\<close>: it leaves an executable of the plugin's name in \<open>GOBIN\<close>, and nothing
  else on the way to and below that directory is touched.\<close>

definition install_law :: "tools \<Rightarrow> path \<Rightarrow> bool" where
  "install_law tc binDir \<longleftrightarrow> (\<forall>p \<in> set pluginDefs. \<forall>fs fs'.
     tl_Install tc (pd_pkg p @ ''@'' @ pd_version p) binDir fs = (None, fs') \<longrightarrow>
     fs' (plugin_exe (tl_Platform tc) binDir p) \<noteq> None \<and>
     (\<forall>q. q \<noteq> plugin_exe (tl_Platform tc) binDir p \<and> fs q \<noteq> None \<and> (prefix binDir q \<or> prefix q binDir) \<longrightarrow> fs' q = fs q))"

definition plugin_ready :: "tools \<Rightarrow> path \<Rightarrow> (path \<Rightarrow> node option) \<Rightarrow> pluginDef \<Rightarrow> bool" where
  "plugin_ready tc binDir fs p \<longleftrightarrow> fs (plugin_exe (tl_Platform tc) binDir p) \<noteq> None \<and>
     (\<exists>c. fs (plugin_marker binDir p) = Some (File c) \<and> trim_space c = pd_version p)"

text \<open>The names do not clash.\<close>

lemma plugin_names:
  "\<forall>p \<in> set pluginDefs. \<forall>p' \<in> set pluginDefs. (pd_name p = pd_name p' \<longrightarrow> p = p') \<and>
     pd_name p @ ''.version'' \<noteq> pd_name p' \<and> pd_name p @ ''.version'' \<noteq> pd_name p' @ ''.exe'' \<and>
     trim_space (pd_version p) = pd_version p"
  unfolding pluginDefs_def by code_simp

lemma plugin_paths:
  assumes "p \<in> set pluginDefs" and "p' \<in> set pluginDefs"
  shows "plugin_marker binDir p \<noteq> plugin_exe pf binDir p'" and "plugin_marker binDir p = plugin_marker binDir p' \<longleftrightarrow> p = p'"
  using plugin_names assms by (auto simp: plugin_marker_def plugin_exe_def exeSuffix_def)

lemma protoc_paths:
  "protocExe_of pf binDir \<noteq> plugin_exe pf' binDir p" "protocExe_of pf binDir \<noteq> plugin_marker binDir p"
  "prefix binDir (protocExe_of pf binDir)" "prefix binDir (plugin_exe pf binDir p)" "prefix binDir (plugin_marker binDir p)"
  by (simp_all add: protocExe_of_def protocDir_of_def plugin_exe_def plugin_marker_def)

lemma trimmed_versions: "p \<in> set pluginDefs \<Longrightarrow> trim_space (pd_version p) = pd_version p"
  using plugin_names by blast

text \<open>The installation of one plugin.\<close>

lemma install_one:
  assumes "install_law tc binDir" and "p \<in> set pluginDefs"
    and "or_return (wrapped pre (go_install tc binDir p)) (os_WriteFile (plugin_marker binDir p) (pd_version p)) w = (None, w')"
  shows "plugin_ready tc binDir (gp_Files w') p \<and>
    (\<forall>q. q \<noteq> plugin_exe (tl_Platform tc) binDir p \<and> q \<noteq> plugin_marker binDir p \<and> gp_Files w q \<noteq> None \<and>
       (prefix binDir q \<or> prefix q binDir) \<longrightarrow> gp_Files w' q = gp_Files w q)"
proof -
  from assms(3) obtain w1 where 1: "go_install tc binDir p w = (None, w1)"
    and 2: "os_WriteFile (plugin_marker binDir p) (pd_version p) w1 = (None, w')" by (auto simp: or_return_None wrapped_None)
  from 1 have "tl_Install tc (pd_pkg p @ ''@'' @ pd_version p) binDir (gp_Files w) = (None, gp_Files w1)"
    by (auto simp: go_install_def Let_def split: prod.splits)
  with assms(1,2) have I: "gp_Files w1 (plugin_exe (tl_Platform tc) binDir p) \<noteq> None"
    "\<forall>q. q \<noteq> plugin_exe (tl_Platform tc) binDir p \<and> gp_Files w q \<noteq> None \<and> (prefix binDir q \<or> prefix q binDir) \<longrightarrow>
       gp_Files w1 q = gp_Files w q" by (auto simp: install_law_def)
  with WriteFile_files [OF 2] plugin_paths(1) [OF assms(2,2)] trimmed_versions [OF assms(2)]
  show ?thesis by (auto simp: plugin_ready_def)
qed

lemma ready_kept:
  assumes "p \<in> set pluginDefs" and "p' \<in> set pluginDefs" and "plugin_ready tc binDir fs p'" and "plugin_ready tc binDir fs' p"
    and "\<forall>q. q \<noteq> plugin_exe (tl_Platform tc) binDir p \<and> q \<noteq> plugin_marker binDir p \<and> fs q \<noteq> None \<and>
       (prefix binDir q \<or> prefix q binDir) \<longrightarrow> fs' q = fs q"
  shows "plugin_ready tc binDir fs' p'"
proof (cases "p' = p")
  case False
  then have m: "plugin_marker binDir p' \<noteq> plugin_marker binDir p" "plugin_marker binDir p' \<noteq> plugin_exe (tl_Platform tc) binDir p"
    "plugin_exe (tl_Platform tc) binDir p' \<noteq> plugin_marker binDir p"
    using plugin_paths assms(1,2) by metis+
  from assms(3) obtain c where c: "fs (plugin_marker binDir p') = Some (File c)" "trim_space c = pd_version p'"
    and x: "fs (plugin_exe (tl_Platform tc) binDir p') \<noteq> None" by (auto simp: plugin_ready_def)
  have "fs' (plugin_marker binDir p') = Some (File c)" using assms(5) m c(1) protoc_paths(5) by auto
  moreover have "fs' (plugin_exe (tl_Platform tc) binDir p') \<noteq> None"
  proof (cases "plugin_exe (tl_Platform tc) binDir p' = plugin_exe (tl_Platform tc) binDir p")
    case True
    with assms(4) show ?thesis by (simp add: plugin_ready_def)
  next
    case False
    with assms(5) m(3) x protoc_paths(4) have "fs' (plugin_exe (tl_Platform tc) binDir p') = fs (plugin_exe (tl_Platform tc) binDir p')"
      by blast
    with x show ?thesis by simp
  qed
  ultimately show ?thesis using c(2) by (auto simp: plugin_ready_def)
qed (use assms(4) in simp)

definition bin_ready :: "path \<Rightarrow> platform \<Rightarrow> (path \<Rightarrow> node option) \<Rightarrow> bool" where
  "bin_ready binDir pf fs \<longleftrightarrow> fs (protocExe_of pf binDir) \<noteq> None \<and> (\<forall>q. prefix q binDir \<longrightarrow> fs q = Some Dir)"

lemma bin_kept:
  assumes "bin_ready binDir pf fs"
    and "\<forall>q. q \<noteq> plugin_exe pf' binDir p \<and> q \<noteq> plugin_marker binDir p \<and> fs q \<noteq> None \<and>
       (prefix binDir q \<or> prefix q binDir) \<longrightarrow> fs' q = fs q"
  shows "bin_ready binDir pf fs'"
proof -
  have "\<not> prefix (plugin_exe pf' binDir p) binDir" "\<not> prefix (plugin_marker binDir p) binDir"
    by (auto simp: plugin_exe_def plugin_marker_def dest!: prefix_length_le)
  with assms protoc_paths show ?thesis unfolding bin_ready_def by (metis option.distinct(1))
qed

lemma install_plugins_ready:
  assumes "install_law tc binDir" and "set ps \<subseteq> set pluginDefs" and "install_plugins tc binDir ps w = (None, w')"
    and "bin_ready binDir (tl_Platform tc) (gp_Files w)" and "\<forall>p \<in> P. plugin_ready tc binDir (gp_Files w) p" and "P \<subseteq> set pluginDefs"
  shows "bin_ready binDir (tl_Platform tc) (gp_Files w') \<and> (\<forall>p \<in> P \<union> set ps. plugin_ready tc binDir (gp_Files w') p)"
  using assms(2-6)
proof (induction ps arbitrary: w P)
  case (Cons p ps)
  have p: "p \<in> set pluginDefs" "set ps \<subseteq> set pluginDefs" "insert p P \<subseteq> set pluginDefs" using Cons.prems(1,5) by simp_all
  show ?case
  proof (cases "fileExists (plugin_exe (tl_Platform tc) binDir p) w \<and> readFileTrim (plugin_marker binDir p) w = pd_version p")
    case True
    have "pd_version p \<noteq> []" using p(1) by (auto simp: pluginDefs_def)
    with True have "plugin_ready tc binDir (gp_Files w) p"
      by (auto simp: fileExists_def readFileTrim_def plugin_ready_def split: option.splits node.splits)
    with Cons.IH [OF p(2) _ Cons.prems(3), of "insert p P"] Cons.prems(2,4) True p(3) show ?thesis by simp
  next
    case False
    with Cons.prems(2) obtain w1 where
      1: "or_return (wrapped (''go install '' @ pd_pkg p @ '': '') (go_install tc binDir p))
          (os_WriteFile (plugin_marker binDir p) (pd_version p)) w = (None, w1)"
      and 2: "install_plugins tc binDir ps w1 = (None, w')" by (auto simp: or_return_None)
    from install_one [OF assms(1) p(1) 1] have r: "plugin_ready tc binDir (gp_Files w1) p"
      and k: "\<forall>q. q \<noteq> plugin_exe (tl_Platform tc) binDir p \<and> q \<noteq> plugin_marker binDir p \<and> gp_Files w q \<noteq> None \<and>
         (prefix binDir q \<or> prefix q binDir) \<longrightarrow> gp_Files w1 q = gp_Files w q" by blast+
    have "\<forall>p' \<in> insert p P. plugin_ready tc binDir (gp_Files w1) p'"
      using ready_kept [OF p(1) _ _ r k] r Cons.prems(4,5) by blast
    with Cons.IH [OF p(2) 2 bin_kept [OF Cons.prems(3) k], of "insert p P"] p(3) show ?thesis by simp
  qed
qed simp

lemma ensureProtoc_exists:
  assumes "ensureProtoc tc binDir w = (None, w')" and "GOOS (tl_Platform tc) \<noteq> ''windows''"
  shows "fileExists (protocExe_of (tl_Platform tc) binDir) w'"
proof (cases "fileExists (protocExe_of (tl_Platform tc) binDir) w")
  case True
  with assms(1) show ?thesis by (simp add: ensureProtoc_def Let_def)
next
  case False
  with assms obtain u where "os_Chmod (protocExe_of (tl_Platform tc) binDir) u = (None, w')"
    by (auto simp: ensureProtoc_def Let_def or_return_None)
  then show ?thesis by (auto simp: os_Chmod_def fileExists_def elim!: syscall_cases split: if_splits)
qed

lemma all_ready_installed:
  assumes "\<forall>p \<in> set ps. plugin_ready tc binDir (gp_Files w) p" and "set ps \<subseteq> set pluginDefs"
  shows "install_plugins tc binDir ps w = (None, w)"
  using assms by (induction ps) (auto simp: plugin_ready_def fileExists_def readFileTrim_def)

lemma MkdirAll_again:
  assumes "gp_Faults w = []" and "\<forall>q. prefix q p \<longrightarrow> gp_Files w q = Some Dir"
  shows "os_MkdirAll p w = (None, w)"
proof -
  have "(\<lambda>q. if q \<in> set (prefixes p) then Some Dir else gp_Files w q) = gp_Files w" using assms(2) by auto
  then have "w\<lparr>gp_Faults := tl [], gp_Files := (\<lambda>q. if q \<in> set (prefixes p) then Some Dir else gp_Files w q)\<rparr> = w"
    using assms(1) by simp
  then show ?thesis using assms by (simp add: os_MkdirAll_def syscall_def cong: if_cong)
qed

lemma bootstrap_ready:
  assumes "install_law tc binDir" and "GOOS (tl_Platform tc) \<noteq> ''windows''"
    and "ensureProtoc tc binDir w = (None, w1)" and "ensurePlugins tc binDir w1 = (None, w2)"
  shows "bin_ready binDir (tl_Platform tc) (gp_Files w2) \<and> (\<forall>p \<in> set pluginDefs. plugin_ready tc binDir (gp_Files w2) p)"
proof -
  have x: "gp_Files w1 (protocExe_of (tl_Platform tc) binDir) \<noteq> None"
    using ensureProtoc_exists [OF assms(3,2)] by (simp add: fileExists_def)
  from assms(4) obtain u where 1: "os_MkdirAll binDir w1 = (None, u)" and 2: "install_plugins tc binDir pluginDefs u = (None, w2)"
    by (auto simp: ensurePlugins_def or_return_None)
  have "bin_ready binDir (tl_Platform tc) (gp_Files u)"
    using x unfolding bin_ready_def MkdirAll_files(2) [OF 1 refl] by auto
  from install_plugins_ready [OF assms(1) subset_refl 2 this, of "{}"] show ?thesis by simp
qed

text \<open>C40 (bootstrap_verified): on a platform with Unix permissions, whatever calls fail on the way, if the bootstrap
  reports success then \<open>-skip-bootstrap\<close> accepts the toolchain, and a second bootstrap, when no call
  fails, succeeds without a download, an installation or any change to the file system.\<close>

theorem bootstrap_verified:
  assumes "install_law tc binDir" and "GOOS (tl_Platform tc) \<noteq> ''windows''"
    and "ensureProtoc tc binDir w = (None, w1)" and "ensurePlugins tc binDir w1 = (None, w2)"
  shows "verifyToolchain tc binDir w2 = None \<and>
    (gp_Faults w2 = [] \<longrightarrow> ensureProtoc tc binDir w2 = (None, w2) \<and> ensurePlugins tc binDir w2 = (None, w2))"
proof -
  from bootstrap_ready [OF assms] have b: "bin_ready binDir (tl_Platform tc) (gp_Files w2)"
    and p: "\<forall>p \<in> set pluginDefs. plugin_ready tc binDir (gp_Files w2) p" by blast+
  have x: "fileExists (protocExe_of (tl_Platform tc) binDir) w2" using b by (simp add: bin_ready_def fileExists_def)
  have "List.find (\<lambda>p. \<not> fileExists (plugin_exe (tl_Platform tc) binDir p) w2) pluginDefs = None"
    using p by (auto simp: find_None_iff plugin_ready_def fileExists_def)
  then have "verifyToolchain tc binDir w2 = None" using x by (simp add: verifyToolchain_def)
  moreover have "ensureProtoc tc binDir w2 = (None, w2)" using x by (simp add: ensureProtoc_def Let_def)
  moreover have "ensurePlugins tc binDir w2 = (None, w2)" if "gp_Faults w2 = []"
    using MkdirAll_again [OF that, of binDir] all_ready_installed [OF p subset_refl] b
    by (simp add: ensurePlugins_def or_return_def bin_ready_def)
  ultimately show ?thesis by blast
qed

section \<open>The archive\<close>

lemma unzip_files_confined:
  assumes "\<forall>f \<in> set fs. prefix dest (filepath_Join dest (ze_Name f))" and "unzip_files dest fs w = (r, w')"
    and "\<not> prefix dest q" and "\<not> prefix q dest"
  shows "gp_Files w' q = gp_Files w q"
  using assms(1,2)
proof (induction fs arbitrary: w)
  case (Cons f fs)
  let ?t = "filepath_Join dest (ze_Name f)"
  have t: "prefix dest ?t" using Cons.prems(1) by simp
  with assms(3,4) have q: "q \<notin> set (prefixes ?t)" "q \<notin> set (prefixes (butlast ?t))" "q \<noteq> ?t"
    using prefix_same_cases [of q ?t dest] prefix_order.trans [OF _ prefixeq_butlast, of q ?t] by auto
  have IH: "unzip_files dest fs u = (r, w') \<Longrightarrow> gp_Files u q = gp_Files w q \<Longrightarrow> gp_Files w' q = gp_Files w q" for u
    using Cons.IH [of u] Cons.prems(1) by simp
  have D: "os_MkdirAll p u = (e, u') \<Longrightarrow> q \<notin> set (prefixes p) \<Longrightarrow> gp_Files u' q = gp_Files u q" for p u e u'
    using MkdirAll_files(1) [of p u e u'] by auto
  have C: "os_Create ?t u = (e, u') \<Longrightarrow> gp_Files u' q = gp_Files u q" for u e u'
    using Create_files [of ?t u e u'] q(3) by auto
  have Y: "gp_Files (snd (io_Copy ?t c e u)) q = gp_Files u q" for c e u
    using q(3) by (simp add: io_Copy_def put_node_def)
  from Cons.prems(2) show ?case
    using IH D [OF _ q(1)] D [OF _ q(2)] C Y
    by (auto simp: or_return_def Let_def io_Copy_def split: if_splits prod.splits option.splits)
qed simp

text \<open>Unpacking an archive whose names stay below the target directory touches nothing outside
  it and the way to it.  Nothing in the code checks the names (\<open>unzip_escapes\<close>).\<close>

theorem unzip_confined:
  assumes "unzip tc src dest w = (r, w')"
    and "\<And>c fs. gp_Files w src = Some (File c) \<Longrightarrow> tl_Zip tc c = Inr fs \<Longrightarrow>
      filter (\<lambda>f. \<not> prefix dest (filepath_Join dest (ze_Name f))) fs = []"
    and "\<not> prefix dest q" and "\<not> prefix q dest"
  shows "gp_Files w' q = gp_Files w q"
proof -
  from assms(1) have "w' = w \<or> (\<exists>c fs. gp_Files w src = Some (File c) \<and> tl_Zip tc c = Inr fs \<and> unzip_files dest fs w = (r, w'))"
    by (auto simp: unzip_def split: option.splits node.splits sum.splits)
  then show ?thesis
  proof (elim disjE exE conjE)
    fix c fs
    assume c: "gp_Files w src = Some (File c)" "tl_Zip tc c = Inr fs" and u: "unzip_files dest fs w = (r, w')"
    from assms(2) [OF c] have "\<forall>f \<in> set fs. prefix dest (filepath_Join dest (ze_Name f))" by (simp add: filter_empty_conv)
    from unzip_files_confined [OF this u assms(3,4)] show ?thesis .
  qed simp
qed

definition sample_files :: "path \<Rightarrow> node option" where
  "sample_files q = (if q \<in> {[], [''repo'']} then Some Dir
     else if q \<in> {[''repo'', ''go.mod''], [''repo'', ''main.go'']} then Some (File ''go'') else None)"

definition sample_entry :: "string \<Rightarrow> gerror option \<Rightarrow> zip_entry" where
  "sample_entry name e = \<lparr>ze_Name = name, ze_IsDir = False, ze_Open = None, ze_Content = ''elf'', ze_Copy = e\<rparr>"

definition sample_tools :: "zip_entry list \<Rightarrow> tools" where
  "sample_tools fs = \<lparr>tl_Platform = \<lparr>GOOS = ''linux'', GOARCH = ''amd64''\<rparr>,
     tl_Get = (\<lambda>url. Inr \<lparr>ha_StatusCode = 200, ha_Status = ''200 OK'', ha_Body = ''zip'', ha_Copy = None\<rparr>),
     tl_Zip = (\<lambda>c. Inr fs),
     tl_Install = (\<lambda>s dir fs. (None, \<lambda>q. if fs q = None \<and>
        q \<in> set (map (\<lambda>p. dir @ [pd_name p]) pluginDefs) then Some (File ''elf'') else fs q)),
     tl_Protoc = (\<lambda>exe args fs. (None, fs)), tl_Walk = (\<lambda>p fs. None)\<rparr>"

definition sample_machine :: toolchain where
  "sample_machine = \<lparr>gp_Files = sample_files, gp_Faults = [], gp_Runs = []\<rparr>"

abbreviation "sample_bin \<equiv> [''repo'', ''bin'']"

lemma sample_law: "install_law (sample_tools fs) sample_bin"
  by (auto simp: install_law_def sample_tools_def plugin_exe_def exeSuffix_def)

text \<open>An entry with dot-dots overwrites a source file of the repository.\<close>

lemma unzip_escapes:
  "gp_Files (snd (ensureProtoc (sample_tools [sample_entry ''../../main.go'' None]) sample_bin sample_machine)) [''repo'', ''main.go'']
     = Some (File ''elf'')"
  by code_simp

text \<open>The connection breaks while the archive is unpacked: the half-written executable passes as installed.\<close>

lemma interrupted_unpacking:
  "(let tc = sample_tools [sample_entry ''bin/protoc'' (Some (ErrorString ''unexpected EOF''))];
        w1 = snd (ensureProtoc tc sample_bin sample_machine) in
    fst (ensureProtoc tc sample_bin sample_machine) \<noteq> None \<and> fst (ensureProtoc tc sample_bin w1) = None)"
  by code_simp

theorem unzip_confined_witness:
  "gp_Files (snd (unzip (sample_tools [sample_entry ''bin/protoc'' None]) [''repo'', ''go.mod''] [''repo'', ''bin'', ''p'']
      sample_machine)) [''repo'', ''main.go''] = Some (File ''go'')"
proof -
  let ?tc = "sample_tools [sample_entry ''bin/protoc'' None]"
  obtain r w' where 1: "unzip ?tc [''repo'', ''go.mod''] [''repo'', ''bin'', ''p''] sample_machine = (r, w')" by force
  have j: "filepath_Join [''repo'', ''bin'', ''p''] ''bin/protoc'' = [''repo'', ''bin'', ''p'', ''bin'', ''protoc'']" by code_simp
  have "gp_Files w' [''repo'', ''main.go''] = gp_Files sample_machine [''repo'', ''main.go'']"
    by (rule unzip_confined [OF 1]) (auto simp: sample_tools_def sample_entry_def j)
  with 1 show ?thesis by (simp add: sample_machine_def sample_files_def)
qed

theorem bootstrap_verified_witness:
  "let tc = sample_tools [sample_entry ''bin/protoc'' None] in
   verifyToolchain tc sample_bin (snd (ensurePlugins tc sample_bin (snd (ensureProtoc tc sample_bin sample_machine)))) = None"
proof -
  let ?tc = "sample_tools [sample_entry ''bin/protoc'' None]"
  have r: "fst (ensureProtoc ?tc sample_bin sample_machine) = None"
    "fst (ensurePlugins ?tc sample_bin (snd (ensureProtoc ?tc sample_bin sample_machine))) = None" by code_simp+
  then obtain w1 where 1: "ensureProtoc ?tc sample_bin sample_machine = (None, w1)" by (metis prod.collapse)
  with r(2) obtain w2 where 2: "ensurePlugins ?tc sample_bin w1 = (None, w2)" by (metis prod.collapse snd_conv)
  have "GOOS (tl_Platform ?tc) \<noteq> ''windows''" by (simp add: sample_tools_def)
  from bootstrap_verified [OF sample_law this 1 2] 1 2 show ?thesis by (simp add: Let_def)
qed

section \<open>The repository root\<close>

text \<open>The search always ends; it finds the nearest directory at or above the current one that
  has a \<open>go.mod\<close>, and fails exactly if there is none up to the root of the file system.\<close>

theorem repoRoot_nearest:
  "(case repoRoot fs dir of
      Inl e \<Rightarrow> (\<forall>q. prefix q dir \<longrightarrow> fs (q @ [''go.mod'']) = None)
    | Inr repo \<Rightarrow> prefix repo dir \<and> fs (repo @ [''go.mod'']) \<noteq> None \<and>
        (\<forall>q. prefix q dir \<and> length repo < length q \<longrightarrow> fs (q @ [''go.mod'']) = None))"
proof (induction fs dir rule: repoRoot.induct)
  case (1 fs dir)
  have up: "prefix q dir \<longleftrightarrow> q = dir \<or> prefix q (butlast dir)" if "dir \<noteq> []" for q
    using that prefix_snoc [of q "butlast dir" "last dir"] by simp
  show ?case
  proof (cases "fs (dir @ [''go.mod'']) \<noteq> None")
    case True
    then show ?thesis by (subst repoRoot.simps) (auto dest: prefix_length_le)
  next
    case False
    show ?thesis
    proof (cases "dir = []")
      case True
      with False show ?thesis by (subst repoRoot.simps) auto
    next
      case ne: False
      with 1 False have IH: "case repoRoot fs (butlast dir) of
          Inl e \<Rightarrow> (\<forall>q. prefix q (butlast dir) \<longrightarrow> fs (q @ [''go.mod'']) = None)
        | Inr repo \<Rightarrow> prefix repo (butlast dir) \<and> fs (repo @ [''go.mod'']) \<noteq> None \<and>
            (\<forall>q. prefix q (butlast dir) \<and> length repo < length q \<longrightarrow> fs (q @ [''go.mod'']) = None)" by blast
      have "repoRoot fs dir = repoRoot fs (butlast dir)" using False ne by (subst repoRoot.simps) simp
      then show ?thesis
      proof (cases "repoRoot fs (butlast dir)")
        case (Inl e)
        with \<open>repoRoot fs dir = _\<close> IH False show ?thesis by (simp add: up [OF ne])
      next
        case (Inr repo)
        with \<open>repoRoot fs dir = _\<close> IH False show ?thesis by (simp add: up [OF ne]) blast
      qed
    qed
  qed
qed

theorem repoRoot_nearest_witness: "repoRoot sample_files [''repo'', ''cmd'', ''genproto''] = Inr [''repo'']"
proof -
  have "repoRoot sample_files [''repo'', ''cmd'', ''genproto''] \<noteq> Inl e" for e
    using repoRoot_nearest [where fs = sample_files and dir = "[''repo'', ''cmd'', ''genproto'']"]
    by (auto simp: sample_files_def split: sum.splits dest: spec [of _ "[''repo'']"])
  then obtain r where r: "repoRoot sample_files [''repo'', ''cmd'', ''genproto''] = Inr r"
    by (cases "repoRoot sample_files [''repo'', ''cmd'', ''genproto'']") auto
  with repoRoot_nearest [where fs = sample_files and dir = "[''repo'', ''cmd'', ''genproto'']"] have "sample_files (r @ [''go.mod'']) \<noteq> None" by simp
  then have "r = [''repo'']" by (cases r) (auto simp: sample_files_def split: if_splits)
  with r show ?thesis by simp
qed

end
