(* ===== verification/Gateway.thy ===== *)
theory Gateway imports Bootstrap begin

text \<open>
  The gRPC gateway: the translation of HTTP requests into calls of the gRPC services
  (\<open>api/gen/orchestrator/v1/orchestrator.pb.gw.go\<close>, \<open>api/gen/agent/v1/agent.pb.gw.go\<close>) and its mounting in
  \<open>server/gin.go\<close>.  The runtime library of the gateway and the codecs are parameters: decoding a body into a
  message, filling it from a form, matching a path against a compiled pattern.  A client or a server of a
  service is a function from calls.
\<close>

section \<open>The parts of a translation\<close>

type_synonym path_params = "string \<Rightarrow> string option"

type_synonym form = "(string \<times> string list) list"

text \<open>A request with its body, empty if there is none, and what \<open>ParseForm\<close> gives.\<close>

record gw_request =
  gq_Body :: string
  gq_Form :: "form result"

record gw_runtime =
  rt_String :: "string \<Rightarrow> string result"
  rt_AnnotateContext :: "string \<Rightarrow> string \<Rightarrow> gw_request \<Rightarrow> gerror option"
  rt_AnnotateIncomingContext :: "string \<Rightarrow> string \<Rightarrow> gw_request \<Rightarrow> gerror option"

type_synonym 'm decoder = "string \<Rightarrow> 'm \<Rightarrow> gerror option \<times> 'm"

text \<open>\<open>PopulateQueryParameters\<close>; the filter lists the fields that a form cannot set.\<close>

type_synonym 'm populator = "form \<Rightarrow> string list \<Rightarrow> 'm \<Rightarrow> gerror option \<times> 'm"

definition status_Errorf :: "string \<Rightarrow> string \<Rightarrow> gerror" where
  "status_Errorf code msg = ErrorString (''rpc error: code = '' @ code @ '' desc = '' @ msg)"

text \<open>An empty body (\<open>io.EOF\<close>) leaves the message as it was.\<close>

definition decode_body :: "'m decoder \<Rightarrow> gw_request \<Rightarrow> 'm \<Rightarrow> 'm result" where
  "decode_body decode req m = (case decode (gq_Body req) m of
       (None, m1) \<Rightarrow> Inr m1
     | (Some e, m1) \<Rightarrow> if errors_is e EOF then Inr m1 else Inl (status_Errorf ''InvalidArgument'' (error_text e)))"

definition populate_query :: "'m populator \<Rightarrow> string list \<Rightarrow> gw_request \<Rightarrow> 'm \<Rightarrow> 'm result" where
  "populate_query populate flt req m = (case gq_Form req of
       Inl e \<Rightarrow> Inl (status_Errorf ''InvalidArgument'' (error_text e))
     | Inr fm \<Rightarrow> (case populate fm flt m of
           (Some e, m1) \<Rightarrow> Inl (status_Errorf ''InvalidArgument'' (error_text e))
         | (None, m1) \<Rightarrow> Inr m1))"

definition path_param :: "gw_runtime \<Rightarrow> string \<Rightarrow> path_params \<Rightarrow> string result" where
  "path_param rt name params = (case params name of
       None \<Rightarrow> Inl (status_Errorf ''InvalidArgument'' (''missing parameter '' @ name))
     | Some val \<Rightarrow> (case rt_String rt val of
           Inl e \<Rightarrow> Inl (status_Errorf ''InvalidArgument''
             (''type mismatch, parameter: '' @ name @ '', error: '' @ error_text e))
         | Inr v \<Rightarrow> Inr v))"

definition and_then :: "'a result \<Rightarrow> ('a \<Rightarrow> 'b result) \<Rightarrow> 'b result" where
  "and_then r f = (case r of Inl e \<Rightarrow> Inl e | Inr a \<Rightarrow> f a)"

text \<open>The call of the service, if the message could be built.\<close>

definition call_with :: "('c \<Rightarrow> 'k \<Rightarrow> 'r result \<times> 'k) \<Rightarrow> 'c result \<Rightarrow> 'k \<Rightarrow> 'r result \<times> 'k" where
  "call_with client msg k = (case msg of Inl e \<Rightarrow> (Inl e, k) | Inr c \<Rightarrow> client c k)"

section \<open>Messages and calls (orchestrator.proto)\<close>

record CreateSessionRequest =
  csr_TargetService :: string
  csr_Alert :: string
  csr_Labels :: "(string \<times> string) list"

record StartSessionRequest =
  ssr_Id :: string

record RetrySessionRequest =
  rsr_Id :: string

record IgnoreSessionRequest =
  isr_Id :: string
  isr_Reason :: string

record DecisionApprovalRequest =
  dar_Id :: string
  dar_ApprovalId :: string
  dar_Decision :: int
  dar_DecidedBy :: string
  dar_Comment :: string

record GetReportRequest =
  grr_Id :: string
  grr_Format :: int

record DownloadReportRequest =
  drr_Id :: string
  drr_Format :: int

datatype orch_call = Call_CreateSession CreateSessionRequest | Call_ListSessions ListSessionsRequest
  | Call_GetSession string | Call_StartSession StartSessionRequest | Call_RetrySession RetrySessionRequest
  | Call_IgnoreSession IgnoreSessionRequest | Call_DecisionApproval DecisionApprovalRequest
  | Call_GetReport GetReportRequest | Call_DownloadReport DownloadReportRequest | Call_ListAgents

record orch_codec =
  dec_CreateSession :: "CreateSessionRequest decoder"
  dec_StartSession :: "StartSessionRequest decoder"
  dec_RetrySession :: "RetrySessionRequest decoder"
  dec_IgnoreSession :: "IgnoreSessionRequest decoder"
  dec_DecisionApproval :: "DecisionApprovalRequest decoder"
  pop_ListSessions :: "ListSessionsRequest populator"
  pop_GetReport :: "GetReportRequest populator"
  pop_DownloadReport :: "DownloadReportRequest populator"

section \<open>The translations\<close>

text \<open>Each has a form for a client (\<open>request_\<close>, which also reads the rest of the body) and one for a server in
  the same process (\<open>local_request_\<close>); they build the message in the same way.\<close>

definition Orchestrator_CreateSession_0 ::
  "orch_codec \<Rightarrow> (orch_call \<Rightarrow> 'k \<Rightarrow> 'r result \<times> 'k) \<Rightarrow> gw_request \<Rightarrow> path_params \<Rightarrow> 'k \<Rightarrow> 'r result \<times> 'k" where
  "Orchestrator_CreateSession_0 cd client req params =
    call_with client (and_then (decode_body (dec_CreateSession cd) req \<lparr>csr_TargetService = [], csr_Alert = [], csr_Labels = []\<rparr>)
      (\<lambda>protoReq. Inr (Call_CreateSession protoReq)))"

definition Orchestrator_ListSessions_0 ::
  "orch_codec \<Rightarrow> (orch_call \<Rightarrow> 'k \<Rightarrow> 'r result \<times> 'k) \<Rightarrow> gw_request \<Rightarrow> path_params \<Rightarrow> 'k \<Rightarrow> 'r result \<times> 'k" where
  "Orchestrator_ListSessions_0 cd client req params =
    call_with client (and_then (populate_query (pop_ListSessions cd) [] req
        \<lparr>lr_Page = 0, lr_PageSize = 0, lr_Status = 0, lr_TargetService = [], lr_From = None, lr_To = None, lr_Keyword = []\<rparr>)
      (\<lambda>protoReq. Inr (Call_ListSessions protoReq)))"

definition Orchestrator_GetSession_0 ::
  "gw_runtime \<Rightarrow> (orch_call \<Rightarrow> 'k \<Rightarrow> 'r result \<times> 'k) \<Rightarrow> gw_request \<Rightarrow> path_params \<Rightarrow> 'k \<Rightarrow> 'r result \<times> 'k" where
  "Orchestrator_GetSession_0 rt client req params =
    call_with client (and_then (path_param rt ''id'' params) (\<lambda>i. Inr (Call_GetSession i)))"

definition Orchestrator_StartSession_0 ::
  "gw_runtime \<Rightarrow> orch_codec \<Rightarrow> (orch_call \<Rightarrow> 'k \<Rightarrow> 'r result \<times> 'k) \<Rightarrow> gw_request \<Rightarrow> path_params \<Rightarrow> 'k \<Rightarrow> 'r result \<times> 'k" where
  "Orchestrator_StartSession_0 rt cd client req params =
    call_with client (and_then (decode_body (dec_StartSession cd) req \<lparr>ssr_Id = []\<rparr>) (\<lambda>protoReq.
      and_then (path_param rt ''id'' params) (\<lambda>i. Inr (Call_StartSession (protoReq\<lparr>ssr_Id := i\<rparr>)))))"

definition Orchestrator_RetrySession_0 ::
  "gw_runtime \<Rightarrow> orch_codec \<Rightarrow> (orch_call \<Rightarrow> 'k \<Rightarrow> 'r result \<times> 'k) \<Rightarrow> gw_request \<Rightarrow> path_params \<Rightarrow> 'k \<Rightarrow> 'r result \<times> 'k" where
  "Orchestrator_RetrySession_0 rt cd client req params =
    call_with client (and_then (decode_body (dec_RetrySession cd) req \<lparr>rsr_Id = []\<rparr>) (\<lambda>protoReq.
      and_then (path_param rt ''id'' params) (\<lambda>i. Inr (Call_RetrySession (protoReq\<lparr>rsr_Id := i\<rparr>)))))"

definition Orchestrator_IgnoreSession_0 ::
  "gw_runtime \<Rightarrow> orch_codec \<Rightarrow> (orch_call \<Rightarrow> 'k \<Rightarrow> 'r result \<times> 'k) \<Rightarrow> gw_request \<Rightarrow> path_params \<Rightarrow> 'k \<Rightarrow> 'r result \<times> 'k" where
  "Orchestrator_IgnoreSession_0 rt cd client req params =
    call_with client (and_then (decode_body (dec_IgnoreSession cd) req \<lparr>isr_Id = [], isr_Reason = []\<rparr>) (\<lambda>protoReq.
      and_then (path_param rt ''id'' params) (\<lambda>i. Inr (Call_IgnoreSession (protoReq\<lparr>isr_Id := i\<rparr>)))))"

definition Orchestrator_DecisionApproval_0 ::
  "gw_runtime \<Rightarrow> orch_codec \<Rightarrow> (orch_call \<Rightarrow> 'k \<Rightarrow> 'r result \<times> 'k) \<Rightarrow> gw_request \<Rightarrow> path_params \<Rightarrow> 'k \<Rightarrow> 'r result \<times> 'k" where
  "Orchestrator_DecisionApproval_0 rt cd client req params =
    call_with client (and_then (decode_body (dec_DecisionApproval cd) req
        \<lparr>dar_Id = [], dar_ApprovalId = [], dar_Decision = 0, dar_DecidedBy = [], dar_Comment = []\<rparr>) (\<lambda>protoReq.
      and_then (path_param rt ''id'' params) (\<lambda>i.
      and_then (path_param rt ''approval_id'' params) (\<lambda>a.
        Inr (Call_DecisionApproval (protoReq\<lparr>dar_Id := i, dar_ApprovalId := a\<rparr>))))))"

definition Orchestrator_GetReport_0 ::
  "gw_runtime \<Rightarrow> orch_codec \<Rightarrow> (orch_call \<Rightarrow> 'k \<Rightarrow> 'r result \<times> 'k) \<Rightarrow> gw_request \<Rightarrow> path_params \<Rightarrow> 'k \<Rightarrow> 'r result \<times> 'k" where
  "Orchestrator_GetReport_0 rt cd client req params =
    call_with client (and_then (path_param rt ''id'' params) (\<lambda>i.
      and_then (populate_query (pop_GetReport cd) [''id''] req \<lparr>grr_Id = i, grr_Format = 0\<rparr>) (\<lambda>protoReq.
        Inr (Call_GetReport protoReq))))"

definition Orchestrator_DownloadReport_0 ::
  "gw_runtime \<Rightarrow> orch_codec \<Rightarrow> (orch_call \<Rightarrow> 'k \<Rightarrow> 'r result \<times> 'k) \<Rightarrow> gw_request \<Rightarrow> path_params \<Rightarrow> 'k \<Rightarrow> 'r result \<times> 'k" where
  "Orchestrator_DownloadReport_0 rt cd client req params =
    call_with client (and_then (path_param rt ''id'' params) (\<lambda>i.
      and_then (populate_query (pop_DownloadReport cd) [''id''] req \<lparr>drr_Id = i, drr_Format = 0\<rparr>) (\<lambda>protoReq.
        Inr (Call_DownloadReport protoReq))))"

definition Orchestrator_ListAgents_0 ::
  "(orch_call \<Rightarrow> 'k \<Rightarrow> 'r result \<times> 'k) \<Rightarrow> gw_request \<Rightarrow> path_params \<Rightarrow> 'k \<Rightarrow> 'r result \<times> 'k" where
  "Orchestrator_ListAgents_0 client req params = call_with client (Inr Call_ListAgents)"

section \<open>Registration\<close>

datatype 'r gw_answer = HTTPError gerror | ForwardResponse 'r

text \<open>The compiled path patterns: pairs of an operation and an operand, and a pool of strings.\<close>

record gw_pattern =
  gp_Ops :: "nat list"
  gp_Pool :: "string list"

definition pattern_Orchestrator_CreateSession_0 :: gw_pattern where
  "pattern_Orchestrator_CreateSession_0 = \<lparr>gp_Ops = [2, 0, 2, 1], gp_Pool = [''v1'', ''sessions'']\<rparr>"

definition pattern_Orchestrator_ListSessions_0 :: gw_pattern where
  "pattern_Orchestrator_ListSessions_0 = \<lparr>gp_Ops = [2, 0, 2, 1], gp_Pool = [''v1'', ''sessions'']\<rparr>"

definition pattern_Orchestrator_GetSession_0 :: gw_pattern where
  "pattern_Orchestrator_GetSession_0 = \<lparr>gp_Ops = [2, 0, 2, 1, 1, 0, 4, 1, 5, 2], gp_Pool = [''v1'', ''sessions'', ''id'']\<rparr>"

definition pattern_Orchestrator_StartSession_0 :: gw_pattern where
  "pattern_Orchestrator_StartSession_0 = \<lparr>gp_Ops = [2, 0, 2, 1, 1, 0, 4, 1, 5, 2, 2, 3],
     gp_Pool = [''v1'', ''sessions'', ''id'', ''start'']\<rparr>"

definition pattern_Orchestrator_RetrySession_0 :: gw_pattern where
  "pattern_Orchestrator_RetrySession_0 = \<lparr>gp_Ops = [2, 0, 2, 1, 1, 0, 4, 1, 5, 2, 2, 3],
     gp_Pool = [''v1'', ''sessions'', ''id'', ''retry'']\<rparr>"

definition pattern_Orchestrator_IgnoreSession_0 :: gw_pattern where
  "pattern_Orchestrator_IgnoreSession_0 = \<lparr>gp_Ops = [2, 0, 2, 1, 1, 0, 4, 1, 5, 2, 2, 3],
     gp_Pool = [''v1'', ''sessions'', ''id'', ''ignore'']\<rparr>"

definition pattern_Orchestrator_DecisionApproval_0 :: gw_pattern where
  "pattern_Orchestrator_DecisionApproval_0 = \<lparr>gp_Ops = [2, 0, 2, 1, 1, 0, 4, 1, 5, 2, 2, 3, 1, 0, 4, 1, 5, 4, 2, 5],
     gp_Pool = [''v1'', ''sessions'', ''id'', ''approvals'', ''approval_id'', ''decision'']\<rparr>"

definition pattern_Orchestrator_GetReport_0 :: gw_pattern where
  "pattern_Orchestrator_GetReport_0 = \<lparr>gp_Ops = [2, 0, 2, 1, 1, 0, 4, 1, 5, 2, 2, 3],
     gp_Pool = [''v1'', ''sessions'', ''id'', ''report'']\<rparr>"

definition pattern_Orchestrator_DownloadReport_0 :: gw_pattern where
  "pattern_Orchestrator_DownloadReport_0 = \<lparr>gp_Ops = [2, 0, 2, 1, 1, 0, 4, 1, 5, 2, 2, 3, 2, 4],
     gp_Pool = [''v1'', ''sessions'', ''id'', ''report'', ''download'']\<rparr>"

definition pattern_Orchestrator_ListAgents_0 :: gw_pattern where
  "pattern_Orchestrator_ListAgents_0 = \<lparr>gp_Ops = [2, 0, 2, 1], gp_Pool = [''v1'', ''agents'']\<rparr>"

text \<open>A handler annotates the context, translates the request, and forwards the answer or writes the error.\<close>

type_synonym ('r, 'k) gw_handler = "gw_request \<Rightarrow> path_params \<Rightarrow> 'k \<Rightarrow> 'r gw_answer \<times> 'k"

type_synonym ('r, 'k) gw_route = "string \<times> gw_pattern \<times> ('r, 'k) gw_handler"

definition gateway_handler ::
  "(string \<Rightarrow> string \<Rightarrow> gw_request \<Rightarrow> gerror option) \<Rightarrow> string \<Rightarrow> string \<Rightarrow>
   (gw_request \<Rightarrow> path_params \<Rightarrow> 'k \<Rightarrow> 'r result \<times> 'k) \<Rightarrow> ('r, 'k) gw_handler" where
  "gateway_handler annotate rpc template request req params k = (case annotate rpc template req of
       Some e \<Rightarrow> (HTTPError e, k)
     | None \<Rightarrow> (case request req params k of
         (Inl e, k1) \<Rightarrow> (HTTPError e, k1)
       | (Inr resp, k1) \<Rightarrow> (ForwardResponse resp, k1)))"

definition orchestrator_rpc :: "string \<Rightarrow> string" where
  "orchestrator_rpc name = ''/mfdh.orchestrator.v1.Orchestrator/'' @ name"

text \<open>The routes in the order of their registration, the same for a client and for a local server.\<close>

definition session_routes ::
  "gw_runtime \<Rightarrow> orch_codec \<Rightarrow> (string \<Rightarrow> string \<Rightarrow> gw_request \<Rightarrow> gerror option) \<Rightarrow>
   (orch_call \<Rightarrow> 'k \<Rightarrow> 'r result \<times> 'k) \<Rightarrow> ('r, 'k) gw_route list" where
  "session_routes rt cd annotate client =
    [(''POST'', pattern_Orchestrator_CreateSession_0, gateway_handler annotate (orchestrator_rpc ''CreateSession'')
        ''/v1/sessions'' (Orchestrator_CreateSession_0 cd client)),
     (''GET'', pattern_Orchestrator_ListSessions_0, gateway_handler annotate (orchestrator_rpc ''ListSessions'')
        ''/v1/sessions'' (Orchestrator_ListSessions_0 cd client)),
     (''GET'', pattern_Orchestrator_GetSession_0, gateway_handler annotate (orchestrator_rpc ''GetSession'')
        ''/v1/sessions/{id}'' (Orchestrator_GetSession_0 rt client)),
     (''POST'', pattern_Orchestrator_StartSession_0, gateway_handler annotate (orchestrator_rpc ''StartSession'')
        ''/v1/sessions/{id}/start'' (Orchestrator_StartSession_0 rt cd client))]"

definition action_routes ::
  "gw_runtime \<Rightarrow> orch_codec \<Rightarrow> (string \<Rightarrow> string \<Rightarrow> gw_request \<Rightarrow> gerror option) \<Rightarrow>
   (orch_call \<Rightarrow> 'k \<Rightarrow> 'r result \<times> 'k) \<Rightarrow> ('r, 'k) gw_route list" where
  "action_routes rt cd annotate client =
    [(''POST'', pattern_Orchestrator_RetrySession_0, gateway_handler annotate (orchestrator_rpc ''RetrySession'')
        ''/v1/sessions/{id}/retry'' (Orchestrator_RetrySession_0 rt cd client)),
     (''POST'', pattern_Orchestrator_IgnoreSession_0, gateway_handler annotate (orchestrator_rpc ''IgnoreSession'')
        ''/v1/sessions/{id}/ignore'' (Orchestrator_IgnoreSession_0 rt cd client)),
     (''POST'', pattern_Orchestrator_DecisionApproval_0, gateway_handler annotate (orchestrator_rpc ''DecisionApproval'')
        ''/v1/sessions/{id}/approvals/{approval_id}/decision'' (Orchestrator_DecisionApproval_0 rt cd client)),
     (''GET'', pattern_Orchestrator_GetReport_0, gateway_handler annotate (orchestrator_rpc ''GetReport'')
        ''/v1/sessions/{id}/report'' (Orchestrator_GetReport_0 rt cd client)),
     (''GET'', pattern_Orchestrator_DownloadReport_0, gateway_handler annotate (orchestrator_rpc ''DownloadReport'')
        ''/v1/sessions/{id}/report/download'' (Orchestrator_DownloadReport_0 rt cd client)),
     (''GET'', pattern_Orchestrator_ListAgents_0, gateway_handler annotate (orchestrator_rpc ''ListAgents'')
        ''/v1/agents'' (Orchestrator_ListAgents_0 client))]"

definition orchestrator_routes ::
  "gw_runtime \<Rightarrow> orch_codec \<Rightarrow> (string \<Rightarrow> string \<Rightarrow> gw_request \<Rightarrow> gerror option) \<Rightarrow>
   (orch_call \<Rightarrow> 'k \<Rightarrow> 'r result \<times> 'k) \<Rightarrow> ('r, 'k) gw_route list" where
  "orchestrator_routes rt cd annotate client = session_routes rt cd annotate client @ action_routes rt cd annotate client"

lemmas route_defs = orchestrator_routes_def session_routes_def action_routes_def

definition RegisterOrchestratorHandlerServer ::
  "gw_runtime \<Rightarrow> orch_codec \<Rightarrow> (orch_call \<Rightarrow> 'k \<Rightarrow> 'r result \<times> 'k) \<Rightarrow> ('r, 'k) gw_route list" where
  "RegisterOrchestratorHandlerServer rt cd server = orchestrator_routes rt cd (rt_AnnotateIncomingContext rt) server"

definition RegisterOrchestratorHandlerClient ::
  "gw_runtime \<Rightarrow> orch_codec \<Rightarrow> (orch_call \<Rightarrow> 'k \<Rightarrow> 'r result \<times> 'k) \<Rightarrow> ('r, 'k) gw_route list" where
  "RegisterOrchestratorHandlerClient rt cd client = orchestrator_routes rt cd (rt_AnnotateContext rt) client"

section \<open>The service of the agents (agent.pb.gw.go)\<close>

record TriggerAgentRequest =
  tar_Name :: string
  tar_SessionId :: string
  tar_Observation :: "Observation option"

datatype agent_call = Call_Describe string | Call_Health string | Call_Trigger TriggerAgentRequest

definition AgentService_Describe_0 ::
  "gw_runtime \<Rightarrow> (agent_call \<Rightarrow> 'k \<Rightarrow> 'r result \<times> 'k) \<Rightarrow> gw_request \<Rightarrow> path_params \<Rightarrow> 'k \<Rightarrow> 'r result \<times> 'k" where
  "AgentService_Describe_0 rt client req params =
    call_with client (and_then (path_param rt ''name'' params) (\<lambda>n. Inr (Call_Describe n)))"

definition AgentService_Health_0 ::
  "gw_runtime \<Rightarrow> (agent_call \<Rightarrow> 'k \<Rightarrow> 'r result \<times> 'k) \<Rightarrow> gw_request \<Rightarrow> path_params \<Rightarrow> 'k \<Rightarrow> 'r result \<times> 'k" where
  "AgentService_Health_0 rt client req params =
    call_with client (and_then (path_param rt ''name'' params) (\<lambda>n. Inr (Call_Health n)))"

definition AgentService_Trigger_0 ::
  "gw_runtime \<Rightarrow> TriggerAgentRequest decoder \<Rightarrow> (agent_call \<Rightarrow> 'k \<Rightarrow> 'r result \<times> 'k) \<Rightarrow> gw_request \<Rightarrow> path_params \<Rightarrow> 'k \<Rightarrow>
   'r result \<times> 'k" where
  "AgentService_Trigger_0 rt decode client req params =
    call_with client (and_then (decode_body decode req \<lparr>tar_Name = [], tar_SessionId = [], tar_Observation = None\<rparr>) (\<lambda>protoReq.
      and_then (path_param rt ''name'' params) (\<lambda>n. Inr (Call_Trigger (protoReq\<lparr>tar_Name := n\<rparr>)))))"

definition pattern_AgentService_Describe_0 :: gw_pattern where
  "pattern_AgentService_Describe_0 = \<lparr>gp_Ops = [2, 0, 2, 1, 1, 0, 4, 1, 5, 2], gp_Pool = [''v1'', ''agents'', ''name'']\<rparr>"

definition pattern_AgentService_Health_0 :: gw_pattern where
  "pattern_AgentService_Health_0 = \<lparr>gp_Ops = [2, 0, 2, 1, 1, 0, 4, 1, 5, 2, 2, 3], gp_Pool = [''v1'', ''agents'', ''name'', ''health'']\<rparr>"

definition pattern_AgentService_Trigger_0 :: gw_pattern where
  "pattern_AgentService_Trigger_0 = \<lparr>gp_Ops = [2, 0, 2, 1, 1, 0, 4, 1, 5, 2, 2, 3], gp_Pool = [''v1'', ''agents'', ''name'', ''trigger'']\<rparr>"

definition agent_rpc :: "string \<Rightarrow> string" where
  "agent_rpc name = ''/mfdh.agent.v1.AgentService/'' @ name"

definition agent_routes ::
  "gw_runtime \<Rightarrow> TriggerAgentRequest decoder \<Rightarrow> (string \<Rightarrow> string \<Rightarrow> gw_request \<Rightarrow> gerror option) \<Rightarrow>
   (agent_call \<Rightarrow> 'k \<Rightarrow> 'r result \<times> 'k) \<Rightarrow> ('r, 'k) gw_route list" where
  "agent_routes rt decode annotate client =
    [(''GET'', pattern_AgentService_Describe_0, gateway_handler annotate (agent_rpc ''Describe'')
        ''/v1/agents/{name}'' (AgentService_Describe_0 rt client)),
     (''GET'', pattern_AgentService_Health_0, gateway_handler annotate (agent_rpc ''Health'')
        ''/v1/agents/{name}/health'' (AgentService_Health_0 rt client)),
     (''POST'', pattern_AgentService_Trigger_0, gateway_handler annotate (agent_rpc ''Trigger'')
        ''/v1/agents/{name}/trigger'' (AgentService_Trigger_0 rt decode client))]"

definition RegisterAgentServiceHandlerServer ::
  "gw_runtime \<Rightarrow> TriggerAgentRequest decoder \<Rightarrow> (agent_call \<Rightarrow> 'k \<Rightarrow> 'r result \<times> 'k) \<Rightarrow> ('r, 'k) gw_route list" where
  "RegisterAgentServiceHandlerServer rt decode server = agent_routes rt decode (rt_AnnotateIncomingContext rt) server"

definition RegisterAgentServiceHandlerClient ::
  "gw_runtime \<Rightarrow> TriggerAgentRequest decoder \<Rightarrow> (agent_call \<Rightarrow> 'k \<Rightarrow> 'r result \<times> 'k) \<Rightarrow> ('r, 'k) gw_route list" where
  "RegisterAgentServiceHandlerClient rt decode client = agent_routes rt decode (rt_AnnotateContext rt) client"

section \<open>Connections and the mounting (gin.go)\<close>

text \<open>What happens to the connection to the backend, in order.\<close>

datatype conn_event = Dialed | Mounted | Closed | ClosesWithContext

text \<open>The registrations never fail; \<open>registered\<close> is their error all the same.\<close>

definition RegisterHandlerFromEndpoint :: "gerror option \<Rightarrow> gerror option \<Rightarrow> gerror option \<times> conn_event list" where
  "RegisterHandlerFromEndpoint dial registered = (case dial of
       Some e \<Rightarrow> (Some e, [])
     | None \<Rightarrow> (case registered of
         Some e \<Rightarrow> (Some e, [Dialed, Closed])
       | None \<Rightarrow> (None, [Dialed, ClosesWithContext])))"

text \<open>The goroutine of \<open>NewGinServer\<close>: its deferred \<open>Close\<close> runs when it has mounted the gateway.\<close>

definition mount_gateway :: "string \<Rightarrow> gerror option \<Rightarrow> gerror option \<Rightarrow> conn_event list" where
  "mount_gateway grpcAddr dial registered = (if grpcAddr = [] then [] else (case dial of
       Some e \<Rightarrow> []
     | None \<Rightarrow> Dialed # (if registered = None then [Mounted] else []) @ [Closed]))"

text \<open>The paths that \<open>/v1/grpc/*path\<close> routes to the gateway, which gets them unchanged.\<close>

definition grpc_mount :: "string list \<Rightarrow> string list" where
  "grpc_mount rest = [''v1'', ''grpc''] @ rest"

section \<open>Patterns\<close>

datatype segment = Lit string | Var string

text \<open>A literal (operation 2) and a captured component (operations 1, 4 and 5, as the generator emits them).\<close>

fun segments_of :: "string list \<Rightarrow> nat list \<Rightarrow> segment list" where
  "segments_of pool (op # a # ops) =
     (if op = 2 then [Lit (pool ! a)] else if op = 5 then [Var (pool ! a)] else []) @ segments_of pool ops"
| "segments_of pool ops = []"

definition pattern_segments :: "gw_pattern \<Rightarrow> segment list" where
  "pattern_segments p = segments_of (gp_Pool p) (gp_Ops p)"

fun fits :: "segment \<Rightarrow> string \<Rightarrow> bool" where
  "fits (Lit l) c = (c = l)"
| "fits (Var v) c = True"

text \<open>What the runtime promises of a match: the path has the components of the pattern.\<close>

definition match_law :: "(gw_pattern \<Rightarrow> string list \<Rightarrow> path_params option) \<Rightarrow> bool" where
  "match_law matches \<longleftrightarrow> (\<forall>p path b. matches p path = Some b \<longrightarrow> list_all2 fits (pattern_segments p) path)"

fun gin_segment :: "segment \<Rightarrow> string" where
  "gin_segment (Lit l) = CHR ''/'' # l"
| "gin_segment (Var v) = ''/:'' @ v"

definition gin_path :: "gw_pattern \<Rightarrow> string" where
  "gin_path p = concat (map gin_segment (pattern_segments p))"

lemmas orchestrator_patterns = pattern_Orchestrator_CreateSession_0_def pattern_Orchestrator_ListSessions_0_def
  pattern_Orchestrator_GetSession_0_def pattern_Orchestrator_StartSession_0_def pattern_Orchestrator_RetrySession_0_def
  pattern_Orchestrator_IgnoreSession_0_def pattern_Orchestrator_DecisionApproval_0_def pattern_Orchestrator_GetReport_0_def
  pattern_Orchestrator_DownloadReport_0_def pattern_Orchestrator_ListAgents_0_def

lemma segments_orchestrator [simp]:
  "pattern_segments pattern_Orchestrator_CreateSession_0 = [Lit ''v1'', Lit ''sessions'']"
  "pattern_segments pattern_Orchestrator_ListSessions_0 = [Lit ''v1'', Lit ''sessions'']"
  "pattern_segments pattern_Orchestrator_GetSession_0 = [Lit ''v1'', Lit ''sessions'', Var ''id'']"
  "pattern_segments pattern_Orchestrator_StartSession_0 = [Lit ''v1'', Lit ''sessions'', Var ''id'', Lit ''start'']"
  "pattern_segments pattern_Orchestrator_RetrySession_0 = [Lit ''v1'', Lit ''sessions'', Var ''id'', Lit ''retry'']"
  "pattern_segments pattern_Orchestrator_IgnoreSession_0 = [Lit ''v1'', Lit ''sessions'', Var ''id'', Lit ''ignore'']"
  "pattern_segments pattern_Orchestrator_DecisionApproval_0 =
     [Lit ''v1'', Lit ''sessions'', Var ''id'', Lit ''approvals'', Var ''approval_id'', Lit ''decision'']"
  "pattern_segments pattern_Orchestrator_GetReport_0 = [Lit ''v1'', Lit ''sessions'', Var ''id'', Lit ''report'']"
  "pattern_segments pattern_Orchestrator_DownloadReport_0 =
     [Lit ''v1'', Lit ''sessions'', Var ''id'', Lit ''report'', Lit ''download'']"
  "pattern_segments pattern_Orchestrator_ListAgents_0 = [Lit ''v1'', Lit ''agents'']"
  by (simp_all add: pattern_segments_def orchestrator_patterns)

section \<open>What is called\<close>

lemma call_with_result:
  "call_with client (Inl e) k = (Inl e, k)" "call_with client (Inr c) k = client c k"
  by (simp_all add: call_with_def)

lemma and_then_Inr: "and_then r f = Inr b \<longleftrightarrow> (\<exists>a. r = Inr a \<and> f a = Inr b)"
  by (cases r) (simp_all add: and_then_def)

lemma path_param_Inr: "rt_String rt = Inr \<Longrightarrow> path_param rt name params = Inr v \<longleftrightarrow> params name = Some v"
  by (auto simp: path_param_def split: option.splits)

text \<open>A client that notes its calls.\<close>

definition recording :: "('c \<Rightarrow> 'r result) \<Rightarrow> 'c \<Rightarrow> 'c list \<Rightarrow> 'r result \<times> 'c list" where
  "recording answer c k = (answer c, k @ [c])"

definition answered :: "'r result \<Rightarrow> 'r gw_answer" where
  "answered r = (case r of Inl e \<Rightarrow> HTTPError e | Inr m \<Rightarrow> ForwardResponse m)"

text \<open>A translation that builds its message or fails makes one call or none.\<close>

definition translates :: "(gw_request \<Rightarrow> path_params \<Rightarrow> 'c list \<Rightarrow> 'r result \<times> 'c list) \<Rightarrow> ('c \<Rightarrow> 'r result) \<Rightarrow>
    (path_params \<Rightarrow> 'c \<Rightarrow> bool) \<Rightarrow> bool" where
  "translates request answer P \<longleftrightarrow> (\<exists>msg. (\<forall>req params k. request req params k = call_with (recording answer) (msg req params) k) \<and>
     (\<forall>req params c. msg req params = Inr c \<longrightarrow> P params c))"

lemma translates_handler:
  assumes "translates request answer P" and "gateway_handler annotate rpc t request req params k = (r, k')"
  shows "(\<exists>e. r = HTTPError e) \<and> k' = k \<or> (\<exists>c. k' = k @ [c] \<and> r = answered (answer c) \<and> P params c)"
proof -
  from assms(1) obtain msg where m: "\<And>req params k. request req params k = call_with (recording answer) (msg req params) k"
    and P: "\<And>req params c. msg req params = Inr c \<Longrightarrow> P params c" unfolding translates_def by blast
  show ?thesis
  proof (cases "annotate rpc t req")
    case None
    then show ?thesis using assms(2) P [of req params]
      by (cases "msg req params") (auto simp: gateway_handler_def m call_with_result recording_def answered_def split: sum.splits)
  qed (use assms(2) in \<open>auto simp: gateway_handler_def\<close>)
qed

lemma translatesI:
  assumes "\<And>req params k. request req params k = call_with (recording answer) (msg req params) k"
    and "\<And>req params c. msg req params = Inr c \<Longrightarrow> P params c"
  shows "translates request answer P"
  using assms unfolding translates_def by blast

fun call_id :: "orch_call \<Rightarrow> string option" where
  "call_id (Call_GetSession i) = Some i"
| "call_id (Call_StartSession m) = Some (ssr_Id m)"
| "call_id (Call_RetrySession m) = Some (rsr_Id m)"
| "call_id (Call_IgnoreSession m) = Some (isr_Id m)"
| "call_id (Call_DecisionApproval m) = Some (dar_Id m)"
| "call_id (Call_GetReport m) = Some (grr_Id m)"
| "call_id (Call_DownloadReport m) = Some (drr_Id m)"
| "call_id c = None"

fun call_approval :: "orch_call \<Rightarrow> string option" where
  "call_approval (Call_DecisionApproval m) = Some (dar_ApprovalId m)"
| "call_approval c = None"

text \<open>What the runtime and the codecs promise: a path parameter of type string is taken as it is, and a form does
  not set a filtered field.\<close>

definition runtime_law :: "gw_runtime \<Rightarrow> orch_codec \<Rightarrow> bool" where
  "runtime_law rt cd \<longleftrightarrow> rt_String rt = Inr \<and>
     (\<forall>fm m. grr_Id (snd (pop_GetReport cd fm [''id''] m)) = grr_Id m) \<and>
     (\<forall>fm m. drr_Id (snd (pop_DownloadReport cd fm [''id''] m)) = drr_Id m)"

definition names_target :: "gw_pattern \<Rightarrow> path_params \<Rightarrow> orch_call \<Rightarrow> bool" where
  "names_target p params c \<longleftrightarrow> (Var ''id'' \<in> set (pattern_segments p) \<longrightarrow> call_id c = params ''id'') \<and>
     (Var ''approval_id'' \<in> set (pattern_segments p) \<longrightarrow> call_approval c = params ''approval_id'')"

lemma populate_query_Inr:
  "populate_query pop flt req m = Inr m' \<Longrightarrow> \<exists>fm. m' = snd (pop fm flt m)"
  by (auto simp: populate_query_def split: sum.splits prod.splits option.splits) (metis snd_conv)

lemma translations_target:
  assumes "runtime_law rt cd"
  shows "translates (Orchestrator_CreateSession_0 cd (recording answer)) answer (names_target pattern_Orchestrator_CreateSession_0)"
    "translates (Orchestrator_ListSessions_0 cd (recording answer)) answer (names_target pattern_Orchestrator_ListSessions_0)"
    "translates (Orchestrator_GetSession_0 rt (recording answer)) answer (names_target pattern_Orchestrator_GetSession_0)"
    "translates (Orchestrator_StartSession_0 rt cd (recording answer)) answer (names_target pattern_Orchestrator_StartSession_0)"
    "translates (Orchestrator_RetrySession_0 rt cd (recording answer)) answer (names_target pattern_Orchestrator_RetrySession_0)"
    "translates (Orchestrator_IgnoreSession_0 rt cd (recording answer)) answer (names_target pattern_Orchestrator_IgnoreSession_0)"
    "translates (Orchestrator_DecisionApproval_0 rt cd (recording answer)) answer (names_target pattern_Orchestrator_DecisionApproval_0)"
    "translates (Orchestrator_ListAgents_0 (recording answer)) answer (names_target pattern_Orchestrator_ListAgents_0)"
  using assms unfolding runtime_law_def
  by (auto intro!: translatesI simp: Orchestrator_CreateSession_0_def Orchestrator_ListSessions_0_def Orchestrator_GetSession_0_def
      Orchestrator_StartSession_0_def Orchestrator_RetrySession_0_def Orchestrator_IgnoreSession_0_def
      Orchestrator_DecisionApproval_0_def Orchestrator_ListAgents_0_def names_target_def and_then_Inr path_param_Inr)

lemma translations_reports:
  assumes "runtime_law rt cd"
  shows "translates (Orchestrator_GetReport_0 rt cd (recording answer)) answer (names_target pattern_Orchestrator_GetReport_0)"
    "translates (Orchestrator_DownloadReport_0 rt cd (recording answer)) answer (names_target pattern_Orchestrator_DownloadReport_0)"
  using assms unfolding runtime_law_def
  by (auto intro!: translatesI simp: Orchestrator_GetReport_0_def Orchestrator_DownloadReport_0_def names_target_def and_then_Inr
      path_param_Inr dest!: populate_query_Inr)

lemma orchestrator_routes_translate:
  assumes "runtime_law rt cd" and "(meth, p, h) \<in> set (orchestrator_routes rt cd annotate (recording answer))"
  shows "\<exists>rpc t request. h = gateway_handler annotate rpc t request \<and> translates request answer (names_target p)"
  using assms(2) unfolding route_defs
  by (simp only: append.simps list.set insert_iff empty_iff prod.inject simp_thms)
    (elim disjE conjE; hypsubst; intro exI; rule conjI [OF refl]; rule translations_target [OF assms(1)] translations_reports [OF assms(1)])

text \<open>A client that is the server itself makes the two kinds of registration agree.\<close>

lemma local_registration_agrees:
  assumes "rt_AnnotateIncomingContext rt = rt_AnnotateContext rt"
  shows "RegisterOrchestratorHandlerServer rt cd service = RegisterOrchestratorHandlerClient rt cd service"
    "RegisterAgentServiceHandlerServer rt decode agents = RegisterAgentServiceHandlerClient rt decode agents"
  by (simp_all add: RegisterOrchestratorHandlerServer_def RegisterOrchestratorHandlerClient_def
      RegisterAgentServiceHandlerServer_def RegisterAgentServiceHandlerClient_def assms)

section \<open>Properties\<close>

text \<open>C36 (gateway_path_wins): a request to the gateway makes at most one call of the orchestrator service, and none
  if it cannot be translated, which is then answered with an error.  The call is about the session and the
  approval that the path names, whatever ids the body or the query carry, and its result is the answer.\<close>

theorem gateway_path_wins:
  assumes "runtime_law rt cd"
    and "(meth, p, h) \<in> set (RegisterOrchestratorHandlerClient rt cd (recording answer))"
    and "h req params k = (r, k')"
  shows "(\<exists>e. r = HTTPError e) \<and> k' = k \<or>
    (\<exists>c. k' = k @ [c] \<and> r = (case answer c of Inl e \<Rightarrow> HTTPError e | Inr m \<Rightarrow> ForwardResponse m) \<and>
       (Var ''id'' \<in> set (pattern_segments p) \<longrightarrow> call_id c = params ''id'') \<and>
       (Var ''approval_id'' \<in> set (pattern_segments p) \<longrightarrow> call_approval c = params ''approval_id''))"
proof -
  from orchestrator_routes_translate [OF assms(1)] assms(2) obtain rpc t request
    where "h = gateway_handler (rt_AnnotateContext rt) rpc t request" "translates request answer (names_target p)"
    unfolding RegisterOrchestratorHandlerClient_def by blast
  with translates_handler assms(3) show ?thesis unfolding answered_def names_target_def by fastforce
qed

text \<open>The gateway offers the routes of the HTTP server under \<open>/v1\<close>, with the same methods,
  paths and parameters, in the same order.\<close>

theorem gateway_routes:
  "map (\<lambda>(meth, p, h). (meth, gin_path p)) (RegisterOrchestratorHandlerClient rt cd client) =
   map (\<lambda>(meth, path, ep). (meth, path)) (filter (\<lambda>(meth, path, ep). ep \<noteq> EP_Healthz) route_table)"
  by (simp add: RegisterOrchestratorHandlerClient_def route_defs route_table_def gin_path_def)

text \<open>The gateway as it is mounted serves no request.  No pattern of the gateway matches a path
  that is routed to it, since it gets the path with the prefix of the mount; and by the time it is mounted
  the connection to its backend is closed, where a registration from the endpoint would keep it open.\<close>

theorem gateway_unusable:
  assumes "match_law matches" and "(meth, p, h) \<in> set (RegisterOrchestratorHandlerClient rt cd client)"
  shows "matches p (grpc_mount rest) = None \<and>
    (Mounted \<in> set (mount_gateway grpcAddr dial registered) \<longrightarrow>
       mount_gateway grpcAddr dial registered = [Dialed, Mounted, Closed] \<and>
       RegisterHandlerFromEndpoint dial registered = (None, [Dialed, ClosesWithContext]))"
proof (rule conjI)
  have "\<exists>s ss. pattern_segments p = Lit ''v1'' # Lit s # ss \<and> s \<noteq> ''grpc''"
    using assms(2) by (auto simp: RegisterOrchestratorHandlerClient_def route_defs)
  then have "\<not> list_all2 fits (pattern_segments p) (grpc_mount rest)" by (auto simp: grpc_mount_def)
  with assms(1) show "matches p (grpc_mount rest) = None" by (cases "matches p (grpc_mount rest)") (auto simp: match_law_def)
qed (auto simp: mount_gateway_def RegisterHandlerFromEndpoint_def split: option.splits if_splits)

text \<open>A runtime that satisfies the laws, and a decoder that takes the body for an id.\<close>

definition sample_runtime :: gw_runtime where
  "sample_runtime = \<lparr>rt_String = Inr, rt_AnnotateContext = (\<lambda>n t q. None), rt_AnnotateIncomingContext = (\<lambda>n t q. None)\<rparr>"

definition sample_codec :: orch_codec where
  "sample_codec = \<lparr>dec_CreateSession = (\<lambda>b m. (Some (Sentinel EOF), m)), dec_StartSession = (\<lambda>b m. (None, \<lparr>ssr_Id = b\<rparr>)),
     dec_RetrySession = (\<lambda>b m. (None, \<lparr>rsr_Id = b\<rparr>)), dec_IgnoreSession = (\<lambda>b m. (None, m\<lparr>isr_Id := b\<rparr>)),
     dec_DecisionApproval = (\<lambda>b m. (None, m\<lparr>dar_Id := b\<rparr>)), pop_ListSessions = (\<lambda>f l m. (None, m)),
     pop_GetReport = (\<lambda>f l m. (None, if ''id'' \<in> set l then m else m\<lparr>grr_Id := []\<rparr>)),
     pop_DownloadReport = (\<lambda>f l m. (None, m))\<rparr>"

definition sample_matches :: "gw_pattern \<Rightarrow> string list \<Rightarrow> path_params option" where
  "sample_matches p path = (if list_all2 fits (pattern_segments p) path
     then Some (map_of (concat (map (\<lambda>(s, c). case s of Lit l \<Rightarrow> [] | Var v \<Rightarrow> [(v, c)]) (zip (pattern_segments p) path)))) else None)"

theorem gateway_path_wins_witness:
  "let h = gateway_handler (rt_AnnotateContext sample_runtime) (orchestrator_rpc ''StartSession'') ''/v1/sessions/{id}/start''
        (Orchestrator_StartSession_0 sample_runtime sample_codec (recording (\<lambda>c. Inr ())))
   in h \<lparr>gq_Body = ''other'', gq_Form = Inr []\<rparr> [''id'' \<mapsto> ''s1''] [] = (ForwardResponse (), [Call_StartSession \<lparr>ssr_Id = ''s1''\<rparr>])"
proof -
  let ?h = "gateway_handler (rt_AnnotateContext sample_runtime) (orchestrator_rpc ''StartSession'') ''/v1/sessions/{id}/start''
        (Orchestrator_StartSession_0 sample_runtime sample_codec (recording (\<lambda>c. Inr ())))"
  let ?req = "\<lparr>gq_Body = ''other'', gq_Form = Inr []\<rparr>"
  have law: "runtime_law sample_runtime sample_codec" by (simp add: runtime_law_def sample_runtime_def sample_codec_def)
  have m: "(''POST'', pattern_Orchestrator_StartSession_0, ?h) \<in>
      set (RegisterOrchestratorHandlerClient sample_runtime sample_codec (recording (\<lambda>c. Inr ())))"
    by (simp add: RegisterOrchestratorHandlerClient_def route_defs)
  obtain r k where e: "?h ?req [''id'' \<mapsto> ''s1''] [] = (r, k)" by force
  have "\<exists>c. r = ForwardResponse () \<and> k = [c] \<and> (\<exists>m. c = Call_StartSession m)"
    using e by (auto simp: gateway_handler_def Orchestrator_StartSession_0_def sample_runtime_def sample_codec_def and_then_def
        decode_body_def path_param_def call_with_def recording_def)
  with gateway_path_wins [OF law m e] show ?thesis using e by (auto simp: Let_def)
qed

theorem gateway_unusable_witness:
  "sample_matches pattern_Orchestrator_ListSessions_0 [''v1'', ''sessions''] \<noteq> None \<and>
   sample_matches pattern_Orchestrator_ListSessions_0 (grpc_mount [''v1'', ''sessions'']) = None"
proof -
  have law: "match_law sample_matches" by (auto simp: match_law_def sample_matches_def split: if_splits)
  have m: "(''GET'', pattern_Orchestrator_ListSessions_0, gateway_handler (rt_AnnotateContext sample_runtime)
       (orchestrator_rpc ''ListSessions'') ''/v1/sessions'' (Orchestrator_ListSessions_0 sample_codec (recording (\<lambda>c. Inr ())))) \<in>
      set (RegisterOrchestratorHandlerClient sample_runtime sample_codec (recording (\<lambda>c. Inr ())))"
    by (simp add: RegisterOrchestratorHandlerClient_def route_defs)
  from gateway_unusable [OF law m] show ?thesis by (simp add: sample_matches_def)
qed

end
