(* ===== verification/Interleaving.thy ===== *)
theory Interleaving imports Prelude begin

text \<open>
  Programs that run one statement at a time over a shared state, and pools of such programs.  A program
  has returned or is about to make one atomic step, whose continuation depends on what it read.  The
  goroutines of the server are such programs: between two statements of one, the others go on.
\<close>

section \<open>Programs\<close>

datatype ('s, 'a) prog = Return 'a | Step "'s \<Rightarrow> ('s, 'a) prog \<times> 's"

lemma prog_induct [case_names Return Step, induct type: prog]:
  assumes "\<And>a. P (Return a)" and "\<And>f. (\<And>s p s'. f s = (p, s') \<Longrightarrow> P p) \<Longrightarrow> P (Step f)"
  shows "P p"
proof (induction p rule: prog.induct)
  case (Step f)
  have "P q" if "f s = (q, s')" for s q s'
    by (rule Step.IH [of "(q, s')"]) (use that in \<open>auto simp: prod_set_simps intro: sym range_eqI\<close>)
  then show ?case by (rule assms(2))
qed (rule assms(1))

primrec bind :: "('s, 'a) prog \<Rightarrow> ('a \<Rightarrow> ('s, 'b) prog) \<Rightarrow> ('s, 'b) prog" where
  "bind (Return a) k = k a"
| "bind (Step f) k = Step (\<lambda>s. map_prod (\<lambda>p. bind p k) id (f s))"

text \<open>\<open>call op\<close> makes the operation \<open>op\<close> one statement; \<open>effect\<close> is a statement without a result.\<close>

definition call :: "('s \<Rightarrow> 'a \<times> 's) \<Rightarrow> ('s, 'a) prog" where
  "call f = Step (\<lambda>s. map_prod Return id (f s))"

definition effect :: "('s \<Rightarrow> 's) \<Rightarrow> ('s, unit) prog" where
  "effect f = call (\<lambda>s. ((), f s))"

fun for_each :: "('x \<Rightarrow> ('s, unit) prog) \<Rightarrow> 'x list \<Rightarrow> ('s, unit) prog" where
  "for_each f [] = Return ()"
| "for_each f (x # xs) = bind (f x) (\<lambda>u. for_each f xs)"

text \<open>A program alone: every step in a row.  It always returns.\<close>

primrec run :: "('s, 'a) prog \<Rightarrow> 's \<Rightarrow> 'a \<times> 's" where
  "run (Return a) = (\<lambda>s. (a, s))"
| "run (Step f) = (\<lambda>s. case map_prod run id (f s) of (g, s') \<Rightarrow> g s')"

lemma run_bind [simp]: "run (bind p k) s = (case run p s of (a, s') \<Rightarrow> run (k a) s')"
proof (induction p arbitrary: s)
  case (Step f)
  obtain p s' where fs: "f s = (p, s')" by force
  have "run (bind p k) s' = (case run p s' of (a, s') \<Rightarrow> run (k a) s')"
    using fs by (rule Step.IH)
  with fs show ?case by simp
qed simp

lemma run_call [simp]: "run (call f) s = f s"
  by (cases "f s") (simp add: call_def)

lemma run_effect [simp]: "run (effect f) s = ((), f s)"
  by (simp add: effect_def)

lemma run_for_each:
  assumes "\<And>x s. run (f x) s = ((), g x s)"
  shows "run (for_each f xs) s = ((), fold g xs s)"
  using assms by (induction xs arbitrary: s) simp_all

lemma run_if: "run (if b then p else q) s = (if b then run p s else run q s)"
  by simp

section \<open>Pools of programs\<close>

text \<open>The configuration is the pool of the programs started so far and the shared state.  A step starts a
  program, makes one statement of one program, or is a step of the environment.\<close>

inductive conc_step ::
  "('s \<Rightarrow> 's \<Rightarrow> bool) \<Rightarrow> ('s, unit) prog set \<Rightarrow> ('s, unit) prog list \<times> 's \<Rightarrow> ('s, unit) prog list \<times> 's \<Rightarrow> bool"
  for env tasks where
  spawn: "p \<in> tasks \<Longrightarrow> conc_step env tasks (ps, s) (ps @ [p], s)"
| run_one: "i < length ps \<Longrightarrow> ps ! i = Step f \<Longrightarrow> f s = (p, s') \<Longrightarrow> conc_step env tasks (ps, s) (ps[i := p], s')"
| outside: "env s s' \<Longrightarrow> conc_step env tasks (ps, s) (ps, s')"

abbreviation conc_steps where
  "conc_steps env tasks \<equiv> (conc_step env tasks)\<^sup>*\<^sup>*"

definition reachable :: "('s \<Rightarrow> 's \<Rightarrow> bool) \<Rightarrow> ('s, unit) prog set \<Rightarrow> 's \<Rightarrow> 's \<Rightarrow> bool" where
  "reachable env tasks s0 s \<longleftrightarrow> (\<exists>ps. conc_steps env tasks ([], s0) (ps, s))"

lemma reachable_refl [simp]: "reachable env tasks s s"
  unfolding reachable_def by blast

text \<open>A program that runs alone is a special case: all its statements in a row.\<close>

lemma conc_run_alone:
  assumes "i < length ps" and "ps ! i = p" and "run p s = (a, s')"
  shows "conc_steps env tasks (ps, s) (ps[i := Return a], s')"
  using assms
proof (induction p arbitrary: ps s)
  case (Return b)
  then have "ps[i := Return a] = ps" "s' = s" by (auto simp: list_update_same_conv)
  then show ?case by simp
next
  case (Step f)
  obtain q t where fs: "f s = (q, t)" by force
  have "conc_step env tasks (ps, s) (ps[i := q], t)"
    using Step.prems(1,2) fs by (rule run_one)
  moreover have "conc_steps env tasks (ps[i := q], t) (ps[i := q, i := Return a], s')"
    by (rule Step.IH [OF fs]) (use Step.prems fs in auto)
  ultimately show ?case by (simp add: converse_rtranclp_into_rtranclp)
qed

lemma conc_spawn_run:
  assumes "p \<in> tasks" and "run p s = (a, s')"
  shows "conc_steps env tasks (ps, s) (ps @ [Return a], s')"
proof -
  have "conc_steps env tasks (ps @ [p], s) ((ps @ [p])[length ps := Return a], s')"
    using assms(2) by (intro conc_run_alone) auto
  with spawn [OF assms(1), of env ps s] show ?thesis by (simp add: converse_rtranclp_into_rtranclp)
qed

text \<open>Nothing blocks: from every configuration the programs that have been started can all be run to
  their ends.\<close>

lemma conc_can_finish:
  "\<exists>s'. conc_steps env tasks (ps, s) (map (\<lambda>p. Return ()) ps, s')"
proof -
  have "\<exists>qs s'. conc_steps env tasks (ps, s) (qs, s') \<and> length qs = length ps \<and>
      (\<forall>i < n. i < length ps \<longrightarrow> qs ! i = Return ())" for n
  proof (induction n)
    case (Suc n)
    then obtain qs s1 where q: "conc_steps env tasks (ps, s) (qs, s1)" "length qs = length ps"
      "\<forall>i < n. i < length ps \<longrightarrow> qs ! i = Return ()" by blast
    show ?case
    proof (cases "n < length ps")
      case True
      obtain a s2 where r: "run (qs ! n) s1 = (a, s2)" by (cases "run (qs ! n) s1")
      have "conc_steps env tasks (qs, s1) (qs[n := Return a], s2)"
        using True q(2) r by (intro conc_run_alone) auto
      with q(1) have "conc_steps env tasks (ps, s) (qs[n := Return a], s2)" by (rule rtranclp_trans)
      moreover have "\<forall>i < Suc n. i < length ps \<longrightarrow> qs[n := Return a] ! i = Return ()"
        using q(2,3) by (auto simp: nth_list_update less_Suc_eq)
      ultimately show ?thesis using q(2) by (intro exI) auto
    next
      case False
      with q show ?thesis by (intro exI) (auto simp: less_Suc_eq)
    qed
  qed auto
  then obtain qs s' where q: "conc_steps env tasks (ps, s) (qs, s')" "length qs = length ps"
    "\<forall>i < length ps. qs ! i = Return ()" by blast
  then have "qs = map (\<lambda>p. Return ()) ps" by (auto intro: nth_equalityI)
  with q(1) show ?thesis by blast
qed

text \<open>\<open>advance n\<close> makes the next \<open>n\<close> statements of a program.\<close>

fun advance :: "nat \<Rightarrow> ('s, 'a) prog \<Rightarrow> 's \<Rightarrow> ('s, 'a) prog \<times> 's" where
  "advance 0 p s = (p, s)"
| "advance (Suc n) (Return a) s = (Return a, s)"
| "advance (Suc n) (Step f) s = (case f s of (p, s') \<Rightarrow> advance n p s')"

lemma bind_assoc: "bind (bind p k) h = bind p (\<lambda>a. bind (k a) h)"
proof (induction p)
  case (Step f)
  have "map_prod (\<lambda>p. bind p h) id (map_prod (\<lambda>p. bind p k) id (f s)) =
      map_prod (\<lambda>p. bind p (\<lambda>a. bind (k a) h)) id (f s)" for s
    using Step by (cases "f s") auto
  then show ?case by simp
qed simp

lemma advance_call: "advance (Suc n) (bind (call f) k) s = advance n (k (fst (f s))) (snd (f s))"
  by (cases "f s") (simp add: call_def)

lemma advance_steps:
  assumes "i < length ps" and "ps ! i = p" and "advance n p s = (q, s')"
  shows "conc_steps env tasks (ps, s) (ps[i := q], s')"
  using assms
proof (induction n p s arbitrary: ps rule: advance.induct)
  case (1 p s)
  then have "ps[i := q] = ps" "s' = s" by (auto simp: list_update_same_conv)
  then show ?case by simp
next
  case (2 n a s)
  then have "ps[i := q] = ps" "s' = s" by (auto simp: list_update_same_conv)
  then show ?case by simp
next
  case (3 n f s)
  obtain r t where fs: "f s = (r, t)" by force
  have "conc_step env tasks (ps, s) (ps[i := r], t)" using 3(2,3) fs by (rule run_one)
  moreover have "conc_steps env tasks (ps[i := r], t) (ps[i := r, i := q], s')"
    by (rule 3(1) [OF fs [symmetric]]) (use 3 fs in auto)
  ultimately show ?case by (simp add: converse_rtranclp_into_rtranclp)
qed

lemma spawn_all: "set qs \<subseteq> tasks \<Longrightarrow> conc_steps env tasks (ps, s) (ps @ qs, s)"
proof (induction qs arbitrary: ps)
  case (Cons q qs)
  then have "conc_step env tasks (ps, s) (ps @ [q], s)" by (intro spawn) simp
  with Cons show ?case
    using converse_rtranclp_into_rtranclp [of "conc_step env tasks"] by fastforce
qed simp

section \<open>Protocols\<close>

text \<open>
  A rely/guarantee argument over a local token.  \<open>T t s t' s'\<close> is what a program with the token \<open>t\<close> may do
  in one statement, leaving it with the token \<open>t'\<close>; \<open>follows I T Q p t\<close> says that the program obeys it in
  every state with \<open>I\<close>, whatever the others do between its statements, and ends with a token and a value
  related by \<open>Q\<close>.
\<close>

primrec follows ::
  "('s \<Rightarrow> bool) \<Rightarrow> ('t \<Rightarrow> 's \<Rightarrow> 't \<Rightarrow> 's \<Rightarrow> bool) \<Rightarrow> ('t \<Rightarrow> 'a \<Rightarrow> bool) \<Rightarrow> ('s, 'a) prog \<Rightarrow> 't \<Rightarrow> bool" where
  "follows I T Q (Return a) = (\<lambda>t. Q t a)"
| "follows I T Q (Step f) = (\<lambda>t. \<forall>s. I s \<longrightarrow>
     (case map_prod (follows I T Q) id (f s) of (g, s') \<Rightarrow> \<exists>t'. T t s t' s' \<and> g t'))"

lemma follows_Step [simp]:
  "follows I T Q (Step f) t \<longleftrightarrow>
    (\<forall>s p s'. I s \<longrightarrow> f s = (p, s') \<longrightarrow> (\<exists>t'. T t s t' s' \<and> follows I T Q p t'))"
proof -
  have "(case map_prod (follows I T Q) id (f s) of (g, s') \<Rightarrow> \<exists>t'. T t s t' s' \<and> g t') =
      (\<forall>p s'. f s = (p, s') \<longrightarrow> (\<exists>t'. T t s t' s' \<and> follows I T Q p t'))" for s
    by (cases "f s") simp
  then show ?thesis by auto
qed

declare follows.simps(2) [simp del]

lemma follows_call:
  fixes f :: "'s \<Rightarrow> 'a \<times> 's"
  assumes "\<And>s r s'. I s \<Longrightarrow> f s = (r, s') \<Longrightarrow> \<exists>t'. T t s t' s' \<and> Q t' r"
  shows "follows I T Q (call f) t"
proof -
  have "\<exists>t'. T t s t' s' \<and> follows I T Q p t'"
    if "I s" "map_prod Return id (f s) = (p, s')" for s s' and p :: "('s, 'a) prog"
    using assms [OF that(1)] that(2) by (cases "f s") auto
  then show ?thesis by (simp add: call_def)
qed

lemma follows_bind:
  assumes "follows I T R p t" and "\<And>t' a. R t' a \<Longrightarrow> follows I T Q (k a) t'"
  shows "follows I T Q (bind p k) t"
  using assms(1)
proof (induction p arbitrary: t)
  case (Step f)
  have "\<exists>t'. T t s t' s' \<and> follows I T Q q t'"
    if I: "I s" and q: "map_prod (\<lambda>p. bind p k) id (f s) = (q, s')" for s q s'
  proof -
    obtain p where p: "f s = (p, s')" "q = bind p k" using q by (cases "f s") auto
    with Step.prems I obtain t' where "T t s t' s'" "follows I T R p t'" unfolding follows_Step by blast
    with Step.IH [OF p(1)] p(2) show ?thesis by blast
  qed
  then show ?case by simp
qed (simp add: assms(2))

lemma follows_mono:
  assumes "follows I T R p t" and "\<And>t' a. R t' a \<Longrightarrow> Q t' a"
  shows "follows I T Q p t"
  using assms(1) by (induction p arbitrary: t) (simp add: assms(2), fastforce)

text \<open>A loop with an invariant over the rest of the list.\<close>

lemma follows_for_each:
  assumes "\<And>x xs t. R (x # xs) t \<Longrightarrow> follows I T (\<lambda>t' u. R xs t') (f x) t" and "R xs t"
  shows "follows I T (\<lambda>t' u. R [] t') (for_each f xs) t"
  using assms(2)
proof (induction xs arbitrary: t)
  case (Cons x xs)
  from assms(1) [OF Cons.prems] show ?case by (auto intro: follows_bind Cons.IH)
qed simp

text \<open>
  The interface: a protocol whose steps keep the invariant \<open>J\<close> of all tokens and the state, for a set of
  tasks that follow it.  If it holds at the start \<open>s0\<close>, it holds in every state that a pool of tasks reaches,
  in every interleaving.
\<close>

locale protocol =
  fixes env :: "'s \<Rightarrow> 's \<Rightarrow> bool" and tasks :: "('s, unit) prog set" and s0 :: 's
    and I :: "'s \<Rightarrow> bool" and T :: "'t \<Rightarrow> 's \<Rightarrow> 't \<Rightarrow> 's \<Rightarrow> bool"
    and J :: "'t list \<Rightarrow> 's \<Rightarrow> bool" and start :: 't
  assumes inv_I: "J ts s \<Longrightarrow> I s"
    and inv_spawn: "J ts s \<Longrightarrow> J (ts @ [start]) s"
    and inv_env: "J ts s \<Longrightarrow> env s s' \<Longrightarrow> J ts s'"
    and inv_step: "J ts s \<Longrightarrow> i < length ts \<Longrightarrow> T (ts ! i) s t s' \<Longrightarrow>
      reachable env tasks s0 s \<Longrightarrow> reachable env tasks s0 s' \<Longrightarrow> J (ts[i := t]) s'"
    and tasks_follow: "p \<in> tasks \<Longrightarrow> follows I T (\<lambda>t u. True) p start"
begin

lemma steps_invariant:
  assumes "conc_steps env tasks ([], s0) (ps, s)" and "J [] s0"
  shows "\<exists>ts. length ts = length ps \<and> J ts s \<and> (\<forall>i < length ps. follows I T (\<lambda>t u. True) (ps ! i) (ts ! i))"
  using assms(1)
proof (induction "(ps, s)" arbitrary: ps s rule: rtranclp_induct)
  case base
  show ?case using assms(2) by simp
next
  case (step c)
  obtain qs u where c: "c = (qs, u)" by force
  from step.hyps(3) [OF c] obtain ts where ts: "length ts = length qs" "J ts u"
    "\<forall>i < length qs. follows I T (\<lambda>t u. True) (qs ! i) (ts ! i)" by blast
  have R: "reachable env tasks s0 u" "reachable env tasks s0 s"
    using step.hyps(1,2) c unfolding reachable_def by (blast intro: rtranclp.rtrancl_into_rtrancl)+
  from step.hyps(2) [unfolded c] show ?case
  proof cases
    case (spawn p)
    with ts inv_spawn tasks_follow [OF spawn(3)]
    have "length (ts @ [start]) = length ps \<and> J (ts @ [start]) s \<and>
        (\<forall>i < length ps. follows I T (\<lambda>t u. True) (ps ! i) ((ts @ [start]) ! i))"
      by (auto simp: nth_append less_Suc_eq)
    then show ?thesis by blast
  next
    case (run_one i f p)
    with ts inv_I [OF ts(2)] obtain t where t: "T (ts ! i) u t s" "follows I T (\<lambda>t u. True) p t"
      by (metis follows_Step)
    have "J (ts[i := t]) s" using inv_step [OF ts(2) _ t(1) R] run_one ts(1) by simp
    then have "length (ts[i := t]) = length ps \<and> J (ts[i := t]) s \<and>
        (\<forall>j < length ps. follows I T (\<lambda>t u. True) (ps ! j) (ts[i := t] ! j))"
      using run_one ts t(2) by (auto simp: nth_list_update)
    then show ?thesis by blast
  next
    case outside
    with ts inv_env show ?thesis by blast
  qed
qed

lemma reachable_invariant: "reachable env tasks s0 s \<Longrightarrow> J [] s0 \<Longrightarrow> \<exists>ts. J ts s"
  unfolding reachable_def using steps_invariant by blast

end

end
