(* ===== verification/Server_Programs.thy ===== *)
theory Server_Programs imports Event_Loop Interleaving begin

text \<open>
  The handlers, callbacks and loops of \<open>Orchestrator\<close> and \<open>Event_Loop\<close> statement by statement.  A step is one
  call of the code on the database, an interface or the clock, so everything other goroutines and processes
  do can happen between two calls.  A transaction of the engine is one step: it holds the lock of the
  session's row from its first statement to its commit.  Run alone, each program is the operation it
  expands (\<open>program_runs\<close>).
\<close>

section \<open>The engine and the sweeps (internal/workflow/engine.go)\<close>

fun attempts_prog :: "nat \<Rightarrow> uuid \<Rightarrow> string \<Rightarrow> ('a db_scheme, string result) prog" where
  "attempts_prog 0 sid event = Return (Inl (ErrorString ''workflow: transition failed after 3 attempts''))"
| "attempts_prog (Suc n) sid event =
     bind (call (tryTransition sid event)) (\<lambda>r. case r of
        Inr newStatus \<Rightarrow> Return (Inr newStatus)
      | Inl e \<Rightarrow>
          (if errors_is e ErrInvalidTransition \<or> errors_is e ErrSessionNotFound then Return (Inl e)
           else bind (effect (sleep (50 * Millisecond))) (\<lambda>u. attempts_prog n sid event)))"

definition Transition_prog :: "uuid \<Rightarrow> string \<Rightarrow> ('a db_scheme, string result) prog" where
  "Transition_prog sid event = attempts_prog 3 sid event"

definition fire_prog :: "string \<Rightarrow> uuid \<Rightarrow> ('a db_scheme, unit) prog" where
  "fire_prog event sid = bind (Transition_prog sid event) (\<lambda>r. Return ())"

definition GetStatus_prog :: "uuid \<Rightarrow> ('a db_scheme, string result) prog" where
  "GetStatus_prog sid = bind (call (SessionDAO_GetByID sid)) (\<lambda>r. Return (case r of
       Inl e \<Rightarrow> Inl e | Inr s \<Rightarrow> Inr (s_Status s)))"

definition Sweep_prog :: "('a db_scheme, gerror option) prog" where
  "Sweep_prog = bind (call (db_query stuck_sessions)) (\<lambda>r. case r of
       Inl e \<Rightarrow> Return (Some (wrap ''workflow: sweep query: '' e))
     | Inr (ids, rerr) \<Rightarrow> bind (for_each (fire_prog EventFail) ids) (\<lambda>u. Return None))"

definition SweepFixProposed_prog :: "('a db_scheme, gerror option) prog" where
  "SweepFixProposed_prog = bind (call (db_query (sessions_in StatusFixProposed))) (\<lambda>r. case r of
       Inl e \<Rightarrow> Return (Some (wrap ''workflow: sweep fix_proposed query: '' e))
     | Inr (ids, rerr) \<Rightarrow> bind (for_each (fire_prog EventFixGenerated) ids) (\<lambda>u. Return None))"

definition verify_session_prog :: "uuid \<Rightarrow> ('a db_scheme, unit) prog" where
  "verify_session_prog sid = bind (call (FixActionDAO_GetBySessionID sid)) (\<lambda>r. case r of
       Inl e \<Rightarrow> fire_prog (verify_event []) sid
     | Inr fixes \<Rightarrow> fire_prog (verify_event fixes) sid)"

definition SweepVerifying_prog :: "('a db_scheme, gerror option) prog" where
  "SweepVerifying_prog = bind (call (db_query (sessions_in StatusVerifying))) (\<lambda>r. case r of
       Inl e \<Rightarrow> Return (Some (wrap ''workflow: sweep verifying query: '' e))
     | Inr (ids, rerr) \<Rightarrow> bind (for_each verify_session_prog ids) (\<lambda>u. Return None))"

definition sweep_tick_prog :: "('a db_scheme, unit) prog" where
  "sweep_tick_prog = bind Sweep_prog (\<lambda>e1. bind SweepFixProposed_prog (\<lambda>e2.
     bind SweepVerifying_prog (\<lambda>e3. Return ())))"

section \<open>Commands to the agents (event_loop.go)\<close>

fun dispatch_all_prog ::
  "'e deps \<Rightarrow> string \<Rightarrow> string \<Rightarrow> (string \<times> string) list \<Rightarrow> ('e orch, unit) prog" where
  "dispatch_all_prog d sessionID targetService [] = Return ()"
| "dispatch_all_prog d sessionID targetService ((kind, topic) # agents) =
     bind (call (producer_Publish d (command_message topic sessionID targetService ''collect'' kind)))
       (\<lambda>e. dispatch_all_prog d sessionID targetService agents)"

definition DispatchCollect_prog :: "'e deps \<Rightarrow> string \<Rightarrow> string \<Rightarrow> ('e orch, gerror option) prog" where
  "DispatchCollect_prog d sessionID targetService =
     (if \<not> d_has_producer d then Return (Some (ErrorString ''event loop: no producer configured''))
      else bind (dispatch_all_prog d sessionID targetService collectors) (\<lambda>u. Return None))"

definition DispatchAnalyze_prog :: "'e deps \<Rightarrow> string \<Rightarrow> string \<Rightarrow> ('e orch, gerror option) prog" where
  "DispatchAnalyze_prog d sessionID targetService =
     (if \<not> d_has_producer d then Return (Some (ErrorString ''event loop: no producer configured''))
      else bind (call (producer_Publish d (command_message TopicCommandsRCA sessionID targetService ''analyze'' ''agent-rca'')))
        (\<lambda>r. Return (case r of Some e \<Rightarrow> Some (wrap ''publish analyze command: '' e) | None \<Rightarrow> None)))"

section \<open>The handlers of sessions (internal/server/orchestrator.go)\<close>

definition CreateSession_prog :: "'e deps \<Rightarrow> string result \<Rightarrow> ('e orch, response) prog" where
  "CreateSession_prog d body =
    (case body of
       Inl e \<Rightarrow> Return (badRequest (''invalid request body: '' @ error_text e))
     | Inr targetService \<Rightarrow>
        (if targetService = [] then Return (badRequest ''target_service is required'')
         else bind (call (SessionDAO_Create targetService TriggerManual)) (\<lambda>r. Return (case r of
             Inl e \<Rightarrow> internalError (''create session: '' @ error_text e)
           | Inr s \<Rightarrow> Resp 201 (SessionBody (toSessionProto d s))))))"

definition ListSessions_prog :: "'e deps \<Rightarrow> ListSessionsRequest result \<Rightarrow> ('e orch, response) prog" where
  "ListSessions_prog d query = call (ListSessions d query)"

definition with_session_id_prog ::
  "'e deps \<Rightarrow> string \<Rightarrow> (uuid \<Rightarrow> ('e orch, response) prog) \<Rightarrow> ('e orch, response) prog" where
  "with_session_id_prog d idStr k = (case uuid_Parse (d_uuid d) idStr of
       Inl e \<Rightarrow> Return (badRequest ''invalid session id'')
     | Inr i \<Rightarrow> k i)"

definition GetSession_prog :: "'e deps \<Rightarrow> string \<Rightarrow> ('e orch, response) prog" where
  "GetSession_prog d idStr = with_session_id_prog d idStr (\<lambda>i.
    bind (call (SessionDAO_GetByID i)) (\<lambda>r. case r of
       Inl e \<Rightarrow> Return (if errors_is e ErrNotFound then notFound ''session not found''
                       else internalError (''get session: '' @ error_text e))
     | Inr s \<Rightarrow> bind (call (FixActionDAO_GetBySessionID i)) (\<lambda>r2.
         Return (Resp 200 (DetailBody (toSessionProto d s) (buildTimeline s)
           (map (toFixSummaryProto d) (case r2 of Inl e \<Rightarrow> [] | Inr fs \<Rightarrow> fs)))))))"

definition StartSession_prog :: "'e deps \<Rightarrow> string \<Rightarrow> ('e orch, response) prog" where
  "StartSession_prog d idStr = with_session_id_prog d idStr (\<lambda>i.
    bind (Transition_prog i EventStartCollect) (\<lambda>r. case r of
       Inl e \<Rightarrow> Return
         (if errors_is e ErrSessionNotFound then notFound ''session not found''
          else if errors_is e ErrInvalidTransition
          then badRequest (''cannot start session in current state: '' @ error_text e)
          else internalError (''start session: '' @ error_text e))
     | Inr newStatus \<Rightarrow> bind (call (SessionDAO_GetByID i)) (\<lambda>r2. case r2 of
           Inl e \<Rightarrow> Return (if errors_is e ErrNotFound then notFound ''session not found''
                           else internalError (''get session: '' @ error_text e))
         | Inr s \<Rightarrow>
            (if d_has_eventLoop d
             then bind (DispatchCollect_prog d (id_text d i) (s_TargetService s)) (\<lambda>r3. Return (case r3 of
                 Some e \<Rightarrow> internalError (''dispatch collect: '' @ error_text e)
               | None \<Rightarrow> Resp 200 (SessionBody (toSessionProto d s))))
             else Return (Resp 200 (SessionBody (toSessionProto d s)))))))"

definition RetrySession_prog :: "'e deps \<Rightarrow> string \<Rightarrow> ('e orch, response) prog" where
  "RetrySession_prog d idStr = with_session_id_prog d idStr (\<lambda>i.
    bind (call (SessionDAO_IncrementRetry i)) (\<lambda>r. case r of
       Inl e \<Rightarrow> Return (if errors_is e ErrNotFound then notFound ''session not found''
                       else internalError (''retry session: '' @ error_text e))
     | Inr n \<Rightarrow> bind (Transition_prog i EventRetry) (\<lambda>r2. case r2 of
           Inl e \<Rightarrow> Return
             (if errors_is e ErrInvalidTransition
              then badRequest (''cannot retry session in current state: '' @ error_text e)
              else internalError (''retry session: '' @ error_text e))
         | Inr newStatus \<Rightarrow> bind (call (SessionDAO_GetByID i)) (\<lambda>r3. Return (session_answer d r3)))))"

definition IgnoreSession_prog :: "'e deps \<Rightarrow> string \<Rightarrow> ('e orch, response) prog" where
  "IgnoreSession_prog d idStr = with_session_id_prog d idStr (\<lambda>i.
    bind (Transition_prog i EventIgnore) (\<lambda>r. case r of
       Inl e \<Rightarrow> Return
         (if errors_is e ErrSessionNotFound then notFound ''session not found''
          else if errors_is e ErrInvalidTransition
          then badRequest (''cannot ignore session in current state: '' @ error_text e)
          else internalError (''ignore session: '' @ error_text e))
     | Inr newStatus \<Rightarrow> bind (call (SessionDAO_GetByID i)) (\<lambda>r2. Return (session_answer d r2))))"

section \<open>Decisions and reports\<close>

definition decide_prog :: "'e deps \<Rightarrow> uuid \<Rightarrow> uuid \<Rightarrow> Approval \<Rightarrow> DecisionRequest \<Rightarrow> ('e orch, response) prog" where
  "decide_prog d sessionID approvalID appr req =
    (let reject = (dr_Decision req = APPROVAL_DECISION_REJECT);
         decision = (if reject then ApprovalStatusRejected else ApprovalStatusApproved);
         event = (if reject then EventReject else EventApprove)
     in bind (call (ApprovalDAO_UpdateDecision approvalID decision (dr_DecidedBy req))) (\<lambda>r. case r of
          Some e \<Rightarrow> Return (internalError (''update approval decision: '' @ error_text e))
        | None \<Rightarrow> bind (call (FixActionDAO_GetByID (ap_FixActionID appr))) (\<lambda>r2.
            bind (case r2 of Inl e \<Rightarrow> Return None
                  | Inr fa \<Rightarrow> call (FixActionDAO_UpdateApprovalStatus (fa_ID fa) decision)) (\<lambda>e3.
            bind (fire_prog event sessionID) (\<lambda>u.
            Return (Resp 200 (DecisionBody (id_text d approvalID) decision)))))))"

definition DecisionApproval_prog ::
  "'e deps \<Rightarrow> string \<Rightarrow> string \<Rightarrow> DecisionRequest result \<Rightarrow> ('e orch, response) prog" where
  "DecisionApproval_prog d idStr approvalIDStr body = with_session_id_prog d idStr (\<lambda>sessionID.
    (case uuid_Parse (d_uuid d) approvalIDStr of
       Inl e \<Rightarrow> Return (badRequest ''invalid approval id'')
     | Inr approvalID \<Rightarrow>
    (case body of
       Inl e \<Rightarrow> Return (badRequest (''invalid request body: '' @ error_text e))
     | Inr req \<Rightarrow>
        (if dr_Decision req = APPROVAL_DECISION_UNSPECIFIED then Return (badRequest ''decision is required'')
         else bind (call (ApprovalDAO_GetByID approvalID)) (\<lambda>r. case r of
             Inl e \<Rightarrow> Return (if errors_is e ErrNotFound then notFound ''approval not found''
                             else internalError (''get approval: '' @ error_text e))
           | Inr appr \<Rightarrow>
              (if ap_SessionID appr \<noteq> sessionID
               then Return (badRequest ''approval does not belong to this session'')
               else decide_prog d sessionID approvalID appr req))))))"

definition LoadReportData_prog :: "report_lib \<Rightarrow> uuid \<Rightarrow> ('a db_scheme, ReportData result) prog" where
  "LoadReportData_prog lib sid =
    bind (call (SessionDAO_GetByID sid)) (\<lambda>r. case r of
       Inl e \<Rightarrow> Return (Inl (wrap ''load report: session: '' e))
     | Inr session \<Rightarrow>
        bind (call (FixActionDAO_GetBySessionID sid)) (\<lambda>fr.
        bind (call (getAllApprovalsForSession sid)) (\<lambda>(allApprovals, aerr).
        bind (call (SessionEventDAO_GetBySessionID sid)) (\<lambda>(events, eerr).
        (let fixActions = (case fr of Inl e \<Rightarrow> [] | Inr fs \<Rightarrow> fs);
             timeline = (if eerr = None \<and> length events > 0 then map timeline_entry events
                         else buildTimelineFromSession lib session allApprovals)
         in Return (Inr \<lparr>rd_Session = session, rd_Timeline = timeline, rd_Observations = [], rd_RootCause = None,
                  rd_FixActions = fixActions, rd_ApprovalLogs = allApprovals\<rparr>))))))"

definition Engine_GenerateReport_prog ::
  "report_lib \<Rightarrow> (string \<Rightarrow> string result) \<Rightarrow> uuid \<Rightarrow> ('a db_scheme, (string \<times> string \<times> string) result) prog" where
  "Engine_GenerateReport_prog lib pandoc sid =
    bind (LoadReportData_prog lib sid) (\<lambda>r. case r of
       Inl e \<Rightarrow> Return (Inl (wrap ''report engine: load data: '' e))
     | Inr data \<Rightarrow> call (\<lambda>w. (case Renderer_RenderMarkdown lib (w_now w) data of
           Inl e \<Rightarrow> Inl (wrap ''report engine: render markdown: '' e)
         | Inr markdown \<Rightarrow>
            (case RenderPDF lib pandoc (w_now w) data of
               Inl e \<Rightarrow> Inr (markdown @ paragraph_end @ ''_[PDF generation failed: '' @ error_text e @ '']_'' @ nl,
                             [], ''text/markdown'')
             | Inr (pdf, contentType) \<Rightarrow> Inr (markdown, pdf, contentType)), w)))"

definition Engine_RenderMarkdown_prog :: "report_lib \<Rightarrow> uuid \<Rightarrow> ('a db_scheme, string result) prog" where
  "Engine_RenderMarkdown_prog lib sid = bind (LoadReportData_prog lib sid) (\<lambda>r. case r of
       Inl e \<Rightarrow> Return (Inl e)
     | Inr data \<Rightarrow> call (\<lambda>w. (Renderer_RenderMarkdown lib (w_now w) data, w)))"

definition GetReport_prog :: "'e deps \<Rightarrow> string \<Rightarrow> string \<Rightarrow> ('e orch, response) prog" where
  "GetReport_prog d idStr format = with_session_id_prog d idStr (\<lambda>i.
    (if format = ''pdf''
     then bind (Engine_GenerateReport_prog (d_report d) (d_pandoc d) i) (\<lambda>r. Return (case r of
         Inl e \<Rightarrow> internalError (''generate report: '' @ error_text e)
       | Inr (markdown, pdf, contentType) \<Rightarrow> Resp 200 (DataBody contentType pdf)))
     else bind (Engine_RenderMarkdown_prog (d_report d) i) (\<lambda>r. Return (case r of
         Inl e \<Rightarrow> if errors_is e ErrNotFound then notFound ''session not found''
                  else internalError (''generate report: '' @ error_text e)
       | Inr markdown \<Rightarrow> Resp 200 (ReportBody markdown (''/v1/sessions/'' @ idStr @ ''/report/download?format=markdown''))))))"

definition DownloadReport_prog :: "'e deps \<Rightarrow> string \<Rightarrow> string \<Rightarrow> ('e orch, response) prog" where
  "DownloadReport_prog d idStr query = with_session_id_prog d idStr (\<lambda>i.
    (let format = (if query = ''pdf'' then ''pdf'' else ''markdown'');
         disposition = ''attachment; filename='' @ quoted (''report-'' @ idStr @ ''.'' @ format) in
     if format = ''pdf''
     then bind (Engine_GenerateReport_prog (d_report d) (d_pandoc d) i) (\<lambda>r. Return (case r of
         Inl e \<Rightarrow> internalError (''generate pdf report: '' @ error_text e)
       | Inr (markdown, pdf, ct) \<Rightarrow> Resp 200 (DownloadBody disposition ct pdf)))
     else bind (Engine_RenderMarkdown_prog (d_report d) i) (\<lambda>r. Return (case r of
         Inl e \<Rightarrow> if errors_is e ErrNotFound then notFound ''session not found''
                  else internalError (''generate markdown report: '' @ error_text e)
       | Inr markdown \<Rightarrow> Resp 200 (DownloadBody disposition ''text/markdown'' markdown)))))"

section \<open>The approval gate and the execution of fixes\<close>

definition gate_one_prog :: "'e deps \<Rightarrow> uuid \<Rightarrow> FixAction \<Rightarrow> ('e orch, unit) prog" where
  "gate_one_prog d sessionID fa =
    bind (call (\<lambda>w. call_env (d_Request d (approval_request d sessionID fa) (w_now w)) w)) (\<lambda>r. case r of
       Inl e \<Rightarrow> Return ()
     | Inr token \<Rightarrow>
        bind (call (\<lambda>w. case ApprovalDAO_Create \<lparr>ap_ID = uuid_Nil, ap_SessionID = sessionID, ap_FixActionID = fa_ID fa,
             ap_Status = ApprovalStatusPending, ap_RequestToken = token, ap_RequestedAt = 0,
             ap_DecidedAt = None, ap_DecidedBy = None\<rparr> w of (e, a, w2) \<Rightarrow> (e, w2))) (\<lambda>r2. case r2 of
           Some e \<Rightarrow> Return ()
         | None \<Rightarrow> effect (\<lambda>w. snd (FixActionDAO_UpdateApprovalStatus (fa_ID fa) ApprovalStatusPending w))))"

definition TriggerApprovalGate_prog :: "'e deps \<Rightarrow> uuid \<Rightarrow> ('e orch, gerror option) prog" where
  "TriggerApprovalGate_prog d sessionID =
    bind (call (FixActionDAO_GetBySessionID sessionID)) (\<lambda>r. case r of
       Inl e \<Rightarrow> Return (Some (wrap ''trigger approval: get fixes: '' e))
     | Inr fixes \<Rightarrow>
        (let highRiskFixes = filter needs_gate fixes; n = show_nat (length highRiskFixes) in
         if length highRiskFixes = 0 then Return None
         else bind (call (SessionDAO_GetByID sessionID)) (\<lambda>r2. case r2 of
             Inl e \<Rightarrow> Return (Some (wrap ''trigger approval: get session: '' e))
           | Inr s \<Rightarrow>
              bind (for_each (gate_one_prog d sessionID) highRiskFixes) (\<lambda>u.
              if d_has_webhook d
              then bind (effect (\<lambda>w. webhook_Notify \<lparr>de_EventType = ''approval_required'', de_SessionID = sessionID,
                    de_Status = StatusAwaitingApproval,
                    de_Summary = ''Approval required for '' @ n @ '' HIGH-risk fix action(s)'',
                    de_Message = ''Session '' @ id_text d sessionID @ '' requires approval for '' @ n @
                      '' HIGH-risk fix step(s)'',
                    de_Service = s_TargetService s, de_ReportURL = [], de_Timestamp = w_now w, de_Labels = []\<rparr> w))
                  (\<lambda>u. Return None)
              else Return None))))"

definition open_ticket_prog :: "'e deps \<Rightarrow> uuid \<Rightarrow> DiagnosticSession \<Rightarrow> FixAction \<Rightarrow> ('e orch, unit) prog" where
  "open_ticket_prog d sessionID s fa =
    bind (call (\<lambda>w. call_env (d_CreateIncident d (ticket_incident d sessionID s fa) (w_now w)) w)) (\<lambda>r. case r of
       Inl e \<Rightarrow> Return ()
     | Inr ticketID \<Rightarrow> effect (\<lambda>w. snd (FixActionDAO_SetTicketID (fa_ID fa) ticketID w)))"

definition execute_one_prog :: "'e deps \<Rightarrow> uuid \<Rightarrow> DiagnosticSession \<Rightarrow> FixAction \<Rightarrow> ('e orch, unit) prog" where
  "execute_one_prog d sessionID s fa =
    (if \<not> may_execute fa then Return ()
     else bind (effect (\<lambda>w. snd (FixActionDAO_UpdateExecutionStatus (fa_ID fa) ExecStatusRunning w))) (\<lambda>u.
       bind (call (executor_Execute d (exec_action sessionID fa))) (\<lambda>r. case r of
         Inl e \<Rightarrow> effect (\<lambda>w. snd (FixActionDAO_UpdateExecutionStatus (fa_ID fa) ExecStatusFailed w))
       | Inr result \<Rightarrow>
          (let finalStatus = (if xr_Status result = ''FAILED'' then ExecStatusFailed else ExecStatusSucceeded) in
           bind (effect (\<lambda>w. snd (FixActionDAO_UpdateExecutionStatus (fa_ID fa) finalStatus w))) (\<lambda>u.
           if xr_Status result = ''SUCCEEDED'' \<and> fa_TicketID fa = None
           then open_ticket_prog d sessionID s fa else Return ())))))"

definition ExecuteFixActions_prog :: "'e deps \<Rightarrow> uuid \<Rightarrow> ('e orch, gerror option) prog" where
  "ExecuteFixActions_prog d sessionID =
    bind (call (FixActionDAO_GetBySessionID sessionID)) (\<lambda>r. case r of
       Inl e \<Rightarrow> Return (Some (wrap ''execute fixes: get fixes: '' e))
     | Inr fixes \<Rightarrow>
    bind (call (SessionDAO_GetByID sessionID)) (\<lambda>r2. case r2 of
       Inl e \<Rightarrow> Return (Some (wrap ''execute fixes: get session: '' e))
     | Inr s \<Rightarrow>
        bind (for_each (execute_one_prog d sessionID s) fixes) (\<lambda>u.
        bind (Transition_prog sessionID EventExecuteComplete) (\<lambda>r3.
        case (case r3 of Inr n \<Rightarrow> None | Inl e \<Rightarrow> if errors_is e ErrInvalidTransition then None else Some e) of
           Some e \<Rightarrow> Return (Some (wrap ''execute fixes: advance to verifying: '' e))
         | None \<Rightarrow> if d_has_webhook d
             then bind (effect (\<lambda>w. webhook_Notify \<lparr>de_EventType = ''fix_executed'', de_SessionID = sessionID,
                   de_Status = StatusVerifying,
                   de_Summary = ''Fix actions executed for session '' @ id_text d sessionID, de_Message = [],
                   de_Service = s_TargetService s, de_ReportURL = [], de_Timestamp = w_now w, de_Labels = []\<rparr> w))
                 (\<lambda>u. Return None)
             else Return None))))"

section \<open>The event loop (event_loop.go)\<close>

definition collect_observation_prog ::
  "'e deps \<Rightarrow> uuid \<Rightarrow> observationPayload \<Rightarrow> ('e orch, gerror option) prog" where
  "collect_observation_prog d sid ob =
    bind (Transition_prog sid EventCollectComplete) (\<lambda>r. case r of
       Inl e \<Rightarrow> Return (Some (wrap (''transition COLLECTING'' @ utf8_arrow @ ''ANALYZING: '') e))
     | Inr newStatus \<Rightarrow>
        (if newStatus = StatusAnalyzing
         then bind (DispatchAnalyze_prog d (id_text d sid) (op_TargetService ob)) (\<lambda>e. Return None)
         else Return None))"

definition rca_observation_prog :: "uuid \<Rightarrow> ('e orch, gerror option) prog" where
  "rca_observation_prog sid =
    bind (Transition_prog sid EventAnalysisComplete) (\<lambda>r. Return (case r of
       Inl e \<Rightarrow> Some (wrap (''transition ANALYZING'' @ utf8_arrow @ ''RCA_DONE: '') e)
     | Inr newStatus \<Rightarrow> None))"

definition drive_fix_prog :: "'e deps \<Rightarrow> uuid \<Rightarrow> string \<Rightarrow> ('e orch, gerror option) prog" where
  "drive_fix_prog d sid newStatus =
    (if newStatus = StatusAwaitingApproval then bind (TriggerApprovalGate_prog d sid) (\<lambda>e. Return None)
     else if newStatus = StatusFixSuggested
     then bind (Transition_prog sid EventExecute) (\<lambda>r. case r of
         Inl e \<Rightarrow> Return (if errors_is e ErrInvalidTransition then None
                         else Some (wrap (''transition FIX_SUGGESTED'' @ utf8_arrow @ ''FIX_EXECUTING: '') e))
       | Inr n \<Rightarrow> bind (ExecuteFixActions_prog d sid) (\<lambda>e. Return None))
     else Return None)"

definition fix_observation_prog :: "'e deps \<Rightarrow> uuid \<Rightarrow> ('e orch, gerror option) prog" where
  "fix_observation_prog d sid =
    bind (Transition_prog sid EventRCAGenerated) (\<lambda>r. case r of
       Inl e \<Rightarrow> Return (Some (wrap (''transition RCA_DONE'' @ utf8_arrow @ ''FIX_PROPOSED: '') e))
     | Inr n1 \<Rightarrow>
        bind (Transition_prog sid EventFixGenerated) (\<lambda>r2. case r2 of
           Inl e \<Rightarrow> Return (if errors_is e ErrInvalidTransition then None
                           else Some (wrap ''transition evaluate fix_proposed: '' e))
         | Inr n2 \<Rightarrow> drive_fix_prog d sid n2))"

definition handleObservation_prog ::
  "'e deps \<Rightarrow> uuid \<Rightarrow> observationPayload \<Rightarrow> ('e orch, gerror option) prog" where
  "handleObservation_prog d sid ob =
    bind (GetStatus_prog sid) (\<lambda>r. case r of
       Inl e \<Rightarrow> Return (Some (wrap ''get status: '' e))
     | Inr currentStatus \<Rightarrow>
        (let obsType = normalizeType (op_Type ob) in
         if currentStatus = StatusCollecting
         then (if obsType = ''LOG'' \<or> obsType = ''METRIC'' \<or> obsType = ''TRACE''
               then collect_observation_prog d sid ob else Return None)
         else if currentStatus = StatusAnalyzing
         then (if obsType = ''RCA_RESULT'' then rca_observation_prog sid else Return None)
         else if currentStatus = StatusRCADone
         then (if obsType = ''FIX_ACTION'' then fix_observation_prog d sid else Return None)
         else Return None))"

text \<open>The result says that the offset is to be committed.\<close>

definition process_message_prog ::
  "'e deps \<Rightarrow> (string \<Rightarrow> observationPayload result) \<Rightarrow> kafka_Message \<Rightarrow> ('e orch, bool) prog" where
  "process_message_prog d parse m =
    (case parse (k_Value m) of
       Inl e \<Rightarrow> Return True
     | Inr ob \<Rightarrow>
        (if op_SessionID ob = [] then Return True
         else (case uuid_Parse (d_uuid d) (op_SessionID ob) of
             Inl e \<Rightarrow> Return True
           | Inr sid \<Rightarrow> bind (handleObservation_prog d sid ob) (\<lambda>r. Return (r = None)))))"

text \<open>The two goroutines of \<open>StartEventLoop\<close>: the loop of \<open>Run\<close> over the messages that arrive until the context
  ends, one after the other, and the sweep on every tick of 30 seconds until then.  Commits do not touch the
  shared state; \<open>Run_loop\<close> has them.\<close>

definition loop_prog ::
  "'e deps \<Rightarrow> (string \<Rightarrow> observationPayload result) \<Rightarrow> kafka_Message list \<Rightarrow> ('e orch, unit) prog" where
  "loop_prog d parse ms = for_each (\<lambda>m. bind (process_message_prog d parse m) (\<lambda>commit. Return ())) ms"

fun ticker_prog :: "nat \<Rightarrow> ('a db_scheme, unit) prog" where
  "ticker_prog 0 = Return ()"
| "ticker_prog (Suc ticks) = bind sweep_tick_prog (\<lambda>u. ticker_prog ticks)"

definition StartEventLoop ::
  "'e deps \<Rightarrow> (string \<Rightarrow> observationPayload result) \<Rightarrow> kafka_Message list \<Rightarrow> nat \<Rightarrow> ('e orch, unit) prog list" where
  "StartEventLoop d parse ms ticks = [loop_prog d parse ms, ticker_prog ticks]"

section \<open>Run alone, a program is its operation\<close>

named_theorems program_runs "a program that runs alone is the operation it expands"

lemma attempts_runs [program_runs]: "run (attempts_prog n sid ev) w = transition_attempts n sid ev w"
  by (induction n arbitrary: w) (simp_all split: prod.split sum.split)

lemma engine_runs [program_runs]:
  "run (Transition_prog sid ev) w = Transition sid ev w"
  "run (GetStatus_prog sid) w = GetStatus sid w"
  by (simp_all add: Transition_prog_def Transition_def GetStatus_prog_def GetStatus_def program_runs
      split: prod.split sum.split)

lemma fire_runs [program_runs]: "run (fire_prog ev sid) w = ((), fire ev sid w)"
  by (simp add: fire_prog_def fire_def program_runs split: prod.split)

lemma verify_session_runs [program_runs]: "run (verify_session_prog sid) w = ((), verify_session sid w)"
  by (simp add: verify_session_prog_def verify_session_def program_runs split: prod.split sum.split)

lemma sweep_runs [program_runs]:
  "run Sweep_prog w = Sweep w"
  "run SweepFixProposed_prog w = SweepFixProposed w"
  "run SweepVerifying_prog w = SweepVerifying w"
  by (simp_all add: Sweep_prog_def Sweep_def SweepFixProposed_prog_def SweepFixProposed_def
      SweepVerifying_prog_def SweepVerifying_def run_for_each fire_runs verify_session_runs split: prod.split sum.split)

lemma sweep_tick_runs [program_runs]: "run sweep_tick_prog w = ((), sweep_tick w)"
  by (simp add: sweep_tick_prog_def sweep_tick_def program_runs split: prod.split)

lemma dispatch_all_runs [program_runs]:
  "run (dispatch_all_prog d i svc agents) w = ((), dispatch_all d i svc agents w)"
  by (induction agents arbitrary: w) (auto split: prod.split)

lemma dispatch_runs [program_runs]:
  "run (DispatchCollect_prog d i svc) w = DispatchCollect d i svc w"
  "run (DispatchAnalyze_prog d i svc) w = DispatchAnalyze d i svc w"
  by (simp_all add: DispatchCollect_prog_def DispatchCollect_def DispatchAnalyze_prog_def DispatchAnalyze_def
      program_runs split: prod.split option.split)

lemma with_id_runs:
  assumes "\<And>i w. run (p i) w = k i w"
  shows "run (with_session_id_prog d idStr p) w = with_session_id d idStr k w"
  using assms by (simp add: with_session_id_prog_def with_session_id_def split: sum.split)

lemma session_runs [program_runs]:
  "run (CreateSession_prog d body) w = CreateSession d body w"
  "run (ListSessions_prog d query) w = ListSessions d query w"
  "run (GetSession_prog d idStr) w = GetSession d idStr w"
  "run (StartSession_prog d idStr) w = StartSession d idStr w"
  "run (RetrySession_prog d idStr) w = RetrySession d idStr w"
  "run (IgnoreSession_prog d idStr) w = IgnoreSession d idStr w"
  by (simp_all add: CreateSession_prog_def CreateSession_def ListSessions_prog_def
      GetSession_prog_def GetSession_def StartSession_prog_def StartSession_def RetrySession_prog_def
      RetrySession_def IgnoreSession_prog_def IgnoreSession_def with_session_id_prog_def with_session_id_def
      program_runs Let_def split: prod.split sum.split option.split)

lemma decide_runs [program_runs]: "run (decide_prog d sid aid a req) w = decide d sid aid a req w"
  by (simp add: decide_prog_def decide_def program_runs Let_def split: prod.split sum.split option.split)

lemma decision_runs [program_runs]: "run (DecisionApproval_prog d idStr aid body) w = DecisionApproval d idStr aid body w"
  by (simp add: DecisionApproval_prog_def DecisionApproval_def with_session_id_prog_def with_session_id_def
      program_runs split: prod.split sum.split)

lemma load_report_runs [program_runs]: "run (LoadReportData_prog lib i) w = LoadReportData lib i w"
  by (simp add: LoadReportData_prog_def LoadReportData_def Let_def split: prod.split sum.split)

lemma report_runs [program_runs]:
  "run (Engine_GenerateReport_prog lib pandoc i) w = Engine_GenerateReport lib pandoc i w"
  "run (Engine_RenderMarkdown_prog lib i) w = Engine_RenderMarkdown lib i w"
  by (simp_all add: Engine_GenerateReport_prog_def Engine_GenerateReport_def Engine_RenderMarkdown_prog_def
      Engine_RenderMarkdown_def program_runs split: prod.split sum.split)

lemma report_handler_runs [program_runs]:
  "run (GetReport_prog d idStr format) w = GetReport d idStr format w"
  "run (DownloadReport_prog d idStr query) w = DownloadReport d idStr query w"
  by (simp_all add: GetReport_prog_def GetReport_def DownloadReport_prog_def DownloadReport_def
      with_session_id_prog_def with_session_id_def program_runs Let_def split: prod.split sum.split)

lemma gate_one_runs [program_runs]: "run (gate_one_prog d sid fa) w = ((), gate_one d sid fa w)"
  by (simp add: gate_one_prog_def gate_one_def split: prod.split sum.split option.split)

lemma gate_runs [program_runs]: "run (TriggerApprovalGate_prog d sid) w = TriggerApprovalGate d sid w"
  by (simp add: TriggerApprovalGate_prog_def TriggerApprovalGate_def run_for_each gate_one_runs Let_def
      split: prod.split sum.split)

lemma open_ticket_runs [program_runs]: "run (open_ticket_prog d sid s fa) w = ((), open_ticket d sid s fa w)"
  by (simp add: open_ticket_prog_def open_ticket_def split: prod.split sum.split)

lemma execute_one_runs [program_runs]: "run (execute_one_prog d sid s fa) w = ((), execute_one d sid s fa w)"
  by (auto simp: execute_one_prog_def execute_one_def program_runs Let_def split: prod.split sum.split)

lemma execute_runs [program_runs]: "run (ExecuteFixActions_prog d sid) w = ExecuteFixActions d sid w"
  by (simp add: ExecuteFixActions_prog_def ExecuteFixActions_def run_for_each execute_one_runs engine_runs Let_def
      split: prod.split sum.split option.split)

lemma loop_runs [program_runs]:
  "run (collect_observation_prog d sid ob) w = collect_observation d sid ob w"
  "run (rca_observation_prog sid) w = rca_observation sid w"
  "run (drive_fix_prog d sid n) w = drive_fix d sid n w"
  by (simp_all add: collect_observation_prog_def collect_observation_def rca_observation_prog_def
      rca_observation_def drive_fix_prog_def drive_fix_def program_runs split: prod.split sum.split)

lemma fix_observation_runs [program_runs]: "run (fix_observation_prog d sid) w = fix_observation d sid w"
  by (simp add: fix_observation_prog_def fix_observation_def program_runs split: prod.split sum.split)

lemma observation_runs [program_runs]: "run (handleObservation_prog d sid ob) w = handleObservation d sid ob w"
  by (simp add: handleObservation_prog_def handleObservation_def program_runs Let_def split: prod.split sum.split)

lemma message_runs [program_runs]: "run (process_message_prog d parse m) w = process_message d parse m w"
  by (simp add: process_message_prog_def process_message_def program_runs split: prod.split sum.split option.split)

lemma loop_prog_runs [program_runs]:
  "run (loop_prog d parse ms) w = ((), fst (Run_loop d parse ok ms w pos))"
proof (induction ms arbitrary: w pos)
  case (Cons m ms)
  obtain c w1 where "process_message d parse m w = (c, w1)" by force
  with Cons [of w1] show ?case by (cases c) (simp_all add: loop_prog_def message_runs)
qed (simp add: loop_prog_def)

lemma ticker_runs [program_runs]: "run (ticker_prog n) w = ((), (sweep_tick ^^ n) w)"
  by (induction n arbitrary: w) (simp_all add: program_runs funpow_swap1)

end
