(* ===== verification/Concurrent_Server.thy ===== *)
theory Concurrent_Server imports Execution_Spec Server_Programs begin

text \<open>
  The orchestrator with everything that runs at the same time: the goroutines of the requests, the event
  loops and sweeps of any number of replicas, and the agents that store fix actions, interleaved statement
  by statement, and what each of their programs leaves alone.  The atomic steps of \<open>Server_Invariants\<close> are
  the runs without interleaving.
\<close>

section \<open>The tasks\<close>

text \<open>Any number of event loops can have the same message, so a redelivery and a second replica are covered.  An
  agent stores one fix action in one statement.\<close>

datatype task =
  CreateTask "string result"
| ListTask "ListSessionsRequest result"
| GetTask string
| StartTask string
| RetryTask string
| IgnoreTask string
| DecisionTask string string "DecisionRequest result"
| ReportTask string string
| DownloadTask string string
| LoopTask "kafka_Message list"
| TickerTask nat
| AgentTask FixAction

definition answered :: "('s, 'a) prog \<Rightarrow> ('s, unit) prog" where
  "answered p = bind p (\<lambda>r. Return ())"

fun task_prog :: "'e deps \<Rightarrow> (string \<Rightarrow> observationPayload result) \<Rightarrow> task \<Rightarrow> ('e orch, unit) prog" where
  "task_prog d parse (CreateTask body) = answered (CreateSession_prog d body)"
| "task_prog d parse (ListTask query) = answered (ListSessions_prog d query)"
| "task_prog d parse (GetTask i) = answered (GetSession_prog d i)"
| "task_prog d parse (StartTask i) = answered (StartSession_prog d i)"
| "task_prog d parse (RetryTask i) = answered (RetrySession_prog d i)"
| "task_prog d parse (IgnoreTask i) = answered (IgnoreSession_prog d i)"
| "task_prog d parse (DecisionTask i a body) = answered (DecisionApproval_prog d i a body)"
| "task_prog d parse (ReportTask i format) = answered (GetReport_prog d i format)"
| "task_prog d parse (DownloadTask i query) = answered (DownloadReport_prog d i query)"
| "task_prog d parse (LoopTask ms) = loop_prog d parse ms"
| "task_prog d parse (TickerTask ticks) = ticker_prog ticks"
| "task_prog d parse (AgentTask fa) = effect (\<lambda>w. snd (snd (FixActionDAO_Create fa w)))"

definition server_tasks ::
  "'e deps \<Rightarrow> (string \<Rightarrow> observationPayload result) \<Rightarrow> ('e orch, unit) prog set" where
  "server_tasks d parse = range (task_prog d parse)"

lemma StartEventLoop_tasks: "set (StartEventLoop d parse ms ticks) \<subseteq> server_tasks d parse"
proof -
  have "set (StartEventLoop d parse ms ticks) = task_prog d parse ` {LoopTask ms, TickerTask ticks}"
    by (simp add: StartEventLoop_def)
  then show ?thesis unfolding server_tasks_def by blast
qed

text \<open>What changes from outside: locks of other transactions, failures, the clock, the other services.\<close>

definition environment :: "'e orch \<Rightarrow> 'e orch \<Rightarrow> bool" where
  "environment w w' \<longleftrightarrow> (\<exists>locked faults now e. w' = w\<lparr>w_locked := locked, w_faults := faults, w_now := now, o_env := e\<rparr>)"

abbreviation server_steps where
  "server_steps d parse \<equiv> conc_steps environment (server_tasks d parse)"

section \<open>The atomic steps are runs without interleaving\<close>

lemma answered_runs [program_runs]: "run (answered p) w = ((), snd (run p w))"
  by (simp add: answered_def split: prod.split)

lemma task_results:
  "run (task_prog d parse (CreateTask body)) w = ((), snd (CreateSession d body w))"
  "run (task_prog d parse (ListTask query)) w = ((), snd (ListSessions d query w))"
  "run (task_prog d parse (GetTask i)) w = ((), snd (GetSession d i w))"
  "run (task_prog d parse (StartTask i)) w = ((), snd (StartSession d i w))"
  "run (task_prog d parse (RetryTask i)) w = ((), snd (RetrySession d i w))"
  "run (task_prog d parse (IgnoreTask i)) w = ((), snd (IgnoreSession d i w))"
  "run (task_prog d parse (DecisionTask i a decision)) w = ((), snd (DecisionApproval d i a decision w))"
  "run (task_prog d parse (ReportTask i format)) w = ((), snd (GetReport d i format w))"
  "run (task_prog d parse (DownloadTask i format)) w = ((), snd (DownloadReport d i format w))"
  "run (task_prog d parse (LoopTask [m])) w = ((), snd (process_message d parse m w))"
  "run (task_prog d parse (TickerTask (Suc 0))) w = ((), sweep_tick w)"
  "run (task_prog d parse (AgentTask fa)) w = ((), snd (snd (FixActionDAO_Create fa w)))"
  by (simp_all add: program_runs loop_prog_def split: prod.split)

lemma task_runs:
  assumes "run (task_prog d parse t) w = (u, w')"
  shows "server_steps d parse (ps, w) (ps @ [Return ()], w')"
  using conc_spawn_run [of "task_prog d parse t" "server_tasks d parse" w u w' environment ps] assms
  by (simp add: server_tasks_def)

lemma sys_step_concurrent:
  assumes "sys_step d parse w w'"
  shows "\<exists>qs. set qs \<subseteq> {Return ()} \<and> server_steps d parse (ps, w) (ps @ qs, w')"
proof -
  have "(\<exists>t u. run (task_prog d parse t) w = (u, w')) \<or> environment w w'"
    using assms by cases (metis task_results snd_conv environment_def)+
  then show ?thesis
  proof
    assume "\<exists>t u. run (task_prog d parse t) w = (u, w')"
    with task_runs [of d parse _ w _ w' ps] show ?thesis by (intro exI [of _ "[Return ()]"]) auto
  next
    assume "environment w w'"
    then have "server_steps d parse (ps, w) (ps, w')" by (intro r_into_rtranclp outside)
    then show ?thesis by (intro exI [of _ "[]"]) simp
  qed
qed

lemma sys_steps_concurrent:
  assumes "(sys_step d parse)\<^sup>*\<^sup>* w w'"
  shows "\<exists>qs. set qs \<subseteq> {Return ()} \<and> server_steps d parse ([], w) (qs, w')"
  using assms
proof (induction rule: rtranclp_induct)
  case base
  show ?case by (intro exI [of _ "[]"]) simp
next
  case (step u v)
  then obtain qs where "set qs \<subseteq> {Return ()}" "server_steps d parse ([], w) (qs, u)" by blast
  moreover from sys_step_concurrent [OF step.hyps(2), of qs] obtain rs
    where "set rs \<subseteq> {Return ()}" "server_steps d parse (qs, u) (qs @ rs, v)" by blast
  ultimately show ?case by (intro exI [of _ "qs @ rs"]) (auto intro: rtranclp_trans)
qed

section \<open>Quiet programs\<close>

text \<open>\<open>lg\<close> is a part of the state that records what was handed to the outside.  A program is quiet about it
  when none of its statements writes there; most programs are quiet about the executor, and about the
  commands to the agents.\<close>

definition quiet :: "('e orch \<Rightarrow> 'l) \<Rightarrow> ('e orch, 'a) prog \<Rightarrow> bool" where
  "quiet lg p \<longleftrightarrow> follows (\<lambda>w. True) (\<lambda>u w u' w'. effects w w' \<and> lg w' = lg w) (\<lambda>u r. True) p ()"

definition quiet_op :: "('e orch \<Rightarrow> 'l) \<Rightarrow> ('e orch \<Rightarrow> 'a \<times> 'e orch) \<Rightarrow> bool" where
  "quiet_op lg f \<longleftrightarrow> (\<forall>w r w'. f w = (r, w') \<longrightarrow> effects w w' \<and> lg w' = lg w)"

text \<open>Logs that only depend on the executor and the producer.\<close>

definition observes :: "('e orch \<Rightarrow> 'l) \<Rightarrow> bool" where
  "observes lg \<longleftrightarrow> (\<forall>w w'. o_executed w' = o_executed w \<longrightarrow> o_outbox w' = o_outbox w \<longrightarrow> lg w' = lg w)"

named_theorems quiet_intros "programs that write nothing to a log"

lemma observes_logs [quiet_intros]: "observes o_executed" "observes o_outbox"
  by (simp_all add: observes_def)

lemma quiet_opI:
  "(\<And>w r w'. f w = (r, w') \<Longrightarrow> effects w w') \<Longrightarrow> (\<And>w r w'. f w = (r, w') \<Longrightarrow> lg w' = lg w) \<Longrightarrow> quiet_op lg f"
  unfolding quiet_op_def by blast

lemma quiet_op_silent:
  assumes "observes lg" and "\<And>w r w'. f w = (r, w') \<Longrightarrow> effects w w'"
    and "\<And>w r w'. f w = (r, w') \<Longrightarrow> o_executed w' = o_executed w"
    and "\<And>w r w'. f w = (r, w') \<Longrightarrow> o_outbox w' = o_outbox w"
  shows "quiet_op lg f"
  using assms unfolding quiet_op_def observes_def by blast

lemma quiet_Return [quiet_intros]: "quiet lg (Return a)"
  by (simp add: quiet_def)

lemma quiet_call: "quiet_op lg f \<Longrightarrow> quiet lg (call f)"
  unfolding quiet_def quiet_op_def by (rule follows_call) blast

lemma quiet_effect: "quiet_op lg (\<lambda>w. ((), f w)) \<Longrightarrow> quiet lg (effect f)"
  unfolding effect_def by (rule quiet_call)

lemma quiet_bind [quiet_intros]: "quiet lg p \<Longrightarrow> (\<And>a. quiet lg (k a)) \<Longrightarrow> quiet lg (bind p k)"
  unfolding quiet_def by (auto intro: follows_bind)

lemma quiet_for_each [quiet_intros]: "(\<And>x. quiet lg (f x)) \<Longrightarrow> quiet lg (for_each f xs)"
  by (induction xs) (auto intro: quiet_intros)

lemma quiet_with_id [quiet_intros]: "(\<And>i. quiet lg (k i)) \<Longrightarrow> quiet lg (with_session_id_prog d idStr k)"
  by (auto simp: with_session_id_prog_def intro: quiet_intros split: sum.split)

lemma quiet_split [quiet_intros]:
  "(\<And>e. quiet lg (f e)) \<Longrightarrow> (\<And>x. quiet lg (g x)) \<Longrightarrow> quiet lg (case_sum f g r)"
  "quiet lg q \<Longrightarrow> (\<And>x. quiet lg (h x)) \<Longrightarrow> quiet lg (case_option q h oo)"
  "(\<And>x y. quiet lg (c x y)) \<Longrightarrow> quiet lg (case_prod c xy)"
  "quiet lg p \<Longrightarrow> quiet lg p' \<Longrightarrow> quiet lg (if b then p else p')"
  by (auto split: sum.split option.split prod.split)

text \<open>What the statements leave of the messages that were sent.\<close>

lemma outbox_same_more: "db.more w' = db.more w \<Longrightarrow> o_outbox w' = o_outbox w"
  by (cases w, cases w') simp

lemma outbox_simps [simp]:
  "o_outbox (pop_fault w) = o_outbox w" "o_outbox (set_fix i f w) = o_outbox w"
  "o_outbox (set_approval i g w) = o_outbox w" "o_outbox (set_session i h w) = o_outbox w"
  by (simp_all add: pop_fault_def set_fix_def set_approval_def set_session_def)

lemma outbox_reads: "reads_only w w' \<Longrightarrow> o_outbox w' = o_outbox w"
  using reads_only_fields(10) outbox_same_more by blast

lemma outbox_exec:
  assumes "db_exec f w = (r, w')" and "\<And>u u'. f u = Inr u' \<Longrightarrow> o_outbox u' = o_outbox u"
  shows "o_outbox w' = o_outbox w"
  using assms(1) by (cases rule: db_exec_cases) (auto dest: assms(2))

lemma outbox_inserts:
  "insert_session s w = Inr w' \<Longrightarrow> o_outbox w' = o_outbox w"
  "insert_fix fa w = Inr w' \<Longrightarrow> o_outbox w' = o_outbox w"
  "insert_approval a w = Inr w' \<Longrightarrow> o_outbox w' = o_outbox w"
  "increment_retry i w = Inr w' \<Longrightarrow> o_outbox w' = o_outbox w"
  by (auto simp: insert_session_def insert_fix_def insert_approval_def increment_retry_def
      split: if_splits option.splits)

lemma outbox_writes:
  "SessionDAO_Create svc trig w = (r1, w') \<Longrightarrow> o_outbox w' = o_outbox w"
  "FixActionDAO_Create fa w = (r2, fa', w') \<Longrightarrow> o_outbox w' = o_outbox w"
  "ApprovalDAO_Create a w = (r3, a', w') \<Longrightarrow> o_outbox w' = o_outbox w"
  "SessionDAO_IncrementRetry i w = (r4, w') \<Longrightarrow> o_outbox w' = o_outbox w"
  "ApprovalDAO_UpdateDecision i st who w = (r5, w') \<Longrightarrow> o_outbox w' = o_outbox w"
  "FixActionDAO_UpdateApprovalStatus i st w = (r6, w') \<Longrightarrow> o_outbox w' = o_outbox w"
  "FixActionDAO_UpdateExecutionStatus i st w = (r7, w') \<Longrightarrow> o_outbox w' = o_outbox w"
  "FixActionDAO_SetTicketID i st w = (r8, w') \<Longrightarrow> o_outbox w' = o_outbox w"
  by (auto simp: SessionDAO_Create_def FixActionDAO_Create_def ApprovalDAO_Create_def
      SessionDAO_IncrementRetry_def ApprovalDAO_UpdateDecision_def FixActionDAO_UpdateApprovalStatus_def
      FixActionDAO_UpdateExecutionStatus_def FixActionDAO_SetTicketID_def Let_def uuid_New_def
      split: prod.splits option.splits if_splits
      dest!: outbox_exec dest: outbox_inserts dest!: fitted_ok)

lemma outbox_gets:
  "SessionDAO_GetByID i w = (r1, w') \<Longrightarrow> o_outbox w' = o_outbox w"
  "FixActionDAO_GetByID i w = (r2, w') \<Longrightarrow> o_outbox w' = o_outbox w"
  "ApprovalDAO_GetByID i w = (r3, w') \<Longrightarrow> o_outbox w' = o_outbox w"
  "FixActionDAO_GetBySessionID i w = (r4, w') \<Longrightarrow> o_outbox w' = o_outbox w"
  "SessionDAO_List t f w = (r5, w') \<Longrightarrow> o_outbox w' = o_outbox w"
  "SessionEventDAO_GetBySessionID i w = (r6, w') \<Longrightarrow> o_outbox w' = o_outbox w"
  by (auto intro: outbox_reads dest: reads_only_GetByID reads_only_lists)

lemma outbox_ListSessions: "ListSessions d query w = (r, w') \<Longrightarrow> o_outbox w' = o_outbox w"
  by (auto simp: ListSessions_def Let_def split: prod.splits sum.splits if_splits option.splits dest!: outbox_gets)

lemma outbox_attempt: "tryTransition i ev w = (r, w') \<Longrightarrow> o_outbox w' = o_outbox w"
  by (erule tryTransition_cases) (auto simp: engine_frame_def intro: outbox_same_more)

lemma executed_attempt: "tryTransition i ev w = (r, w') \<Longrightarrow> o_executed w' = o_executed w"
  by (erule tryTransition_cases) (auto simp: engine_frame_def intro: orch_more)

lemma outbox_notify [simp]: "o_outbox (webhook_Notify e w) = o_outbox w"
proof -
  obtain rows w1 where 1: "WebhookDAO_ListEnabled w = (rows, w1)" by force
  have "reads_only w w1"
    using 1 by (auto simp: WebhookDAO_ListEnabled_def query_columns_def missing_column_def
        split: prod.splits sum.splits if_splits option.splits elim!: db_query_cases)
  with 1 show ?thesis
    by (cases rows) (auto simp: webhook_Notify_def WebhookNotifier_Notify_def outbox_reads)
qed

section \<open>The statements\<close>

lemma quiet_calls [quiet_intros]:
  "observes lg \<Longrightarrow> quiet lg (call (SessionDAO_GetByID i))"
  "observes lg \<Longrightarrow> quiet lg (call (FixActionDAO_GetBySessionID i))"
  "observes lg \<Longrightarrow> quiet lg (call (FixActionDAO_GetByID i))"
  "observes lg \<Longrightarrow> quiet lg (call (ApprovalDAO_GetByID i))"
  "observes lg \<Longrightarrow> quiet lg (call (SessionDAO_Create svc trig))"
  "observes lg \<Longrightarrow> quiet lg (call (SessionDAO_IncrementRetry i))"
  "observes lg \<Longrightarrow> quiet lg (call (ApprovalDAO_UpdateDecision i st who))"
  "observes lg \<Longrightarrow> quiet lg (call (FixActionDAO_UpdateApprovalStatus i st))"
  "observes lg \<Longrightarrow> quiet lg (call (ListSessions d query))"
  "observes lg \<Longrightarrow> quiet lg (call (tryTransition i ev))"
  by (rule quiet_call, erule quiet_op_silent;
      (erule effect_intros | erule executed_gets executed_writes executed_handlers executed_attempt
        | erule outbox_gets outbox_writes outbox_ListSessions outbox_attempt))+

lemma quiet_query [quiet_intros]: "observes lg \<Longrightarrow> quiet lg (call (db_query q))"
  by (rule quiet_call, erule quiet_op_silent, erule effects_reads) (auto elim!: db_query_cases)

lemma quiet_event_reads [quiet_intros]:
  assumes "observes lg"
  shows "quiet lg (call (getAllApprovalsForSession i))" "quiet lg (call (SessionEventDAO_GetBySessionID i))"
proof -
  show "quiet lg (call (getAllApprovalsForSession i))"
    by (rule quiet_call, rule quiet_op_silent [OF assms], erule effect_intros)
       (auto simp: getAllApprovalsForSession_def split: prod.splits sum.splits elim!: db_query_cases)
  show "quiet lg (call (SessionEventDAO_GetBySessionID i))"
    by (rule quiet_call, rule quiet_op_silent [OF assms], erule effect_intros)
       (auto intro: executed_reads outbox_reads dest: reads_only_lists)
qed

lemma quiet_env [quiet_intros]: "observes lg \<Longrightarrow> quiet lg (call (\<lambda>w. call_env (f (w_now w)) w))"
  by (rule quiet_call, erule quiet_op_silent; (erule effects_env)?) (auto simp: call_env_def split: prod.splits)

lemma quiet_clock [quiet_intros]: "quiet lg (call (\<lambda>w. (f w, w)))"
  by (rule quiet_call, rule quiet_opI) auto

lemma quiet_approval_create [quiet_intros]:
  "observes lg \<Longrightarrow> quiet lg (call (\<lambda>w. case ApprovalDAO_Create a w of (e, a, w') \<Rightarrow> (e, w')))"
  by (rule quiet_call, erule quiet_op_silent)
     (auto split: prod.splits dest: effects_approval_create executed_writes(3) outbox_writes(3))

lemma quiet_updates [quiet_intros]:
  "observes lg \<Longrightarrow> quiet lg (effect (\<lambda>w. snd (FixActionDAO_UpdateApprovalStatus i st w)))"
  "observes lg \<Longrightarrow> quiet lg (effect (\<lambda>w. snd (FixActionDAO_UpdateExecutionStatus i st w)))"
  "observes lg \<Longrightarrow> quiet lg (effect (\<lambda>w. snd (FixActionDAO_SetTicketID i tk w)))"
  by (rule quiet_effect, erule quiet_op_silent,
      auto intro: effects_fixes [OF surjective_pairing] executed_writes(6) [OF surjective_pairing]
        outbox_writes(6-8) [OF surjective_pairing])+

lemma quiet_agent [quiet_intros]: "observes lg \<Longrightarrow> quiet lg (effect (\<lambda>w. snd (snd (FixActionDAO_Create fa w))))"
proof (rule quiet_effect, erule quiet_op_silent)
  fix w w' :: "'e orch" and r :: unit
  assume 1: "((), snd (snd (FixActionDAO_Create fa w))) = (r, w')"
  obtain e fa' u where 2: "FixActionDAO_Create fa w = (e, fa', u)" by (metis surj_pair)
  with 1 effects_fix_create [OF 2] executed_writes(2) [OF 2] outbox_writes(2) [OF 2]
  show "effects w w'" "o_executed w' = o_executed w" "o_outbox w' = o_outbox w" by auto
qed

lemma quiet_notify [quiet_intros]: "observes lg \<Longrightarrow> quiet lg (effect (\<lambda>w. webhook_Notify (f w) w))"
  by (rule quiet_effect, erule quiet_op_silent) (auto simp: effects_notify)

lemma quiet_sleep [quiet_intros]: "observes lg \<Longrightarrow> quiet lg (effect (sleep t))"
  by (rule quiet_effect, erule quiet_op_silent)
     (auto simp: sleep_def intro: effects_step p_sleep [unfolded sleep_def])

text \<open>The two that write.\<close>

lemma quiet_publish [quiet_intros]: "quiet o_executed (call (producer_Publish d msg))"
  by (rule quiet_call, rule quiet_opI; erule effect_intros executed_publish)

lemma quiet_executor [quiet_intros]: "quiet o_outbox (call (executor_Execute d a))"
proof (rule quiet_call, rule quiet_opI)
  fix w r w'
  assume "executor_Execute d a w = (r, w')"
  then have 1: "call_env (d_Execute d a (w_now w)) (w\<lparr>o_executed := o_executed w @ [a]\<rparr>) = (r, w')"
    by (simp add: executor_Execute_def Let_def)
  have "effects w (w\<lparr>o_executed := o_executed w @ [a]\<rparr>)" by (rule effects_step) (rule p_executed)
  with effects_env [OF 1] show "effects w w'" by (auto intro: effects_trans)
  from 1 show "o_outbox w' = o_outbox w" by (auto simp: call_env_def split: prod.splits)
qed

section \<open>The programs\<close>

lemma quiet_attempts [quiet_intros]: "observes lg \<Longrightarrow> quiet lg (attempts_prog n i ev)"
  by (induction n) (auto intro!: quiet_intros)

lemma quiet_engine [quiet_intros]:
  "observes lg \<Longrightarrow> quiet lg (Transition_prog i ev)" "observes lg \<Longrightarrow> quiet lg (fire_prog ev i)"
  "observes lg \<Longrightarrow> quiet lg (GetStatus_prog i)" "observes lg \<Longrightarrow> quiet lg (verify_session_prog i)"
  "observes lg \<Longrightarrow> quiet lg sweep_tick_prog"
  by (auto simp: Transition_prog_def fire_prog_def GetStatus_prog_def verify_session_prog_def sweep_tick_prog_def
      Sweep_prog_def SweepFixProposed_prog_def SweepVerifying_prog_def intro!: quiet_intros)

lemma quiet_ticker [quiet_intros]: "observes lg \<Longrightarrow> quiet lg (ticker_prog n)"
  by (induction n) (auto intro!: quiet_intros)

lemma quiet_dispatch [quiet_intros]:
  "quiet o_executed (dispatch_all_prog d i svc agents)" "quiet o_executed (DispatchCollect_prog d i svc)"
  "quiet o_executed (DispatchAnalyze_prog d i svc)"
proof -
  show all: "quiet o_executed (dispatch_all_prog d i svc agents)" for agents
    by (induction agents) (auto intro!: quiet_intros)
  show "quiet o_executed (DispatchCollect_prog d i svc)" "quiet o_executed (DispatchAnalyze_prog d i svc)"
    by (auto simp: DispatchCollect_prog_def DispatchAnalyze_prog_def intro!: quiet_intros all)
qed

lemma quiet_handlers [quiet_intros]:
  "observes lg \<Longrightarrow> quiet lg (CreateSession_prog d body)" "observes lg \<Longrightarrow> quiet lg (ListSessions_prog d query)"
  "observes lg \<Longrightarrow> quiet lg (GetSession_prog d idStr)" "observes lg \<Longrightarrow> quiet lg (RetrySession_prog d idStr)"
  "observes lg \<Longrightarrow> quiet lg (IgnoreSession_prog d idStr)"
  "observes lg \<Longrightarrow> quiet lg (DecisionApproval_prog d idStr aid decision)"
  "quiet o_executed (StartSession_prog d idStr)"
  by (auto simp: CreateSession_prog_def ListSessions_prog_def GetSession_prog_def StartSession_prog_def
      RetrySession_prog_def IgnoreSession_prog_def DecisionApproval_prog_def decide_prog_def Let_def
      intro!: quiet_intros)

lemma quiet_reports [quiet_intros]:
  assumes "observes lg"
  shows "quiet lg (GetReport_prog d idStr format)" "quiet lg (DownloadReport_prog d idStr query)"
proof -
  have load: "quiet lg (LoadReportData_prog lib i)" for lib i
    using assms by (auto simp: LoadReportData_prog_def Let_def intro!: quiet_intros)
  show "quiet lg (GetReport_prog d idStr format)" "quiet lg (DownloadReport_prog d idStr query)"
    by (auto simp: GetReport_prog_def DownloadReport_prog_def Engine_GenerateReport_prog_def
        Engine_RenderMarkdown_prog_def Let_def intro!: quiet_intros load)
qed

lemma quiet_gate [quiet_intros]: "observes lg \<Longrightarrow> quiet lg (TriggerApprovalGate_prog d sid)"
  by (auto simp: TriggerApprovalGate_prog_def gate_one_prog_def Let_def intro!: quiet_intros)

lemma quiet_ticket [quiet_intros]: "observes lg \<Longrightarrow> quiet lg (open_ticket_prog d sid s fa)"
  by (auto simp: open_ticket_prog_def intro!: quiet_intros)

lemma quiet_loop [quiet_intros]:
  "quiet o_executed (collect_observation_prog d sid ob)" "observes lg \<Longrightarrow> quiet lg (rca_observation_prog sid)"
  by (auto simp: collect_observation_prog_def rca_observation_prog_def intro!: quiet_intros)

lemma quiet_execution [quiet_intros]:
  "quiet o_outbox (ExecuteFixActions_prog d sid)" "quiet o_outbox (drive_fix_prog d sid n)"
  "quiet o_outbox (fix_observation_prog d sid)"
  by (auto simp: ExecuteFixActions_prog_def execute_one_prog_def drive_fix_prog_def fix_observation_prog_def
      Let_def intro!: quiet_intros)

section \<open>Quiet programs in a protocol\<close>

text \<open>A protocol that lets a program keep its token in quiet steps.\<close>

definition quiet_steps :: "('e orch \<Rightarrow> 'l) \<Rightarrow> ('t \<Rightarrow> 'e orch \<Rightarrow> 't \<Rightarrow> 'e orch \<Rightarrow> bool) \<Rightarrow> bool" where
  "quiet_steps lg T \<longleftrightarrow> (\<forall>t w w'. effects w w' \<longrightarrow> lg w' = lg w \<longrightarrow> T t w t w')"

lemma follows_quiet:
  assumes "quiet_steps lg T" and "quiet lg p"
  shows "follows I T (\<lambda>t' r. t' = t) p t"
  using assms(2) unfolding quiet_def
proof (induction p)
  case (Step f)
  show ?case
    unfolding follows_Step
  proof (intro allI impI)
    fix w p w' assume f: "f w = (p, w')"
    then have "effects w w'" "lg w' = lg w"
      "follows (\<lambda>w. True) (\<lambda>u w u' w'. effects w w' \<and> lg w' = lg w) (\<lambda>u r. True) p ()"
      using Step.prems by auto
    with assms(1) Step.IH [OF f] show "\<exists>t'. T t w t' w' \<and> follows I T (\<lambda>t' r. t' = t) p t'"
      unfolding quiet_steps_def by auto
  qed
qed simp

lemma follows_after_quiet:
  assumes "quiet_steps lg T" and "quiet lg p" and "\<And>a. follows I T Q (k a) t"
  shows "follows I T Q (bind p k) t"
  using follows_quiet [OF assms(1,2), of I t] by (rule follows_bind) (simp add: assms(3))

lemma follows_any: "follows I T Q p t \<Longrightarrow> follows I T (\<lambda>t' r. True) p t"
  by (erule follows_mono) simp

lemma follows_quiet_any: "quiet_steps lg T \<Longrightarrow> quiet lg p \<Longrightarrow> follows I T (\<lambda>t' r. True) p t"
  by (rule follows_any [OF follows_quiet])

lemma follows_split:
  "(\<And>e. r = Inl e \<Longrightarrow> follows I T Q (f e) t) \<Longrightarrow> (\<And>x. r = Inr x \<Longrightarrow> follows I T Q (g x) t) \<Longrightarrow>
    follows I T Q (case_sum f g r) t"
  "(b \<Longrightarrow> follows I T Q p t) \<Longrightarrow> (\<not> b \<Longrightarrow> follows I T Q p' t) \<Longrightarrow> follows I T Q (if b then p else p') t"
  by (auto split: sum.split)

text \<open>A transition whose success gives a token: the attempts that fail leave the one that was there.\<close>

fun token_after :: "'t \<Rightarrow> 't \<Rightarrow> 'a result \<Rightarrow> 't" where
  "token_after t0 t1 (Inl e) = t0"
| "token_after t0 t1 (Inr n) = t1"

lemma follows_attempts:
  fixes T :: "'t \<Rightarrow> 'e orch \<Rightarrow> 't \<Rightarrow> 'e orch \<Rightarrow> bool"
  assumes "quiet_steps o_executed T \<or> quiet_steps o_outbox T"
    and "\<And>w r w'. I w \<Longrightarrow> tryTransition sid ev w = (r, w') \<Longrightarrow> T t0 w (token_after t0 t1 r) w'"
  shows "follows I T (\<lambda>t r. t = token_after t0 t1 r) (attempts_prog n sid ev) t0"
proof (induction n)
  case (Suc n)
  let ?Q = "\<lambda>t r. t = token_after t0 t1 r"
  have 1: "follows I T ?Q (call (tryTransition sid ev)) t0"
    by (rule follows_call) (use assms(2) in blast)
  have again: "follows I T ?Q
      (bind (effect (sleep x)) (\<lambda>u. attempts_prog n sid ev) :: ('e orch, string result) prog) t0" for x
    using assms(1) by (auto intro: follows_after_quiet [OF _ quiet_sleep] Suc.IH observes_logs)
  show ?case
    unfolding attempts_prog.simps
    by (rule follows_bind [OF 1], intro follows_split) (auto intro: again)
qed simp

text \<open>How long ago a session left a status: no status of a higher rank comes back.\<close>

definition passed :: "string \<Rightarrow> uuid \<Rightarrow> 'a db_scheme \<Rightarrow> bool" where
  "passed st sid w \<longleftrightarrow> (case status_of w sid of None \<Rightarrow> False | Some s \<Rightarrow> status_rank s < status_rank st)"

lemma status_steps_rank: "status_step\<^sup>*\<^sup>* s s' \<Longrightarrow> status_rank s' \<le> status_rank s"
  by (induction rule: rtranclp_induct) (auto dest: status_step_rank)

lemma passed_effects:
  assumes "effects w w'" and "passed st sid w"
  shows "passed st sid w'"
proof -
  obtain s where s: "status_of w sid = Some s" "status_rank s < status_rank st"
    using assms(2) by (auto simp: passed_def split: option.splits)
  moreover obtain s' where "status_of w' sid = Some s'" "status_step\<^sup>*\<^sup>* s s'"
    using effects_evolve [OF assms(1)] s(1) unfolding evolves_def status_le_def
    by (metis (no_types, lifting) option.case(2) option.case_eq_if option.exhaust_sel)
  ultimately show ?thesis using status_steps_rank by (fastforce simp: passed_def)
qed

lemma not_passed: "status_of w sid = Some st \<Longrightarrow> \<not> passed st sid w"
  by (simp add: passed_def)

text \<open>A successful attempt of an event that only one status has takes the session out of that status.\<close>

definition only_from :: "string \<Rightarrow> string \<Rightarrow> string \<Rightarrow> bool" where
  "only_from ev st st' \<longleftrightarrow> (\<forall>h s n. next_status h s ev = Some n \<longrightarrow> s = st \<and> n = st')"

lemma attempt_leaves:
  assumes "tryTransition sid ev w = (Inr n, w')" and "only_from ev st st'"
    and "status_rank st' < status_rank st"
  shows "status_of w sid = Some st" and "status_of w' sid = Some st'" and "passed st sid w'" and "n = st'"
proof -
  from assms(1) obtain s where s: "status_of w sid = Some s" "next_status (high_risk_count sid w > 0) s ev = Some n"
    "status_of w' = (status_of w)(sid \<mapsto> n)"
    by (cases rule: tryTransition_cases) (auto dest: status_of_update)
  with assms(2) have sn: "s = st" "n = st'" unfolding only_from_def by blast+
  with s show "status_of w sid = Some st" "status_of w' sid = Some st'" "n = st'" by auto
  with assms(3) show "passed st sid w'" by (simp add: passed_def)
qed

end
