(* ===== verification/Rights.thy ===== *)
theory Rights imports Interleaving begin

text \<open>
  Rights that are granted once.  An entry of a log belongs to a right; a program that has got the right may
  write entries of it, each key once.  When a right cannot be granted again after it has been granted, and
  every program keeps to this, no key is in the log twice, whatever the interleaving.
\<close>

section \<open>The steps of one program\<close>

datatype ('r, 'k) right = Free | Granted 'r | Held 'r "'k list"

text \<open>A program keeps what it has, or gets a right that is open and thereby shuts it, or fixes the list of the
  entries that it is going to write (at once or later), or writes the first of them, or skips it.\<close>

inductive rights_step ::
  "('s \<Rightarrow> 's \<Rightarrow> bool) \<Rightarrow> ('s \<Rightarrow> 'k list) \<Rightarrow> ('k \<Rightarrow> 'i) \<Rightarrow> ('k \<Rightarrow> 'r) \<Rightarrow> ('r \<Rightarrow> 's \<Rightarrow> bool) \<Rightarrow> ('s \<Rightarrow> 'k \<Rightarrow> bool) \<Rightarrow>
   ('r, 'k) right \<Rightarrow> 's \<Rightarrow> ('r, 'k) right \<Rightarrow> 's \<Rightarrow> bool"
  for rely spent key owner shut cleared where
  rs_keep: "rely s s' \<Longrightarrow> spent s' = spent s \<Longrightarrow> rights_step rely spent key owner shut cleared t s t s'"
| rs_grant: "rely s s' \<Longrightarrow> spent s' = spent s \<Longrightarrow> \<not> shut r s \<Longrightarrow> shut r s' \<Longrightarrow>
    rights_step rely spent key owner shut cleared t s (Granted r) s'"
| rs_grant_list: "rely s s' \<Longrightarrow> spent s' = spent s \<Longrightarrow> \<not> shut r s \<Longrightarrow> shut r s' \<Longrightarrow> distinct (map key ks) \<Longrightarrow>
    \<forall>k \<in> set ks. owner k = r \<and> cleared s' k \<Longrightarrow> rights_step rely spent key owner shut cleared t s (Held r ks) s'"
| rs_take: "rely s s' \<Longrightarrow> spent s' = spent s \<Longrightarrow> distinct (map key ks) \<Longrightarrow> \<forall>k \<in> set ks. owner k = r \<and> cleared s' k \<Longrightarrow>
    rights_step rely spent key owner shut cleared (Granted r) s (Held r ks) s'"
| rs_spend: "rely s s' \<Longrightarrow> spent s' = spent s @ [k] \<Longrightarrow>
    rights_step rely spent key owner shut cleared (Held r (k # ks)) s (Held r ks) s'"
| rs_skip: "rely s s' \<Longrightarrow> spent s' = spent s \<Longrightarrow>
    rights_step rely spent key owner shut cleared (Held r (k # ks)) s (Held r ks) s'"

text \<open>Whatever a program can do without a right, it can do with one.\<close>

inductive_simps rights_step_Free: "rights_step rely spent key owner shut cleared Free s t s'"

lemma follows_from_Free:
  assumes "follows I (rights_step rely spent key owner shut cleared) (\<lambda>t r. True) p Free"
  shows "follows I (rights_step rely spent key owner shut cleared) (\<lambda>t r. True) p t"
  using assms
proof (induction p)
  case (Step f)
  let ?T = "rights_step rely spent key owner shut cleared"
  have "\<exists>t'. ?T t s t' s' \<and> follows I ?T (\<lambda>t r. True) q t'" if I: "I s" and q: "f s = (q, s')" for s q s'
  proof -
    obtain u where u: "?T Free s u s'" "follows I ?T (\<lambda>t r. True) q u"
      using Step.prems I q unfolding follows_Step by blast
    show ?thesis
    proof (cases "u = Free")
      case True
      with u(1) have "?T t s t s'" unfolding rights_step_Free by (auto intro: rs_keep)
      with u(2) True Step.IH [OF q] show ?thesis by blast
    next
      case False
      with u(1) have "?T t s u s'" unfolding rights_step_Free by (auto intro: rs_grant rs_grant_list)
      with u(2) show ?thesis by blast
    qed
  qed
  then show ?case unfolding follows_Step by blast
qed simp

section \<open>The invariant\<close>

fun holder :: "('r, 'k) right \<Rightarrow> 'r option" where
  "holder Free = None"
| "holder (Granted r) = Some r"
| "holder (Held r ks) = Some r"

fun right_ok ::
  "('s \<Rightarrow> 'k list) \<Rightarrow> ('k \<Rightarrow> 'i) \<Rightarrow> ('k \<Rightarrow> 'r) \<Rightarrow> ('r \<Rightarrow> 's \<Rightarrow> bool) \<Rightarrow> ('s \<Rightarrow> 'k \<Rightarrow> bool) \<Rightarrow> 's \<Rightarrow> ('r, 'k) right \<Rightarrow> bool" where
  "right_ok spent key owner shut cleared s Free \<longleftrightarrow> True"
| "right_ok spent key owner shut cleared s (Granted r) \<longleftrightarrow> shut r s \<and> r \<notin> owner ` set (spent s)"
| "right_ok spent key owner shut cleared s (Held r ks) \<longleftrightarrow> shut r s \<and> distinct (map key ks) \<and>
     (\<forall>k \<in> set ks. owner k = r \<and> cleared s k \<and> key k \<notin> key ` set (spent s))"

definition rights_inv ::
  "('s \<Rightarrow> 'k list) \<Rightarrow> ('k \<Rightarrow> 'i) \<Rightarrow> ('k \<Rightarrow> 'r) \<Rightarrow> ('r \<Rightarrow> 's \<Rightarrow> bool) \<Rightarrow> ('s \<Rightarrow> 'k \<Rightarrow> bool) \<Rightarrow>
   ('r, 'k) right list \<Rightarrow> 's \<Rightarrow> bool" where
  "rights_inv spent key owner shut cleared ts s \<longleftrightarrow> distinct (map key (spent s)) \<and>
     (\<forall>k \<in> set (spent s). shut (owner k) s \<and> cleared s k) \<and>
     (\<forall>t \<in> set ts. right_ok spent key owner shut cleared s t) \<and>
     (\<forall>i j r. i < length ts \<longrightarrow> j < length ts \<longrightarrow> holder (ts ! i) = Some r \<longrightarrow> holder (ts ! j) = Some r \<longrightarrow> i = j)"

locale rights =
  fixes rely :: "'s \<Rightarrow> 's \<Rightarrow> bool" and spent :: "'s \<Rightarrow> 'k list" and key :: "'k \<Rightarrow> 'i" and owner :: "'k \<Rightarrow> 'r"
    and shut :: "'r \<Rightarrow> 's \<Rightarrow> bool" and cleared :: "'s \<Rightarrow> 'k \<Rightarrow> bool"
  assumes shut_rely: "rely s s' \<Longrightarrow> shut r s \<Longrightarrow> shut r s'"
    and cleared_rely: "rely s s' \<Longrightarrow> cleared s k \<Longrightarrow> cleared s' k"
    and key_owner: "key k = key l \<Longrightarrow> owner k = owner l"
begin

lemma right_ok_rely:
  assumes "rely s s'" and "spent s' = spent s" and "right_ok spent key owner shut cleared s t"
  shows "right_ok spent key owner shut cleared s' t"
  using assms(3) shut_rely [OF assms(1)] cleared_rely [OF assms(1)]
  by (cases t) (auto simp: assms(2))

text \<open>A step that writes nothing keeps the invariant for the programs that are not concerned.\<close>

lemma rely_keeps:
  assumes "rights_inv spent key owner shut cleared ts s" and "rely s s'" and "spent s' = spent s"
  shows "rights_inv spent key owner shut cleared ts s'"
  using assms(1) shut_rely [OF assms(2)] cleared_rely [OF assms(2)] right_ok_rely [OF assms(2,3)]
  by (simp add: rights_inv_def assms(3))

lemma start_keeps:
  assumes "rights_inv spent key owner shut cleared ts s"
  shows "rights_inv spent key owner shut cleared (ts @ [Free]) s"
proof -
  have "i = j" if "i < Suc (length ts)" "j < Suc (length ts)" "holder ((ts @ [Free]) ! i) = Some r"
    "holder ((ts @ [Free]) ! j) = Some r" for i j r
    using that assms by (auto simp: nth_append rights_inv_def less_Suc_eq split: if_splits)
  with assms show ?thesis by (auto simp: rights_inv_def)
qed

lemma token_keeps:
  assumes "rights_inv spent key owner shut cleared ts s" and "i < length ts"
    and "right_ok spent key owner shut cleared s t"
    and "\<And>j r. holder t = Some r \<Longrightarrow> j < length ts \<Longrightarrow> holder (ts ! j) = Some r \<Longrightarrow> j = i"
  shows "rights_inv spent key owner shut cleared (ts[i := t]) s"
proof -
  have "\<forall>u \<in> set (ts[i := t]). right_ok spent key owner shut cleared s u"
    using assms(1,3) set_update_subset_insert [of ts i t] by (auto simp: rights_inv_def)
  moreover have "m = n" if "m < length ts" "n < length ts" "holder (ts[i := t] ! m) = Some r"
    "holder (ts[i := t] ! n) = Some r" for m n r
    using that assms by (auto simp: nth_list_update rights_inv_def split: if_splits)
  ultimately show ?thesis using assms(1) by (simp add: rights_inv_def)
qed

lemma open_right:
  assumes "rights_inv spent key owner shut cleared ts s" and "\<not> shut r s"
  shows "r \<notin> owner ` set (spent s)" and "t \<in> set ts \<Longrightarrow> holder t \<noteq> Some r"
proof -
  show "r \<notin> owner ` set (spent s)" using assms by (auto simp: rights_inv_def)
  show "t \<in> set ts \<Longrightarrow> holder t \<noteq> Some r" using assms by (cases t) (auto simp: rights_inv_def)
qed

lemma listed_ok:
  assumes "shut r s" and "r \<notin> owner ` set (spent s)" and "distinct (map key ks)"
    and "\<forall>k \<in> set ks. owner k = r \<and> cleared s k"
  shows "right_ok spent key owner shut cleared s (Held r ks)"
proof -
  have "key k \<notin> key ` set (spent s)" if "k \<in> set ks" for k
    using that assms(2,4) key_owner [of k] by (metis (no_types, lifting) imageE imageI)
  with assms show ?thesis by simp
qed

lemma spend_keeps:
  assumes inv: "rights_inv spent key owner shut cleared ts s" and i: "i < length ts" "ts ! i = Held r (k # ks)"
    and e: "rely s s'" and x: "spent s' = spent s @ [k]"
  shows "rights_inv spent key owner shut cleared (ts[i := Held r ks]) s'"
proof -
  have ok: "right_ok spent key owner shut cleared s (Held r (k # ks))" using inv i by (metis rights_inv_def nth_mem)
  have others: "right_ok spent key owner shut cleared s' (ts ! j)" if "j < length ts" "j \<noteq> i" for j
  proof -
    have h: "holder (ts ! j) \<noteq> Some r" using inv i that by (auto simp: rights_inv_def)
    have "right_ok spent key owner shut cleared s (ts ! j)" using inv that by (simp add: rights_inv_def)
    moreover have "key l \<noteq> key k" if "owner l \<noteq> r" for l using that ok key_owner [of l k] by auto
    ultimately show ?thesis
      using h ok shut_rely [OF e] cleared_rely [OF e] by (cases "ts ! j") (auto simp: x)
  qed
  have mine: "right_ok spent key owner shut cleared s' (Held r ks)"
    using ok shut_rely [OF e] cleared_rely [OF e] by (auto simp: x image_iff)
  have "\<forall>t \<in> set (ts[i := Held r ks]). right_ok spent key owner shut cleared s' t"
    unfolding all_set_conv_all_nth using others mine i(1)
    by (metis length_list_update nth_list_update_eq nth_list_update_neq)
  moreover have "m = n" if "m < length ts" "n < length ts" "holder (ts[i := Held r ks] ! m) = Some u"
    "holder (ts[i := Held r ks] ! n) = Some u" for m n u
    using that inv i by (auto simp: nth_list_update rights_inv_def split: if_splits)
  moreover have "distinct (map key (spent s'))" using inv ok by (simp add: x rights_inv_def)
  moreover have "\<forall>l \<in> set (spent s'). shut (owner l) s' \<and> cleared s' l"
    using inv ok shut_rely [OF e] cleared_rely [OF e] by (auto simp: x rights_inv_def)
  ultimately show ?thesis by (simp add: rights_inv_def)
qed

lemma step_keeps:
  assumes inv: "rights_inv spent key owner shut cleared ts s" and i: "i < length ts"
    and "rights_step rely spent key owner shut cleared (ts ! i) s t s'"
  shows "rights_inv spent key owner shut cleared (ts[i := t]) s'"
  using assms(3)
proof cases
  case rs_keep
  with rely_keeps [OF inv] show ?thesis by (metis list_update_id)
next
  case (rs_grant r)
  have "right_ok spent key owner shut cleared s' (Granted r)"
    using open_right(1) [OF inv rs_grant(4)] rs_grant(3,5) by simp
  then show ?thesis
    unfolding rs_grant(1)
    by (rule token_keeps [OF rely_keeps [OF inv rs_grant(2,3)] i]) (use open_right(2) [OF inv rs_grant(4)] in auto)
next
  case (rs_grant_list r ks)
  have "right_ok spent key owner shut cleared s' (Held r ks)"
    by (rule listed_ok) (use open_right(1) [OF inv rs_grant_list(4)] rs_grant_list(3,5-7) in auto)
  then show ?thesis
    unfolding rs_grant_list(1)
    by (rule token_keeps [OF rely_keeps [OF inv rs_grant_list(2,3)] i])
       (use open_right(2) [OF inv rs_grant_list(4)] in auto)
next
  case (rs_take ks r)
  note q = rely_keeps [OF inv rs_take(3,4)]
  have "right_ok spent key owner shut cleared s' (Granted r)" using q i rs_take(1) by (metis rights_inv_def nth_mem)
  then have r: "shut r s'" "r \<notin> owner ` set (spent s')" by simp_all
  have "right_ok spent key owner shut cleared s' (Held r ks)" by (rule listed_ok [OF r rs_take(5,6)])
  moreover have "j = i" if "j < length ts" "holder (ts ! j) = Some r" for j
    using inv that i rs_take(1) by (simp add: rights_inv_def)
  ultimately show ?thesis unfolding rs_take(2) by (rule token_keeps [OF q i]) auto
next
  case (rs_spend k r ks)
  with spend_keeps [OF inv i _ rs_spend(3,4)] show ?thesis by simp
next
  case (rs_skip r k ks)
  note q = rely_keeps [OF inv rs_skip(3,4)]
  have "right_ok spent key owner shut cleared s' (Held r (k # ks))" using q i rs_skip(1) by (metis rights_inv_def nth_mem)
  then have "right_ok spent key owner shut cleared s' (Held r ks)" by simp
  moreover have "j = i" if "j < length ts" "holder (ts ! j) = Some r" for j
    using inv that i rs_skip(1) by (simp add: rights_inv_def)
  ultimately show ?thesis unfolding rs_skip(2) by (rule token_keeps [OF q i]) auto
qed

end

end
