(* ===== verification/Execution_Protocol.thy ===== *)
theory Execution_Protocol imports Concurrent_Server Rights begin

text \<open>
  The right to execute the actions of a session, in every interleaving: a task gets it by moving the session
  from FIX_SUGGESTED to FIX_EXECUTING, and no session comes back to FIX_SUGGESTED.  An instance of \<open>Rights\<close>
  on the actions handed to the executor.
\<close>

section \<open>The execution protocol\<close>

text \<open>
  The life of the right as a state machine of one task.  A task gets the right, and gives up the one it had,
  with the transition, reads the rows once, which fixes the list of the actions to execute, and hands them to
  the executor one after the other.  Nothing else a task does concerns the executor.
\<close>

type_synonym licence = "(uuid, ExecAction) right"

inductive exec_protocol :: "licence \<Rightarrow> 'e orch \<Rightarrow> licence \<Rightarrow> 'e orch \<Rightarrow> bool" where
  keep: "effects w w' \<Longrightarrow> o_executed w' = o_executed w \<Longrightarrow> exec_protocol t w t w'"
| grant: "effects w w' \<Longrightarrow> o_executed w' = o_executed w \<Longrightarrow> status_of w sid = Some StatusFixSuggested \<Longrightarrow>
    status_of w' sid = Some StatusFixExecuting \<Longrightarrow> exec_protocol t w (Granted sid) w'"
| read: "effects w w' \<Longrightarrow> o_executed w' = o_executed w \<Longrightarrow>
    exec_protocol (Granted sid) w (Held sid (map (exec_action sid) (filter may_execute (fixes_of sid w)))) w'"
| execute: "effects w w' \<Longrightarrow> o_executed w' = o_executed w @ [a] \<Longrightarrow>
    exec_protocol (Held sid (a # acts)) w (Held sid acts) w'"

text \<open>Most programs leave the executor alone: they keep the token they have.\<close>

abbreviation obeys where
  "obeys Q p t \<equiv> follows (\<lambda>w. True) exec_protocol Q p t"

lemma exec_quiet_steps: "quiet_steps o_executed exec_protocol"
  unfolding quiet_steps_def by (auto intro: keep)

lemmas exec_after_quiet = follows_after_quiet [OF exec_quiet_steps]
lemmas exec_quiet_any = follows_quiet_any [OF exec_quiet_steps]

inductive_simps exec_protocol_Free: "exec_protocol Free w t w'"

lemma obeys_from_Free: "obeys (\<lambda>t r. True) p Free \<Longrightarrow> obeys (\<lambda>t r. True) p t"
proof (induction p)
  case (Step f)
  have "\<exists>t'. exec_protocol t w t' w' \<and> obeys (\<lambda>t r. True) q t'" if "f w = (q, w')" for w q w'
  proof -
    obtain u where "exec_protocol Free w u w'" "obeys (\<lambda>t r. True) q u"
      using Step.prems \<open>f w = (q, w')\<close> unfolding follows_Step by blast
    then show ?thesis
      unfolding exec_protocol_Free using Step.IH \<open>f w = (q, w')\<close> keep grant by blast
  qed
  then show ?case unfolding follows_Step by blast
qed simp

text \<open>A successful attempt of \<open>EventExecute\<close> is the grant.\<close>

lemma only_from_suggested: "only_from EventExecute StatusFixSuggested StatusFixExecuting"
  by (auto simp: only_from_def next_status_def ValidTransitions_def split: if_splits option.splits)

lemma grant_attempt:
  assumes "tryTransition sid EventExecute w = (r, w')"
  shows "exec_protocol Free w (token_after Free (Granted sid) r) w'"
proof (cases r)
  case (Inl e)
  then show ?thesis using effects_attempt [OF assms] executed_attempt [OF assms] keep by simp
next
  case (Inr n)
  have "status_rank StatusFixExecuting < status_rank StatusFixSuggested" by code_simp
  with assms Inr have "status_of w sid = Some StatusFixSuggested" "status_of w' sid = Some StatusFixExecuting"
    using attempt_leaves [of sid EventExecute w n w', OF _ only_from_suggested] by blast+
  with Inr show ?thesis
    using effects_attempt [OF assms] executed_attempt [OF assms] by (auto intro: grant)
qed

lemma grant_attempts:
  "obeys (\<lambda>t r. t = token_after Free (Granted sid) r) (attempts_prog n sid EventExecute) Free"
  using exec_quiet_steps grant_attempt by (blast intro: follows_attempts)

lemma executor_step:
  assumes "executor_Execute d a w = (r, w')"
  shows "effects w w' \<and> o_executed w' = o_executed w @ [a]"
proof -
  let ?w1 = "w\<lparr>o_executed := o_executed w @ [a]\<rparr>"
  have 1: "call_env (d_Execute d a (w_now ?w1)) ?w1 = (r, w')"
    using assms by (simp add: executor_Execute_def Let_def)
  have "effects w ?w1" by (rule effects_step) (rule p_executed)
  with effects_env [OF 1] executed_env_case [OF 1] show ?thesis by (auto intro: effects_trans)
qed

abbreviation todo :: "uuid \<Rightarrow> FixAction list \<Rightarrow> licence" where
  "todo sid fas \<equiv> Held sid (map (exec_action sid) (filter may_execute fas))"

lemma obeys_execute_one: "obeys (\<lambda>t u. t = todo sid fas) (execute_one_prog d sid s fa) (todo sid (fa # fas))"
proof (cases "may_execute fa")
  case True
  have 1: "obeys (\<lambda>t r. t = todo sid fas) (call (executor_Execute d (exec_action sid fa))) (todo sid (fa # fas))"
    by (rule follows_call) (use True execute executor_step in fastforce)
  have rest: "quiet o_executed (case r of
         Inl e \<Rightarrow> effect (\<lambda>w. snd (FixActionDAO_UpdateExecutionStatus (fa_ID fa) ExecStatusFailed w))
       | Inr result \<Rightarrow>
          (let finalStatus = (if xr_Status result = ''FAILED'' then ExecStatusFailed else ExecStatusSucceeded) in
           bind (effect (\<lambda>w. snd (FixActionDAO_UpdateExecutionStatus (fa_ID fa) finalStatus w))) (\<lambda>u.
           if xr_Status result = ''SUCCEEDED'' \<and> fa_TicketID fa = None
           then open_ticket_prog d sid s fa else Return ())))" for r
    unfolding Let_def by (intro quiet_intros)
  show ?thesis
    unfolding execute_one_prog_def
    using True by (simp only: not_True_eq_False if_False simp_thms)
      (rule exec_after_quiet [OF quiet_updates(2) [OF observes_logs(1)]], rule follows_bind [OF 1],
       hypsubst, rule follows_quiet [OF exec_quiet_steps rest])
qed (simp add: execute_one_prog_def)

lemma obeys_read:
  "obeys (\<lambda>t r. case r of Inl e \<Rightarrow> True | Inr fas \<Rightarrow> t = todo sid fas)
    (call (FixActionDAO_GetBySessionID sid)) (Granted sid)"
proof (rule follows_call)
  fix w w' :: "'a orch" and r
  assume 1: "FixActionDAO_GetBySessionID sid w = (r, w')"
  note e = effects_fixes(2) [OF 1] executed_gets(4) [OF 1]
  show "\<exists>t'. exec_protocol (Granted sid) w t' w' \<and> (case r of Inl e \<Rightarrow> True | Inr fas \<Rightarrow> t' = todo sid fas)"
    using read [OF e] keep [OF e] GetBySessionID_ok 1 by (cases r) fastforce+
qed

lemma obeys_loop: "obeys (\<lambda>t u. True) (for_each (execute_one_prog d sid s) fas) (todo sid fas)"
  by (rule follows_any, rule follows_for_each [where R = "\<lambda>xs t. t = todo sid xs"])
     (use obeys_execute_one in blast)+

lemma obeys_execute: "obeys (\<lambda>t r. True) (ExecuteFixActions_prog d sid) (Granted sid)"
  unfolding ExecuteFixActions_prog_def
proof (rule follows_bind [OF obeys_read], rule follows_split)
  fix t r fas
  assume "case r of Inl e \<Rightarrow> True | Inr fas \<Rightarrow> t = todo sid fas" and "r = Inr fas"
  then have t: "t = todo sid fas" by simp
  show "obeys (\<lambda>t r. True) (bind (call (SessionDAO_GetByID sid)) (\<lambda>r2. case r2 of
       Inl e \<Rightarrow> Return (Some (wrap ''execute fixes: get session: '' e))
     | Inr s \<Rightarrow>
        bind (for_each (execute_one_prog d sid s) fas) (\<lambda>u.
        bind (Transition_prog sid EventExecuteComplete) (\<lambda>r3.
        case (case r3 of Inr n \<Rightarrow> None | Inl e \<Rightarrow> if errors_is e ErrInvalidTransition then None else Some e) of
           Some e \<Rightarrow> Return (Some (wrap ''execute fixes: advance to verifying: '' e))
         | None \<Rightarrow> if d_has_webhook d
             then bind (effect (\<lambda>w. webhook_Notify \<lparr>de_EventType = ''fix_executed'', de_SessionID = sid,
                   de_Status = StatusVerifying,
                   de_Summary = ''Fix actions executed for session '' @ id_text d sid, de_Message = [],
                   de_Service = s_TargetService s, de_ReportURL = [], de_Timestamp = w_now w, de_Labels = []\<rparr> w))
                 (\<lambda>u. Return None)
             else Return None)))) t"
    unfolding t
    by (rule exec_after_quiet [OF quiet_calls(1) [OF observes_logs(1)]], rule follows_split, simp, rule follows_bind [OF obeys_loop])
       (intro exec_quiet_any quiet_intros)
qed simp

lemma obeys_drive_fix: "obeys (\<lambda>t r. True) (drive_fix_prog d sid n) Free"
proof -
  have 1: "obeys (\<lambda>t r. t = token_after Free (Granted sid) r) (Transition_prog sid EventExecute) Free"
    unfolding Transition_prog_def by (rule grant_attempts)
  have 2: "obeys (\<lambda>t r. True) (bind (ExecuteFixActions_prog d sid) (\<lambda>e. Return None)) (Granted sid)"
    by (rule follows_bind [OF obeys_execute]) simp
  show ?thesis
    unfolding drive_fix_prog_def
    by (intro follows_split follows_bind [OF 1]) (auto intro: 2 exec_quiet_any quiet_intros)
qed

lemma obeys_fix_observation: "obeys (\<lambda>t r. True) (fix_observation_prog d sid) Free"
  unfolding fix_observation_prog_def
  by (intro exec_after_quiet [OF quiet_engine(1) [OF observes_logs(1)]] follows_split obeys_drive_fix) simp_all

lemma obeys_observation: "obeys (\<lambda>t r. True) (handleObservation_prog d sid ob) Free"
  unfolding handleObservation_prog_def Let_def
  by (rule exec_after_quiet [OF quiet_engine(3) [OF observes_logs(1)]], intro follows_split)
     (auto intro: obeys_fix_observation exec_quiet_any quiet_intros)

lemma obeys_message: "obeys (\<lambda>t r. True) (process_message_prog d parse m) Free"
  unfolding process_message_prog_def
  by (intro follows_split follows_bind [OF obeys_observation]) simp_all

lemma obeys_messages: "obeys (\<lambda>t u. True) (loop_prog d parse ms) t"
proof -
  have "obeys (\<lambda>t u. True) (bind (process_message_prog d parse m) (\<lambda>c. Return ())) t" for m t
    by (rule follows_bind [OF obeys_from_Free [OF obeys_message]]) simp
  then show ?thesis
    unfolding loop_prog_def by (rule follows_for_each [where R = "\<lambda>ms t. True"]) simp
qed

lemma obeys_task: "obeys (\<lambda>t r. True) (task_prog d parse k) Free"
proof (cases k)
  case (LoopTask ms)
  with obeys_messages show ?thesis by simp
qed (auto simp: answered_def intro!: exec_quiet_any quiet_intros)

section \<open>What the protocol guarantees\<close>

text \<open>No row disappears, and its primary and foreign key stay.\<close>

lemma rows_stay: "effects w w' \<Longrightarrow> set (tk_fixes (keys_of w)) \<subseteq> set (tk_fixes (keys_of w'))"
proof (induction rule: rtranclp_induct)
  case (step u v)
  have "set (tk_fixes (keys_of u)) \<subseteq> set (tk_fixes (keys_of v))"
    using step.hyps(2)
  proof (cases rule: primitive.cases)
    case (p_attempt i ev r)
    then show ?thesis by (auto elim!: tryTransition_cases simp: keys_of_def engine_frame_def)
  next
    case (p_retry i)
    then show ?thesis by (auto simp: increment_retry_def keys_update split: option.splits if_splits)
  qed (simp_all add: keys_update, auto simp: keys_of_def sleep_def insert_session_def insert_fix_def
      insert_approval_def split: if_splits)
  with step.IH show ?case by blast
qed simp

definition exec_key :: "ExecAction \<Rightarrow> uuid \<times> uuid" where
  "exec_key a = (xa_SessionID a, xa_ID a)"

text \<open>\<open>cleared R w a\<close>: the action was read, at a state \<open>u\<close> of the run before \<open>w\<close>, in a row that may execute.\<close>

definition cleared :: "('e orch \<Rightarrow> bool) \<Rightarrow> 'e orch \<Rightarrow> ExecAction \<Rightarrow> bool" where
  "cleared R w a \<longleftrightarrow> (\<exists>u fa. R u \<and> effects u w \<and> fa \<in> set (w_fix_actions u) \<and> may_execute fa \<and>
     a = exec_action (fa_SessionID fa) fa)"

lemma cleared_effects: "cleared R w a \<Longrightarrow> effects w w' \<Longrightarrow> cleared R w' a"
  unfolding cleared_def using effects_trans by blast

lemma snapshot_ok:
  assumes "db_ok w" and "R w" and "effects w w'"
  shows "distinct (map exec_key (map (exec_action sid) (filter may_execute (fixes_of sid w))))"
    and "\<forall>a \<in> set (map (exec_action sid) (filter may_execute (fixes_of sid w))). xa_SessionID a = sid \<and> cleared R w' a"
proof -
  let ?fas = "filter may_execute (fixes_of sid w)"
  have mem: "fa \<in> set (w_fix_actions w)" "fa_SessionID fa = sid" "may_execute fa" if "fa \<in> set ?fas" for fa
    using that by (auto simp: fixes_of_def)
  have "distinct (map fa_ID (w_fix_actions w))"
    using assms(1) by (simp add: db_ok_def keys_ok_def keys_simps)
  then have "distinct (map fa_ID ?fas)"
    unfolding fixes_of_def by (simp add: distinct_map_filter distinct_map inj_on_def)
  moreover have "map exec_key (map (exec_action sid) ?fas) = map (Pair sid) (map fa_ID ?fas)"
    by (simp add: exec_key_def exec_action_def)
  ultimately show "distinct (map exec_key (map (exec_action sid) ?fas))"
    by (simp add: distinct_map inj_on_def)
  have "cleared R w' (exec_action sid fa)" if "fa \<in> set ?fas" for fa
    using mem [OF that] assms(2,3) unfolding cleared_def by blast
  then show "\<forall>a \<in> set (map (exec_action sid) ?fas). xa_SessionID a = sid \<and> cleared R w' a"
    by (simp add: exec_action_def)
qed

text \<open>The protocol is an instance of the rights, on the states with sound tables.\<close>

abbreviation exec_rights_inv where
  "exec_rights_inv R \<equiv> rights_inv o_executed exec_key xa_SessionID (passed StatusFixSuggested) (cleared R)"

interpretation exec_rights: rights effects o_executed exec_key xa_SessionID "passed StatusFixSuggested" "cleared R"
  by unfold_locales (auto simp: exec_key_def intro: passed_effects cleared_effects)

lemma exec_protocol_rights:
  assumes "exec_protocol t w t' w'" and "db_ok w" and "R w"
  shows "rights_step effects o_executed exec_key xa_SessionID (passed StatusFixSuggested) (cleared R) t w t' w'"
  using assms(1)
proof cases
  case (grant sid)
  then show ?thesis by (auto intro!: rs_grant simp: passed_def status_rank_def)
next
  case (read sid)
  show ?thesis
    unfolding read(1,2)
    by (rule rs_take) (simp_all add: read(3,4) snapshot_ok [of w R w' sid, OF assms(2,3) read(3)] del: map_map)
qed (auto intro: rs_keep rs_spend)

text \<open>The interpretation on the orchestrator: its tasks follow the protocol, whatever they do in between.\<close>

interpretation execution: protocol environment "server_tasks d parse" w0 "\<lambda>w. True" exec_protocol
  "\<lambda>ts w. db_ok w \<and> exec_rights_inv (reachable environment (server_tasks d parse) w0) ts w" Free
proof unfold_locales
  fix ts :: "licence list" and w :: "'a orch"
  let ?R = "reachable environment (server_tasks d parse) w0"
  let ?J = "\<lambda>ts w. db_ok w \<and> exec_rights_inv ?R ts w"
  show "?J (ts @ [Free]) w" if "?J ts w" using that exec_rights.start_keeps by blast
  show "?J ts w'" if "?J ts w" "environment w w'" for w'
  proof -
    have e: "effects w w'" "o_executed w' = o_executed w"
      using that(2) by (auto simp: environment_def intro: effects_step p_outside)
    show ?thesis using exec_rights.rely_keeps [OF _ e] effects_db_ok [OF e(1)] that(1) by blast
  qed
  show "?J (ts[i := t]) w'"
    if "?J ts w" "i < length ts" "exec_protocol (ts ! i) w t w'" "?R w" for i t w'
  proof -
    have "effects w w'" using that(3) by cases
    with that(1) have "db_ok w'" using effects_db_ok by blast
    moreover have "rights_step effects o_executed exec_key xa_SessionID (passed StatusFixSuggested) (cleared ?R)
        (ts ! i) w t w'"
      using exec_protocol_rights [of "ts ! i" w t w' ?R] that by blast
    ultimately show ?thesis using exec_rights.step_keeps [OF _ that(2)] that(1) by blast
  qed
  show "follows (\<lambda>w. True) exec_protocol (\<lambda>t u. True) p Free" if "p \<in> server_tasks d parse" for p
    using that obeys_task by (auto simp: server_tasks_def)
qed simp

interpretation evolution: protocol environment "server_tasks d parse" w0 "\<lambda>w. True" exec_protocol
  "\<lambda>ts w. effects w0 w" Free
proof unfold_locales
  fix ts :: "licence list" and w w' :: "'a orch"
  show "effects w0 w'" if "effects w0 w" "environment w w'"
    using that by (auto simp: environment_def intro: effects_snoc p_outside)
  show "effects w0 w'" if "effects w0 w" "exec_protocol (ts ! i) w t w'" for i t
    using that(2,1) by cases (auto intro: effects_trans)
  show "follows (\<lambda>w. True) exec_protocol (\<lambda>t u. True) p Free" if "p \<in> server_tasks d parse" for p
    using that obeys_task by (auto simp: server_tasks_def)
qed simp_all

end
