(* ===== verification/Dispatch_Protocol.thy ===== *)
theory Dispatch_Protocol imports Concurrent_Server Rights begin

text \<open>
  The right to send the commands of a session to the agents, in every interleaving: the commands of the
  collectors belong to the transition out of CREATED, the one of the root cause agent to the transition out
  of COLLECTING, and no session comes back to either.  An instance of \<open>Rights\<close> on the messages handed to
  the producer; redeliveries inside the broker are not part of it.
\<close>

section \<open>Commands and their owners\<close>

text \<open>A command is known by its topic and its key, the text of the session's identifier; its right is the key and
  the status that the session leaves.\<close>

definition command_key :: "Message \<Rightarrow> string \<times> string" where
  "command_key m = (m_Topic m, m_Key m)"

definition command_owner :: "Message \<Rightarrow> string \<times> string" where
  "command_owner m = (m_Key m, if m_Topic m = TopicCommandsRCA then StatusCollecting else StatusCreated)"

definition left_status :: "'e deps \<Rightarrow> string \<times> string \<Rightarrow> 'e orch \<Rightarrow> bool" where
  "left_status d r w \<longleftrightarrow> (\<exists>sid. fst r = id_text d sid \<and> passed (snd r) sid w)"

definition known_commands :: "(string \<times> string \<times> string) list" where
  "known_commands = [(TopicCommandsLog, ''collect'', ''agent-log''), (TopicCommandsMetric, ''collect'', ''agent-metric''),
     (TopicCommandsTrace, ''collect'', ''agent-trace''), (TopicCommandsRCA, ''analyze'', ''agent-rca'')]"

definition is_command :: "Message \<Rightarrow> bool" where
  "is_command m \<longleftrightarrow> (\<exists>svc. \<exists>(topic, cmd, kind) \<in> set known_commands. m = command_message topic (m_Key m) svc cmd kind)"

definition collect_commands :: "string \<Rightarrow> string \<Rightarrow> (string \<times> string) list \<Rightarrow> Message list" where
  "collect_commands key svc agents = map (\<lambda>(kind, topic). command_message topic key svc ''collect'' kind) agents"

definition rca_command :: "string \<Rightarrow> string \<Rightarrow> Message" where
  "rca_command key svc = command_message TopicCommandsRCA key svc ''analyze'' ''agent-rca''"

lemma command_fields [simp]:
  "m_Topic (command_message topic key svc cmd kind) = topic" "m_Key (command_message topic key svc cmd kind) = key"
  by (simp_all add: command_message_def)

lemma collect_commands_ok:
  "distinct (map command_key (collect_commands key svc collectors))"
  "\<forall>m \<in> set (collect_commands key svc collectors). command_owner m = (key, StatusCreated) \<and> is_command m"
  by (auto simp: collect_commands_def collectors_def command_key_def command_owner_def is_command_def known_commands_def)

lemma rca_command_ok:
  "command_owner (rca_command key svc) = (key, StatusCollecting)" "is_command (rca_command key svc)"
  by (auto simp: rca_command_def command_owner_def is_command_def known_commands_def)

lemma only_from_dispatch:
  "only_from EventStartCollect StatusCreated StatusCollecting"
  "only_from EventCollectComplete StatusCollecting StatusAnalyzing"
  by (auto simp: only_from_def next_status_def ValidTransitions_def split: if_splits option.splits)

section \<open>The programs follow the protocol\<close>

abbreviation dispatch_protocol where
  "dispatch_protocol d \<equiv>
     rights_step effects o_outbox command_key command_owner (left_status d) (\<lambda>w m. is_command m)"

text \<open>The texts of two identifiers differ.\<close>

abbreviation texts where
  "texts d \<equiv> (\<lambda>w. inj (id_text d))"

abbreviation dispatches where
  "dispatches d Q p t \<equiv> follows (texts d) (dispatch_protocol d) Q p t"

lemma dispatch_quiet_steps: "quiet_steps o_outbox (dispatch_protocol d)"
  unfolding quiet_steps_def by (auto intro: rs_keep)

lemmas dispatch_after_quiet = follows_after_quiet [OF dispatch_quiet_steps]
lemmas dispatch_quiet_any = follows_quiet_any [OF dispatch_quiet_steps]

lemma publish_step:
  assumes "producer_Publish d m w = (r, w')"
  shows "effects w w' \<and> (o_outbox w' = o_outbox w @ [m] \<or> o_outbox w' = o_outbox w)"
  using assms effects_publish [OF assms]
  by (auto simp: producer_Publish_def call_env_def split: prod.splits option.splits)

lemma publish_dispatches:
  "dispatches d (\<lambda>t r. t = Held x ms) (call (producer_Publish d m)) (Held x (m # ms))"
proof (rule follows_call)
  fix w w' :: "'a orch" and r
  assume "producer_Publish d m w = (r, w')"
  with publish_step have e: "effects w w'" and o: "o_outbox w' = o_outbox w @ [m] \<or> o_outbox w' = o_outbox w" by blast+
  from o have "dispatch_protocol d (Held x (m # ms)) w (Held x ms) w'"
    by (rule disjE) (auto intro: rs_spend rs_skip e)
  then show "\<exists>t'. dispatch_protocol d (Held x (m # ms)) w t' w' \<and> t' = Held x ms" by blast
qed

lemma dispatch_all_dispatches:
  "dispatches d (\<lambda>t r. True) (dispatch_all_prog d key svc agents) (Held x (collect_commands key svc agents))"
proof (induction agents)
  case (Cons a agents)
  obtain kind topic where a: "a = (kind, topic)" by force
  have c: "collect_commands key svc (a # agents) =
      command_message topic key svc ''collect'' kind # collect_commands key svc agents"
    by (simp add: collect_commands_def a)
  show ?case
    unfolding a dispatch_all_prog.simps c [unfolded a]
    by (rule follows_bind [OF publish_dispatches]) (simp add: Cons.IH)
qed simp

lemma collect_dispatches:
  "dispatches d (\<lambda>t r. True) (DispatchCollect_prog d key svc) (Held x (collect_commands key svc collectors))"
  unfolding DispatchCollect_prog_def
  by (intro follows_split follows_bind [OF dispatch_all_dispatches]) simp_all

lemma analyze_dispatches:
  "dispatches d (\<lambda>t r. True) (DispatchAnalyze_prog d key svc) (Held x [rca_command key svc])"
  unfolding DispatchAnalyze_prog_def rca_command_def
  by (intro follows_split follows_bind [OF publish_dispatches]) simp_all

text \<open>A transition out of the status grants the right that belongs to it.\<close>

lemma leaves_open_shut:
  assumes "tryTransition sid ev w = (Inr n, w')" and "only_from ev st st'" and "status_rank st' < status_rank st"
    and "inj (id_text d)"
  shows "\<not> left_status d (id_text d sid, st) w" and "left_status d (id_text d sid, st) w'"
  using attempt_leaves [OF assms(1-3)] not_passed [of w sid st] injD [OF assms(4)]
  by (auto simp: left_status_def)

lemma start_grants:
  "dispatches d (\<lambda>t r. t = token_after Free (Granted (id_text d sid, StatusCreated)) r)
    (Transition_prog sid EventStartCollect) Free"
  unfolding Transition_prog_def
proof (rule follows_attempts)
  fix w w' :: "'a orch" and r
  assume i: "inj (id_text d)" and r: "tryTransition sid EventStartCollect w = (r, w')"
  note e = effects_attempt [OF r] outbox_attempt [OF r]
  have "status_rank StatusCollecting < status_rank StatusCreated" by code_simp
  with leaves_open_shut [OF _ only_from_dispatch(1) _ i] r e
  show "dispatch_protocol d Free w (token_after Free (Granted (id_text d sid, StatusCreated)) r) w'"
    by (cases r) (auto intro: rs_keep rs_grant)
qed (simp add: dispatch_quiet_steps)

lemma complete_grants:
  "dispatches d (\<lambda>t r. t = token_after Free (Held (id_text d sid, StatusCollecting) [rca_command (id_text d sid) svc]) r)
    (Transition_prog sid EventCollectComplete) Free"
  unfolding Transition_prog_def
proof (rule follows_attempts)
  fix w w' :: "'a orch" and r
  assume i: "inj (id_text d)" and r: "tryTransition sid EventCollectComplete w = (r, w')"
  note e = effects_attempt [OF r] outbox_attempt [OF r]
  have "status_rank StatusAnalyzing < status_rank StatusCollecting" by code_simp
  with leaves_open_shut [OF _ only_from_dispatch(2) _ i] r e rca_command_ok
  show "dispatch_protocol d Free w
      (token_after Free (Held (id_text d sid, StatusCollecting) [rca_command (id_text d sid) svc]) r) w'"
    by (cases r) (auto intro: rs_keep rs_grant_list)
qed (simp add: dispatch_quiet_steps)

text \<open>The session is read once more, which fixes the target service of the commands.\<close>

lemma read_takes:
  "dispatches d (\<lambda>t r. case r of Inl e \<Rightarrow> True
      | Inr s \<Rightarrow> t = Held (key, StatusCreated) (collect_commands key (s_TargetService s) collectors))
    (call (SessionDAO_GetByID sid)) (Granted (key, StatusCreated))"
proof (rule follows_call)
  fix w w' :: "'a orch" and r
  assume r: "SessionDAO_GetByID sid w = (r, w')"
  have e: "effects w w'" "o_outbox w' = o_outbox w" using r by (auto intro: effect_intros outbox_gets)
  show "\<exists>t'. dispatch_protocol d (Granted (key, StatusCreated)) w t' w' \<and> (case r of Inl e \<Rightarrow> True
      | Inr s \<Rightarrow> t' = Held (key, StatusCreated) (collect_commands key (s_TargetService s) collectors))"
  proof (cases r)
    case Inl
    have "dispatch_protocol d (Granted (key, StatusCreated)) w (Granted (key, StatusCreated)) w'"
      using e by (rule rs_keep [where spent = o_outbox])
    with Inl show ?thesis by auto
  next
    case (Inr s)
    have "dispatch_protocol d (Granted (key, StatusCreated)) w
        (Held (key, StatusCreated) (collect_commands key (s_TargetService s) collectors)) w'"
      by (rule rs_take) (use e collect_commands_ok in auto)
    with Inr show ?thesis by auto
  qed
qed

lemma start_dispatches: "dispatches d (\<lambda>t r. True) (StartSession_prog d idStr) Free"
proof -
  have answer: "dispatches d (\<lambda>t r. True) (bind (DispatchCollect_prog d key (s_TargetService s)) (\<lambda>r3. Return (f r3)))
      (Held x (collect_commands key (s_TargetService s) collectors))" for key s x and f :: "gerror option \<Rightarrow> response"
    by (rule follows_bind [OF collect_dispatches]) simp
  show ?thesis
    unfolding StartSession_prog_def with_session_id_prog_def
    by (intro follows_split follows_bind [OF start_grants]; simp;
        intro follows_bind [OF read_takes] follows_split; simp add: answer)
qed

lemma collect_observation_dispatches: "dispatches d (\<lambda>t r. True) (collect_observation_prog d sid ob) Free"
proof -
  have answer: "dispatches d (\<lambda>t r. True)
      (bind (DispatchAnalyze_prog d key (op_TargetService ob)) (\<lambda>e. Return None) :: ('a orch, gerror option) prog)
      (Held x [rca_command key (op_TargetService ob)])" for key x and d :: "'a deps"
    by (rule follows_bind [OF analyze_dispatches]) simp
  show ?thesis
    unfolding collect_observation_prog_def
    by (rule follows_bind [OF complete_grants [where svc = "op_TargetService ob"]], intro follows_split; simp add: answer)
qed

lemma observation_dispatches: "dispatches d (\<lambda>t r. True) (handleObservation_prog d sid ob) Free"
  unfolding handleObservation_prog_def Let_def
  by (rule dispatch_after_quiet [OF quiet_engine(3) [OF observes_logs(2)]], intro follows_split)
     (auto intro: collect_observation_dispatches dispatch_quiet_any quiet_intros)

lemma message_dispatches: "dispatches d (\<lambda>t r. True) (process_message_prog d parse m) Free"
  unfolding process_message_prog_def
  by (intro follows_split follows_bind [OF observation_dispatches]) simp_all

lemma loop_dispatches: "dispatches d (\<lambda>t u. True) (loop_prog d parse ms) t"
proof -
  have "dispatches d (\<lambda>t u. True) (bind (process_message_prog d parse m) (\<lambda>c. Return ())) t" for m t
    by (rule follows_bind [OF follows_from_Free [OF message_dispatches]]) simp
  then show ?thesis
    unfolding loop_prog_def by (rule follows_for_each [where R = "\<lambda>ms t. True"]) simp
qed

lemma task_dispatches: "dispatches d (\<lambda>t r. True) (task_prog d parse k) Free"
proof (cases k)
  case (LoopTask ms)
  with loop_dispatches show ?thesis by simp
next
  case (StartTask i)
  then show ?thesis by (auto simp: answered_def intro: follows_bind [OF start_dispatches])
qed (auto simp: answered_def intro!: dispatch_quiet_any quiet_intros)

section \<open>What the protocol guarantees\<close>

lemma left_status_effects: "effects w w' \<Longrightarrow> left_status d r w \<Longrightarrow> left_status d r w'"
  unfolding left_status_def using passed_effects by blast

abbreviation dispatch_inv where
  "dispatch_inv d \<equiv>
     rights_inv o_outbox command_key command_owner (left_status d) (\<lambda>w m. is_command m)"

interpretation dispatch_rights: rights effects o_outbox command_key command_owner "left_status d" "\<lambda>w m. is_command m"
  by unfold_locales (auto simp: command_key_def command_owner_def intro: left_status_effects)

interpretation dispatch: protocol environment "server_tasks d parse" w0 "texts d" "dispatch_protocol d"
  "\<lambda>ts w. inj (id_text d) \<and> dispatch_inv d ts w" Free
proof unfold_locales
  fix ts :: "(string \<times> string, Message) right list" and w :: "'a orch"
  let ?J = "\<lambda>ts w. inj (id_text d) \<and> dispatch_inv d ts w"
  show "?J (ts @ [Free]) w" if "?J ts w" using that dispatch_rights.start_keeps by blast
  show "?J ts w'" if "?J ts w" "environment w w'" for w'
  proof -
    have e: "effects w w'" "o_outbox w' = o_outbox w"
      using that(2) by (auto simp: environment_def intro: effects_step p_outside)
    show ?thesis using dispatch_rights.rely_keeps [OF _ e] that(1) by blast
  qed
  show "?J (ts[i := t]) w'"
    if "?J ts w" "i < length ts" "dispatch_protocol d (ts ! i) w t w'" for i t w'
    using dispatch_rights.step_keeps [OF _ that(2,3)] that(1) by blast
  show "dispatches d (\<lambda>t u. True) p Free" if "p \<in> server_tasks d parse" for p
    using that task_dispatches by (auto simp: server_tasks_def)
qed simp

end
