(* ===== verification/Concurrent_Spec.thy ===== *)
theory Concurrent_Spec imports Execution_Protocol Dispatch_Protocol begin

text \<open>
  Properties of the orchestrator in every interleaving of its tasks: the tables, the statuses, what reaches
  the executor, and the commands to the agents; and a run that shows what only the atomic steps guarantee.
\<close>

section \<open>What holds in every interleaving\<close>

lemma concurrent_effects: "server_steps d parse ([], w0) (ps, w) \<Longrightarrow> effects w0 w"
  using evolution.steps_invariant [of d parse w0 ps w] by blast

lemma concurrent_exec_inv:
  assumes "server_steps d parse ([], w0) (ps, w)" and "db_ok w0" and "o_executed w0 = []"
  shows "db_ok w \<and> (\<exists>ts. exec_rights_inv (reachable environment (server_tasks d parse) w0) ts w)"
  using execution.steps_invariant [OF assms(1)] assms(2,3) by (auto simp: rights_inv_def)

lemma cleared_key:
  assumes "cleared R w a"
  shows "\<exists>n. (xa_ID a, xa_SessionID a, n) \<in> set (tk_fixes (keys_of w))"
proof -
  obtain u fa where u: "effects u w" "fa \<in> set (w_fix_actions u)" "a = exec_action (fa_SessionID fa) fa"
    using assms unfolding cleared_def by blast
  then have "(fa_ID fa, fa_SessionID fa, fa_Seq fa) \<in> set (tk_fixes (keys_of u))" by (auto simp: keys_of_def)
  with rows_stay [OF u(1)] u(3) show ?thesis by (auto simp: exec_action_def)
qed

text \<open>Statuses that a session can have once the execution has begun.\<close>

lemma table_begun:
  "list_all (\<lambda>(s, m). status_rank s < status_rank StatusFixSuggested \<longrightarrow>
     s = StatusFixExecuting \<or> s = StatusVerifying \<or> length m = 0) ValidTransitions"
  by code_simp

lemma passed_status:
  assumes "passed StatusFixSuggested sid w" and "known_statuses w"
  shows "\<exists>s. status_of w sid = Some s \<and> (s = StatusFixExecuting \<or> s = StatusVerifying \<or> IsTerminal s)"
proof -
  obtain s where s: "status_of w sid = Some s" "status_rank s < status_rank StatusFixSuggested"
    using assms(1) by (auto simp: passed_def split: option.splits)
  then obtain p where "p \<in> set (w_sessions w)" "s_Status p = s"
    by (auto simp: status_of_def find_session_def dest!: tbl_find_Some)
  then obtain m where m: "map_of ValidTransitions s = Some m"
    using assms(2) by (force simp: known_statuses_def map_of_eq_None_iff)
  then have "(s, m) \<in> set ValidTransitions" by (rule map_of_SomeD)
  with table_begun s(2) have "s = StatusFixExecuting \<or> s = StatusVerifying \<or> length m = 0"
    by (fastforce simp: list_all_iff)
  with s(1) m show ?thesis by (auto simp: IsTerminal_def)
qed

section \<open>Two event loops and a late agent\<close>

definition sample_parse :: "string \<Rightarrow> observationPayload result" where
  "sample_parse v = Inr (sample_payload 1 ''FIX_ACTION'')"

definition fix_task :: task where
  "fix_task = LoopTask [sample_message [] 0]"

definition rca_done :: "unit orch" where
  "rca_done = sample_orch [sample_session 1 StatusRCADone 5] [sample_fix 1 1 RiskLow ExecStatusNotStarted]"

text \<open>The program of the message after the status has been read.\<close>

abbreviation fix_rest :: "(unit orch, gerror option) prog \<Rightarrow> (unit orch, unit) prog" where
  "fix_rest p \<equiv> bind p (\<lambda>r. Return ())"

lemma fix_task_prog:
  "task_prog sample_deps sample_parse fix_task = fix_rest (handleObservation_prog sample_deps 1 (sample_payload 1 ''FIX_ACTION''))"
proof -
  have "uuid_Parse (d_uuid sample_deps) (replicate 1 (CHR ''i'')) = Inr 1" by (simp add: sample_deps_def)
  then show ?thesis
    by (simp add: fix_task_def loop_prog_def process_message_prog_def sample_parse_def sample_payload_def bind_assoc)
qed

lemma fix_task_status:
  assumes "fst (SessionDAO_GetByID 1 w) = Inr s" and "s_Status s = StatusRCADone"
  shows "advance (Suc n) (task_prog sample_deps sample_parse fix_task) w =
    advance n (fix_rest (fix_observation_prog sample_deps 1)) (snd (SessionDAO_GetByID 1 w))"
proof -
  have "normalizeType ''FIX_ACTION'' = ''FIX_ACTION''" by code_simp
  with assms show ?thesis
    by (simp add: fix_task_prog handleObservation_prog_def GetStatus_prog_def bind_assoc advance_call
        sample_payload_def)
qed

lemma fix_task_gate:
  assumes "fst (tryTransition 1 EventRCAGenerated w) = Inr n1"
    and "w1 = snd (tryTransition 1 EventRCAGenerated w)"
    and "fst (tryTransition 1 EventFixGenerated w1) = Inr n2"
  shows "advance 2 (fix_rest (fix_observation_prog sample_deps 1)) w =
    (fix_rest (drive_fix_prog sample_deps 1 n2), snd (tryTransition 1 EventFixGenerated w1))"
  using assms
  by (simp add: fix_observation_prog_def Transition_prog_def numeral_2_eq_2 eval_nat_numeral bind_assoc advance_call)

text \<open>One run of the message with the statements of others in between: \<open>mid\<close> is what they do after the gate
  has let the session through.\<close>

definition gate_passed :: "unit orch \<Rightarrow> unit orch" where
  "gate_passed w = snd (tryTransition 1 EventFixGenerated (snd (tryTransition 1 EventRCAGenerated
     (snd (SessionDAO_GetByID 1 w)))))"

lemma gate_advance:
  "advance 3 (task_prog sample_deps sample_parse fix_task) rca_done =
    (fix_rest (drive_fix_prog sample_deps 1 StatusFixSuggested), gate_passed rca_done)"
proof -
  have "fst (SessionDAO_GetByID 1 rca_done) = Inr (sample_session 1 StatusRCADone 5)" by code_simp
  moreover have "s_Status (sample_session 1 StatusRCADone 5) = StatusRCADone" by code_simp
  moreover have "fst (tryTransition 1 EventRCAGenerated (snd (SessionDAO_GetByID 1 rca_done))) = Inr StatusFixProposed"
    by code_simp
  moreover have "fst (tryTransition 1 EventFixGenerated (snd (tryTransition 1 EventRCAGenerated
      (snd (SessionDAO_GetByID 1 rca_done))))) = Inr StatusFixSuggested"
    by code_simp
  ultimately show ?thesis
    using fix_task_status [of rca_done _ 2] fix_task_gate by (simp add: numeral_3_eq_3 gate_passed_def)
qed

definition late_fix :: FixAction where
  "late_fix = (sample_fix 2 1 RiskHigh ExecStatusNotStarted)\<lparr>fa_RequiresApproval := False\<rparr>"

text \<open>From FIX_SUGGESTED the loop executes what may execute in the rows as they are by then.\<close>

lemma drive_fix_executes:
  assumes "w_faults w = []" and "distinct (map fa_ID (w_fix_actions w))"
    and "status_of w sid = Some StatusFixSuggested" and "sid \<notin> set (w_locked w)"
  shows "o_executed (snd (drive_fix d sid StatusFixSuggested w)) =
    o_executed w @ map (exec_action sid) (filter may_execute (fixes_of sid w))"
proof -
  let ?w1 = "moved sid StatusFixSuggested StatusFixExecuting w"
  have "next_status h StatusFixSuggested EventExecute = Some StatusFixExecuting" for h
    by (simp add: next_status_def ValidTransitions_def)
  then have T: "Transition sid EventExecute w = (Inr StatusFixExecuting, ?w1)"
    using assms by (simp add: Transition_no_fault transition_result_def)
  note frame = moved_simps(2) [of w sid StatusFixSuggested StatusFixExecuting]
  have "status_of ?w1 = (status_of w)(sid \<mapsto> StatusFixExecuting)"
    by (rule status_of_update [OF moved_simps(1) assms(3)])
  moreover have "w_faults ?w1 = []" using assms(1) by simp
  ultimately have "o_executed (snd (ExecuteFixActions d sid ?w1)) =
      o_executed ?w1 @ map (exec_action sid) (filter may_execute (fixes_of sid ?w1))"
    using execute_run [of ?w1 sid d, OF _ _ _ _ surjective_pairing] frame assms(2,4) by (simp add: engine_frame_def)
  moreover have "o_executed ?w1 = o_executed w" by (rule executed_Transition [OF T])
  moreover have "fixes_of sid ?w1 = fixes_of sid w" using frame by (simp add: fixes_of_def engine_frame_def)
  ultimately show ?thesis using T by (simp add: drive_fix_def split: prod.split)
qed

definition late_start :: "unit orch" where
  "late_start = snd (snd (FixActionDAO_Create late_fix (gate_passed rca_done)))"

definition late_state :: "unit orch" where
  "late_state = snd (drive_fix sample_deps 1 StatusFixSuggested late_start)"

lemma late_executed: "o_executed late_state = [exec_action 1 (sample_fix 1 1 RiskLow ExecStatusNotStarted), exec_action 1 late_fix]"
proof -
  have "w_faults late_start = []" "w_locked late_start = []" "status_of late_start 1 = Some StatusFixSuggested"
    "o_executed late_start = []" by code_simp+
  moreover have rows: "map fa_ID (w_fix_actions late_start) = [1, 2]"
    "map (exec_action 1) (filter may_execute (fixes_of 1 late_start)) =
       [exec_action 1 (sample_fix 1 1 RiskLow ExecStatusNotStarted), exec_action 1 late_fix]" by code_simp+
  ultimately show ?thesis
    unfolding late_state_def using drive_fix_executes [of late_start 1 sample_deps] by simp
qed

lemma sample_tasks [simp]:
  "task_prog sample_deps sample_parse k \<in> server_tasks sample_deps sample_parse"
  by (simp add: server_tasks_def)

lemma late_run: "server_steps sample_deps sample_parse ([], rca_done) ([Return (), Return ()], late_state)"
proof -
  let ?p = "task_prog sample_deps sample_parse fix_task" and ?q = "task_prog sample_deps sample_parse (AgentTask late_fix)"
  let ?r = "fix_rest (drive_fix_prog sample_deps 1 StatusFixSuggested)"
  have r1: "server_steps sample_deps sample_parse ([], rca_done) ([?p, ?q], rca_done)"
    using spawn_all [of "[?p, ?q]" "server_tasks sample_deps sample_parse" environment "[]" rca_done]
    by (simp del: task_prog.simps)
  have r2: "server_steps sample_deps sample_parse ([?p, ?q], rca_done) ([?r, ?q], gate_passed rca_done)"
    using advance_steps [of 0 "[?p, ?q]" ?p 3 rca_done ?r "gate_passed rca_done"] gate_advance
    by (simp del: task_prog.simps)
  have r3: "server_steps sample_deps sample_parse ([?r, ?q], gate_passed rca_done) ([?r, Return ()], late_start)"
    using conc_run_alone [of 1 "[?r, ?q]" ?q "gate_passed rca_done" "()" late_start]
    by (simp add: late_start_def)
  have r4: "server_steps sample_deps sample_parse ([?r, Return ()], late_start) ([Return (), Return ()], late_state)"
    using conc_run_alone [of 0 "[?r, Return ()]" ?r late_start "()" late_state]
    by (simp add: loop_runs late_state_def split: prod.split)
  show ?thesis by (rule rtranclp_trans [OF r1 rtranclp_trans [OF r2 rtranclp_trans [OF r3 r4]]])
qed

text \<open>The message twice: both loops read RCA_DONE, the first moves the session on, the second fails, the first
  executes.\<close>

definition twice_start :: "unit orch" where
  "twice_start = snd (tryTransition 1 EventRCAGenerated (gate_passed (snd (SessionDAO_GetByID 1 rca_done))))"

definition twice_state :: "unit orch" where
  "twice_state = snd (drive_fix sample_deps 1 StatusFixSuggested twice_start)"

lemma twice_executed: "o_executed twice_state = [exec_action 1 (sample_fix 1 1 RiskLow ExecStatusNotStarted)]"
proof -
  have "w_faults twice_start = []" "w_locked twice_start = []" "status_of twice_start 1 = Some StatusFixSuggested"
    "o_executed twice_start = []" by code_simp+
  moreover have "map fa_ID (w_fix_actions twice_start) = [1]"
    "map (exec_action 1) (filter may_execute (fixes_of 1 twice_start)) =
       [exec_action 1 (sample_fix 1 1 RiskLow ExecStatusNotStarted)]" by code_simp+
  ultimately show ?thesis
    unfolding twice_state_def using drive_fix_executes [of twice_start 1 sample_deps] by simp
qed

lemma twice_run: "server_steps sample_deps sample_parse ([], rca_done) ([Return (), Return ()], twice_state)"
proof -
  let ?p = "task_prog sample_deps sample_parse fix_task"
  let ?f = "fix_rest (fix_observation_prog sample_deps 1)"
  let ?r = "fix_rest (drive_fix_prog sample_deps 1 StatusFixSuggested)"
  let ?w = "snd (SessionDAO_GetByID 1 rca_done)"
  let ?u = "snd (SessionDAO_GetByID 1 ?w)"
  let ?v = "gate_passed ?w"
  have s: "fst (SessionDAO_GetByID 1 rca_done) = Inr (sample_session 1 StatusRCADone 5)"
    "fst (SessionDAO_GetByID 1 ?w) = Inr (sample_session 1 StatusRCADone 5)"
    "s_Status (sample_session 1 StatusRCADone 5) = StatusRCADone" by code_simp+
  have g: "fst (tryTransition 1 EventRCAGenerated ?u) = Inr StatusFixProposed"
    "fst (tryTransition 1 EventFixGenerated (snd (tryTransition 1 EventRCAGenerated ?u))) = Inr StatusFixSuggested"
    by code_simp+
  have x: "fst (tryTransition 1 EventRCAGenerated ?v) =
      Inl (Wrapped [] (Sentinel ErrInvalidTransition) ('': '' @ StatusFixSuggested @ '' + '' @ EventRCAGenerated))"
    by code_simp
  have r1: "server_steps sample_deps sample_parse ([], rca_done) ([?p, ?p], rca_done)"
    using spawn_all [of "[?p, ?p]" "server_tasks sample_deps sample_parse" environment "[]" rca_done]
    by (simp del: task_prog.simps)
  have r2: "server_steps sample_deps sample_parse ([?p, ?p], rca_done) ([?f, ?p], ?w)"
    using advance_steps [of 0 "[?p, ?p]" ?p 1 rca_done ?f ?w] fix_task_status [OF s(1,3), of 0] by simp
  have r3: "server_steps sample_deps sample_parse ([?f, ?p], ?w) ([?f, ?f], ?u)"
    using advance_steps [of 1 "[?f, ?p]" ?p 1 ?w ?f ?u] fix_task_status [OF s(2,3), of 0] by simp
  have r4: "server_steps sample_deps sample_parse ([?f, ?f], ?u) ([?r, ?f], ?v)"
    using advance_steps [of 0 "[?f, ?f]" ?f 2 ?u ?r ?v] fix_task_gate [OF g(1) refl g(2)]
    by (simp add: gate_passed_def)
  have r5: "server_steps sample_deps sample_parse ([?r, ?f], ?v) ([?r, Return ()], twice_start)"
    using advance_steps [of 1 "[?r, ?f]" ?f 1 ?v "Return ()" twice_start] x
    by (simp add: fix_observation_prog_def Transition_prog_def eval_nat_numeral bind_assoc advance_call twice_start_def)
  have r6: "server_steps sample_deps sample_parse ([?r, Return ()], twice_start) ([Return (), Return ()], twice_state)"
    using conc_run_alone [of 0 "[?r, Return ()]" ?r twice_start "()" twice_state]
    by (simp add: loop_runs twice_state_def split: prod.split)
  show ?thesis by (rule rtranclp_trans [OF r1 rtranclp_trans [OF r2 rtranclp_trans [OF r3 rtranclp_trans [OF r4 rtranclp_trans [OF r5 r6]]]]])
qed

text \<open>What a command says of its session.\<close>

lemma sent_status:
  assumes "left_status d (command_owner m) w"
  shows "\<exists>sid s. m_Key m = id_text d sid \<and> status_of w sid = Some s \<and> s \<noteq> StatusCreated \<and>
    (m_Topic m = TopicCommandsRCA \<longrightarrow> s \<noteq> StatusCollecting)"
proof -
  have r: "status_rank StatusCollecting < status_rank StatusCreated" by code_simp
  obtain sid s where s: "m_Key m = id_text d sid" "status_of w sid = Some s"
    "status_rank s < status_rank (snd (command_owner m))"
    using assms by (auto simp: left_status_def command_owner_def passed_def split: option.splits)
  with r show ?thesis by (intro exI [of _ sid] exI [of _ s]) (auto simp: command_owner_def split: if_splits)
qed

section \<open>A session that is started\<close>

definition created_one :: "unit orch" where
  "created_one = sample_orch [sample_session 1 StatusCreated 5] []"

definition started_one :: "unit orch" where
  "started_one = snd (StartSession sample_deps ''i'' created_one)"

lemma start_run: "server_steps sample_deps sample_parse ([], created_one) ([Return ()], started_one)"
  using task_runs [OF task_results(4) [of sample_deps sample_parse "''i''" created_one], of "[]"]
  by (simp add: started_one_def)

lemma unary_texts: "inj (id_text sample_deps)"
  by (auto simp: inj_def sample_deps_def replicate_eq_replicate word_unat_eq_iff)

section \<open>Properties of every interleaving\<close>



text \<open>C3 (executed_at_most_once): however the requests, the event loops and sweeps of any number of replicas and the
  agents interleave, with messages delivered any number of times and any pattern of failures, no fix action
  is handed to the executor twice.\<close>

theorem executed_at_most_once:
  assumes "server_steps d parse ([], w0) (ps, w)" and "db_ok w0" and "o_executed w0 = []"
  shows "distinct (map xa_ID (o_executed w))"
proof -
  obtain ts where ok: "db_ok w" and inv: "exec_rights_inv (reachable environment (server_tasks d parse) w0) ts w"
    using concurrent_exec_inv [OF assms] by blast
  have "xa_SessionID a = xa_SessionID b"
    if "a \<in> set (o_executed w)" "b \<in> set (o_executed w)" "xa_ID a = xa_ID b" for a b
  proof -
    have "\<exists>n. (xa_ID c, xa_SessionID c, n) \<in> set (tk_fixes (keys_of w))" if "c \<in> set (o_executed w)" for c
      using inv that cleared_key unfolding rights_inv_def by blast
    then obtain n m where "(xa_ID a, xa_SessionID a, n) \<in> set (tk_fixes (keys_of w))"
      "(xa_ID b, xa_SessionID b, m) \<in> set (tk_fixes (keys_of w))" using \<open>a \<in> _\<close> \<open>b \<in> _\<close> by blast
    moreover have "distinct (map fst (tk_fixes (keys_of w)))" using ok by (simp add: db_ok_def keys_ok_def)
    ultimately show ?thesis using that(3) by (auto dest: eq_key_imp_eq_value)
  qed
  moreover have "distinct (map exec_key (o_executed w))" using inv by (simp add: rights_inv_def)
  ultimately show ?thesis unfolding distinct_map inj_on_def exec_key_def prod.inject by blast
qed

lemma rca_done_ok: "db_ok rca_done" "o_executed rca_done = []"
proof -
  have "tk_sessions (keys_of rca_done) = [1]" "tk_fixes (keys_of rca_done) = [(1, 1, 1)]"
    "tk_approvals (keys_of rca_done) = []" by code_simp+
  moreover have "list_all (\<lambda>s. s_Status s \<in> set (map fst ValidTransitions)) (w_sessions rca_done)" by code_simp
  ultimately show "db_ok rca_done" by (auto simp: db_ok_def keys_ok_def known_statuses_def list_all_iff)
  show "o_executed rca_done = []" by code_simp
qed

theorem executed_at_most_once_witness: "distinct (map xa_ID (o_executed twice_state))"
  by (rule executed_at_most_once [OF twice_run rca_done_ok])

text \<open>C4 (executed_was_cleared): in every interleaving, whatever the executor was given is a row that an earlier
  state of the run had, not started, and approved if it requires approval; and the session of an executed
  action is executing, under verification or finished, never before that.\<close>

theorem executed_was_cleared:
  assumes "server_steps d parse ([], w0) (ps, w)" and "db_ok w0" and "o_executed w0 = []"
    and "a \<in> set (o_executed w)"
  shows "(\<exists>qs u fa. server_steps d parse ([], w0) (qs, u) \<and> fa \<in> set (w_fix_actions u) \<and>
      a = exec_action (fa_SessionID fa) fa \<and> fa_ExecutionStatus fa = ExecStatusNotStarted \<and>
      (fa_RequiresApproval fa \<longrightarrow> fa_ApprovalStatus fa = ApprovalStatusApproved)) \<and>
    (\<exists>s. status_of w (xa_SessionID a) = Some s \<and> (s = StatusFixExecuting \<or> s = StatusVerifying \<or> IsTerminal s))"
proof -
  obtain ts where "db_ok w" and inv: "exec_rights_inv (reachable environment (server_tasks d parse) w0) ts w"
    using concurrent_exec_inv [OF assms(1-3)] by blast
  then have a: "passed StatusFixSuggested (xa_SessionID a) w" "cleared (reachable environment (server_tasks d parse) w0) w a"
    and "known_statuses w"
    using assms(4) by (auto simp: rights_inv_def db_ok_def)
  then show ?thesis
    using passed_status [of "xa_SessionID a" w] unfolding cleared_def reachable_def may_execute_def by blast
qed

theorem executed_was_cleared_witness:
  "\<exists>s. status_of twice_state 1 = Some s \<and> (s = StatusFixExecuting \<or> s = StatusVerifying \<or> IsTerminal s)"
proof -
  let ?a = "exec_action 1 (sample_fix 1 1 RiskLow ExecStatusNotStarted)"
  have "?a \<in> set (o_executed twice_state)" by (simp add: twice_executed)
  from executed_was_cleared [OF twice_run rca_done_ok this] show ?thesis by (simp add: exec_action_def)
qed

text \<open>C5 (commands_at_most_once): in every interleaving, with messages delivered any number of times and any number of
  requests for the same session, no agent is sent its command for a session twice; what is sent are the
  four commands, to sessions that have been started, and the root cause agent gets its command only once the
  collection is over.  The texts of two identifiers differ, as those of the uuid package do.\<close>

theorem commands_at_most_once:
  assumes "server_steps d parse ([], w0) (ps, w)" and "inj (id_text d)" and "o_outbox w0 = []"
  shows "distinct (map (\<lambda>m. (m_Topic m, m_Key m)) (o_outbox w)) \<and>
    (\<forall>m \<in> set (o_outbox w). is_command m \<and>
      (\<exists>sid s. m_Key m = id_text d sid \<and> status_of w sid = Some s \<and> s \<noteq> StatusCreated \<and>
        (m_Topic m = TopicCommandsRCA \<longrightarrow> s \<noteq> StatusCollecting)))"
proof -
  obtain ts where "dispatch_inv d ts w"
    using dispatch.steps_invariant [OF assms(1)] assms(2,3) by (auto simp: rights_inv_def)
  then have "distinct (map command_key (o_outbox w))"
    and m: "\<forall>m \<in> set (o_outbox w). left_status d (command_owner m) w \<and> is_command m"
    unfolding rights_inv_def by blast+
  with sent_status [of d _ w] show ?thesis by (auto simp: command_key_def [abs_def])
qed

theorem commands_at_most_once_witness:
  "distinct (map (\<lambda>m. (m_Topic m, m_Key m)) (o_outbox started_one)) \<and> length (o_outbox started_one) = 3"
proof -
  have "o_outbox created_one = []" "length (o_outbox started_one) = 3" by code_simp+
  with commands_at_most_once [OF start_run unary_texts] show ?thesis by blast
qed

text \<open>C13 (concurrent_evolution): in every interleaving a session is never lost, its status only moves along the
  transition table, and a terminal status is final.\<close>

theorem concurrent_evolution:
  assumes "server_steps d parse ([], w0) (ps, w)" and "status_of w0 i = Some s"
  shows "\<exists>s'. status_of w i = Some s' \<and> status_step\<^sup>*\<^sup>* s s' \<and> (IsTerminal s \<longrightarrow> s' = s)"
proof -
  have "evolves w0 w" using effects_evolve [OF concurrent_effects [OF assms(1)]] .
  then have "status_le (Some s) (status_of w i)" using assms(2) unfolding evolves_def by metis
  then obtain s' where "status_of w i = Some s'" "status_step\<^sup>*\<^sup>* s s'"
    by (auto simp: status_le_def split: option.splits)
  then show ?thesis using engine.steps_from_rank_zero IsTerminal_rank by blast
qed

theorem concurrent_evolution_witness: "\<exists>s. status_of twice_state 1 = Some s \<and> status_step\<^sup>*\<^sup>* StatusRCADone s"
proof -
  have "status_of rca_done 1 = Some StatusRCADone" by code_simp
  from concurrent_evolution [OF twice_run this] show ?thesis by blast
qed



text \<open>The gate counts the HIGH-risk actions, and the execution reads the actions, in two statements.  A HIGH-risk
  action stored in between has not been counted: if its row does not ask for approval it is executed.  The
  guarantee of the atomic steps, that no HIGH-risk action is ever executed, is lost; what remains is
  \<open>executed_was_cleared\<close>.  The fix agent asks for approval in every HIGH-risk row; such a row is skipped by
  the execution, and the session goes on without it.\<close>

lemma late_high_risk_executed:
  "\<exists>ps w. server_steps sample_deps sample_parse ([], rca_done) (ps, w) \<and>
     (\<exists>a \<in> set (o_executed w). xa_Risk a = RiskHigh)"
proof -
  have "xa_Risk (exec_action 1 late_fix) = RiskHigh" by code_simp
  then have "\<exists>a \<in> set (o_executed late_state). xa_Risk a = RiskHigh" by (simp add: late_executed)
  with late_run show ?thesis by blast
qed

end
