(* ===== verification/Spec2Isabelle.thy ===== *)
theory Spec2Isabelle imports Event_Shutdown Diagnosis Bootstrap Bus_Spec Replay Genproto Gateway Concurrent_Spec begin

text \<open>
  A model of \<open>microservice_diagnosis\<close>, a service that diagnoses incidents of microservices: an orchestrator
  keeps diagnostic sessions in PostgreSQL, sends collect and analyze commands to agents over Kafka,
  advances each session by the observations the agents publish, and executes the proposed fixes after
  approval.  The Go sources are under \<open>src/internal\<close>; names of definitions are the names of the source,
  prefixed by the receiver where two types share a method name.

  \<^bold>\<open>Conventions.\<close>  A struct is a record with a prefix per type, an enumeration of strings keeps its
  strings, an \<open>error\<close> is a \<open>gerror\<close> (sentinels, texts, \<open>%w\<close> wrappings and joined errors, with \<open>errors.Is\<close>),
  a fallible call returns \<open>gerror + 'a\<close> or \<open>gerror option\<close>, and an operation on state returns the new state
  beside its result.  Libraries and services that are not in the repository (the Kubernetes API, the Kafka
  broker, HTTP, HMAC, protobuf codecs, the JSON tokenizer, float parsing and rounding, UUID parsing, time
  formatting) are parameters of the definitions that use them.  What \<open>encoding/json\<close> does with a parsed text
  is modelled: matching of keys to fields, type errors, null, repeated keys.
  Time is the number of nanoseconds; \<open>time.Sleep\<close> advances the clock of the state.

  \<^bold>\<open>Theories.\<close>
  \<^item> \<open>Prelude\<close>: errors, strings, numbers as text, rows as tables; the collections \<open>go_simps\<close> and
    \<open>row_simps\<close> and the locale \<open>keyed_rows\<close> for updates that keep the key of a row.
  \<^item> \<open>Store\<close>, \<open>Store_Approval\<close>, \<open>Notify\<close> (\<open>internal/store\<close>): the tables with the constraints of the
    migrations and one definition per DAO operation.  Every statement first draws from \<open>w_faults\<close>, the
    outcomes of the driver; \<open>w_locked\<close> are the rows another transaction holds.
  \<^item> \<open>Workflow\<close>, \<open>Workflow_Laws\<close>, \<open>Workflow_Spec\<close> (\<open>internal/workflow/engine.go\<close>): the transition table,
    \<open>Transition\<close> with its three attempts and its HIGH-risk gate, and the sweeps.  The locale
    \<open>transition_engine\<close> is what callers rely on; it is interpreted on \<open>Transition\<close>.  The properties: the
    result on a database that answers, atomicity under all failures, the gate, a bound on the number of
    transitions, the refinement of the planned machine of \<open>PLAN.md\<close>, and the effect of each sweep.
  \<^item> \<open>Approval_Client\<close> (\<open>internal/approval\<close>): the token store with its expiry and the two clients, both
    instances of the locale \<open>approval_client\<close>.
  \<^item> \<open>Executor\<close> (\<open>internal/executor\<close>): the NOOP and the Kubernetes executor over an API record.
  \<^item> \<open>Notify\<close>, \<open>Webhook\<close> (\<open>internal/notify\<close>): incident tickets and webhook deliveries.
  \<^item> \<open>Float64\<close>, \<open>Json\<close>, \<open>Json_Value\<close>: the part of \<open>float64\<close> comparison, of JSON writing and of the decoding
    into structs, slices and maps that the source uses.
  \<^item> \<open>Report\<close> (\<open>internal/report\<close>): the Markdown report, section by section, the loading of its data, and the
    conversion to PDF with its temporary files.
  \<^item> \<open>Bus\<close>, \<open>Bus_Spec\<close> (\<open>internal/bus\<close>): topics, the message envelope, configuration, producer, consumer.
  \<^item> \<open>Replay\<close> (\<open>bus/replay.go\<close>): the replay of a topic over an abstract connection; \<open>Channel\<close>
    (\<open>bus/consumer_channel.go\<close>): the step relation of the forwarding goroutine, the receiving runner, \<open>Close\<close>
    and restarts, with an invariant that accounts for every committed message.
  \<^item> \<open>Observation\<close> (\<open>internal/observation\<close>, \<open>bus/observation.go\<close>): the evidence model, its validation and its
    binding to the bus.
  \<^item> \<open>Llm\<close> (\<open>internal/llm\<close>): the client of the language model with its attempts and its rate limit.
  \<^item> \<open>Agent_Base\<close>, \<open>Agent_Collect\<close>, \<open>Agent_Rca\<close>, \<open>Agent_Fix\<close> (\<open>internal/agent\<close>): the five agents; the locale
    \<open>agent\<close> is what the runner and the orchestrator rely on and is interpreted on each \<open>Handle\<close>.
    \<open>Agent_Spec\<close>: what they emit, the rows of the fix agent, and the way from a root cause through
    the approval gate to the executor.  \<open>Runner\<close> (\<open>agent/runner.go\<close>): the loop of an agent process, what it
    skips, publishes and marks, and the chain of two processes from an analyze command to a proposal.
  \<^item> \<open>Discovery\<close> (\<open>internal/discovery\<close>): the in-memory registry (locale \<open>registry\<close>), the Consul clients and
    the loop that refreshes a TTL check.
  \<^item> \<open>Server_State\<close>, \<open>Orchestrator\<close>, \<open>Event_Loop\<close> (\<open>internal/server\<close>): the state of the orchestrator, all
    HTTP handlers, the approval gate, the execution of fixes, the handling of observations, the commits
    of the loop, the sweep timer and the skipping of a backlog.
  \<^item> \<open>Server_Steps\<close>, \<open>Server_Invariants\<close>: each of these is a sequence of primitive effects
    (\<open>effect_intros\<close>); \<open>sys_step\<close> is one step of the whole system, in which requests, messages, sweeps, rows
    written by agents and changes of the environment interleave.  Invariants are inductions over the primitives.
  \<^item> \<open>Execution_Spec\<close>, \<open>Handlers_Spec\<close>, \<open>Event_Spec\<close>: what a run of the orchestrator can do to a session,
    what it can execute, and the functional behaviour of the pipeline and of the handlers.
    \<open>Diagnosis\<close>: a whole diagnosis, from the start of a session through the observations and the sweep to
    its end, as the composition of these.
  \<^item> \<open>Interleaving\<close>, \<open>Server_Programs\<close>, \<open>Concurrent_Server\<close>: the same operations statement by
    statement.  A program (\<open>prog\<close>) has returned or makes one step, which is one call on the database, an
    interface or the clock; run alone it is the operation of \<open>Orchestrator\<close> or \<open>Event_Loop\<close>
    (\<open>program_runs\<close>).  \<open>conc_step\<close> interleaves a pool of programs: any number of requests, of event loops and
    tickers (\<open>StartEventLoop\<close>) and of agents.  The locale \<open>protocol\<close> is a rely/guarantee argument with a local
    token per program; \<open>quiet_intros\<close> says which programs leave the executor or the producer alone.
  \<^item> \<open>Rights\<close>, \<open>Execution_Protocol\<close>, \<open>Dispatch_Protocol\<close>: rights that are granted once (locale \<open>rights\<close>, an
    abstract protocol), and its two instances on the orchestrator.  The transition to FIX_EXECUTING grants the
    right to execute the actions of a session; the transitions out of CREATED and COLLECTING grant the rights
    to send its commands to the agents.  Every program follows both protocols.
  \<^item> \<open>Concurrent_Spec\<close>: so no action is executed twice and no agent gets a command for a session twice in any
    interleaving; the integrity of the tables and the evolution of the statuses hold there too, and the atomic
    steps are a special case.  A concrete run shows what is lost: a HIGH-risk action stored between the
    gate and the execution.
  \<^item> \<open>Event_Readers\<close> (\<open>eventLoop.Run\<close>): the five readers, the bounded channel and the main loop as a step
    relation.  Its runs are runs of the sequential loop (a refinement), what has not been handled is
    delivered again after a restart, and all that waits can be handled.  \<open>Event_Shutdown\<close>: once the context is
    cancelled, \<open>Run\<close> ends after a bounded number of its own steps (a measure), whatever else happens.
  \<^item> \<open>Http\<close> (\<open>server/gin.go\<close>, \<open>health.go\<close>, \<open>response.go\<close>): routes, error payloads, and a type for the
    answers of each route.
  \<^item> \<open>Bootstrap\<close> (\<open>internal/bootstrap\<close>, \<open>config\<close>, \<open>logger\<close>, \<open>store/pgx.go\<close>, \<open>agent/agent_run.go\<close>, the services of
    \<open>cmd\<close>): configuration, wiring, and the start of a process as the sequence of what it acquires and
    releases, on every path.
  \<^item> \<open>Gateway\<close> (\<open>api/gen/*/v1/*.pb.gw.go\<close>, its mounting in \<open>server/gin.go\<close>): how the gRPC gateway turns requests into
    calls.  The ids of the path win over those of the body and the query, its routes are those of the HTTP
    server, and as it is mounted no request reaches it.
  \<^item> \<open>Genproto\<close> (\<open>cmd/genproto\<close>): the tool that bootstraps \<open>protoc\<close> and generates the API, over a model of
    the file system in which every call may fail.

  \<^bold>\<open>Bounds.\<close>  All loops are structural recursions on the remaining attempts (three for \<open>Transition\<close> and
  for a delivery, for a publication and for a chat, as in the source) or on the list of messages, so no fuel is
  used.  A step of the event loop handles one message; a consumer, a runner or a replay is described on the
  finite list of what it receives, and the concurrent channel consumer and the readers of the event loop by
  reachability.

  \<^bold>\<open>Assumptions of the model.\<close>  Statements of one transaction see no concurrent change, and the log entry of a
  transition is written with it; a row that another transaction holds is in \<open>w_locked\<close>, in the atomic
  steps for the whole call, in the interleaved ones from one attempt to the next at most.  The row locks that the query of \<open>Sweep\<close>
  takes are released before its transitions start, since it runs outside a transaction.  A nil map and an
  empty map are not distinguished (they differ only as \<open>null\<close> and \<open>{}\<close> in a detail text).

  \<^bold>\<open>Not modelled.\<close>  The generated messages and stubs under \<open>api/gen\<close> (\<open>*.pb.go\<close>): the messages appear as
  records of the model, and the gRPC services are implemented by no process of the repository; log lines
  and console output; the dashboard file that the server hands out; the build functions at the end of
  \<open>bootstrap.go\<close>, which nothing calls.
\<close>

end
